(* ===== verification/RV_Prelude.thy ===== *)
theory RV_Prelude
  imports "HOL-Library.Word"
begin

text \<open>
  Shared base of the development: names for the integer types of the C sources
  (\<^verbatim>\<open>hostapi/impTypes.h\<close>: \<open>Uns8\<close>, \<open>Uns16\<close>, \<open>Uns32\<close>, \<open>Uns64\<close>), the collection
  \<open>bit_rules\<close> of bit-level characterisations, a decision step for bounded
  statements about bit positions, and the interface \<open>bit_permutation\<close> of functions
  that permute the bit positions of a word.
\<close>

unbundle bit_operations_syntax

type_synonym Uns8 = "8 word"
type_synonym Uns16 = "16 word"
type_synonym Uns32 = "32 word"
type_synonym Uns64 = "64 word"

named_theorems bit_rules \<open>bit-level characterisations of the modelled operations\<close>

section \<open>Bounded bit positions\<close>

text \<open>A statement about all bit positions below a numeral becomes a list check, which the
  kernel evaluates.\<close>

lemma all_less_upt: "(\<forall>n<k. P n) \<longleftrightarrow> list_all P [0..<k]"
  by (auto simp: list_all_iff)

lemma xor_less_pow2:
  fixes n k :: nat
  assumes "n < 2 ^ w" and "k < 2 ^ w"
  shows "n XOR k < 2 ^ w"
proof -
  have "take_bit w (n XOR k) = n XOR k"
    using assms by (simp add: take_bit_xor take_bit_nat_eq_self)
  then show ?thesis by (simp only: take_bit_nat_eq_self_iff)
qed

lemma xor_pow2_clear:
  fixes n :: nat
  assumes "\<not> bit n j"
  shows "n XOR 2 ^ j = n + 2 ^ j"
proof -
  have disj: "n AND 2 ^ j = 0"
    by (rule bit_eqI) (use assms in \<open>auto simp: bit_and_iff bit_exp_iff\<close>)
  then have "n + 2 ^ j = n OR 2 ^ j" by (rule disjunctive_add_eq_or)
  also have "\<dots> = n XOR 2 ^ j"
    by (rule bit_eqI) (use assms in \<open>auto simp: bit_or_iff bit_xor_iff bit_exp_iff\<close>)
  finally show ?thesis by simp
qed

lemma xor_pow2_set:
  fixes n :: nat
  assumes "bit n j"
  shows "2 ^ j \<le> n" and "n XOR 2 ^ j = n - 2 ^ j"
proof -
  have "\<not> bit (n XOR 2 ^ j) j"
    using assms by (simp add: bit_xor_iff bit_exp_iff)
  from xor_pow2_clear [OF this] have eq: "n = (n XOR 2 ^ j) + 2 ^ j"
    by (simp add: xor.assoc)
  from eq show "2 ^ j \<le> n" by linarith
  from eq show "n XOR 2 ^ j = n - 2 ^ j" by linarith
qed

lemma bit_add_pow2_same: "bit (n + 2 ^ j) j \<longleftrightarrow> \<not> bit n j" for n :: nat
  by (simp add: bit_iff_odd div_add_self2)

lemma bit_diff_pow2_same: "2 ^ j \<le> n \<Longrightarrow> bit (n - 2 ^ j) j \<longleftrightarrow> \<not> bit n j" for n :: nat
  using bit_add_pow2_same [of "n - 2 ^ j" j] by simp

section \<open>Functions that permute bit positions\<close>

text \<open>
  The contract of a bit permutation: bit \<open>n\<close> of the result is bit \<open>p n\<close> of the
  argument. Several B-extension operations keep it (generalised reverse, the shuffle
  stages, the bit-matrix transpose).
\<close>

locale bit_permutation =
  fixes f :: "'a::len word \<Rightarrow> 'a word"
    and p :: "nat \<Rightarrow> nat"
  assumes bit_f: "n < LENGTH('a) \<Longrightarrow> bit (f x) n \<longleftrightarrow> bit x (p n)"
    and p_range: "n < LENGTH('a) \<Longrightarrow> p n < LENGTH('a)"
begin

lemma f_xor: "f (x XOR y) = f x XOR f y"
  by (rule bit_word_eqI) (simp add: bit_f bit_xor_iff)

lemma f_and: "f (x AND y) = f x AND f y"
  by (rule bit_word_eqI) (simp add: bit_f bit_and_iff)

lemma f_or: "f (x OR y) = f x OR f y"
  by (rule bit_word_eqI) (simp add: bit_f bit_or_iff)

lemma f_not: "f (NOT x) = NOT (f x)"
  by (rule bit_word_eqI) (simp add: bit_f bit_not_iff p_range)

lemma f_involution:
  assumes "\<And>n. n < LENGTH('a) \<Longrightarrow> p (p n) = n"
  shows "f (f x) = x"
  by (rule bit_word_eqI) (simp add: bit_f p_range assms)

end

lemma bit_permutation_comp:
  fixes f g :: "'a::len word \<Rightarrow> 'a word"
  assumes "bit_permutation f p" and "bit_permutation g q"
  shows "bit_permutation (\<lambda>x. g (f x)) (\<lambda>n. p (q n))"
  using assms unfolding bit_permutation_def by simp

lemma bit_permutation_if:
  fixes f :: "'a::len word \<Rightarrow> 'a word"
  assumes "c \<Longrightarrow> bit_permutation f p"
  shows "bit_permutation (\<lambda>x. if c then f x else x) (\<lambda>n. if c then p n else n)"
  using assms unfolding bit_permutation_def by simp

text \<open>The exchange of neighbouring groups of \<open>2 ^ j\<close> bits, written with two masks and two
  shifts as the C sources do.\<close>

lemma bit_swap_stage:
  fixes x m1 m2 :: "'a::len word"
  assumes len: "LENGTH('a) = 2 ^ w" and "j < w"
    and m1: "\<And>n. n < LENGTH('a) \<Longrightarrow> bit m1 n \<longleftrightarrow> \<not> bit n j"
    and m2: "\<And>n. n < LENGTH('a) \<Longrightarrow> bit m2 n \<longleftrightarrow> bit n j"
    and n: "n < LENGTH('a)"
  shows "bit (push_bit (2 ^ j) (x AND m1) OR drop_bit (2 ^ j) (x AND m2)) n \<longleftrightarrow>
    bit x (n XOR 2 ^ j)"
proof (cases "bit n j")
  case True
  note s = xor_pow2_set [OF True]
  have "\<not> bit (x AND m2) (2 ^ j + n)"
    using m2 [of "2 ^ j + n"] bit_add_pow2_same [of n j] True
    by (auto simp: bit_and_iff add.commute dest: bit_imp_le_length)
  moreover have "bit m1 (n - 2 ^ j)"
    using m1 [of "n - 2 ^ j"] n s(1) True by (simp add: bit_diff_pow2_same)
  ultimately show ?thesis
    using n s by (auto simp: bit_or_iff bit_push_bit_iff bit_drop_bit_eq bit_and_iff)
next
  case False
  have "2 ^ j \<le> n \<Longrightarrow> \<not> bit m1 (n - 2 ^ j)"
    using m1 [of "n - 2 ^ j"] n False by (simp add: bit_diff_pow2_same)
  moreover have "n + 2 ^ j < LENGTH('a)"
  proof -
    have "(2::nat) ^ j < 2 ^ w" using \<open>j < w\<close> by simp
    then have "n XOR 2 ^ j < 2 ^ w" using n len by (intro xor_less_pow2) auto
    then show ?thesis using len xor_pow2_clear [OF False] by simp
  qed
  moreover from this have "bit m2 (2 ^ j + n)"
    using m2 [of "2 ^ j + n"] bit_add_pow2_same [of n j] False by (simp add: add.commute)
  ultimately show ?thesis
    using n xor_pow2_clear [OF False]
    by (auto simp: bit_or_iff bit_push_bit_iff bit_drop_bit_eq bit_and_iff add.commute)
qed

lemma bit_permutation_swap_stage:
  fixes m1 m2 :: "'a::len word"
  assumes len: "LENGTH('a) = 2 ^ w" and j: "j < w" and k: "k = 2 ^ j"
    and m1: "\<forall>n<LENGTH('a). bit m1 n \<longleftrightarrow> \<not> bit n j"
    and m2: "\<forall>n<LENGTH('a). bit m2 n \<longleftrightarrow> bit n j"
  shows "bit_permutation (\<lambda>x. push_bit k (x AND m1) OR drop_bit k (x AND m2)) (\<lambda>n. n XOR k)"
proof
  fix n :: nat and x :: "'a word"
  assume n: "n < LENGTH('a)"
  show "bit (push_bit k (x AND m1) OR drop_bit k (x AND m2)) n = bit x (n XOR k)"
    unfolding k by (rule bit_swap_stage [OF len j]) (use m1 m2 n in auto)
  have "(2::nat) ^ j < 2 ^ w" using j by simp
  then show "n XOR k < LENGTH('a)"
    using n unfolding len k by (intro xor_less_pow2)
qed

text \<open>One conditional stage extends the permutation by one bit of a control value.\<close>

lemma bit_permutation_xor_stage:
  fixes F G :: "'a::len word \<Rightarrow> 'a word" and S :: nat
  assumes F: "bit_permutation F (\<lambda>n. n XOR take_bit j S)"
    and G: "bit_permutation G (\<lambda>n. n XOR k)" and k: "k = 2 ^ j"
  shows "bit_permutation (\<lambda>x. if bit S j then G (F x) else F x)
    (\<lambda>n. n XOR take_bit (Suc j) S)"
proof (cases "bit S j")
  case True
  have "take_bit (Suc j) S = k XOR take_bit j S"
    unfolding k by (rule bit_eqI) (use True in \<open>auto simp: bit_simps less_Suc_eq\<close>)
  then show ?thesis
    using bit_permutation_comp [OF F G] True by (simp add: xor.assoc)
next
  case False
  have "take_bit (Suc j) S = take_bit j S"
    by (rule bit_eqI) (use False in \<open>auto simp: bit_simps less_Suc_eq\<close>)
  then show ?thesis using F False by simp
qed

lemma bit_permutation_xor_0:
  "bit_permutation (\<lambda>x::'a::len word. x) (\<lambda>n. n XOR take_bit 0 (S::nat))"
  by unfold_locales simp_all

section \<open>Rotations by shifts\<close>

lemma unat_and_mask_numeral:
  fixes s :: "'a::len word"
  shows "unat (s AND mask k) = unat s mod 2 ^ k"
  by (simp add: take_bit_eq_mask [symmetric] unsigned_take_bit_eq take_bit_nat_def)

lemma unat_and_low:
  "unat (s AND 31) = unat s mod 32" "unat (s AND 63) = unat s mod 64" "unat (s AND 127) = unat s mod 128"
  "unat (t AND 31) = unat t mod 32" "unat (t AND 63) = unat t mod 64" for s :: Uns32 and t :: Uns64
  using unat_and_mask_numeral [of s 5] unat_and_mask_numeral [of s 6] unat_and_mask_numeral [of s 7]
    unat_and_mask_numeral [of t 5] unat_and_mask_numeral [of t 6] by (simp_all add: mask_eq_exp_minus_1)

lemma unat_minus_mod:
  fixes x :: "'a::len word"
  assumes "k \<le> LENGTH('a)"
  shows "unat (- x) mod 2 ^ k = (2 ^ k - unat x mod 2 ^ k) mod 2 ^ k"
proof -
  have "int (unat (- x) mod 2 ^ k) = uint (- x) mod 2 ^ k"
    by (simp add: of_nat_mod)
  also have "\<dots> = - uint x mod 2 ^ k"
    using assms by (simp add: uint_word_ariths mod_mod_cancel le_imp_power_dvd)
  also have "\<dots> = int ((2 ^ k - unat x mod 2 ^ k) mod 2 ^ k)"
  proof -
    have "unat x mod 2 ^ k \<le> 2 ^ k" by (simp add: less_imp_le)
    then have "int (2 ^ k - unat x mod 2 ^ k) = 2 ^ k - uint x mod 2 ^ k"
      by (simp add: of_nat_diff of_nat_mod)
    then have "int ((2 ^ k - unat x mod 2 ^ k) mod 2 ^ k) = (2 ^ k - uint x mod 2 ^ k) mod 2 ^ k"
      by (simp only: of_nat_mod of_nat_power of_nat_numeral)
    also have "\<dots> = (2 ^ k - uint x) mod 2 ^ k" by (simp only: mod_diff_right_eq)
    also have "\<dots> = (- uint x) mod 2 ^ k"
      by (metis add.commute add_uminus_conv_diff minus_mod_self2 mod_add_self1)
    finally show ?thesis by simp
  qed
  finally show ?thesis by (simp only: of_nat_eq_iff)
qed

lemma rotl_shifts:
  fixes x :: "'a::len word"
  assumes "s < LENGTH('a)"
  shows "push_bit s x OR drop_bit ((LENGTH('a) - s) mod LENGTH('a)) x = word_rotl s x"
proof (rule bit_word_eqI)
  fix n assume n: "n < LENGTH('a)"
  show "bit (push_bit s x OR drop_bit ((LENGTH('a) - s) mod LENGTH('a)) x) n = bit (word_rotl s x) n"
  proof (cases "s = 0")
    case True
    then show ?thesis using n by (simp add: bit_simps)
  next
    case False
    show ?thesis
    proof (cases "s \<le> n")
      case True
      then have "(n + (LENGTH('a) - s)) mod LENGTH('a) = n - s"
        using n assms by (simp add: mod_if)
      moreover have "\<not> bit x (LENGTH('a) - s + n)" using True assms by (auto dest: bit_imp_le_length)
      ultimately show ?thesis
        using n True assms False by (auto simp: bit_simps add.commute)
    next
      case False
      then show ?thesis
        using n assms \<open>s \<noteq> 0\<close> by (auto simp: bit_simps add.commute)
    qed
  qed
qed

lemma rotr_shifts:
  fixes x :: "'a::len word"
  assumes "s < LENGTH('a)"
  shows "push_bit ((LENGTH('a) - s) mod LENGTH('a)) x OR drop_bit s x = word_rotr s x"
proof (rule bit_word_eqI)
  fix n assume n: "n < LENGTH('a)"
  show "bit (push_bit ((LENGTH('a) - s) mod LENGTH('a)) x OR drop_bit s x) n = bit (word_rotr s x) n"
  proof (cases "s = 0")
    case True
    then show ?thesis using n by (simp add: bit_simps)
  next
    case False
    then have "(LENGTH('a) - s) mod LENGTH('a) = LENGTH('a) - s" by simp
    moreover have "(n + s) mod LENGTH('a) = (if n + s < LENGTH('a) then n + s else n + s - LENGTH('a))"
      using n assms by (simp add: mod_if)
    ultimately show ?thesis
      using n assms False by (auto simp: bit_simps add.commute dest: bit_imp_le_length)
  qed
qed

section \<open>Index lists\<close>

text \<open>The index lists of the loops over bits, bytes and words, written out.\<close>

lemma upt_2: "[0..<2] = [0, 1]"
  by (simp add: upt_rec)

lemma upt_4: "[0..<4] = [0, 1, 2, 3]"
  by (simp add: upt_rec)

lemma upt_8: "[0..<8] = [0, 1, 2, 3, 4, 5, 6, 7]"
  by (simp add: upt_rec)

lemma upt_16: "[0..<16] = [0, 1, 2, 3, 4, 5, 6, 7, 8, 9, 10, 11, 12, 13, 14, 15]"
  by (simp add: upt_rec)

lemma upt_32: "[0..<32] = [0, 1, 2, 3, 4, 5, 6, 7, 8, 9, 10, 11, 12, 13, 14, 15, 16, 17, 18, 19, 20, 21, 22, 23, 24,
    25, 26, 27, 28, 29, 30, 31]"
  by (simp add: upt_rec)

lemma upt_64: "[0..<64] = [0, 1, 2, 3, 4, 5, 6, 7, 8, 9, 10, 11, 12, 13, 14, 15, 16, 17, 18, 19, 20, 21, 22, 23, 24,
    25, 26, 27, 28, 29, 30, 31, 32, 33, 34, 35, 36, 37, 38, 39, 40, 41, 42, 43, 44, 45,
    46, 47, 48, 49, 50, 51, 52, 53, 54, 55, 56, 57, 58, 59, 60, 61, 62, 63]"
  by code_simp

end
