(* ===== verification/RV_BExt.thy ===== *)
theory RV_BExt
  imports RV_Prelude
begin

text \<open>
  The B (bit-manipulation) extension: \<^verbatim>\<open>riscvBExtension.c\<close>. The callback functions are
  translated one by one, on words of their C width.
\<close>

section \<open>Callback functions\<close>

subsection \<open>Generalised OR-combine and generalised reverse\<close>

definition doGORC32 :: "Uns32 \<Rightarrow> Uns32 \<Rightarrow> Uns32" where
  "doGORC32 rs1 rs2 =
    (let x = rs1; shamt = rs2 AND 31;
     x = (if shamt AND 1 \<noteq> 0 then x OR (push_bit 1 (x AND 0x55555555) OR drop_bit 1 (x AND 0xAAAAAAAA)) else x);
     x = (if shamt AND 2 \<noteq> 0 then x OR (push_bit 2 (x AND 0x33333333) OR drop_bit 2 (x AND 0xCCCCCCCC)) else x);
     x = (if shamt AND 4 \<noteq> 0 then x OR (push_bit 4 (x AND 0x0F0F0F0F) OR drop_bit 4 (x AND 0xF0F0F0F0)) else x);
     x = (if shamt AND 8 \<noteq> 0 then x OR (push_bit 8 (x AND 0x00FF00FF) OR drop_bit 8 (x AND 0xFF00FF00)) else x);
     x = (if shamt AND 16 \<noteq> 0 then x OR (push_bit 16 (x AND 0x0000FFFF) OR drop_bit 16 (x AND 0xFFFF0000)) else x)
     in x)"

definition doGORC64 :: "Uns64 \<Rightarrow> Uns32 \<Rightarrow> Uns64" where
  "doGORC64 rs1 rs2 =
    (let x = rs1; shamt = rs2 AND 63;
     x = (if shamt AND 1 \<noteq> 0 then x OR (push_bit 1 (x AND 0x5555555555555555) OR drop_bit 1 (x AND 0xAAAAAAAAAAAAAAAA)) else x);
     x = (if shamt AND 2 \<noteq> 0 then x OR (push_bit 2 (x AND 0x3333333333333333) OR drop_bit 2 (x AND 0xCCCCCCCCCCCCCCCC)) else x);
     x = (if shamt AND 4 \<noteq> 0 then x OR (push_bit 4 (x AND 0x0F0F0F0F0F0F0F0F) OR drop_bit 4 (x AND 0xF0F0F0F0F0F0F0F0)) else x);
     x = (if shamt AND 8 \<noteq> 0 then x OR (push_bit 8 (x AND 0x00FF00FF00FF00FF) OR drop_bit 8 (x AND 0xFF00FF00FF00FF00)) else x);
     x = (if shamt AND 16 \<noteq> 0 then x OR (push_bit 16 (x AND 0x0000FFFF0000FFFF) OR drop_bit 16 (x AND 0xFFFF0000FFFF0000)) else x);
     x = (if shamt AND 32 \<noteq> 0 then x OR (push_bit 32 (x AND 0x00000000FFFFFFFF) OR drop_bit 32 (x AND 0xFFFFFFFF00000000)) else x)
     in x)"

definition doGREV32 :: "Uns32 \<Rightarrow> Uns32 \<Rightarrow> Uns32" where
  "doGREV32 rs1 rs2 =
    (let x = rs1; shamt = rs2 AND 31;
     x = (if shamt AND 1 \<noteq> 0 then push_bit 1 (x AND 0x55555555) OR drop_bit 1 (x AND 0xAAAAAAAA) else x);
     x = (if shamt AND 2 \<noteq> 0 then push_bit 2 (x AND 0x33333333) OR drop_bit 2 (x AND 0xCCCCCCCC) else x);
     x = (if shamt AND 4 \<noteq> 0 then push_bit 4 (x AND 0x0F0F0F0F) OR drop_bit 4 (x AND 0xF0F0F0F0) else x);
     x = (if shamt AND 8 \<noteq> 0 then push_bit 8 (x AND 0x00FF00FF) OR drop_bit 8 (x AND 0xFF00FF00) else x);
     x = (if shamt AND 16 \<noteq> 0 then push_bit 16 (x AND 0x0000FFFF) OR drop_bit 16 (x AND 0xFFFF0000) else x)
     in x)"

definition doGREV64 :: "Uns64 \<Rightarrow> Uns32 \<Rightarrow> Uns64" where
  "doGREV64 rs1 rs2 =
    (let x = rs1; shamt = rs2 AND 63;
     x = (if shamt AND 1 \<noteq> 0 then push_bit 1 (x AND 0x5555555555555555) OR drop_bit 1 (x AND 0xAAAAAAAAAAAAAAAA) else x);
     x = (if shamt AND 2 \<noteq> 0 then push_bit 2 (x AND 0x3333333333333333) OR drop_bit 2 (x AND 0xCCCCCCCCCCCCCCCC) else x);
     x = (if shamt AND 4 \<noteq> 0 then push_bit 4 (x AND 0x0F0F0F0F0F0F0F0F) OR drop_bit 4 (x AND 0xF0F0F0F0F0F0F0F0) else x);
     x = (if shamt AND 8 \<noteq> 0 then push_bit 8 (x AND 0x00FF00FF00FF00FF) OR drop_bit 8 (x AND 0xFF00FF00FF00FF00) else x);
     x = (if shamt AND 16 \<noteq> 0 then push_bit 16 (x AND 0x0000FFFF0000FFFF) OR drop_bit 16 (x AND 0xFFFF0000FFFF0000) else x);
     x = (if shamt AND 32 \<noteq> 0 then push_bit 32 (x AND 0x00000000FFFFFFFF) OR drop_bit 32 (x AND 0xFFFFFFFF00000000) else x)
     in x)"

subsection \<open>CRC32\<close>

text \<open>The loop counter is the number of remaining iterations.\<close>

primrec doCRC32_32 :: "Uns32 \<Rightarrow> Uns32 \<Rightarrow> nat \<Rightarrow> Uns32" where
  "doCRC32_32 x constant 0 = x"
| "doCRC32_32 x constant (Suc i) =
    doCRC32_32 (drop_bit 1 x XOR (constant AND NOT ((x AND 1) - 1))) constant i"

primrec doCRC32_64 :: "Uns64 \<Rightarrow> Uns32 \<Rightarrow> nat \<Rightarrow> Uns64" where
  "doCRC32_64 x constant 0 = x"
| "doCRC32_64 x constant (Suc i) =
    doCRC32_64 (drop_bit 1 x XOR (ucast constant AND NOT ((x AND 1) - 1))) constant i"

text \<open>\<^verbatim>\<open>__builtin_popcountll\<close> counts the set bits.\<close>

definition doPOPCOUNT64 :: "Uns64 \<Rightarrow> Uns64" where
  "doPOPCOUNT64 rs1 = of_nat (length (filter (bit rs1) [0..<64]))"

subsection \<open>Shuffle and unshuffle\<close>

definition doSHFL32Stage :: "Uns32 \<Rightarrow> Uns32 \<Rightarrow> Uns32 \<Rightarrow> nat \<Rightarrow> Uns32" where
  "doSHFL32Stage src maskL maskR N =
    (let x = src AND NOT (maskL OR maskR)
     in x OR ((push_bit N src AND maskL) OR (drop_bit N src AND maskR)))"

definition doSHFL32 :: "Uns32 \<Rightarrow> Uns32 \<Rightarrow> Uns32" where
  "doSHFL32 rs1 rs2 =
    (let x = rs1; shamt = rs2 AND 15;
     x = (if shamt AND 8 \<noteq> 0 then doSHFL32Stage x 0x00ff0000 0x0000ff00 8 else x);
     x = (if shamt AND 4 \<noteq> 0 then doSHFL32Stage x 0x0f000f00 0x00f000f0 4 else x);
     x = (if shamt AND 2 \<noteq> 0 then doSHFL32Stage x 0x30303030 0x0c0c0c0c 2 else x);
     x = (if shamt AND 1 \<noteq> 0 then doSHFL32Stage x 0x44444444 0x22222222 1 else x)
     in x)"

definition doUNSHFL32 :: "Uns32 \<Rightarrow> Uns32 \<Rightarrow> Uns32" where
  "doUNSHFL32 rs1 rs2 =
    (let x = rs1; shamt = rs2 AND 15;
     x = (if shamt AND 1 \<noteq> 0 then doSHFL32Stage x 0x44444444 0x22222222 1 else x);
     x = (if shamt AND 2 \<noteq> 0 then doSHFL32Stage x 0x30303030 0x0c0c0c0c 2 else x);
     x = (if shamt AND 4 \<noteq> 0 then doSHFL32Stage x 0x0f000f00 0x00f000f0 4 else x);
     x = (if shamt AND 8 \<noteq> 0 then doSHFL32Stage x 0x00ff0000 0x0000ff00 8 else x)
     in x)"

definition doSHFL64Stage :: "Uns64 \<Rightarrow> Uns64 \<Rightarrow> Uns64 \<Rightarrow> nat \<Rightarrow> Uns64" where
  "doSHFL64Stage src maskL maskR N =
    (let x = src AND NOT (maskL OR maskR)
     in x OR ((push_bit N src AND maskL) OR (drop_bit N src AND maskR)))"

definition doSHFL64 :: "Uns64 \<Rightarrow> Uns32 \<Rightarrow> Uns64" where
  "doSHFL64 rs1 rs2 =
    (let x = rs1; shamt = rs2 AND 31;
     x = (if shamt AND 16 \<noteq> 0 then doSHFL64Stage x 0x0000ffff00000000 0x00000000ffff0000 16 else x);
     x = (if shamt AND 8 \<noteq> 0 then doSHFL64Stage x 0x00ff000000ff0000 0x0000ff000000ff00 8 else x);
     x = (if shamt AND 4 \<noteq> 0 then doSHFL64Stage x 0x0f000f000f000f00 0x00f000f000f000f0 4 else x);
     x = (if shamt AND 2 \<noteq> 0 then doSHFL64Stage x 0x3030303030303030 0x0c0c0c0c0c0c0c0c 2 else x);
     x = (if shamt AND 1 \<noteq> 0 then doSHFL64Stage x 0x4444444444444444 0x2222222222222222 1 else x)
     in x)"

text \<open>The second argument is 64 bits wide here and is truncated to the 32-bit \<open>shamt\<close>.\<close>

definition doUNSHFL64 :: "Uns64 \<Rightarrow> Uns64 \<Rightarrow> Uns64" where
  "doUNSHFL64 rs1 rs2 =
    (let x = rs1; shamt = (ucast (rs2 AND 31) :: Uns32);
     x = (if shamt AND 1 \<noteq> 0 then doSHFL64Stage x 0x4444444444444444 0x2222222222222222 1 else x);
     x = (if shamt AND 2 \<noteq> 0 then doSHFL64Stage x 0x3030303030303030 0x0c0c0c0c0c0c0c0c 2 else x);
     x = (if shamt AND 4 \<noteq> 0 then doSHFL64Stage x 0x0f000f000f000f00 0x00f000f000f000f0 4 else x);
     x = (if shamt AND 8 \<noteq> 0 then doSHFL64Stage x 0x00ff000000ff0000 0x0000ff000000ff00 8 else x);
     x = (if shamt AND 16 \<noteq> 0 then doSHFL64Stage x 0x0000ffff00000000 0x00000000ffff0000 16 else x)
     in x)"

subsection \<open>Bit matrices\<close>

definition doBMATFLIP :: "Uns64 \<Rightarrow> Uns64" where
  "doBMATFLIP rs1 =
    (let x = rs1; x = doSHFL64 x 31; x = doSHFL64 x 31; x = doSHFL64 x 31 in x)"

definition doBMATOR :: "Uns64 \<Rightarrow> Uns64 \<Rightarrow> Uns64" where
  "doBMATOR rs1 rs2 =
    (let rs2t = doBMATFLIP rs2;
         u = map (\<lambda>i. ucast (drop_bit (i * 8) rs1) :: Uns8) [0..<8];
         v = map (\<lambda>i. ucast (drop_bit (i * 8) rs2t) :: Uns8) [0..<8]
     in fold (\<lambda>i x. if (u ! (i div 8)) AND (v ! (i mod 8)) \<noteq> 0 then x OR push_bit i 1 else x)
          [0..<64] 0)"

definition doBMATXOR :: "Uns64 \<Rightarrow> Uns64 \<Rightarrow> Uns64" where
  "doBMATXOR rs1 rs2 =
    (let rs2t = doBMATFLIP rs2;
         u = map (\<lambda>i. ucast (drop_bit (i * 8) rs1) :: Uns8) [0..<8];
         v = map (\<lambda>i. ucast (drop_bit (i * 8) rs2t) :: Uns8) [0..<8]
     in fold (\<lambda>i x. if doPOPCOUNT64 (ucast ((u ! (i div 8)) AND (v ! (i mod 8)))) AND 1 \<noteq> 0
                     then x OR push_bit i 1 else x)
          [0..<64] 0)"

subsection \<open>Bit extract and bit deposit\<close>

text \<open>The loop bodies are the same at both widths; the loop state is \<open>(r, j)\<close>.\<close>

definition bext_body :: "'a::len word \<Rightarrow> 'a word \<Rightarrow> nat \<Rightarrow> 'a word \<times> nat \<Rightarrow> 'a word \<times> nat" where
  "bext_body rs1 rs2 i = (\<lambda>(r, j).
    if drop_bit i rs2 AND 1 \<noteq> 0
    then (if drop_bit i rs1 AND 1 \<noteq> 0 then r OR push_bit j 1 else r, j + 1)
    else (r, j))"

definition doBEXT32 :: "Uns32 \<Rightarrow> Uns32 \<Rightarrow> Uns32" where
  "doBEXT32 rs1 rs2 = fst (fold (bext_body rs1 rs2) [0..<32] (0, 0))"

definition doBEXT64 :: "Uns64 \<Rightarrow> Uns64 \<Rightarrow> Uns64" where
  "doBEXT64 rs1 rs2 = fst (fold (bext_body rs1 rs2) [0..<64] (0, 0))"

definition bdep_body :: "'a::len word \<Rightarrow> 'a word \<Rightarrow> nat \<Rightarrow> 'a word \<times> nat \<Rightarrow> 'a word \<times> nat" where
  "bdep_body rs1 rs2 i = (\<lambda>(r, j).
    if drop_bit i rs2 AND 1 \<noteq> 0
    then (if drop_bit j rs1 AND 1 \<noteq> 0 then r OR push_bit i 1 else r, j + 1)
    else (r, j))"

definition doBDEP32 :: "Uns32 \<Rightarrow> Uns32 \<Rightarrow> Uns32" where
  "doBDEP32 rs1 rs2 = fst (fold (bdep_body rs1 rs2) [0..<32] (0, 0))"

definition doBDEP64 :: "Uns64 \<Rightarrow> Uns64 \<Rightarrow> Uns64" where
  "doBDEP64 rs1 rs2 = fst (fold (bdep_body rs1 rs2) [0..<64] (0, 0))"

subsection \<open>Funnel shifts\<close>

definition doFSL32 :: "Uns32 \<Rightarrow> Uns32 \<Rightarrow> Uns32 \<Rightarrow> Uns32" where
  "doFSL32 rs1 rs2 rs3 =
    (let XLEN = 32; shamt = unat (rs2 AND (2 * 32 - 1));
         (shamt, A, B) = (if shamt \<ge> XLEN then (shamt - XLEN, rs3, rs1) else (shamt, rs1, rs3))
     in if shamt \<noteq> 0 then push_bit shamt A OR drop_bit (XLEN - shamt) B else A)"

definition doFSL64 :: "Uns64 \<Rightarrow> Uns32 \<Rightarrow> Uns64 \<Rightarrow> Uns64" where
  "doFSL64 rs1 rs2 rs3 =
    (let XLEN = 64; shamt = unat (rs2 AND (2 * 64 - 1));
         (shamt, A, B) = (if shamt \<ge> XLEN then (shamt - XLEN, rs3, rs1) else (shamt, rs1, rs3))
     in if shamt \<noteq> 0 then push_bit shamt A OR drop_bit (XLEN - shamt) B else A)"

definition doFSR32 :: "Uns32 \<Rightarrow> Uns32 \<Rightarrow> Uns32 \<Rightarrow> Uns32" where
  "doFSR32 rs1 rs2 rs3 =
    (let XLEN = 32; shamt = unat (rs2 AND (2 * 32 - 1));
         (shamt, A, B) = (if shamt \<ge> XLEN then (shamt - XLEN, rs3, rs1) else (shamt, rs1, rs3))
     in if shamt \<noteq> 0 then drop_bit shamt A OR push_bit (XLEN - shamt) B else A)"

definition doFSR64 :: "Uns64 \<Rightarrow> Uns32 \<Rightarrow> Uns64 \<Rightarrow> Uns64" where
  "doFSR64 rs1 rs2 rs3 =
    (let XLEN = 64; shamt = unat (rs2 AND (2 * 64 - 1));
         (shamt, A, B) = (if shamt \<ge> XLEN then (shamt - XLEN, rs3, rs1) else (shamt, rs1, rs3))
     in if shamt \<noteq> 0 then drop_bit shamt A OR push_bit (XLEN - shamt) B else A)"

subsection \<open>Rotates, shift-ones and bit-field place\<close>

definition doROL32 :: "Uns32 \<Rightarrow> Uns32 \<Rightarrow> Uns32" where
  "doROL32 rs1 rs2 =
    (let shamt = unat (rs2 AND (32 - 1))
     in push_bit shamt rs1 OR drop_bit ((32 - shamt) mod 32) rs1)"

definition doSLO32 :: "Uns32 \<Rightarrow> Uns32 \<Rightarrow> Uns32" where
  "doSLO32 rs1 rs2 = (let shamt = unat (rs2 AND (32 - 1)) in NOT (push_bit shamt (NOT rs1)))"

definition doBFP91_32 :: "Uns32 \<Rightarrow> Uns32 \<Rightarrow> Uns32" where
  "doBFP91_32 rs1 rs2 =
    (let len = drop_bit 24 rs2 AND 15;
         off = drop_bit 16 rs2 AND (32 - 1);
         len = (if len \<noteq> 0 then len else 16);
         mask = doROL32 (doSLO32 0 len) off;
         data = doROL32 rs2 off
     in (data AND mask) OR (rs1 AND NOT mask))"

definition doBFP92_32 :: "Uns32 \<Rightarrow> Uns32 \<Rightarrow> Uns32" where
  "doBFP92_32 rs1 rs2 =
    (let cfg = drop_bit (32 div 2) rs2;
         len = drop_bit 8 cfg AND (16 - 1);
         off = cfg AND (32 - 1);
         len = (if len \<noteq> 0 then len else 16);
         mask = push_bit (unat off) (doSLO32 0 len);
         data = push_bit (unat off) rs2
     in (data AND mask) OR (rs1 AND NOT mask))"

definition doROL64 :: "Uns64 \<Rightarrow> Uns64 \<Rightarrow> Uns64" where
  "doROL64 rs1 rs2 =
    (let shamt = unat (rs2 AND (64 - 1))
     in push_bit shamt rs1 OR drop_bit ((64 - shamt) mod 64) rs1)"

definition doSLO64 :: "Uns64 \<Rightarrow> Uns64 \<Rightarrow> Uns64" where
  "doSLO64 rs1 rs2 = (let shamt = unat (rs2 AND (64 - 1)) in NOT (push_bit shamt (NOT rs1)))"

definition doBFP91_64 :: "Uns64 \<Rightarrow> Uns64 \<Rightarrow> Uns64" where
  "doBFP91_64 rs1 rs2 =
    (let len = drop_bit 24 rs2 AND 15;
         off = drop_bit 16 rs2 AND (64 - 1);
         len = (if len \<noteq> 0 then len else 16);
         mask = doROL64 (doSLO64 0 len) off;
         data = doROL64 rs2 off
     in (data AND mask) OR (rs1 AND NOT mask))"

definition doBFP92_64 :: "Uns64 \<Rightarrow> Uns64 \<Rightarrow> Uns64" where
  "doBFP92_64 rs1 rs2 =
    (let cfg = drop_bit (64 div 2) rs2;
         cfg = (if drop_bit 30 cfg = 2 then drop_bit 16 cfg else cfg);
         len = drop_bit 8 cfg AND (32 - 1);
         off = cfg AND (64 - 1);
         len = (if len \<noteq> 0 then len else 32);
         mask = push_bit (unat off) (doSLO64 0 len);
         data = push_bit (unat off) rs2
     in (data AND mask) OR (rs1 AND NOT mask))"

subsection \<open>Crossbar permutation\<close>

text \<open>
  The loop \<^verbatim>\<open>for(i=0; i<XLEN; i+=sz)\<close> does not end for \<open>sz = 0\<close>, so it is a
  partial function; \<open>None\<close> is "does not return". The body is the same at both widths.
\<close>

partial_function (option) xperm_loop ::
  "'a::len word \<Rightarrow> nat \<Rightarrow> 'a word \<Rightarrow> 'a word \<Rightarrow> nat \<Rightarrow> 'a word \<Rightarrow> 'a word option" where
  "xperm_loop rs1 sz rs2 msk i r =
    (if i < LENGTH('a) then
       (let pos = (drop_bit i rs2 AND msk) * of_nat sz;
            r = (if unat pos < LENGTH('a) then r OR push_bit i (drop_bit (unat pos) rs1 AND msk) else r)
        in xperm_loop rs1 sz rs2 msk (i + sz) r)
     else Some r)"

definition doXPERM32 :: "Uns32 \<Rightarrow> nat \<Rightarrow> Uns32 \<Rightarrow> Uns32 option" where
  "doXPERM32 rs1 sz rs2 =
    (let msk = ucast (push_bit sz 1 - 1 :: Uns64)
     in xperm_loop rs1 sz rs2 msk 0 0)"

definition doXPERM64 :: "Uns64 \<Rightarrow> nat \<Rightarrow> Uns64 \<Rightarrow> Uns64 option" where
  "doXPERM64 rs1 sz rs2 =
    (let msk = push_bit sz 1 - 1
     in xperm_loop rs1 sz rs2 msk 0 0)"

end
