(* ===== verification/RV_BExt_Perm.thy ===== *)
theory RV_BExt_Perm
  imports RV_BExt
begin

text \<open>
  The bit-permuting operations of the B extension: generalised reverse and OR-combine,
  shuffle and unshuffle, the bit-matrix transpose and the two bit-matrix products. Each
  is characterised bit by bit; the generalised reverse, the shuffle stages and the
  transpose are instances of \<open>bit_permutation\<close>.
\<close>

section \<open>Specification predicates\<close>

text \<open>A function OR-combines along the control value \<open>T\<close> when bit \<open>n\<close> of its result is the
  disjunction of the argument's bits at \<open>n XOR i\<close>, over the submasks \<open>i\<close> of \<open>T\<close>.\<close>

definition or_combines :: "('a::len word \<Rightarrow> 'a word) \<Rightarrow> nat \<Rightarrow> bool" where
  "or_combines F T \<longleftrightarrow>
    (\<forall>x n. n < LENGTH('a) \<longrightarrow> bit (F x) n = (\<exists>i. i AND T = i \<and> bit x (n XOR i)))"

section \<open>Generalised reverse and OR-combine\<close>

text \<open>A test \<^verbatim>\<open>shamt & k\<close> of the C code reads one bit.\<close>

lemma and_bit_tests:
  fixes x :: "'a::len word"
  shows "x AND 1 = 0 \<longleftrightarrow> \<not> bit x 0" "x AND 2 = 0 \<longleftrightarrow> \<not> bit x (Suc 0)"
    "x AND 4 = 0 \<longleftrightarrow> \<not> bit x (Suc (Suc 0))" "x AND 8 = 0 \<longleftrightarrow> \<not> bit x (Suc (Suc (Suc 0)))"
    "x AND 16 = 0 \<longleftrightarrow> \<not> bit x (Suc (Suc (Suc (Suc 0))))"
    "x AND 32 = 0 \<longleftrightarrow> \<not> bit x (Suc (Suc (Suc (Suc (Suc 0)))))"
  using and_exp_eq_0_iff_not_bit [of x 0] and_exp_eq_0_iff_not_bit [of x 1]
    and_exp_eq_0_iff_not_bit [of x 2] and_exp_eq_0_iff_not_bit [of x 3]
    and_exp_eq_0_iff_not_bit [of x 4] and_exp_eq_0_iff_not_bit [of x 5]
  by (simp_all add: numeral_eq_Suc)

lemma stage_weights:
  "(1::nat) = 2 ^ 0" "(2::nat) = 2 ^ Suc 0" "(4::nat) = 2 ^ Suc (Suc 0)"
  "(8::nat) = 2 ^ Suc (Suc (Suc 0))" "(16::nat) = 2 ^ Suc (Suc (Suc (Suc 0)))"
  "(32::nat) = 2 ^ Suc (Suc (Suc (Suc (Suc 0))))"
  by simp_all

lemma grev_masks32:
  "\<forall>n<32. bit (0x55555555::Uns32) n \<longleftrightarrow> \<not> bit n 0"
  "\<forall>n<32. bit (0xAAAAAAAA::Uns32) n \<longleftrightarrow> bit n 0"
  "\<forall>n<32. bit (0x33333333::Uns32) n \<longleftrightarrow> \<not> bit n 1"
  "\<forall>n<32. bit (0xCCCCCCCC::Uns32) n \<longleftrightarrow> bit n 1"
  "\<forall>n<32. bit (0x0F0F0F0F::Uns32) n \<longleftrightarrow> \<not> bit n 2"
  "\<forall>n<32. bit (0xF0F0F0F0::Uns32) n \<longleftrightarrow> bit n 2"
  "\<forall>n<32. bit (0x00FF00FF::Uns32) n \<longleftrightarrow> \<not> bit n 3"
  "\<forall>n<32. bit (0xFF00FF00::Uns32) n \<longleftrightarrow> bit n 3"
  "\<forall>n<32. bit (0x0000FFFF::Uns32) n \<longleftrightarrow> \<not> bit n 4"
  "\<forall>n<32. bit (0xFFFF0000::Uns32) n \<longleftrightarrow> bit n 4"
  unfolding all_less_upt by code_simp+

lemma grev_masks64:
  "\<forall>n<64. bit (0x5555555555555555::Uns64) n \<longleftrightarrow> \<not> bit n 0"
  "\<forall>n<64. bit (0xAAAAAAAAAAAAAAAA::Uns64) n \<longleftrightarrow> bit n 0"
  "\<forall>n<64. bit (0x3333333333333333::Uns64) n \<longleftrightarrow> \<not> bit n 1"
  "\<forall>n<64. bit (0xCCCCCCCCCCCCCCCC::Uns64) n \<longleftrightarrow> bit n 1"
  "\<forall>n<64. bit (0x0F0F0F0F0F0F0F0F::Uns64) n \<longleftrightarrow> \<not> bit n 2"
  "\<forall>n<64. bit (0xF0F0F0F0F0F0F0F0::Uns64) n \<longleftrightarrow> bit n 2"
  "\<forall>n<64. bit (0x00FF00FF00FF00FF::Uns64) n \<longleftrightarrow> \<not> bit n 3"
  "\<forall>n<64. bit (0xFF00FF00FF00FF00::Uns64) n \<longleftrightarrow> bit n 3"
  "\<forall>n<64. bit (0x0000FFFF0000FFFF::Uns64) n \<longleftrightarrow> \<not> bit n 4"
  "\<forall>n<64. bit (0xFFFF0000FFFF0000::Uns64) n \<longleftrightarrow> bit n 4"
  "\<forall>n<64. bit (0x00000000FFFFFFFF::Uns64) n \<longleftrightarrow> \<not> bit n 5"
  "\<forall>n<64. bit (0xFFFFFFFF00000000::Uns64) n \<longleftrightarrow> bit n 5"
  unfolding all_less_upt by code_simp+

lemma grev_stages32:
  "bit_permutation (\<lambda>x::Uns32. push_bit 1 (x AND 0x55555555) OR drop_bit 1 (x AND 0xAAAAAAAA))
    (\<lambda>n. n XOR 1)"
  "bit_permutation (\<lambda>x::Uns32. push_bit 2 (x AND 0x33333333) OR drop_bit 2 (x AND 0xCCCCCCCC))
    (\<lambda>n. n XOR 2)"
  "bit_permutation (\<lambda>x::Uns32. push_bit 4 (x AND 0x0F0F0F0F) OR drop_bit 4 (x AND 0xF0F0F0F0))
    (\<lambda>n. n XOR 4)"
  "bit_permutation (\<lambda>x::Uns32. push_bit 8 (x AND 0x00FF00FF) OR drop_bit 8 (x AND 0xFF00FF00))
    (\<lambda>n. n XOR 8)"
  "bit_permutation (\<lambda>x::Uns32. push_bit 16 (x AND 0x0000FFFF) OR drop_bit 16 (x AND 0xFFFF0000))
    (\<lambda>n. n XOR 16)"
  subgoal by (rule bit_permutation_swap_stage [where w = 5, OF _ _ stage_weights(1)])
    (use grev_masks32(1,2) in \<open>simp_all add: numeral_2_eq_2 [symmetric]\<close>)
  subgoal by (rule bit_permutation_swap_stage [where w = 5, OF _ _ stage_weights(2)])
    (use grev_masks32(3,4) in \<open>simp_all add: numeral_2_eq_2 [symmetric]\<close>)
  subgoal by (rule bit_permutation_swap_stage [where w = 5, OF _ _ stage_weights(3)])
    (use grev_masks32(5,6) in \<open>simp_all add: numeral_2_eq_2 [symmetric]\<close>)
  subgoal by (rule bit_permutation_swap_stage [where w = 5, OF _ _ stage_weights(4)])
    (use grev_masks32(7,8) in \<open>simp_all add: numeral_2_eq_2 [symmetric]\<close>)
  subgoal by (rule bit_permutation_swap_stage [where w = 5, OF _ _ stage_weights(5)])
    (use grev_masks32(9,10) in \<open>simp_all add: numeral_2_eq_2 [symmetric]\<close>)
  done

lemma grev_stages64:
  "bit_permutation (\<lambda>x::Uns64. push_bit 1 (x AND 0x5555555555555555) OR drop_bit 1 (x AND 0xAAAAAAAAAAAAAAAA))
    (\<lambda>n. n XOR 1)"
  "bit_permutation (\<lambda>x::Uns64. push_bit 2 (x AND 0x3333333333333333) OR drop_bit 2 (x AND 0xCCCCCCCCCCCCCCCC))
    (\<lambda>n. n XOR 2)"
  "bit_permutation (\<lambda>x::Uns64. push_bit 4 (x AND 0x0F0F0F0F0F0F0F0F) OR drop_bit 4 (x AND 0xF0F0F0F0F0F0F0F0))
    (\<lambda>n. n XOR 4)"
  "bit_permutation (\<lambda>x::Uns64. push_bit 8 (x AND 0x00FF00FF00FF00FF) OR drop_bit 8 (x AND 0xFF00FF00FF00FF00))
    (\<lambda>n. n XOR 8)"
  "bit_permutation (\<lambda>x::Uns64. push_bit 16 (x AND 0x0000FFFF0000FFFF) OR drop_bit 16 (x AND 0xFFFF0000FFFF0000))
    (\<lambda>n. n XOR 16)"
  "bit_permutation (\<lambda>x::Uns64. push_bit 32 (x AND 0x00000000FFFFFFFF) OR drop_bit 32 (x AND 0xFFFFFFFF00000000))
    (\<lambda>n. n XOR 32)"
  subgoal by (rule bit_permutation_swap_stage [where w = 6, OF _ _ stage_weights(1)])
    (use grev_masks64(1,2) in \<open>simp_all add: numeral_2_eq_2 [symmetric]\<close>)
  subgoal by (rule bit_permutation_swap_stage [where w = 6, OF _ _ stage_weights(2)])
    (use grev_masks64(3,4) in \<open>simp_all add: numeral_2_eq_2 [symmetric]\<close>)
  subgoal by (rule bit_permutation_swap_stage [where w = 6, OF _ _ stage_weights(3)])
    (use grev_masks64(5,6) in \<open>simp_all add: numeral_2_eq_2 [symmetric]\<close>)
  subgoal by (rule bit_permutation_swap_stage [where w = 6, OF _ _ stage_weights(4)])
    (use grev_masks64(7,8) in \<open>simp_all add: numeral_2_eq_2 [symmetric]\<close>)
  subgoal by (rule bit_permutation_swap_stage [where w = 6, OF _ _ stage_weights(5)])
    (use grev_masks64(9,10) in \<open>simp_all add: numeral_2_eq_2 [symmetric]\<close>)
  subgoal by (rule bit_permutation_swap_stage [where w = 6, OF _ _ stage_weights(6)])
    (use grev_masks64(11,12) in \<open>simp_all add: numeral_2_eq_2 [symmetric]\<close>)
  done

lemma control_bits:
  fixes s :: Uns32
  defines "S5 \<equiv> unat (s AND 31)" and "S6 \<equiv> unat (s AND 63)"
  shows "bit (s AND 31) j = bit S5 j" and "take_bit (Suc (Suc (Suc (Suc (Suc 0))))) S5 = S5"
    and "bit (s AND 63) j = bit S6 j" and "take_bit (Suc (Suc (Suc (Suc (Suc (Suc 0)))))) S6 = S6"
proof -
  show "bit (s AND 31) j = bit S5 j" and "bit (s AND 63) j = bit S6 j"
    by (auto simp: S5_def S6_def bit_unsigned_iff dest: bit_imp_le_length)
  have "S5 < 2 ^ 5" and "S6 < 2 ^ 6"
    unfolding S5_def S6_def using word_and_le1 [of s 31] word_and_le1 [of s 63]
    by (simp_all add: word_le_nat_alt)
  then show "take_bit (Suc (Suc (Suc (Suc (Suc 0))))) S5 = S5"
    and "take_bit (Suc (Suc (Suc (Suc (Suc (Suc 0)))))) S6 = S6"
    by (simp_all add: take_bit_nat_eq_self)
qed

lemma doGREV32_permutation:
  "bit_permutation (\<lambda>x. doGREV32 x s) (\<lambda>n. n XOR unat (s AND 31))"
proof -
  note stage = bit_permutation_xor_stage [where S = "unat (s AND 31)"]
  note p1 = stage [OF bit_permutation_xor_0 grev_stages32(1) stage_weights(1)]
  note p2 = stage [OF p1 grev_stages32(2) stage_weights(2)]
  note p3 = stage [OF p2 grev_stages32(3) stage_weights(3)]
  note p4 = stage [OF p3 grev_stages32(4) stage_weights(4)]
  note p5 = stage [OF p4 grev_stages32(5) stage_weights(5)]
  show ?thesis
    unfolding doGREV32_def Let_def and_bit_tests not_not control_bits(1)
    by (rule p5 [unfolded control_bits(2)])
qed

lemma doGREV64_permutation:
  "bit_permutation (\<lambda>x. doGREV64 x s) (\<lambda>n. n XOR unat (s AND 63))"
proof -
  note stage = bit_permutation_xor_stage [where S = "unat (s AND 63)"]
  note p1 = stage [OF bit_permutation_xor_0 grev_stages64(1) stage_weights(1)]
  note p2 = stage [OF p1 grev_stages64(2) stage_weights(2)]
  note p3 = stage [OF p2 grev_stages64(3) stage_weights(3)]
  note p4 = stage [OF p3 grev_stages64(4) stage_weights(4)]
  note p5 = stage [OF p4 grev_stages64(5) stage_weights(5)]
  note p6 = stage [OF p5 grev_stages64(6) stage_weights(6)]
  show ?thesis
    unfolding doGREV64_def Let_def and_bit_tests not_not control_bits(3)
    by (rule p6 [unfolded control_bits(4)])
qed


lemma doGREV32_bit [bit_rules]:
  "n < 32 \<Longrightarrow> bit (doGREV32 x s) n \<longleftrightarrow> bit x (n XOR unat (s AND 31))"
  using bit_permutation.bit_f [OF doGREV32_permutation, of n x s] by simp

lemma doGREV64_bit [bit_rules]:
  "n < 64 \<Longrightarrow> bit (doGREV64 x s) n \<longleftrightarrow> bit x (n XOR unat (s AND 63))"
  using bit_permutation.bit_f [OF doGREV64_permutation, of n x s] by simp

interpretation grev32: bit_permutation "\<lambda>x. doGREV32 x s" "\<lambda>n. n XOR unat (s AND 31)" for s
  by (rule doGREV32_permutation)

interpretation grev64: bit_permutation "\<lambda>x. doGREV64 x s" "\<lambda>n. n XOR unat (s AND 63)" for s
  by (rule doGREV64_permutation)

text \<open>C28: The generalised reverse is a group action of its control value: reversing by
  \<open>a\<close> and then by \<open>b\<close> is reversing by \<open>a XOR b\<close>, at both
  register widths; in particular every generalised reverse is its own inverse.\<close>

theorem grev_compose:
  "doGREV32 (doGREV32 x a) b = doGREV32 x (a XOR b) \<and>
   doGREV64 (doGREV64 y a) b = doGREV64 y (a XOR b)"
proof
  have "unat ((a XOR b) AND 31) = unat (b AND 31) XOR unat (a AND 31)"
    "unat ((a XOR b) AND 63) = unat (b AND 63) XOR unat (a AND 63)"
    by (rule bit_eqI, auto simp: bit_simps)+
  then show "doGREV32 (doGREV32 x a) b = doGREV32 x (a XOR b)"
    and "doGREV64 (doGREV64 y a) b = doGREV64 y (a XOR b)"
    by (auto intro!: bit_word_eqI simp: bit_rules grev32.p_range [simplified] grev64.p_range [simplified]
      xor.assoc)
qed

lemma or_combines_0: "or_combines (\<lambda>x. x) (take_bit 0 S)"
  by (auto simp: or_combines_def)

lemma submask_Suc:
  fixes i S :: nat
  assumes "bit S j"
  shows "i AND take_bit (Suc j) S = i \<longleftrightarrow>
    i AND take_bit j S = i \<or> (\<exists>i'. i' AND take_bit j S = i' \<and> i = i' XOR 2 ^ j)"
proof (intro iffI disjCI)
  assume sub: "i AND take_bit (Suc j) S = i"
    and no: "\<not> (\<exists>i'. i' AND take_bit j S = i' \<and> i = i' XOR 2 ^ j)"
  have sb: "bit i n \<Longrightarrow> n \<le> j \<and> bit S n" for n
    using sub by (metis bit_and_iff bit_take_bit_iff less_Suc_eq_le)
  show "i AND take_bit j S = i"
  proof (cases "bit i j")
    case True
    have "(i XOR 2 ^ j) AND take_bit j S = i XOR 2 ^ j"
      by (rule bit_eqI) (use sb True in \<open>auto simp: bit_simps dest: sb le_neq_implies_less\<close>)
    then have False using no by (metis xor.assoc xor_self_eq xor.right_neutral)
    then show ?thesis ..
  next
    case False
    show ?thesis
      by (rule bit_eqI) (use sb False in \<open>auto simp: bit_simps le_less\<close>)
  qed
next
  assume "i AND take_bit j S = i \<or> (\<exists>i'. i' AND take_bit j S = i' \<and> i = i' XOR 2 ^ j)"
  then show "i AND take_bit (Suc j) S = i"
  proof (elim disjE exE conjE)
    assume "i AND take_bit j S = i"
    then have "bit i n \<Longrightarrow> n < j \<and> bit S n" for n
      by (metis bit_and_iff bit_take_bit_iff)
    then show ?thesis by (intro bit_eqI) (auto simp: bit_simps less_Suc_eq)
  next
    fix i' assume i': "i' AND take_bit j S = i'" "i = i' XOR 2 ^ j"
    then have "bit i' n \<Longrightarrow> n < j \<and> bit S n" for n
      by (metis bit_and_iff bit_take_bit_iff)
    then show ?thesis using i'(2) assms by (intro bit_eqI) (auto simp: bit_simps less_Suc_eq)
  qed
qed

lemma or_combines_stage:
  fixes F G :: "'a::len word \<Rightarrow> 'a word" and S :: nat
  assumes F: "or_combines F (take_bit j S)"
    and G: "bit_permutation G (\<lambda>n. n XOR k)" and k: "k = 2 ^ j"
  shows "or_combines (\<lambda>x. if bit S j then F x OR G (F x) else F x) (take_bit (Suc j) S)"
proof (cases "bit S j")
  case True
  have "(\<exists>i. i AND take_bit (Suc j) S = i \<and> bit x (n XOR i)) \<longleftrightarrow>
      (\<exists>i. i AND take_bit j S = i \<and> bit x (n XOR i)) \<or>
      (\<exists>i. i AND take_bit j S = i \<and> bit x ((n XOR k) XOR i))" for x :: "'a word" and n
    unfolding submask_Suc [OF True] k by (auto simp: xor.assoc xor.commute xor.left_commute)
  moreover have "bit (G y) n \<longleftrightarrow> bit y (n XOR k)" "n XOR k < LENGTH('a)"
    if "n < LENGTH('a)" for y n
    using bit_permutation.bit_f [OF G that] bit_permutation.p_range [OF G that] by auto
  ultimately show ?thesis
    using F True by (simp add: or_combines_def bit_or_iff)
next
  case False
  have "take_bit (Suc j) S = take_bit j S"
    by (rule bit_eqI) (use False in \<open>auto simp: bit_simps less_Suc_eq\<close>)
  then show ?thesis using F False by simp
qed

lemma doGORC32_or_combines: "or_combines (\<lambda>x. doGORC32 x s) (unat (s AND 31))"
proof -
  note stage = or_combines_stage [where S = "unat (s AND 31)"]
  note p1 = stage [OF or_combines_0 grev_stages32(1) stage_weights(1)]
  note p2 = stage [OF p1 grev_stages32(2) stage_weights(2)]
  note p3 = stage [OF p2 grev_stages32(3) stage_weights(3)]
  note p4 = stage [OF p3 grev_stages32(4) stage_weights(4)]
  note p5 = stage [OF p4 grev_stages32(5) stage_weights(5)]
  show ?thesis
    unfolding doGORC32_def Let_def and_bit_tests not_not control_bits(1)
    by (rule p5 [unfolded control_bits(2)])
qed

lemma doGORC64_or_combines: "or_combines (\<lambda>x. doGORC64 x s) (unat (s AND 63))"
proof -
  note stage = or_combines_stage [where S = "unat (s AND 63)"]
  note p1 = stage [OF or_combines_0 grev_stages64(1) stage_weights(1)]
  note p2 = stage [OF p1 grev_stages64(2) stage_weights(2)]
  note p3 = stage [OF p2 grev_stages64(3) stage_weights(3)]
  note p4 = stage [OF p3 grev_stages64(4) stage_weights(4)]
  note p5 = stage [OF p4 grev_stages64(5) stage_weights(5)]
  note p6 = stage [OF p5 grev_stages64(6) stage_weights(6)]
  show ?thesis
    unfolding doGORC64_def Let_def and_bit_tests not_not control_bits(3)
    by (rule p6 [unfolded control_bits(4)])
qed

lemma submask_word:
  fixes s :: "'a::len word"
  shows "(\<exists>i. i AND unat (s AND m) = i \<and> P i) \<longleftrightarrow> (\<exists>t. t AND s = t \<and> P (unat (t AND m)))"
proof
  assume "\<exists>i. i AND unat (s AND m) = i \<and> P i"
  then obtain i where i: "i AND unat (s AND m) = i" "P i" by blast
  have "unat (of_nat i AND (s AND m)) = i"
  proof (rule bit_eqI)
    fix n
    have "bit i n \<longleftrightarrow> bit i n \<and> bit (unat (s AND m)) n"
      using i(1) by (metis bit_and_iff)
    then show "bit (unat (of_nat i AND (s AND m))) n \<longleftrightarrow> bit i n"
      by (auto simp: bit_simps dest: bit_imp_le_length)
  qed
  with i(2) show "\<exists>t. t AND s = t \<and> P (unat (t AND m))"
    by (intro exI [of _ "of_nat i AND (s AND m)"]) (simp add: ac_simps)
next
  assume "\<exists>t. t AND s = t \<and> P (unat (t AND m))"
  then obtain t where t: "t AND s = t" "P (unat (t AND m))" by blast
  have "(t AND m) AND (s AND m) = t AND m"
    using t(1) by (metis and.assoc and.commute and.left_commute and.idem)
  then have "unat (t AND m) AND unat (s AND m) = unat (t AND m)"
    by (metis unsigned_and_eq)
  with t(2) show "\<exists>i. i AND unat (s AND m) = i \<and> P i" by blast
qed

text \<open>The generalised OR-combine is the disjunction of the generalised reverses over all submasks
  of its control value, bit for bit, at both register widths.\<close>

theorem gorc_or_of_grevs:
  "(bit (doGORC32 x s) n \<longleftrightarrow> (\<exists>t. t AND s = t \<and> bit (doGREV32 x t) n)) \<and>
   (bit (doGORC64 y s) n \<longleftrightarrow> (\<exists>t. t AND s = t \<and> bit (doGREV64 y t) n))"
proof (intro conjI)
  show "bit (doGORC32 x s) n \<longleftrightarrow> (\<exists>t. t AND s = t \<and> bit (doGREV32 x t) n)"
  proof (cases "n < 32")
    case True
    then show ?thesis
      using doGORC32_or_combines [of s] submask_word [of s 31 "\<lambda>i. bit x (n XOR i)"]
      by (simp add: or_combines_def bit_rules)
  qed (auto dest: bit_imp_le_length)
  show "bit (doGORC64 y s) n \<longleftrightarrow> (\<exists>t. t AND s = t \<and> bit (doGREV64 y t) n)"
  proof (cases "n < 64")
    case True
    then show ?thesis
      using doGORC64_or_combines [of s] submask_word [of s 63 "\<lambda>i. bit y (n XOR i)"]
      by (simp add: or_combines_def bit_rules)
  qed (auto dest: bit_imp_le_length)
qed

section \<open>Shuffle stages\<close>

definition shfl_masks :: "'a::len word \<Rightarrow> 'a word \<Rightarrow> nat \<Rightarrow> nat \<Rightarrow> bool" where
  "shfl_masks L R N w \<longleftrightarrow> list_all (\<lambda>n.
     (bit L n \<longrightarrow> N \<le> n \<and> bit R (n - N) \<and> \<not> bit R n) \<and>
     (bit R n \<longrightarrow> n + N < w \<and> bit L (n + N) \<and> \<not> bit L n)) [0..<w]"

definition shfl_index :: "'a::len word \<Rightarrow> 'a word \<Rightarrow> nat \<Rightarrow> nat \<Rightarrow> nat" where
  "shfl_index L R N n = (if bit L n then n - N else if bit R n then n + N else n)"

lemma shfl_stage_permutation:
  fixes L R :: "'a::len word"
  assumes "shfl_masks L R N LENGTH('a)"
  shows "bit_permutation (\<lambda>src. (src AND NOT (L OR R)) OR ((push_bit N src AND L) OR (drop_bit N src AND R)))
    (shfl_index L R N)"
proof
  have m: "(bit L n \<longrightarrow> N \<le> n \<and> bit R (n - N) \<and> \<not> bit R n) \<and>
     (bit R n \<longrightarrow> n + N < LENGTH('a) \<and> bit L (n + N) \<and> \<not> bit L n)" if "n < LENGTH('a)" for n
    using assms that by (auto simp: shfl_masks_def list_all_iff)
  fix n and x :: "'a word" assume n: "n < LENGTH('a)"
  show "bit ((x AND NOT (L OR R)) OR ((push_bit N x AND L) OR (drop_bit N x AND R))) n =
      bit x (shfl_index L R N n)"
    using m [OF n] n by (auto simp: shfl_index_def bit_simps add.commute)
  show "shfl_index L R N n < LENGTH('a)"
    using m [OF n] n by (auto simp: shfl_index_def)
qed

lemma shfl_stage_involution:
  fixes L R x :: "'a::len word"
  assumes "shfl_masks L R N LENGTH('a)"
  defines "st \<equiv> \<lambda>src. (src AND NOT (L OR R)) OR ((push_bit N src AND L) OR (drop_bit N src AND R))"
  shows "st (st x) = x"
  unfolding st_def
proof (rule bit_permutation.f_involution [OF shfl_stage_permutation [OF assms(1)]])
  fix n assume n: "n < LENGTH('a)"
  then have "(bit L n \<longrightarrow> N \<le> n \<and> bit R (n - N) \<and> \<not> bit R n) \<and>
     (bit R n \<longrightarrow> n + N < LENGTH('a) \<and> bit L (n + N) \<and> \<not> bit L n)"
    using assms(1) by (auto simp: shfl_masks_def list_all_iff)
  moreover have "bit L (n - N) \<Longrightarrow> \<not> bit R (n - N)"
    using assms(1) n by (auto simp: shfl_masks_def list_all_iff dest!: bspec [of _ _ "n - N"])
  ultimately show "shfl_index L R N (shfl_index L R N n) = n"
    by (auto simp: shfl_index_def)
qed

lemma shfl_masks32:
  "shfl_masks (0x00ff0000::Uns32) 0x0000ff00 8 32" "shfl_masks (0x0f000f00::Uns32) 0x00f000f0 4 32"
  "shfl_masks (0x30303030::Uns32) 0x0c0c0c0c 2 32" "shfl_masks (0x44444444::Uns32) 0x22222222 1 32"
  by code_simp+

lemma shfl_masks64:
  "shfl_masks (0x0000ffff00000000::Uns64) 0x00000000ffff0000 16 64"
  "shfl_masks (0x00ff000000ff0000::Uns64) 0x0000ff000000ff00 8 64"
  "shfl_masks (0x0f000f000f000f00::Uns64) 0x00f000f000f000f0 4 64"
  "shfl_masks (0x3030303030303030::Uns64) 0x0c0c0c0c0c0c0c0c 2 64"
  "shfl_masks (0x4444444444444444::Uns64) 0x2222222222222222 1 64"
  by code_simp+

definition shfl_cond32 :: "bool \<Rightarrow> Uns32 \<Rightarrow> Uns32 \<Rightarrow> nat \<Rightarrow> Uns32 \<Rightarrow> Uns32" where
  "shfl_cond32 c L R N x = (if c then doSHFL32Stage x L R N else x)"

definition shfl_cond64 :: "bool \<Rightarrow> Uns64 \<Rightarrow> Uns64 \<Rightarrow> nat \<Rightarrow> Uns64 \<Rightarrow> Uns64" where
  "shfl_cond64 c L R N x = (if c then doSHFL64Stage x L R N else x)"

lemma shfl_cond32_twice:
  "shfl_masks L R N 32 \<Longrightarrow> shfl_cond32 c L R N (shfl_cond32 c L R N x) = x"
  using shfl_stage_involution [of L R N x] by (simp add: shfl_cond32_def doSHFL32Stage_def)

lemma shfl_cond64_twice:
  "shfl_masks L R N 64 \<Longrightarrow> shfl_cond64 c L R N (shfl_cond64 c L R N x) = x"
  using shfl_stage_involution [of L R N x] by (simp add: shfl_cond64_def doSHFL64Stage_def)

lemmas shfl_folds = doSHFL32_def doUNSHFL32_def doSHFL64_def doUNSHFL64_def
  shfl_cond32_def [symmetric] shfl_cond64_def [symmetric] Let_def

text \<open>C29: Shuffle and unshuffle with the same control value are inverse to each other, in both
  directions and at both register widths.\<close>

theorem shfl_unshfl_inverse:
  "doUNSHFL32 (doSHFL32 x s) s = x \<and> doSHFL32 (doUNSHFL32 x s) s = x \<and>
   doUNSHFL64 (doSHFL64 y (ucast t)) t = y \<and> doSHFL64 (doUNSHFL64 y t) (ucast t) = y"
proof -
  have c: "(ucast t AND 31 :: Uns32) = ucast (t AND 31)"
    by (rule bit_word_eqI) (auto simp: bit_simps)
  show ?thesis
    unfolding shfl_folds c
    by (simp only: shfl_masks32 [THEN shfl_cond32_twice] shfl_masks64 [THEN shfl_cond64_twice] simp_thms)
qed

section \<open>Bit matrices\<close>

lemma shfl_cond64_permutation:
  "shfl_masks L R N 64 \<Longrightarrow> bit_permutation (\<lambda>x. shfl_cond64 True L R N x) (shfl_index L R N)"
  using shfl_stage_permutation [of L R N] by (simp add: shfl_cond64_def doSHFL64Stage_def)

definition shfl31_index :: "nat \<Rightarrow> nat" where
  "shfl31_index n = shfl_index (0x0000ffff00000000::Uns64) 0x00000000ffff0000 16
     (shfl_index (0x00ff000000ff0000::Uns64) 0x0000ff000000ff00 8
     (shfl_index (0x0f000f000f000f00::Uns64) 0x00f000f000f000f0 4
     (shfl_index (0x3030303030303030::Uns64) 0x0c0c0c0c0c0c0c0c 2
     (shfl_index (0x4444444444444444::Uns64) 0x2222222222222222 1 n))))"

lemma doSHFL64_31:
  "doSHFL64 x 31 = shfl_cond64 True 0x4444444444444444 0x2222222222222222 1
    (shfl_cond64 True 0x3030303030303030 0x0c0c0c0c0c0c0c0c 2
    (shfl_cond64 True 0x0f000f000f000f00 0x00f000f000f000f0 4
    (shfl_cond64 True 0x00ff000000ff0000 0x0000ff000000ff00 8
    (shfl_cond64 True 0x0000ffff00000000 0x00000000ffff0000 16 x))))"
  by (simp add: doSHFL64_def shfl_cond64_def)

text \<open>A stage exchanges two neighbouring bits of the bit index; the whole shuffle rotates it.\<close>

definition swap_index :: "nat \<Rightarrow> nat \<Rightarrow> nat" where
  "swap_index N n = (let q = n div N mod 4 in if q = 2 then n - N else if q = 1 then n + N else n)"

lemma shfl_index_swap:
  "\<forall>n<64. shfl_index (0x0000ffff00000000::Uns64) 0x00000000ffff0000 16 n = swap_index 16 n"
  "\<forall>n<64. shfl_index (0x00ff000000ff0000::Uns64) 0x0000ff000000ff00 8 n = swap_index 8 n"
  "\<forall>n<64. shfl_index (0x0f000f000f000f00::Uns64) 0x00f000f000f000f0 4 n = swap_index 4 n"
  "\<forall>n<64. shfl_index (0x3030303030303030::Uns64) 0x0c0c0c0c0c0c0c0c 2 n = swap_index 2 n"
  "\<forall>n<64. shfl_index (0x4444444444444444::Uns64) 0x2222222222222222 1 n = swap_index 1 n"
  unfolding all_less_upt by code_simp+

lemma swap_index_range: "\<forall>n<64. swap_index 16 n < 64 \<and> swap_index 8 n < 64 \<and> swap_index 4 n < 64 \<and>
    swap_index 2 n < 64 \<and> swap_index 1 n < 64"
  unfolding all_less_upt by code_simp

definition rotates_index :: "nat \<Rightarrow> bool" where
  "rotates_index n \<longleftrightarrow> swap_index 16 (swap_index 8 (swap_index 4 (swap_index 2 (swap_index 1 n)))) =
    n div 2 + 32 * (n mod 2)"

lemma swap_index_rotate: "\<forall>n<64. rotates_index n"
  unfolding all_less_upt upt_64 list.pred_inject
  by (intro conjI; simp add: rotates_index_def swap_index_def)

lemma shfl31_index_rotate: "n < 64 \<Longrightarrow> shfl31_index n = n div 2 + 32 * (n mod 2)"
  using shfl_index_swap swap_index_range swap_index_rotate
  by (simp add: shfl31_index_def rotates_index_def)

lemma doBMATFLIP_permutation:
  "bit_permutation doBMATFLIP (\<lambda>n. shfl31_index (shfl31_index (shfl31_index n)))"
proof -
  note st = shfl_masks64 [THEN shfl_cond64_permutation]
  note comp = bit_permutation_comp
  note once = comp [OF comp [OF comp [OF comp [OF st(1) st(2)] st(3)] st(4)] st(5)]
  note thrice = comp [OF comp [OF once once] once]
  show ?thesis
    unfolding doBMATFLIP_def [abs_def] shfl31_index_def Let_def doSHFL64_31
    by (rule thrice)
qed

lemma doBMATFLIP_bit [bit_rules]:
  assumes "i < 8" "j < 8"
  shows "bit (doBMATFLIP x) (8 * i + j) \<longleftrightarrow> bit x (8 * j + i)"
proof -
  have "\<forall>n<64. let r = (\<lambda>n::nat. n div 2 + 32 * (n mod 2)) in r (r (r n)) = 8 * (n mod 8) + n div 8 \<and> r n < 64"
    unfolding all_less_upt upt_64 list.pred_inject by (intro conjI; simp)
  then have "shfl31_index (shfl31_index (shfl31_index n)) = 8 * (n mod 8) + n div 8" if "n < 64" for n
    using that by (simp add: shfl31_index_rotate Let_def)
  moreover have "8 * i + j < 64" using assms by simp
  ultimately show ?thesis
    using bit_permutation.bit_f [OF doBMATFLIP_permutation, of "8 * i + j" x] assms by simp
qed

subsection \<open>Products of bit matrices\<close>

lemma fold_or_bits:
  fixes x :: "'a::len word"
  shows "bit (fold (\<lambda>i x. if P i then x OR push_bit i 1 else x) [0..<k] x) n \<longleftrightarrow>
    bit x n \<or> n < k \<and> n < LENGTH('a) \<and> P n"
proof (induction k)
  case 0
  then show ?case by simp
next
  case (Suc k)
  have "bit (push_bit k 1 :: 'a word) n \<longleftrightarrow> n = k \<and> n < LENGTH('a)"
    by (auto simp: bit_simps)
  with Suc show ?case by (auto simp: bit_or_iff less_Suc_eq)
qed

lemma row_bits:
  fixes x :: Uns64
  assumes "i < 8" "k < 8"
  shows "bit (ucast (drop_bit (i * 8) x) :: Uns8) k \<longleftrightarrow> bit x (8 * i + k)"
  using assms by (simp add: bit_simps mult.commute)

lemma row_and_ne_0:
  fixes a b :: Uns8
  shows "a AND b \<noteq> 0 \<longleftrightarrow> (\<exists>k<8. bit a k \<and> bit b k)"
proof -
  have "a AND b = 0 \<longleftrightarrow> (\<forall>k<8. \<not> bit (a AND b) k)"
    by (auto intro: bit_word_eqI)
  then show ?thesis by (auto simp: bit_and_iff)
qed

text \<open>BMATOR multiplies its operands as 8x8 Boolean matrices over (or, and), with the bit of row
  \<open>i\<close> and column \<open>j\<close> at position \<open>8 * i + j\<close>.\<close>

theorem bmator_product:
  assumes "i < 8" "j < 8"
  shows "bit (doBMATOR a b) (8 * i + j) \<longleftrightarrow> (\<exists>k<8. bit a (8 * i + k) \<and> bit b (8 * k + j))"
proof -
  have n: "8 * i + j < 64" "(8 * i + j) div 8 = i" "(8 * i + j) mod 8 = j"
    using assms by auto
  then have "bit (doBMATOR a b) (8 * i + j) \<longleftrightarrow>
    (ucast (drop_bit (i * 8) a) :: Uns8) AND ucast (drop_bit (j * 8) (doBMATFLIP b)) \<noteq> 0"
    using assms by (simp add: doBMATOR_def fold_or_bits)
  also have "\<dots> \<longleftrightarrow> (\<exists>k<8. bit a (8 * i + k) \<and> bit (doBMATFLIP b) (8 * j + k))"
    unfolding row_and_ne_0 using assms by (auto simp: row_bits)
  also have "\<dots> \<longleftrightarrow> (\<exists>k<8. bit a (8 * i + k) \<and> bit b (8 * k + j))"
    using assms by (auto simp: doBMATFLIP_bit)
  finally show ?thesis .
qed

theorem bmator_product_witness: "bit (doBMATOR 0x0102 0x8000) 7"
  using bmator_product [of 0 7 "0x0102" "0x8000"] by (auto simp: bit_simps intro: exI [of _ 1])

lemma doPOPCOUNT64_odd: "doPOPCOUNT64 (ucast (x :: Uns8)) AND 1 \<noteq> 0 \<longleftrightarrow> odd (card {k. k < 8 \<and> bit x k})"
proof -
  have "filter (bit (ucast x :: Uns64)) [0..<64] = filter (bit x) [0..<64]"
    by (rule filter_cong) (auto simp: bit_simps dest: bit_imp_le_length)
  moreover have "length (filter (bit x) [0..<64]) = card {k. k < 8 \<and> bit x k}"
  proof -
    have "length (filter (bit x) [0..<64]) = card {k. k < 64 \<and> bit x k}"
      by (simp add: distinct_length_filter Int_def conj_commute)
    also have "{k. k < 64 \<and> bit x k} = {k. k < 8 \<and> bit x k}"
      by (auto dest: bit_imp_le_length)
    finally show ?thesis .
  qed
  ultimately show ?thesis
    unfolding doPOPCOUNT64_def and_bit_tests by (simp add: bit_0 even_of_nat_iff)
qed

text \<open>BMATXOR multiplies its operands as 8x8 matrices over the field with two elements.\<close>

theorem bmatxor_product:
  assumes "i < 8" "j < 8"
  shows "bit (doBMATXOR a b) (8 * i + j) \<longleftrightarrow>
    odd (card {k. k < 8 \<and> bit a (8 * i + k) \<and> bit b (8 * k + j)})"
proof -
  have n: "8 * i + j < 64" "(8 * i + j) div 8 = i" "(8 * i + j) mod 8 = j"
    using assms by auto
  then have "bit (doBMATXOR a b) (8 * i + j) \<longleftrightarrow> doPOPCOUNT64 (ucast
    ((ucast (drop_bit (i * 8) a) :: Uns8) AND ucast (drop_bit (j * 8) (doBMATFLIP b)))) AND 1 \<noteq> 0"
    using assms by (simp add: doBMATXOR_def fold_or_bits)
  also have "\<dots> \<longleftrightarrow> odd (card {k. k < 8 \<and> bit a (8 * i + k) \<and> bit b (8 * k + j)})"
    unfolding doPOPCOUNT64_odd using assms
    by (intro arg_cong [where f = "\<lambda>S. odd (card S)"]) (auto simp: bit_and_iff row_bits doBMATFLIP_bit)
  finally show ?thesis .
qed

theorem bmatxor_product_witness: "\<not> bit (doBMATXOR 0x03 0x0101) 0"
proof -
  have "bit (doBMATXOR 0x03 0x0101) (8 * 0 + 0) \<longleftrightarrow>
    odd (card {k. k < 8 \<and> bit (0x03::Uns64) (8 * 0 + k) \<and> bit (0x0101::Uns64) (8 * k + 0)})"
    by (rule bmatxor_product) simp_all
  moreover have "{k. k < 8 \<and> bit (0x03::Uns64) (8 * 0 + k) \<and> bit (0x0101::Uns64) (8 * k + 0)} = set (filter (\<lambda>k. bit (0x03::Uns64) k \<and> bit (0x0101::Uns64) (8 * k)) [0..<8])"
    by auto
  moreover have "\<dots> = {0, 1}" by (simp add: upt_rec)
  ultimately show ?thesis by simp
qed

end
