(* ===== verification/RV_BExt_Field.thy ===== *)
theory RV_BExt_Field
  imports RV_BExt_Perm
begin

text \<open>
  The remaining operations of the B extension: bit extract and deposit, funnel shifts and
  rotates, bit-field place, crossbar permutation and CRC32.
\<close>

section \<open>Extract and deposit\<close>

primrec mask_rank :: "'a::len word \<Rightarrow> nat \<Rightarrow> nat" where
  "mask_rank m 0 = 0"
| "mask_rank m (Suc i) = mask_rank m i + (if bit m i then 1 else 0)"

lemma test_bit_shift: "drop_bit i x AND 1 \<noteq> 0 \<longleftrightarrow> bit x i" for x :: "'a::len word"
  using and_bit_tests(1) [of "drop_bit i x"] by (simp add: bit_drop_bit_eq)

lemma mask_rank_mono: "i \<le> j \<Longrightarrow> mask_rank m i \<le> mask_rank m j"
  by (induction j) (auto simp: le_Suc_eq)

lemma mask_rank_less: "i < j \<Longrightarrow> bit m i \<Longrightarrow> mask_rank m i < mask_rank m j"
  using mask_rank_mono [of "Suc i" j m] by simp

lemma mask_rank_inj: "bit m i \<Longrightarrow> bit m j \<Longrightarrow> mask_rank m i = mask_rank m j \<Longrightarrow> i = j"
  by (metis mask_rank_less nat_neq_iff)

lemma mask_rank_surj: "k < mask_rank m n \<Longrightarrow> \<exists>i<n. bit m i \<and> mask_rank m i = k"
  by (induction n) (auto simp: less_Suc_eq split: if_splits)

lemma mask_rank_le: "mask_rank m n \<le> n"
  by (induction n) auto

lemma bext_body_step:
  "bext_body x m i (r, j) =
    (if bit m i then (if bit x i then r OR push_bit j 1 else r, Suc j) else (r, j))"
  "bdep_body x m i (r, j) =
    (if bit m i then (if bit x j then r OR push_bit i 1 else r, Suc j) else (r, j))"
  by (simp_all add: bext_body_def bdep_body_def test_bit_shift)

lemma bext_loop:
  fixes x m :: "'a::len word"
  assumes "n \<le> LENGTH('a)"
  shows "snd (fold (bext_body x m) [0..<n] (0, 0)) = mask_rank m n \<and>
    (\<forall>k. bit (fst (fold (bext_body x m) [0..<n] (0, 0))) k \<longleftrightarrow>
      (\<exists>i<n. bit m i \<and> mask_rank m i = k \<and> bit x i))"
  using assms
proof (induction n)
  case 0
  then show ?case by simp
next
  case (Suc n)
  obtain r j where rj: "fold (bext_body x m) [0..<n] (0, 0) = (r, j)" by fastforce
  have "j \<le> n" using Suc rj mask_rank_le [of m n] by simp
  then have "bit (push_bit j 1 :: 'a word) k \<longleftrightarrow> k = j" for k
    using Suc.prems by (auto simp: bit_simps)
  then show ?case
    using Suc rj by (auto simp: bext_body_step bit_or_iff less_Suc_eq)
qed

lemma bdep_loop:
  fixes x m :: "'a::len word"
  assumes "n \<le> LENGTH('a)"
  shows "snd (fold (bdep_body x m) [0..<n] (0, 0)) = mask_rank m n \<and>
    (\<forall>k. bit (fst (fold (bdep_body x m) [0..<n] (0, 0))) k \<longleftrightarrow>
      k < n \<and> bit m k \<and> bit x (mask_rank m k))"
  using assms
proof (induction n)
  case 0
  then show ?case by simp
next
  case (Suc n)
  obtain r j where rj: "fold (bdep_body x m) [0..<n] (0, 0) = (r, j)" by fastforce
  have "bit (push_bit n 1 :: 'a word) k \<longleftrightarrow> k = n" for k
    using Suc.prems by (auto simp: bit_simps)
  then show ?case
    using Suc rj by (auto simp: bext_body_step bit_or_iff less_Suc_eq)
qed

lemma doBEXT_bit [bit_rules]:
  "bit (doBEXT32 x m) k \<longleftrightarrow> (\<exists>i<32. bit m i \<and> mask_rank m i = k \<and> bit x i)"
  "bit (doBEXT64 y l) k \<longleftrightarrow> (\<exists>i<64. bit l i \<and> mask_rank l i = k \<and> bit y i)"
  using bext_loop [of 32 x m] bext_loop [of 64 y l] by (simp_all add: doBEXT32_def doBEXT64_def)

lemma doBDEP_bit [bit_rules]:
  "bit (doBDEP32 x m) k \<longleftrightarrow> k < 32 \<and> bit m k \<and> bit x (mask_rank m k)"
  "bit (doBDEP64 y l) k \<longleftrightarrow> k < 64 \<and> bit l k \<and> bit y (mask_rank l k)"
  using bdep_loop [of 32 x m] bdep_loop [of 64 y l] by (simp_all add: doBDEP32_def doBDEP64_def)

text \<open>C30: Depositing the extracted bits under the same mask gives back the masked source, and
  extracting the deposited bits gives back as many low source bits as the mask has bits, at both
  register widths.\<close>

theorem bext_bdep_roundtrip:
  "doBDEP32 (doBEXT32 x m) m = x AND m \<and>
   doBEXT32 (doBDEP32 x m) m = take_bit (mask_rank m 32) x \<and>
   doBDEP64 (doBEXT64 y l) l = y AND l \<and>
   doBEXT64 (doBDEP64 y l) l = take_bit (mask_rank l 64) y"
proof (intro conjI)
  show "doBDEP32 (doBEXT32 x m) m = x AND m" "doBDEP64 (doBEXT64 y l) l = y AND l"
    by (rule bit_word_eqI, auto simp: bit_rules bit_and_iff dest: mask_rank_inj)+
  show "doBEXT32 (doBDEP32 x m) m = take_bit (mask_rank m 32) x"
    "doBEXT64 (doBDEP64 y l) l = take_bit (mask_rank l 64) y"
    by (rule bit_word_eqI, auto simp: bit_rules bit_take_bit_iff intro: mask_rank_less dest: mask_rank_surj)+
qed

section \<open>Funnel shifts and rotates\<close>

lemma doROL_rotl:
  "doROL32 x s = word_rotl (unat s mod 32) x" "doROL64 y t = word_rotl (unat t mod 64) y"
  using rotl_shifts [of "unat s mod 32" x] rotl_shifts [of "unat t mod 64" y]
  by (simp_all add: doROL32_def doROL64_def unat_and_low)

lemma funnel_left:
  fixes A B :: "'a::len word"
  assumes "s < LENGTH('a)" "n < LENGTH('a)"
  shows "bit (if s \<noteq> 0 then push_bit s A OR drop_bit (LENGTH('a) - s) B else A) n \<longleftrightarrow>
    (if s \<le> n then bit A (n - s) else bit B (LENGTH('a) + n - s))"
  using assms by (auto simp: bit_simps dest: bit_imp_le_length)

lemma funnel_right:
  fixes A B :: "'a::len word"
  assumes "s < LENGTH('a)" "n < LENGTH('a)"
  shows "bit (if s \<noteq> 0 then drop_bit s A OR push_bit (LENGTH('a) - s) B else A) n \<longleftrightarrow>
    (if n + s < LENGTH('a) then bit A (n + s) else bit B (n + s - LENGTH('a)))"
  using assms by (auto simp: bit_simps add.commute dest: bit_imp_le_length)

lemma pair_bit:
  fixes a b :: "'a::len word"
  assumes "LENGTH('b::len) = 2 * LENGTH('a)" and "k < 2 * LENGTH('a)"
  shows "bit (word_cat a b :: 'b word) k \<longleftrightarrow>
    (if k < LENGTH('a) then bit b k else bit a (k - LENGTH('a)))"
  using assms by (auto simp: bit_word_cat_iff)

lemma pair_rotl_high:
  fixes a b :: "'a::len word" and s :: nat
  assumes len: "LENGTH('b::len) = 2 * LENGTH('a)" and n: "n < LENGTH('a)"
  defines "t \<equiv> s mod (2 * LENGTH('a))"
  shows "bit (ucast (drop_bit LENGTH('a) (word_rotl s (word_cat a b :: 'b word))) :: 'a word) n \<longleftrightarrow>
    (if t < LENGTH('a) then (if t \<le> n then bit a (n - t) else bit b (LENGTH('a) + n - t))
     else (if t - LENGTH('a) \<le> n then bit b (n - (t - LENGTH('a)))
       else bit a (LENGTH('a) + n - (t - LENGTH('a)))))"
proof -
  define L where "L = LENGTH('a)"
  define k where "k = (L + n + (2 * L - t)) mod (2 * L)"
  have t: "t < 2 * L" unfolding t_def L_def by simp
  have k: "k = (if t \<le> L + n then L + n - t else 2 * L + L + n - t)"
    using t n unfolding k_def L_def by (auto simp: mod_if)
  have k2: "k < 2 * L" using n unfolding k_def L_def by simp
  have e1: "bit (ucast (drop_bit L (word_rotl s (word_cat a b :: 'b word))) :: 'a word) n \<longleftrightarrow>
      bit (word_cat a b :: 'b word) k"
    using n len unfolding k_def t_def L_def by (simp add: bit_simps)
  have e2: "bit (word_cat a b :: 'b word) k \<longleftrightarrow> (if k < L then bit b k else bit a (k - L))"
    using pair_bit [OF len k2 [unfolded L_def]] unfolding L_def by simp
  have c1: "(k < L) = False" "k - L = n - t" if "t < L" "t \<le> n"
    using that k by (auto simp: mult_2 add.commute split: if_splits)
  have c2: "(k < L) = True" "bit b k = bit b (L + n - t)" if "t < L" "\<not> t \<le> n"
    using that k by (auto simp: mult_2 add.commute split: if_splits)
  have c3: "(k < L) = True" "bit b k = bit b (n - (t - L))" if "\<not> t < L" "t - L \<le> n"
    using that k n [folded L_def] by (auto simp: mult_2 add.commute split: if_splits)
  have c4: "(k < L) = False" "k - L = L + n - (t - L)" if "\<not> t < L" "\<not> t - L \<le> n"
    using that k t by (auto simp: mult_2 add.commute split: if_splits)
  show ?thesis
    unfolding L_def [symmetric] e1 e2
  proof (cases "t < L")
    case a: True
    show "(if k < L then bit b k else bit a (k - L)) = (if t < L then (if t \<le> n then bit a (n - t) else bit b (L + n - t))
     else (if t - L \<le> n then bit b (n - (t - L)) else bit a (L + n - (t - L))))"
      by (cases "t \<le> n") (simp_all only: a c1 c2 if_True if_False not_False_eq_True)
  next
    case a: False
    show "(if k < L then bit b k else bit a (k - L)) = (if t < L then (if t \<le> n then bit a (n - t) else bit b (L + n - t))
     else (if t - L \<le> n then bit b (n - (t - L)) else bit a (L + n - (t - L))))"
      by (cases "t - L \<le> n") (simp_all only: a c3 c4 if_True if_False not_False_eq_True)
  qed
qed

lemma pair_rotr_low:
  fixes a b :: "'a::len word" and s :: nat
  assumes len: "LENGTH('b::len) = 2 * LENGTH('a)" and n: "n < LENGTH('a)"
  defines "t \<equiv> s mod (2 * LENGTH('a))"
  shows "bit (ucast (word_rotr s (word_cat b a :: 'b word)) :: 'a word) n \<longleftrightarrow>
    (if t < LENGTH('a) then (if n + t < LENGTH('a) then bit a (n + t) else bit b (n + t - LENGTH('a)))
     else (if n + (t - LENGTH('a)) < LENGTH('a) then bit b (n + (t - LENGTH('a)))
       else bit a (n + (t - LENGTH('a)) - LENGTH('a))))"
proof -
  define L where "L = LENGTH('a)"
  define k where "k = (n + t) mod (2 * L)"
  have t: "t < 2 * L" unfolding t_def L_def by simp
  have k: "k = (if n + t < 2 * L then n + t else n + t - 2 * L)"
    using t n unfolding k_def L_def by (auto simp: mod_if)
  have k2: "k < 2 * L" using n unfolding k_def L_def by simp
  have e1: "bit (ucast (word_rotr s (word_cat b a :: 'b word)) :: 'a word) n \<longleftrightarrow>
      bit (word_cat b a :: 'b word) k"
    using n len unfolding k_def t_def L_def by (simp add: bit_simps mod_add_right_eq)
  have e2: "bit (word_cat b a :: 'b word) k \<longleftrightarrow> (if k < L then bit a k else bit b (k - L))"
    using pair_bit [OF len k2 [unfolded L_def]] unfolding L_def by simp
  have c1: "(k < L) = True" "bit a k = bit a (n + t)" if "t < L" "n + t < L"
    using that k by (auto simp: mult_2 add.commute split: if_splits)
  have c2: "(k < L) = False" "k - L = n + t - L" if "t < L" "\<not> n + t < L"
    using that k n [folded L_def] by (auto simp: mult_2 add.commute split: if_splits)
  have c3: "(k < L) = False" "k - L = n + (t - L)" if "\<not> t < L" "n + (t - L) < L"
    using that k by (auto simp: mult_2 add.commute split: if_splits)
  have c4: "(k < L) = True" "bit a k = bit a (n + (t - L) - L)" if "\<not> t < L" "\<not> n + (t - L) < L"
    using that k t n [folded L_def] by (auto simp: mult_2 add.commute split: if_splits)
  show ?thesis
    unfolding L_def [symmetric] e1 e2
  proof (cases "t < L")
    case a: True
    show "(if k < L then bit a k else bit b (k - L)) = (if t < L then (if n + t < L then bit a (n + t) else bit b (n + t - L))
     else (if n + (t - L) < L then bit b (n + (t - L)) else bit a (n + (t - L) - L)))"
      by (cases "n + t < L") (simp_all only: a c1 c2 if_True if_False not_False_eq_True)
  next
    case a: False
    show "(if k < L then bit a k else bit b (k - L)) = (if t < L then (if n + t < L then bit a (n + t) else bit b (n + t - L))
     else (if n + (t - L) < L then bit b (n + (t - L)) else bit a (n + (t - L) - L)))"
      by (cases "n + (t - L) < L") (simp_all only: a c3 c4 if_True if_False not_False_eq_True)
  qed
qed

definition funnel :: "('a::len word \<Rightarrow> nat \<Rightarrow> 'a word \<Rightarrow> 'a word) \<Rightarrow> 'a word \<Rightarrow> nat \<Rightarrow> 'a word \<Rightarrow> 'a word" where
  "funnel f a t b = (if LENGTH('a) \<le> t then f b (t - LENGTH('a)) a else f a t b)"

lemma funnel_left_rotates:
  fixes a b :: "'a::len word" and s :: nat
  assumes len: "LENGTH('b::len) = 2 * LENGTH('a)"
  shows "funnel (\<lambda>A t B. if t \<noteq> 0 then push_bit t A OR drop_bit (LENGTH('a) - t) B else A)
      a (s mod (2 * LENGTH('a))) b =
    ucast (drop_bit LENGTH('a) (word_rotl s (word_cat a b :: 'b word)))" (is "?l = ?r")
proof (rule bit_word_eqI)
  fix n assume n: "n < LENGTH('a)"
  define t where "t = s mod (2 * LENGTH('a))"
  have "t < 2 * LENGTH('a)" by (simp add: t_def)
  then show "bit ?l n = bit ?r n"
    unfolding pair_rotl_high [OF len n, of s a b] t_def [symmetric] funnel_def
    using funnel_left [OF _ n, of t a b] funnel_left [OF _ n, of "t - LENGTH('a)" b a] by auto
qed

lemma funnel_right_rotates:
  fixes a b :: "'a::len word" and s :: nat
  assumes len: "LENGTH('b::len) = 2 * LENGTH('a)"
  shows "funnel (\<lambda>A t B. if t \<noteq> 0 then drop_bit t A OR push_bit (LENGTH('a) - t) B else A)
      a (s mod (2 * LENGTH('a))) b =
    ucast (word_rotr s (word_cat b a :: 'b word))" (is "?l = ?r")
proof (rule bit_word_eqI)
  fix n assume n: "n < LENGTH('a)"
  define t where "t = s mod (2 * LENGTH('a))"
  have "t < 2 * LENGTH('a)" by (simp add: t_def)
  then show "bit ?l n = bit ?r n"
    unfolding pair_rotr_low [OF len n, of s b a] t_def [symmetric] funnel_def
    using funnel_right [OF _ n, of t a b] funnel_right [OF _ n, of "t - LENGTH('a)" b a] by auto
qed

lemma doFSL_funnel:
  "doFSL32 a s b = funnel (\<lambda>A t B. if t \<noteq> 0 then push_bit t A OR drop_bit (LENGTH(32) - t) B else A)
      a (unat s mod (2 * LENGTH(32))) b"
  "doFSL64 c s d = funnel (\<lambda>A t B. if t \<noteq> 0 then push_bit t A OR drop_bit (LENGTH(64) - t) B else A)
      c (unat s mod (2 * LENGTH(64))) d"
  "doFSR32 a s b = funnel (\<lambda>A t B. if t \<noteq> 0 then drop_bit t A OR push_bit (LENGTH(32) - t) B else A)
      a (unat s mod (2 * LENGTH(32))) b"
  "doFSR64 c s d = funnel (\<lambda>A t B. if t \<noteq> 0 then drop_bit t A OR push_bit (LENGTH(64) - t) B else A)
      c (unat s mod (2 * LENGTH(64))) d"
  by (simp_all add: doFSL32_def doFSL64_def doFSR32_def doFSR64_def funnel_def unat_and_low Let_def
      del: One_nat_def)

text \<open>A funnel shift is a rotation of the double-width pair of its operands: FSL returns the high
  half of the left rotation, FSR the low half of the right rotation, for every shift amount and
  at both widths.\<close>

theorem funnel_shift_rotates_pair:
  "doFSL32 a s b = ucast (drop_bit 32 (word_rotl (unat s) (word_cat a b :: 64 word))) \<and>
   doFSL64 c s d = ucast (drop_bit 64 (word_rotl (unat s) (word_cat c d :: 128 word))) \<and>
   doFSR32 a s b = ucast (word_rotr (unat s) (word_cat b a :: 64 word)) \<and>
   doFSR64 c s d = ucast (word_rotr (unat s) (word_cat d c :: 128 word))"
  unfolding doFSL_funnel
  using funnel_left_rotates [where 'a = 32 and 'b = 64] funnel_left_rotates [where 'a = 64 and 'b = 128]
    funnel_right_rotates [where 'a = 32 and 'b = 64] funnel_right_rotates [where 'a = 64 and 'b = 128]
  by simp

section \<open>Bit-field place\<close>

definition bfp_length :: "nat \<Rightarrow> 'a::len word \<Rightarrow> nat" where
  "bfp_length d l = (if l = 0 then d else unat l)"

lemma bfp_place_bit:
  fixes m rs2 rs1 :: "'a::len word"
  assumes "\<And>k. bit m k \<longleftrightarrow> k < len" and "n < LENGTH('a)"
  shows "bit ((push_bit off rs2 AND push_bit off m) OR (rs1 AND NOT (push_bit off m))) n \<longleftrightarrow>
    (if off \<le> n \<and> n < off + len then bit rs2 (n - off) else bit rs1 n)"
proof -
  have "bit (push_bit off m) n \<longleftrightarrow> off \<le> n \<and> n < off + len"
  proof (cases "off \<le> n")
    case True
    then show ?thesis
      using assms(2) by (simp add: bit_push_bit_iff assms(1) less_diff_conv2 add.commute)
  qed (simp add: bit_push_bit_iff)
  moreover have "off \<le> n \<Longrightarrow> bit (push_bit off rs2) n \<longleftrightarrow> bit rs2 (n - off)"
    using assms(2) by (simp add: bit_push_bit_iff)
  ultimately show ?thesis
    using assms(2) by (auto simp: bit_or_iff bit_and_iff bit_not_iff)
qed

lemma doSLO_0_bit:
  "unat l < 32 \<Longrightarrow> bit (doSLO32 0 l) n \<longleftrightarrow> n < unat l" 
  "unat k < 64 \<Longrightarrow> bit (doSLO64 0 k) n \<longleftrightarrow> n < unat k"
  by (auto simp: doSLO32_def doSLO64_def unat_and_low bit_simps)

text \<open>The value of a field placed at offset \<open>off\<close>, bits beyond the top discarded.\<close>

definition place_field :: "nat \<Rightarrow> nat \<Rightarrow> 'a::len word \<Rightarrow> 'a word \<Rightarrow> nat \<Rightarrow> bool" where
  "place_field off len data base n =
    (if off \<le> n \<and> n < off + len then bit data (n - off) else bit base n)"

text \<open>Field configurations of version 0.92: offset and length, with zero length standing for
  half the register width.\<close>

definition bfp_cfg32 :: "Uns32 \<Rightarrow> nat \<times> nat" where
  "bfp_cfg32 rs2 = (unat (drop_bit 16 rs2 AND 31), bfp_length 16 (drop_bit 24 rs2 AND 15))"

definition bfp_cfg64 :: "Uns64 \<Rightarrow> nat \<times> nat" where
  "bfp_cfg64 rs2 =
    (let s = (if drop_bit 62 rs2 = 2 then 48 else 32)
     in (unat (drop_bit s rs2 AND 63), bfp_length 32 (drop_bit (s + 8) rs2 AND 31)))"

lemma bfp_length_small:
  "unat (if l AND 15 \<noteq> 0 then l AND 15 else 16) < 32" "unat (if k AND 31 \<noteq> 0 then k AND 31 else 32) < 64"
  "unat (if k AND 15 \<noteq> 0 then k AND 15 else 16) < 64"
  for l :: Uns32 and k :: Uns64
proof -
  have "unat (l AND 15) \<le> 15" "unat (k AND 31) \<le> 31" "unat (k AND 15) \<le> 15"
    using word_and_le1 [of l 15] word_and_le1 [of k 31] word_and_le1 [of k 15]
    by (simp_all add: word_le_nat_alt)
  then show "unat (if l AND 15 \<noteq> 0 then l AND 15 else 16) < 32"
    "unat (if k AND 31 \<noteq> 0 then k AND 31 else 32) < 64"
    "unat (if k AND 15 \<noteq> 0 then k AND 15 else 16) < 64" by simp_all
qed

lemma bfp92_32_bit:
  assumes "n < 32"
  shows "bit (doBFP92_32 rs1 rs2) n \<longleftrightarrow>
    (case bfp_cfg32 rs2 of (off, len) \<Rightarrow> place_field off len rs2 rs1 n)"
proof -
  define l where "l = (if drop_bit 24 rs2 AND 15 \<noteq> 0 then drop_bit 24 rs2 AND 15 else 16)"
  define off where "off = unat (drop_bit 16 rs2 AND 31)"
  have "doBFP92_32 rs1 rs2 = (push_bit off rs2 AND push_bit off (doSLO32 0 l)) OR
      (rs1 AND NOT (push_bit off (doSLO32 0 l)))"
    by (simp add: doBFP92_32_def Let_def off_def l_def drop_bit_drop_bit)
  moreover have "bfp_cfg32 rs2 = (off, unat l)"
    by (simp add: bfp_cfg32_def off_def l_def bfp_length_def)
  moreover have "bit (doSLO32 0 l) k \<longleftrightarrow> k < unat l" for k
    using doSLO_0_bit(1) [of l] bfp_length_small(1) [of "drop_bit 24 rs2"] by (simp add: l_def)
  ultimately show ?thesis
    using bfp_place_bit [where m = "doSLO32 0 l"] assms by (simp add: place_field_def)
qed

lemma bfp92_64_bit:
  assumes "n < 64"
  shows "bit (doBFP92_64 rs1 rs2) n \<longleftrightarrow>
    (case bfp_cfg64 rs2 of (off, len) \<Rightarrow> place_field off len rs2 rs1 n)"
proof -
  define s :: nat where "s = (if drop_bit 62 rs2 = 2 then 48 else 32)"
  define l where "l = (if drop_bit (s + 8) rs2 AND 31 \<noteq> 0 then drop_bit (s + 8) rs2 AND 31 else 32)"
  define off where "off = unat (drop_bit s rs2 AND 63)"
  have "doBFP92_64 rs1 rs2 = (push_bit off rs2 AND push_bit off (doSLO64 0 l)) OR
      (rs1 AND NOT (push_bit off (doSLO64 0 l)))"
    by (simp add: doBFP92_64_def Let_def off_def l_def s_def drop_bit_drop_bit)
  moreover have "bfp_cfg64 rs2 = (off, unat l)"
    by (simp add: bfp_cfg64_def off_def l_def s_def bfp_length_def Let_def)
  moreover have "bit (doSLO64 0 l) k \<longleftrightarrow> k < unat l" for k
    using doSLO_0_bit(2) [of l] bfp_length_small(2) [of "drop_bit (s + 8) rs2"] by (simp add: l_def)
  ultimately show ?thesis
    using bfp_place_bit [where m = "doSLO64 0 l"] assms by (simp add: place_field_def)
qed

lemma bfp91_rotated_bit:
  fixes rs1 rs2 :: Uns32 and rs1' rs2' :: Uns64
  shows "n < 32 \<Longrightarrow> bit (word_rotr (unat (drop_bit 16 rs2 AND 31)) (doBFP91_32 rs1 rs2)) n \<longleftrightarrow>
      place_field 0 (bfp_length 16 (drop_bit 24 rs2 AND 15)) rs2
        (word_rotr (unat (drop_bit 16 rs2 AND 31)) rs1) n"
    and "k < 64 \<Longrightarrow> bit (word_rotr (unat (drop_bit 16 rs2' AND 63)) (doBFP91_64 rs1' rs2')) k \<longleftrightarrow>
      place_field 0 (bfp_length 16 (drop_bit 24 rs2' AND 15)) rs2'
        (word_rotr (unat (drop_bit 16 rs2' AND 63)) rs1') k"
  using doSLO_0_bit(1) [OF bfp_length_small(1) [of "drop_bit 24 rs2"]]
    doSLO_0_bit(2) [OF bfp_length_small(3) [of "drop_bit 24 rs2'"]]
  by (auto simp: doBFP91_32_def doBFP91_64_def Let_def doROL_rotl unat_and_low word_rot_logs
      place_field_def bfp_length_def bit_or_iff bit_and_iff bit_not_iff)

text \<open>BFP replaces exactly the configured field of its first operand by the low bits of its
  second: version 0.92 at the offset with bits beyond the register discarded, version 0.91 in
  the register rotated by the offset.\<close>

theorem bfp_places_field:
  "(n < 32 \<longrightarrow> bit (doBFP92_32 a b) n = (case bfp_cfg32 b of (off, len) \<Rightarrow> place_field off len b a n)) \<and>
   (n < 64 \<longrightarrow> bit (doBFP92_64 c d) n = (case bfp_cfg64 d of (off, len) \<Rightarrow> place_field off len d c n)) \<and>
   (n < 32 \<longrightarrow> bit (word_rotr (unat (drop_bit 16 b AND 31)) (doBFP91_32 a b)) n =
      place_field 0 (bfp_length 16 (drop_bit 24 b AND 15)) b (word_rotr (unat (drop_bit 16 b AND 31)) a) n) \<and>
   (n < 64 \<longrightarrow> bit (word_rotr (unat (drop_bit 16 d AND 63)) (doBFP91_64 c d)) n =
      place_field 0 (bfp_length 16 (drop_bit 24 d AND 15)) d (word_rotr (unat (drop_bit 16 d AND 63)) c) n)"
  by (intro conjI impI bfp92_32_bit bfp92_64_bit bfp91_rotated_bit)

theorem bfp_places_field_witness:
  "bit (doBFP92_32 0 0x0804000F) 7 \<and> \<not> bit (doBFP92_32 0 0x0804000F) 8"
  using bfp_places_field [of 7 0 "0x0804000F" 0 0] bfp_places_field [of 8 0 "0x0804000F" 0 0]
  by (simp add: bfp_cfg32_def place_field_def bfp_length_def)


section \<open>CRC32\<close>

lemma crc_select: "NOT ((x AND 1) - 1) = (if bit x 0 then - 1 else 0)" for x :: "'a::len word"
proof -
  have "x AND 1 = of_bool (bit x 0)" by (simp add: and_one_eq odd_iff_mod_2_eq_one bit_0)
  then show ?thesis by simp
qed

lemma crc_step32:
  "doCRC32_32 x c (Suc n) = doCRC32_32 (drop_bit 1 x XOR (if bit x 0 then c else 0)) c n"
  by (simp add: crc_select del: One_nat_def)

lemma crc_step64:
  "doCRC32_64 x c (Suc n) = doCRC32_64 (drop_bit 1 x XOR (if bit x 0 then ucast c else 0)) c n"
  by (simp add: crc_select del: One_nat_def)

declare doCRC32_32.simps(2) [simp del] doCRC32_64.simps(2) [simp del]

lemma crc_linear:
  "doCRC32_32 (x XOR y) c n = doCRC32_32 x c n XOR doCRC32_32 y c n"
  "doCRC32_64 (u XOR v) c n = doCRC32_64 u c n XOR doCRC32_64 v c n"
proof -
  show "doCRC32_32 (x XOR y) c n = doCRC32_32 x c n XOR doCRC32_32 y c n"
  proof (induction n arbitrary: x y)
    case (Suc n)
    have "drop_bit 1 (x XOR y) XOR (if bit (x XOR y) 0 then c else 0) =
      (drop_bit 1 x XOR (if bit x 0 then c else 0)) XOR (drop_bit 1 y XOR (if bit y 0 then c else 0))"
      by (rule bit_word_eqI) (auto simp: bit_simps)
    then show ?case by (simp only: crc_step32 Suc)
  qed simp
  show "doCRC32_64 (u XOR v) c n = doCRC32_64 u c n XOR doCRC32_64 v c n"
  proof (induction n arbitrary: u v)
    case (Suc n)
    have "drop_bit 1 (u XOR v) XOR (if bit (u XOR v) 0 then ucast c else 0) =
      (drop_bit 1 u XOR (if bit u 0 then ucast c else 0)) XOR (drop_bit 1 v XOR (if bit v 0 then ucast c else 0))"
      by (rule bit_word_eqI) (auto simp: bit_simps)
    then show ?case by (simp only: crc_step64 Suc)
  qed simp
qed

lemma crc_shift:
  "(\<And>k. k < n \<Longrightarrow> \<not> bit x k) \<Longrightarrow> doCRC32_32 x c n = drop_bit n x"
  "(\<And>k. k < n \<Longrightarrow> \<not> bit u k) \<Longrightarrow> doCRC32_64 u c n = drop_bit n u"
proof -
  show "(\<And>k. k < n \<Longrightarrow> \<not> bit x k) \<Longrightarrow> doCRC32_32 x c n = drop_bit n x"
    by (induction n arbitrary: x) (simp_all add: crc_step32 bit_drop_bit_eq drop_bit_drop_bit)
  show "(\<And>k. k < n \<Longrightarrow> \<not> bit u k) \<Longrightarrow> doCRC32_64 u c n = drop_bit n u"
    by (induction n arbitrary: u) (simp_all add: crc_step64 bit_drop_bit_eq drop_bit_drop_bit)
qed

lemma word_high_low: "x = push_bit n (drop_bit n x) XOR take_bit n x" for x :: "'a::len word"
  by (rule bit_word_eqI) (auto simp: bit_simps)

lemma drop_push_drop: "drop_bit n (push_bit n (drop_bit n x)) = drop_bit n x" for x :: "'a::len word"
  by (rule bit_word_eqI) (auto simp: bit_simps dest: bit_imp_le_length)

text \<open>The bit-serial CRC step loop satisfies the identity behind table-driven CRC: processing
  \<open>n\<close> bits is shifting by \<open>n\<close> and adding the CRC of the low
  \<open>n\<close> bits, for every generator constant and count.\<close>

theorem crc32_table_driven:
  "doCRC32_32 x c n = drop_bit n x XOR doCRC32_32 (take_bit n x) c n \<and>
   doCRC32_64 u c n = drop_bit n u XOR doCRC32_64 (take_bit n u) c n"
proof -
  have "doCRC32_32 (push_bit n (drop_bit n x)) c n = drop_bit n x"
    using crc_shift(1) [of n "push_bit n (drop_bit n x)"] by (simp add: bit_push_bit_iff drop_push_drop)
  moreover have "doCRC32_64 (push_bit n (drop_bit n u)) c n = drop_bit n u"
    using crc_shift(2) [of n "push_bit n (drop_bit n u)"] by (simp add: bit_push_bit_iff drop_push_drop)
  ultimately show ?thesis
    using crc_linear(1) [of "push_bit n (drop_bit n x)" "take_bit n x"]
      crc_linear(2) [of "push_bit n (drop_bit n u)" "take_bit n u"]
    by (simp flip: word_high_low)
qed

section \<open>Crossbar permutation\<close>

text \<open>The contract of the crossbar permutation, bit by bit: bit \<open>n\<close> lies in lane \<open>n div sz\<close>,
  whose selector is read from \<open>rs2\<close>.\<close>

definition xperm_bit :: "'a::len word \<Rightarrow> nat \<Rightarrow> 'a word \<Rightarrow> 'a word \<Rightarrow> nat \<Rightarrow> bool" where
  "xperm_bit rs1 sz rs2 msk n =
    (let pos = unat ((drop_bit (n div sz * sz) rs2 AND msk) * of_nat sz)
     in pos < LENGTH('a) \<and> bit rs1 (pos + n mod sz))"

lemma xperm_lane_bit:
  fixes rs1 :: "'a::len word"
  assumes "sz > 0" "n < LENGTH('a)"
  shows "bit (push_bit (k * sz) (drop_bit p rs1 AND mask sz)) n \<longleftrightarrow>
    n div sz = k \<and> bit rs1 (p + n mod sz)"
proof -
  have "k * sz \<le> n \<and> n - k * sz < sz \<longleftrightarrow> n div sz = k"
    using assms(1) div_nat_eqI [of sz k n] div_times_less_eq_dividend [of n sz]
      dividend_less_div_times [of sz n] by (auto simp: less_diff_conv2 mult.commute add.commute)
  moreover have "n div sz = k \<Longrightarrow> n - k * sz = n mod sz"
    by (auto simp: minus_div_mult_eq_mod)
  ultimately show ?thesis
    using assms by (auto simp: bit_push_bit_iff bit_and_iff bit_mask_iff bit_drop_bit_eq)
qed

lemma xperm_loop_bits:
  fixes rs1 rs2 r :: "'a::len word"
  assumes sz: "sz > 0" and N: "k + m = N" "N * sz = LENGTH('a)"
  shows "\<exists>r'. xperm_loop rs1 sz rs2 (mask sz) (k * sz) r = Some r' \<and>
    (\<forall>n<LENGTH('a). bit r' n \<longleftrightarrow> bit r n \<or> (k \<le> n div sz \<and> xperm_bit rs1 sz rs2 (mask sz) n))"
  using N
proof (induction m arbitrary: k r)
  case 0
  have "n < LENGTH('a) \<Longrightarrow> \<not> k \<le> n div sz" for n
    using 0 sz by (simp add: div_less_iff_less_mult not_le)
  with 0 show ?case by (subst xperm_loop.simps) auto
next
  case (Suc m)
  define pos where "pos = (drop_bit (k * sz) rs2 AND mask sz) * of_nat sz"
  define r1 where "r1 = (if unat pos < LENGTH('a)
    then r OR push_bit (k * sz) (drop_bit (unat pos) rs1 AND mask sz) else r)"
  have "k * sz < N * sz" using Suc.prems sz by (intro mult_strict_right_mono) auto
  then have "xperm_loop rs1 sz rs2 (mask sz) (k * sz) r = xperm_loop rs1 sz rs2 (mask sz) (Suc k * sz) r1"
    using Suc.prems by (subst xperm_loop.simps) (simp add: pos_def r1_def Let_def add.commute)
  moreover have "bit r1 n \<longleftrightarrow> bit r n \<or> (n div sz = k \<and> xperm_bit rs1 sz rs2 (mask sz) n)"
    if "n < LENGTH('a)" for n
    using xperm_lane_bit [OF sz that, of k "unat pos" rs1] that
    by (auto simp: r1_def xperm_bit_def pos_def Let_def bit_or_iff)
  moreover obtain r' where "xperm_loop rs1 sz rs2 (mask sz) (Suc k * sz) r1 = Some r'"
    and "\<forall>n<LENGTH('a). bit r' n \<longleftrightarrow> bit r1 n \<or>
      (Suc k \<le> n div sz \<and> xperm_bit rs1 sz rs2 (mask sz) n)"
    using Suc.IH [of "Suc k" r1] Suc.prems by auto
  ultimately show ?case by (auto simp: Suc_le_eq le_eq_less_or_eq)
qed

definition lane :: "nat \<Rightarrow> nat \<Rightarrow> 'a::len word \<Rightarrow> 'a word" where
  "lane sz k x = take_bit sz (drop_bit (k * sz) x)"

lemma xperm_bit_lane:
  fixes rs1 :: "'a::len word"
  assumes sz: "sz > 0" and wrap: "2 ^ sz * sz < 2 ^ LENGTH('a)"
    and j: "j = unat (lane sz (n div sz) rs2)"
  shows "xperm_bit rs1 sz rs2 (mask sz) n \<longleftrightarrow> j * sz < LENGTH('a) \<and> bit rs1 (j * sz + n mod sz)"
proof -
  have lane: "drop_bit (n div sz * sz) rs2 AND mask sz = lane sz (n div sz) rs2"
    by (simp add: lane_def take_bit_eq_mask)
  have "j < 2 ^ sz" unfolding j lane_def by (simp add: unsigned_take_bit_eq)
  then have "j * sz < 2 ^ sz * sz" using sz by simp
  then have "j * sz < 2 ^ LENGTH('a)" using wrap by (rule less_trans)
  moreover have "lane sz (n div sz) rs2 * of_nat sz = of_nat (j * sz)"
    unfolding j by simp
  ultimately have "unat (lane sz (n div sz) rs2 * of_nat sz) = j * sz"
    by (simp add: unsigned_of_nat take_bit_nat_eq_self del: of_nat_mult)
  then show ?thesis by (simp add: xperm_bit_def lane Let_def)
qed

lemma xperm_lanes:
  fixes rs1 rs2 :: "'a::len word"
  assumes sz: "sz > 0" and N: "N * sz = LENGTH('a)" and wrap: "2 ^ sz * sz < 2 ^ LENGTH('a)"
  shows "\<exists>r. xperm_loop rs1 sz rs2 (mask sz) 0 0 = Some r \<and>
    (\<forall>k<N. lane sz k r = (let j = unat (lane sz k rs2) in if j < N then lane sz j rs1 else 0))"
proof -
  obtain r where r: "xperm_loop rs1 sz rs2 (mask sz) 0 0 = Some r"
    and bits: "\<And>n. n < LENGTH('a) \<Longrightarrow> bit r n \<longleftrightarrow> xperm_bit rs1 sz rs2 (mask sz) n"
    using xperm_loop_bits [OF sz _ N, of 0 N rs1 rs2 0] by auto
  have "lane sz k r = (let j = unat (lane sz k rs2) in if j < N then lane sz j rs1 else 0)"
    if k: "k < N" for k
  proof (rule bit_word_eqI)
    fix n assume "n < LENGTH('a)"
    define j where "j = unat (lane sz k rs2)"
    have jN: "j * sz < LENGTH('a) \<longleftrightarrow> j < N" using sz by (simp flip: N)
    have "bit (lane sz k r) n \<longleftrightarrow> n < sz \<and> bit r (k * sz + n)"
      by (simp add: lane_def bit_take_bit_iff bit_drop_bit_eq)
    also have "\<dots> \<longleftrightarrow> n < sz \<and> j < N \<and> bit rs1 (j * sz + n)"
    proof (cases "n < sz")
      case True
      have "k * sz + n < (k + 1) * sz" using True by simp
      also have "\<dots> \<le> N * sz" using k by (intro mult_le_mono1) simp
      finally have "k * sz + n < LENGTH('a)" using N by simp
      then show ?thesis
        using xperm_bit_lane [OF sz wrap refl, of rs1 rs2 "k * sz + n"] True jN
        by (simp add: bits j_def)
    qed simp
    also have "\<dots> \<longleftrightarrow> bit (if j < N then lane sz j rs1 else 0) n"
      by (auto simp: lane_def bit_take_bit_iff bit_drop_bit_eq)
    finally show "bit (lane sz k r) n \<longleftrightarrow>
      bit (let j = unat (lane sz k rs2) in if j < N then lane sz j rs1 else 0) n"
      by (simp add: j_def Let_def)
  qed
  with r show ?thesis by blast
qed

lemma xperm_loop_sz0:
  fixes rs1 :: "'a::len word"
  assumes "xperm_loop rs1 sz rs2 msk i r = Some y"
  shows "sz = 0 \<longrightarrow> LENGTH('a) \<le> i"
  using assms
proof (rule xperm_loop.raw_induct [rotated])
  fix f :: "'a word \<Rightarrow> nat \<Rightarrow> 'a word \<Rightarrow> 'a word \<Rightarrow> nat \<Rightarrow> 'a word \<Rightarrow> 'a word option"
    and rs1 rs2 msk r y :: "'a word" and sz i :: nat
  assume IH: "\<And>rs1 sz rs2 msk i r y. f rs1 sz rs2 msk i r = Some y \<Longrightarrow> sz = 0 \<longrightarrow> LENGTH('a) \<le> i"
    and "(if i < LENGTH('a) then
      let pos = (drop_bit i rs2 AND msk) * of_nat sz;
          r = if unat pos < LENGTH('a) then r OR push_bit i (drop_bit (unat pos) rs1 AND msk) else r
      in f rs1 sz rs2 msk (i + sz) r else Some r) = Some y"
  then show "sz = 0 \<longrightarrow> LENGTH('a) \<le> i"
    by (cases "i < LENGTH('a)") (fastforce simp: Let_def dest!: IH)+
qed

lemma doXPERM_loop:
  "sz \<in> {4, 8, 16} \<Longrightarrow> doXPERM32 a sz b = xperm_loop a sz b (mask sz) 0 0"
  "sz \<in> {4, 8, 16, 32} \<Longrightarrow> doXPERM64 c sz d = xperm_loop c sz d (mask sz) 0 0"
  by (auto simp: doXPERM32_def doXPERM64_def Let_def mask_eq_exp_minus_1)

text \<open>C31: For the element sizes of the instruction set the crossbar loop returns, and every lane of
  the result is the lane of the first operand selected by the corresponding lane of the second,
  or zero when the selector is out of range; with element size zero it never returns.\<close>

theorem xperm_selects_lanes:
  "(sz \<in> {4, 8, 16} \<longrightarrow> (\<exists>r. doXPERM32 a sz b = Some r \<and> (\<forall>k<32 div sz.
      lane sz k r = (let j = unat (lane sz k b) in if j < 32 div sz then lane sz j a else 0)))) \<and>
   (sz \<in> {4, 8, 16, 32} \<longrightarrow> (\<exists>r. doXPERM64 c sz d = Some r \<and> (\<forall>k<64 div sz.
      lane sz k r = (let j = unat (lane sz k d) in if j < 64 div sz then lane sz j c else 0)))) \<and>
   doXPERM32 a 0 b = None \<and> doXPERM64 c 0 d = None"
proof (intro conjI impI)
  assume sz: "sz \<in> {4, 8, 16}"
  show "\<exists>r. doXPERM32 a sz b = Some r \<and> (\<forall>k<32 div sz.
      lane sz k r = (let j = unat (lane sz k b) in if j < 32 div sz then lane sz j a else 0))"
    unfolding doXPERM_loop(1) [OF sz] by (rule xperm_lanes) (use sz in auto)
next
  assume sz: "sz \<in> {4, 8, 16, 32}"
  show "\<exists>r. doXPERM64 c sz d = Some r \<and> (\<forall>k<64 div sz.
      lane sz k r = (let j = unat (lane sz k d) in if j < 64 div sz then lane sz j c else 0))"
    unfolding doXPERM_loop(2) [OF sz] by (rule xperm_lanes) (use sz in auto)
next
  show "doXPERM32 a 0 b = None" "doXPERM64 c 0 d = None"
    using xperm_loop_sz0 [where i = 0] by (fastforce simp: doXPERM32_def doXPERM64_def Let_def)+
qed

text \<open>Witness\<close>
theorem xperm_selects_lanes_witness:
  "\<exists>r. doXPERM32 0x44332211 8 0x00FF0103 = Some r \<and>
    lane 8 0 r = 0x44 \<and> lane 8 1 r = 0x22 \<and> lane 8 2 r = 0 \<and> lane 8 3 r = 0x11"
proof -
  obtain r where "doXPERM32 0x44332211 8 0x00FF0103 = Some r" and
    "\<forall>k<4. lane 8 k r = (let j = unat (lane 8 k (0x00FF0103::Uns32)) in if j < 4 then lane 8 j 0x44332211 else 0)"
    using xperm_selects_lanes [of 8 "0x44332211" "0x00FF0103" 0 0] by auto
  then show ?thesis by (simp add: all_less_upt lane_def upt_rec)
qed

end
