(* ===== verification/RV_Variant.thy ===== *)
theory RV_Variant
  imports RV_Prelude
begin

text \<open>
  Configuration data of \<^verbatim>\<open>riscvVariant.h\<close> that the extension tables read: architecture
  feature letters, specification versions and feature subsets, and the fields of the
  configuration record of \<^verbatim>\<open>riscvConfig.h\<close> that the checks use. Sets are bit masks, as
  in the source.
\<close>

type_synonym riscvArchitecture = Uns64
type_synonym riscvBitManipSet = Uns32
type_synonym riscvCryptoSet = Uns32

section \<open>Architecture features\<close>

text \<open>\<^verbatim>\<open>RISCV_FEATURE_BIT\<close> of a letter, given by its index in the alphabet.\<close>

definition RISCV_FEATURE_BIT :: "nat \<Rightarrow> riscvArchitecture" where
  "RISCV_FEATURE_BIT c = push_bit c 1"

definition ISA_B :: riscvArchitecture where "ISA_B = RISCV_FEATURE_BIT 1"
definition ISA_K :: riscvArchitecture where "ISA_K = RISCV_FEATURE_BIT 10"

text \<open>Conversion to \<^verbatim>\<open>Bool\<close> yields true for every non-zero value.\<close>

definition bitmanipEnabled :: "riscvArchitecture \<Rightarrow> bool" where
  "bitmanipEnabled currentArch \<longleftrightarrow> currentArch AND ISA_B \<noteq> 0"

definition cryptoEnabled :: "riscvArchitecture \<Rightarrow> bool" where
  "cryptoEnabled currentArch \<longleftrightarrow> currentArch AND ISA_K \<noteq> 0"

section \<open>Specification versions\<close>

datatype riscvBitManipVer =
  RVBV_0_90 | RVBV_0_91 | RVBV_0_92 | RVBV_0_93_DRAFT | RVBV_0_93 | RVBV_0_94 | RVBV_1_0_0 |
  RVBV_MASTER

datatype riscvCryptoVer =
  RVKV_0_7_2 | RVKV_0_8_1 | RVKV_0_9_0 | RVKV_0_9_2 | RVKV_1_0_0_RC1 | RVKV_1_0_0_RC5

datatype riscvVCryptoVer =
  RVKVV_0_3_0 | RVKVV_0_5_2 | RVKVV_1_0_0_RC1 | RVKVV_MASTER

text \<open>The order of the enumeration values, which the source compares with \<open>>=\<close>.\<close>

fun riscvCryptoVer_index :: "riscvCryptoVer \<Rightarrow> nat" where
  "riscvCryptoVer_index RVKV_0_7_2 = 0"
| "riscvCryptoVer_index RVKV_0_8_1 = 1"
| "riscvCryptoVer_index RVKV_0_9_0 = 2"
| "riscvCryptoVer_index RVKV_0_9_2 = 3"
| "riscvCryptoVer_index RVKV_1_0_0_RC1 = 4"
| "riscvCryptoVer_index RVKV_1_0_0_RC5 = 5"

section \<open>Feature subsets\<close>

definition RVBS_Zb_none :: riscvBitManipSet where "RVBS_Zb_none = 0"
definition RVBS_Zba :: riscvBitManipSet where "RVBS_Zba = push_bit 0 1"
definition RVBS_Zbb :: riscvBitManipSet where "RVBS_Zbb = push_bit 1 1"
definition RVBS_Zbc :: riscvBitManipSet where "RVBS_Zbc = push_bit 2 1"
definition RVBS_Zbe :: riscvBitManipSet where "RVBS_Zbe = push_bit 3 1"
definition RVBS_Zbf :: riscvBitManipSet where "RVBS_Zbf = push_bit 4 1"
definition RVBS_Zbm :: riscvBitManipSet where "RVBS_Zbm = push_bit 5 1"
definition RVBS_Zbp :: riscvBitManipSet where "RVBS_Zbp = push_bit 6 1"
definition RVBS_Zbr :: riscvBitManipSet where "RVBS_Zbr = push_bit 7 1"
definition RVBS_Zbs :: riscvBitManipSet where "RVBS_Zbs = push_bit 8 1"
definition RVBS_Zbt :: riscvBitManipSet where "RVBS_Zbt = push_bit 9 1"
definition RVBS_Zbbp :: riscvBitManipSet where "RVBS_Zbbp = RVBS_Zbb OR RVBS_Zbp"
definition RVBS_Zbmp :: riscvBitManipSet where "RVBS_Zbmp = RVBS_Zbm OR RVBS_Zbp"
definition RVBS_Zbefmp :: riscvBitManipSet where "RVBS_Zbefmp = RVBS_Zbe OR RVBS_Zbf OR RVBS_Zbm OR RVBS_Zbp"
definition RVBS_Zbefp :: riscvBitManipSet where "RVBS_Zbefp = RVBS_Zbe OR RVBS_Zbf OR RVBS_Zbp"
definition RVBS_Zbbefmp :: riscvBitManipSet where "RVBS_Zbbefmp = RVBS_Zbb OR RVBS_Zbe OR RVBS_Zbf OR RVBS_Zbm OR RVBS_Zbp"
definition RVBS_Zbbefp :: riscvBitManipSet where "RVBS_Zbbefp = RVBS_Zbb OR RVBS_Zbe OR RVBS_Zbf OR RVBS_Zbp"
definition RVBS_1_0_0 :: riscvBitManipSet where "RVBS_1_0_0 = RVBS_Zba OR RVBS_Zbb OR RVBS_Zbc OR RVBS_Zbs"

definition RVKS_Zk_none :: riscvCryptoSet where "RVKS_Zk_none = 0"
definition RVKS_Zbkb :: riscvCryptoSet where "RVKS_Zbkb = push_bit 0 1"
definition RVKS_Zbkc :: riscvCryptoSet where "RVKS_Zbkc = push_bit 1 1"
definition RVKS_Zbkx :: riscvCryptoSet where "RVKS_Zbkx = push_bit 2 1"
definition RVKS_Zkr :: riscvCryptoSet where "RVKS_Zkr = push_bit 3 1"
definition RVKS_Zknd :: riscvCryptoSet where "RVKS_Zknd = push_bit 4 1"
definition RVKS_Zkne :: riscvCryptoSet where "RVKS_Zkne = push_bit 5 1"
definition RVKS_Zknh :: riscvCryptoSet where "RVKS_Zknh = push_bit 6 1"
definition RVKS_Zksed :: riscvCryptoSet where "RVKS_Zksed = push_bit 7 1"
definition RVKS_Zksh :: riscvCryptoSet where "RVKS_Zksh = push_bit 8 1"
definition RVKS_Zkb :: riscvCryptoSet where "RVKS_Zkb = RVKS_Zbkb"
definition RVKS_Zkg :: riscvCryptoSet where "RVKS_Zkg = RVKS_Zbkc"
definition RVKS_Zvbb :: riscvCryptoSet where "RVKS_Zvbb = push_bit 9 1"
definition RVKS_Zvbc :: riscvCryptoSet where "RVKS_Zvbc = push_bit 10 1"
definition RVKS_Zvkg :: riscvCryptoSet where "RVKS_Zvkg = push_bit 11 1"
definition RVKS_Zvknha :: riscvCryptoSet where "RVKS_Zvknha = push_bit 12 1"
definition RVKS_Zvknhb :: riscvCryptoSet where "RVKS_Zvknhb = push_bit 13 1"
definition RVKS_Zvkned :: riscvCryptoSet where "RVKS_Zvkned = push_bit 14 1"
definition RVKS_Zvksed :: riscvCryptoSet where "RVKS_Zvksed = push_bit 15 1"
definition RVKS_Zvksh :: riscvCryptoSet where "RVKS_Zvksh = push_bit 16 1"
definition RVKS_Zvkb :: riscvCryptoSet where "RVKS_Zvkb = RVKS_Zvbb"

lemmas riscvBitManipSet_defs =
  RVBS_Zb_none_def RVBS_Zba_def RVBS_Zbb_def RVBS_Zbc_def RVBS_Zbe_def RVBS_Zbf_def RVBS_Zbm_def
  RVBS_Zbp_def RVBS_Zbr_def RVBS_Zbs_def RVBS_Zbt_def RVBS_Zbbp_def RVBS_Zbmp_def
  RVBS_Zbefmp_def RVBS_Zbefp_def RVBS_Zbbefmp_def RVBS_Zbbefp_def RVBS_1_0_0_def

lemmas riscvCryptoSet_defs =
  RVKS_Zk_none_def RVKS_Zbkb_def RVKS_Zbkc_def RVKS_Zbkx_def RVKS_Zkr_def RVKS_Zknd_def
  RVKS_Zkne_def RVKS_Zknh_def RVKS_Zksed_def RVKS_Zksh_def RVKS_Zkb_def RVKS_Zkg_def
  RVKS_Zvbb_def RVKS_Zvbc_def RVKS_Zvkg_def RVKS_Zvknha_def RVKS_Zvknhb_def RVKS_Zvkned_def
  RVKS_Zvksed_def RVKS_Zvksh_def RVKS_Zvkb_def

section \<open>Configuration\<close>

record riscvConfig =
  bitmanip_version :: riscvBitManipVer
  bitmanip_absent :: riscvBitManipSet
  crypto_version :: riscvCryptoVer
  vcrypto_version :: riscvVCryptoVer
  crypto_absent :: riscvCryptoSet

end
