(* ===== verification/RV_BExt_Sets.thy ===== *)
theory RV_BExt_Sets
  imports RV_Variant
begin

text \<open>
  The descriptor tables of \<^verbatim>\<open>riscvBExtension.c\<close>: for each operation and each version of the
  bit-manipulation and scalar cryptographic specifications, the feature subsets that provide
  it and the callback functions that implement it; the lookup of a callback and the check
  that an instruction is legal in the current configuration. A failing \<open>VMI_ASSERT\<close> is
  \<open>None\<close>; a row that the C initialiser leaves out is a zero row.
\<close>

section \<open>Operations\<close>

datatype riscvBExtOp =
  RVBOP_NONE | RVBOP_Zba | RVBOP_Zbb | RVBOP_Zbc | RVBOP_Zbe | RVBOP_Zbf | RVBOP_Zbm |
  RVBOP_Zbp | RVBOP_Zbr | RVBOP_Zbs | RVBOP_Zbt | RVBOP_Zbbp | RVBOP_Zbmp | RVBOP_Zbefmp |
  RVBOP_Zbefp | RVBOP_Zbkb | RVBOP_Zbkc | RVBOP_Zbkx | RVBOP_GORCI | RVBOP_REV8W |
  RVBOP_GORC | RVBOP_ORCB | RVBOP_ORC16 | RVBOP_GREV | RVBOP_REV8 | RVBOP_REV | RVBOP_CRC32 |
  RVBOP_SHFL | RVBOP_UNSHFL | RVBOP_BMATFLIP | RVBOP_BMATOR | RVBOP_BMATXOR | RVBOP_BEXT |
  RVBOP_BDEP | RVBOP_PACK | RVBOP_PACKU | RVBOP_PACKH | RVBOP_PACKW | RVBOP_PACKUW |
  RVBOP_ZEXT32_H | RVBOP_ZEXT64_H | RVBOP_FSL | RVBOP_FSR | RVBOP_BFP | RVBOP_ADD_UW |
  RVBOP_SLLI_UW | RVBOP_SLO_SRO | RVBOP_XPERM

record riscvBExtOpSet =
  opB :: riscvBExtOp
  opK :: riscvBExtOp
  opP :: riscvBExtOp

text \<open>The functions of this file that the tables hold, by name.\<close>

datatype riscvBCallback =
  CB_GORC32 | CB_GORC64 | CB_GREV32 | CB_GREV64 | CB_CRC32_32 | CB_CRC32_64 | CB_SHFL32 |
  CB_SHFL64 | CB_UNSHFL32 | CB_UNSHFL64 | CB_BMATFLIP | CB_BMATOR | CB_BMATXOR | CB_BEXT32 |
  CB_BEXT64 | CB_BDEP32 | CB_BDEP64 | CB_FSL32 | CB_FSL64 | CB_FSR32 | CB_FSR64 |
  CB_BFP91_32 | CB_BFP91_64 | CB_BFP92_32 | CB_BFP92_64 | CB_XPERM32 | CB_XPERM64

record opDescB =
  cb32 :: "riscvBCallback option"
  cb64 :: "riscvBCallback option"
  subset :: riscvBitManipSet

section \<open>Table entries\<close>

definition OPENTRYB_S :: "riscvBitManipSet \<Rightarrow> opDescB" where
  "OPENTRYB_S S = \<lparr>cb32 = None, cb64 = None, subset = S\<rparr>"

definition OPENTRYB_S_CB :: "riscvBitManipSet \<Rightarrow> riscvBCallback \<Rightarrow> riscvBCallback \<Rightarrow> opDescB" where
  "OPENTRYB_S_CB S CB32 CB64 = \<lparr>cb32 = Some CB32, cb64 = Some CB64, subset = S\<rparr>"

definition OPENTRYB_S_CB64 :: "riscvBitManipSet \<Rightarrow> riscvBCallback \<Rightarrow> opDescB" where
  "OPENTRYB_S_CB64 S CB64 = \<lparr>cb32 = None, cb64 = Some CB64, subset = S\<rparr>"

text \<open>A value per version: 0.90, 0.91, 0.92, the 0.93 draft, and 0.93 and later.\<close>

fun perVersionB :: "'a \<Rightarrow> 'a \<Rightarrow> 'a \<Rightarrow> 'a \<Rightarrow> 'a \<Rightarrow> riscvBitManipVer \<Rightarrow> 'a" where
  "perVersionB v90 v91 v92 v93d v93 RVBV_0_90 = v90"
| "perVersionB v90 v91 v92 v93d v93 RVBV_0_91 = v91"
| "perVersionB v90 v91 v92 v93d v93 RVBV_0_92 = v92"
| "perVersionB v90 v91 v92 v93d v93 RVBV_0_93_DRAFT = v93d"
| "perVersionB v90 v91 v92 v93d v93 RVBV_0_93 = v93"
| "perVersionB v90 v91 v92 v93d v93 RVBV_0_94 = v93"
| "perVersionB v90 v91 v92 v93d v93 RVBV_1_0_0 = v93"
| "perVersionB v90 v91 v92 v93d v93 RVBV_MASTER = v93"

definition OPENTRYBxV_S :: "riscvBitManipSet \<Rightarrow> riscvBitManipVer \<Rightarrow> opDescB" where
  "OPENTRYBxV_S S v = OPENTRYB_S S"

definition OPENTRYBxV_S_CB ::
  "riscvBitManipSet \<Rightarrow> riscvBCallback \<Rightarrow> riscvBCallback \<Rightarrow> riscvBitManipVer \<Rightarrow> opDescB" where
  "OPENTRYBxV_S_CB S CB32 CB64 v = OPENTRYB_S_CB S CB32 CB64"

definition OPENTRYBxV_S_CBxV ::
  "riscvBitManipSet \<Rightarrow> riscvBCallback \<times> riscvBCallback \<Rightarrow> riscvBCallback \<times> riscvBCallback \<Rightarrow>
   riscvBCallback \<times> riscvBCallback \<Rightarrow> riscvBCallback \<times> riscvBCallback \<Rightarrow> riscvBitManipVer \<Rightarrow> opDescB" where
  "OPENTRYBxV_S_CBxV S CB90 CB91 CB92 CB93 v =
    (case perVersionB CB90 CB91 CB92 CB93 CB93 v of (CB32, CB64) \<Rightarrow> OPENTRYB_S_CB S CB32 CB64)"

definition OPENTRYBxV_SxV ::
  "riscvBitManipSet \<Rightarrow> riscvBitManipSet \<Rightarrow> riscvBitManipSet \<Rightarrow> riscvBitManipSet \<Rightarrow> riscvBitManipSet \<Rightarrow>
   riscvBitManipVer \<Rightarrow> opDescB" where
  "OPENTRYBxV_SxV S90 S91 S92 S93D S93 v = OPENTRYB_S (perVersionB S90 S91 S92 S93D S93 v)"

definition OPENTRYBxV_SxV_CB ::
  "riscvBitManipSet \<Rightarrow> riscvBitManipSet \<Rightarrow> riscvBitManipSet \<Rightarrow> riscvBitManipSet \<Rightarrow> riscvBitManipSet \<Rightarrow>
   riscvBCallback \<Rightarrow> riscvBCallback \<Rightarrow> riscvBitManipVer \<Rightarrow> opDescB" where
  "OPENTRYBxV_SxV_CB S90 S91 S92 S93D S93 CB32 CB64 v =
    OPENTRYB_S_CB (perVersionB S90 S91 S92 S93D S93 v) CB32 CB64"

definition OPENTRYBxV_S_CB64 :: "riscvBitManipSet \<Rightarrow> riscvBCallback \<Rightarrow> riscvBitManipVer \<Rightarrow> opDescB" where
  "OPENTRYBxV_S_CB64 S CB64 v = OPENTRYB_S_CB64 S CB64"

fun opInfoB :: "riscvBExtOp \<Rightarrow> riscvBitManipVer \<Rightarrow> opDescB" where
  "opInfoB RVBOP_Zba = OPENTRYBxV_S RVBS_Zba"
| "opInfoB RVBOP_Zbb = OPENTRYBxV_S RVBS_Zbb"
| "opInfoB RVBOP_Zbc = OPENTRYBxV_S RVBS_Zbc"
| "opInfoB RVBOP_Zbe = OPENTRYBxV_S RVBS_Zbe"
| "opInfoB RVBOP_Zbf = OPENTRYBxV_S RVBS_Zbf"
| "opInfoB RVBOP_Zbm = OPENTRYBxV_S RVBS_Zbm"
| "opInfoB RVBOP_Zbp = OPENTRYBxV_S RVBS_Zbp"
| "opInfoB RVBOP_Zbr = OPENTRYBxV_S RVBS_Zbr"
| "opInfoB RVBOP_Zbs = OPENTRYBxV_S RVBS_Zbs"
| "opInfoB RVBOP_Zbt = OPENTRYBxV_S RVBS_Zbt"
| "opInfoB RVBOP_Zbbp = OPENTRYBxV_S RVBS_Zbbp"
| "opInfoB RVBOP_Zbmp = OPENTRYBxV_S RVBS_Zbmp"
| "opInfoB RVBOP_Zbefmp = OPENTRYBxV_S RVBS_Zbefmp"
| "opInfoB RVBOP_Zbefp = OPENTRYBxV_S RVBS_Zbefp"
| "opInfoB RVBOP_GORC = OPENTRYBxV_S_CB RVBS_Zbp CB_GORC32 CB_GORC64"
| "opInfoB RVBOP_ORCB = OPENTRYBxV_S_CB RVBS_Zbbp CB_GORC32 CB_GORC64"
| "opInfoB RVBOP_ORC16 = OPENTRYBxV_SxV_CB RVBS_Zbp RVBS_Zbp RVBS_Zbp RVBS_Zbbp RVBS_Zbp CB_GORC32 CB_GORC64"
| "opInfoB RVBOP_GREV = OPENTRYBxV_S_CB RVBS_Zbp CB_GREV32 CB_GREV64"
| "opInfoB RVBOP_REV8 = OPENTRYBxV_S_CB RVBS_Zbbp CB_GREV32 CB_GREV64"
| "opInfoB RVBOP_REV = OPENTRYBxV_SxV_CB RVBS_Zbbp RVBS_Zbbp RVBS_Zbbp RVBS_Zbbp RVBS_Zbp CB_GREV32 CB_GREV64"
| "opInfoB RVBOP_CRC32 = OPENTRYBxV_S_CB RVBS_Zbr CB_CRC32_32 CB_CRC32_64"
| "opInfoB RVBOP_SHFL = OPENTRYBxV_S_CB RVBS_Zbp CB_SHFL32 CB_SHFL64"
| "opInfoB RVBOP_UNSHFL = OPENTRYBxV_S_CB RVBS_Zbp CB_UNSHFL32 CB_UNSHFL64"
| "opInfoB RVBOP_BMATFLIP = OPENTRYBxV_S_CB64 RVBS_Zbm CB_BMATFLIP"
| "opInfoB RVBOP_BMATOR = OPENTRYBxV_S_CB64 RVBS_Zbm CB_BMATOR"
| "opInfoB RVBOP_BMATXOR = OPENTRYBxV_S_CB64 RVBS_Zbm CB_BMATXOR"
| "opInfoB RVBOP_BEXT = OPENTRYBxV_S_CB RVBS_Zbe CB_BEXT32 CB_BEXT64"
| "opInfoB RVBOP_BDEP = OPENTRYBxV_S_CB RVBS_Zbe CB_BDEP32 CB_BDEP64"
| "opInfoB RVBOP_PACK = OPENTRYBxV_SxV RVBS_Zbbp RVBS_Zbbp RVBS_Zbbp RVBS_Zbbp RVBS_Zbefmp"
| "opInfoB RVBOP_PACKU = OPENTRYBxV_SxV RVBS_Zbbp RVBS_Zbbp RVBS_Zbbp RVBS_Zbbp RVBS_Zbmp"
| "opInfoB RVBOP_PACKH = OPENTRYBxV_SxV RVBS_Zbbp RVBS_Zbbp RVBS_Zbbp RVBS_Zbbp RVBS_Zbefp"
| "opInfoB RVBOP_PACKW = OPENTRYBxV_SxV RVBS_Zbbp RVBS_Zbbp RVBS_Zbbp RVBS_Zbbp RVBS_Zbefp"
| "opInfoB RVBOP_PACKUW = OPENTRYBxV_SxV RVBS_Zbbp RVBS_Zbbp RVBS_Zbbp RVBS_Zbbp RVBS_Zbp"
| "opInfoB RVBOP_ZEXT32_H = OPENTRYBxV_SxV RVBS_Zbbp RVBS_Zbbp RVBS_Zbbp RVBS_Zbbp RVBS_Zbbefmp"
| "opInfoB RVBOP_ZEXT64_H = OPENTRYBxV_SxV RVBS_Zbbp RVBS_Zbbp RVBS_Zbbp RVBS_Zbbp RVBS_Zbbefp"
| "opInfoB RVBOP_FSL = OPENTRYBxV_S_CB RVBS_Zbt CB_FSL32 CB_FSL64"
| "opInfoB RVBOP_FSR = OPENTRYBxV_S_CB RVBS_Zbt CB_FSR32 CB_FSR64"
| "opInfoB RVBOP_BFP = OPENTRYBxV_S_CBxV RVBS_Zbf (CB_BFP91_32, CB_BFP91_64) (CB_BFP91_32, CB_BFP91_64) (CB_BFP92_32, CB_BFP92_64) (CB_BFP92_32, CB_BFP92_64)"
| "opInfoB RVBOP_ADD_UW = OPENTRYBxV_SxV RVBS_Zbb RVBS_Zbb RVBS_Zbb RVBS_Zbb RVBS_Zba"
| "opInfoB RVBOP_SLLI_UW = OPENTRYBxV_SxV RVBS_Zbb RVBS_Zbb RVBS_Zbb RVBS_Zbb RVBS_Zba"
| "opInfoB RVBOP_SLO_SRO = OPENTRYBxV_SxV RVBS_Zbb RVBS_Zbb RVBS_Zbb RVBS_Zbp RVBS_Zb_none"
| "opInfoB RVBOP_XPERM = OPENTRYBxV_S_CB RVBS_Zbp CB_XPERM32 CB_XPERM64"
| "opInfoB _ = OPENTRYBxV_S RVBS_Zb_none"

section \<open>Callback lookup\<close>

definition getOpDescB :: "riscvConfig \<Rightarrow> riscvBExtOp \<Rightarrow> opDescB" where
  "getOpDescB cfg op = opInfoB op (bitmanip_version cfg)"

definition riscvGetBOpCB :: "riscvConfig \<Rightarrow> riscvBExtOp \<Rightarrow> nat \<Rightarrow> riscvBCallback option" where
  "riscvGetBOpCB cfg op bits =
    (let desc = getOpDescB cfg op in if bits = 32 then cb32 desc else cb64 desc)"

definition getBSubsetDesc :: "riscvBitManipSet \<Rightarrow> string option" where
  "getBSubsetDesc requiredSet =
    map_of [
      (RVBS_Zb_none, ''always''),
      (RVBS_Zba, ''Zba''),
      (RVBS_Zbb, ''Zbb''),
      (RVBS_Zbc, ''Zbc''),
      (RVBS_Zbe, ''Zbe''),
      (RVBS_Zbf, ''Zbf''),
      (RVBS_Zbm, ''Zbm''),
      (RVBS_Zbp, ''Zbp''),
      (RVBS_Zbr, ''Zbr''),
      (RVBS_Zbs, ''Zbs''),
      (RVBS_Zbt, ''Zbt''),
      (RVBS_Zbbp, ''Zbb and Zbp''),
      (RVBS_Zbmp, ''Zbm and Zbp''),
      (RVBS_Zbefmp, ''Zbe, Zbf, Zbm and Zbp''),
      (RVBS_Zbefp, ''Zbe, Zbf and Zbp''),
      (RVBS_Zbbefmp, ''Zbb, Zbe, Zbf, Zbm and Zbp''),
      (RVBS_Zbbefp, ''Zbb, Zbe, Zbf and Zbp'')] requiredSet"

section \<open>Shared cryptographic operations\<close>

definition OPENTRYKxV_S :: "riscvCryptoSet \<Rightarrow> riscvCryptoVer \<Rightarrow> riscvCryptoSet" where
  "OPENTRYKxV_S S v = S"

fun OPENTRYKxV_SxV ::
  "riscvCryptoSet \<Rightarrow> riscvCryptoSet \<Rightarrow> riscvCryptoSet \<Rightarrow> riscvCryptoSet \<Rightarrow> riscvCryptoVer \<Rightarrow> riscvCryptoSet" where
  "OPENTRYKxV_SxV S072 S081 S090 S092 RVKV_0_7_2 = S072"
| "OPENTRYKxV_SxV S072 S081 S090 S092 RVKV_0_8_1 = S081"
| "OPENTRYKxV_SxV S072 S081 S090 S092 RVKV_0_9_0 = S090"
| "OPENTRYKxV_SxV S072 S081 S090 S092 RVKV_0_9_2 = S092"
| "OPENTRYKxV_SxV S072 S081 S090 S092 RVKV_1_0_0_RC1 = S092"
| "OPENTRYKxV_SxV S072 S081 S090 S092 RVKV_1_0_0_RC5 = S092"

fun opInfoK :: "riscvBExtOp \<Rightarrow> riscvCryptoVer \<Rightarrow> riscvCryptoSet" where
  "opInfoK RVBOP_Zbkb = OPENTRYKxV_S RVKS_Zbkb"
| "opInfoK RVBOP_Zbkc = OPENTRYKxV_S RVKS_Zbkc"
| "opInfoK RVBOP_Zbkx = OPENTRYKxV_S RVKS_Zbkx"
| "opInfoK RVBOP_GORCI = OPENTRYKxV_SxV RVKS_Zkb RVKS_Zkb RVKS_Zk_none RVKS_Zk_none"
| "opInfoK RVBOP_PACKU = OPENTRYKxV_SxV RVKS_Zkb RVKS_Zkb RVKS_Zkb RVKS_Zk_none"
| "opInfoK RVBOP_PACKUW = OPENTRYKxV_SxV RVKS_Zkb RVKS_Zkb RVKS_Zkb RVKS_Zk_none"
| "opInfoK RVBOP_REV8W = OPENTRYKxV_SxV RVKS_Zkb RVKS_Zkb RVKS_Zkb RVKS_Zk_none"
| "opInfoK RVBOP_XPERM = OPENTRYKxV_SxV RVKS_Zkb RVKS_Zkb RVKS_Zkb RVKS_Zbkx"
| "opInfoK _ = OPENTRYKxV_S RVKS_Zk_none"

definition getRequiredSetK :: "riscvConfig \<Rightarrow> riscvBExtOp \<Rightarrow> riscvCryptoSet" where
  "getRequiredSetK cfg op = opInfoK op (crypto_version cfg)"

definition getKSubsetDesc :: "riscvCryptoSet \<Rightarrow> string option" where
  "getKSubsetDesc requiredSet =
    map_of [(RVKS_Zk_none, ''always''), (RVKS_Zbkb, ''Zbkb''), (RVKS_Zbkc, ''Zbkc''), (RVKS_Zbkx, ''Zbkx'')]
      requiredSet"

section \<open>Extension validity\<close>

text \<open>
  The result is the returned flag and the subset named by the emitted Illegal Instruction
  exception, if one is emitted; \<open>None\<close> is a failing assertion in the description lookup.
\<close>

definition riscvValidateBExtSubset ::
  "riscvConfig \<Rightarrow> riscvArchitecture \<Rightarrow> riscvBExtOpSet \<Rightarrow> (bool \<times> string option) option" where
  "riscvValidateBExtSubset cfg arch op =
    (let stepB =
       (if opB op \<noteq> RVBOP_NONE \<and> bitmanipEnabled arch then
          (let requiredSet = subset (getOpDescB cfg (opB op));
               enabled = (requiredSet AND NOT (bitmanip_absent cfg) \<noteq> 0)
           in if enabled then Some (enabled, None)
              else (case getBSubsetDesc requiredSet of None \<Rightarrow> None | Some d \<Rightarrow> Some (enabled, Some d)))
        else Some (False, None))
     in case stepB of None \<Rightarrow> None | Some (enabled, absent) \<Rightarrow>
     (let stepK =
       (if \<not> enabled \<and> opK op \<noteq> RVBOP_NONE \<and> cryptoEnabled arch then
          (let requiredSet = getRequiredSetK cfg (opK op);
               enabled = (requiredSet AND NOT (crypto_absent cfg) \<noteq> 0)
           in if enabled then Some (enabled, absent)
              else (case getKSubsetDesc requiredSet of None \<Rightarrow> None | Some d \<Rightarrow> Some (enabled, Some d)))
        else Some (enabled, absent))
      in case stepK of None \<Rightarrow> None | Some (enabled, absent) \<Rightarrow>
        (let absent = (if enabled then None else absent) in Some (absent = None, absent))))"

section \<open>Legality check\<close>

text \<open>The operations implemented by callbacks at both register widths.\<close>

definition callback_ops :: "riscvBExtOp set" where
  "callback_ops = {RVBOP_GORC, RVBOP_ORCB, RVBOP_ORC16, RVBOP_GREV, RVBOP_REV8, RVBOP_REV, RVBOP_CRC32,
    RVBOP_SHFL, RVBOP_UNSHFL, RVBOP_BEXT, RVBOP_BDEP, RVBOP_FSL, RVBOP_FSR, RVBOP_BFP, RVBOP_XPERM}"

lemma subset_if_OPENTRY [simp]:
  "subset (OPENTRYBxV_S S v) = S" "subset (OPENTRYBxV_S_CB S f g v) = S"
  "subset (OPENTRYBxV_S_CB64 S g v) = S" "subset (OPENTRYBxV_S_CBxV S k l m n v) = S"
  "subset (OPENTRYBxV_SxV S90 S91 S92 S93D S93 v) = perVersionB S90 S91 S92 S93D S93 v"
  "subset (OPENTRYBxV_SxV_CB S90 S91 S92 S93D S93 f g v) = perVersionB S90 S91 S92 S93D S93 v"
  by (simp_all add: OPENTRYBxV_S_def OPENTRYBxV_S_CB_def OPENTRYBxV_S_CB64_def OPENTRYBxV_S_CBxV_def
      OPENTRYBxV_SxV_def OPENTRYBxV_SxV_CB_def OPENTRYB_S_def OPENTRYB_S_CB_def OPENTRYB_S_CB64_def
      split: prod.splits)

lemma callbacks_if_OPENTRY [simp]:
  "cb32 (OPENTRYBxV_S S v) = None" "cb64 (OPENTRYBxV_S S v) = None"
  "cb32 (OPENTRYBxV_S_CB S f g v) = Some f" "cb64 (OPENTRYBxV_S_CB S f g v) = Some g"
  "cb32 (OPENTRYBxV_S_CB64 S g v) = None" "cb64 (OPENTRYBxV_S_CB64 S g v) = Some g"
  "cb32 (OPENTRYBxV_S_CBxV S k l m n v) = Some (fst (perVersionB k l m n n v))"
  "cb64 (OPENTRYBxV_S_CBxV S k l m n v) = Some (snd (perVersionB k l m n n v))"
  "cb32 (OPENTRYBxV_SxV S90 S91 S92 S93D S93 v) = None"
  "cb64 (OPENTRYBxV_SxV S90 S91 S92 S93D S93 v) = None"
  "cb32 (OPENTRYBxV_SxV_CB S90 S91 S92 S93D S93 f g v) = Some f"
  "cb64 (OPENTRYBxV_SxV_CB S90 S91 S92 S93D S93 f g v) = Some g"
  by (simp_all add: OPENTRYBxV_S_def OPENTRYBxV_S_CB_def OPENTRYBxV_S_CB64_def OPENTRYBxV_S_CBxV_def
      OPENTRYBxV_SxV_def OPENTRYBxV_SxV_CB_def OPENTRYB_S_def OPENTRYB_S_CB_def OPENTRYB_S_CB64_def
      split: prod.splits)

text \<open>The sets that occur in the table all have a description.\<close>

definition describedB :: "riscvBitManipSet list" where
  "describedB = [RVBS_Zb_none, RVBS_Zba, RVBS_Zbb, RVBS_Zbc, RVBS_Zbe, RVBS_Zbf, RVBS_Zbm, RVBS_Zbp,
    RVBS_Zbr, RVBS_Zbs, RVBS_Zbt, RVBS_Zbbp, RVBS_Zbmp, RVBS_Zbefmp, RVBS_Zbefp, RVBS_Zbbefmp, RVBS_Zbbefp]"

lemma getBSubsetDesc_described: "S \<in> set describedB \<Longrightarrow> \<exists>d. getBSubsetDesc S = Some d"
  unfolding getBSubsetDesc_def not_None_eq [symmetric] map_of_eq_None_iff by (simp add: describedB_def)

lemma opInfoB_described: "subset (opInfoB op v) \<in> set describedB"
proof -
  have "perVersionB a b c d e v \<in> set describedB" if "{a, b, c, d, e} \<subseteq> set describedB" for a b c d e
    using that by (cases v) auto
  then show ?thesis by (cases op) (simp_all add: describedB_def)
qed

lemma opInfoK_described: "opInfoK op v \<in> {RVKS_Zk_none, RVKS_Zbkb, RVKS_Zbkc, RVKS_Zbkx}"
  by (cases op; cases v) (simp_all add: OPENTRYKxV_S_def RVKS_Zkb_def)

lemma getKSubsetDesc_described:
  "S \<in> {RVKS_Zk_none, RVKS_Zbkb, RVKS_Zbkc, RVKS_Zbkx} \<Longrightarrow> \<exists>d. getKSubsetDesc S = Some d"
  by (auto simp: getKSubsetDesc_def)

text \<open>The specification: an instruction shared between the extensions is legal if one enabled
  extension provides it, or if neither extension has a say in it.\<close>

definition B_applies :: "riscvArchitecture \<Rightarrow> riscvBExtOpSet \<Rightarrow> bool" where
  "B_applies arch op \<longleftrightarrow> opB op \<noteq> RVBOP_NONE \<and> bitmanipEnabled arch"

definition B_provides :: "riscvConfig \<Rightarrow> riscvBExtOpSet \<Rightarrow> bool" where
  "B_provides cfg op \<longleftrightarrow> (\<exists>k. bit (subset (getOpDescB cfg (opB op))) k \<and> \<not> bit (bitmanip_absent cfg) k)"

definition K_applies :: "riscvArchitecture \<Rightarrow> riscvBExtOpSet \<Rightarrow> bool" where
  "K_applies arch op \<longleftrightarrow> opK op \<noteq> RVBOP_NONE \<and> cryptoEnabled arch"

definition K_provides :: "riscvConfig \<Rightarrow> riscvBExtOpSet \<Rightarrow> bool" where
  "K_provides cfg op \<longleftrightarrow> (\<exists>k. bit (getRequiredSetK cfg (opK op)) k \<and> \<not> bit (crypto_absent cfg) k)"

lemma and_not_nonzero: "x AND NOT y \<noteq> 0 \<longleftrightarrow> (\<exists>k. bit x k \<and> \<not> bit y k)" for x y :: "'a::len word"
proof -
  have "x AND NOT y = 0 \<longleftrightarrow> (\<forall>k. \<not> bit (x AND NOT y) k)"
    by (auto intro: bit_word_eqI)
  then show ?thesis by (auto simp: bit_and_iff bit_not_iff dest: bit_imp_le_length)
qed

text \<open>C32: The legality check never fails its assertions, emits an Illegal Instruction exception
  exactly when it returns false, and accepts an instruction exactly when an enabled extension
  provides it or neither the B nor the K extension has a say in it.\<close>

theorem riscvValidateBExtSubset_correct:
  "\<exists>ok absent. riscvValidateBExtSubset cfg arch op = Some (ok, absent) \<and>
    (ok \<longleftrightarrow> absent = None) \<and>
    (ok \<longleftrightarrow> (B_applies arch op \<and> B_provides cfg op) \<or> (K_applies arch op \<and> K_provides cfg op) \<or>
      (\<not> B_applies arch op \<and> \<not> K_applies arch op))"
proof -
  obtain d where d: "getBSubsetDesc (subset (getOpDescB cfg (opB op))) = Some d"
    using getBSubsetDesc_described [OF opInfoB_described] by (auto simp: getOpDescB_def)
  obtain e where e: "getKSubsetDesc (getRequiredSetK cfg (opK op)) = Some e"
    using getKSubsetDesc_described [OF opInfoK_described] by (auto simp: getRequiredSetK_def)
  have B: "subset (getOpDescB cfg (opB op)) AND NOT (bitmanip_absent cfg) = 0 \<longleftrightarrow> \<not> B_provides cfg op"
    and K: "getRequiredSetK cfg (opK op) AND NOT (crypto_absent cfg) = 0 \<longleftrightarrow> \<not> K_provides cfg op"
    unfolding B_provides_def K_provides_def and_not_nonzero [symmetric] by simp_all
  show ?thesis
    by (cases "B_provides cfg op"; cases "K_provides cfg op")
      (simp_all add: riscvValidateBExtSubset_def d e B K B_applies_def K_applies_def Let_def)
qed

text \<open>With the ratified version 1.0.0 configured and only Zba, Zbb, Zbc and Zbs present, the
  accepted B operations are exactly those of the four ratified subsets.\<close>

theorem ratified_bitmanip_operations:
  "bitmanip_version cfg = RVBV_1_0_0 \<Longrightarrow> bitmanip_absent cfg = NOT RVBS_1_0_0 \<Longrightarrow>
   bitmanipEnabled arch \<Longrightarrow> \<not> cryptoEnabled arch \<Longrightarrow>
   (fst (the (riscvValidateBExtSubset cfg arch op)) \<longleftrightarrow>
    opB op \<in> {RVBOP_NONE, RVBOP_Zba, RVBOP_Zbb, RVBOP_Zbc, RVBOP_Zbs, RVBOP_Zbbp, RVBOP_ORCB, RVBOP_REV8,
      RVBOP_ZEXT32_H, RVBOP_ZEXT64_H, RVBOP_ADD_UW, RVBOP_SLLI_UW})"
proof -
  assume a: "bitmanip_version cfg = RVBV_1_0_0" "bitmanip_absent cfg = NOT RVBS_1_0_0"
    "bitmanipEnabled arch" "\<not> cryptoEnabled arch"
  have "fst (the (riscvValidateBExtSubset cfg arch op)) \<longleftrightarrow>
    opB op = RVBOP_NONE \<or> subset (opInfoB (opB op) RVBV_1_0_0) AND RVBS_1_0_0 \<noteq> 0"
    using a getBSubsetDesc_described [OF opInfoB_described, of "opB op" RVBV_1_0_0]
    by (auto simp: riscvValidateBExtSubset_def getOpDescB_def Let_def)
  also have "\<dots> \<longleftrightarrow> opB op \<in> {RVBOP_NONE, RVBOP_Zba, RVBOP_Zbb, RVBOP_Zbc, RVBOP_Zbs, RVBOP_Zbbp,
      RVBOP_ORCB, RVBOP_REV8, RVBOP_ZEXT32_H, RVBOP_ZEXT64_H, RVBOP_ADD_UW, RVBOP_SLLI_UW}"
    by (cases "opB op") (simp_all add: riscvBitManipSet_defs)
  finally show ?thesis .
qed

theorem ratified_bitmanip_operations_witness:
  "\<not> fst (the (riscvValidateBExtSubset
    \<lparr>bitmanip_version = RVBV_1_0_0, bitmanip_absent = NOT RVBS_1_0_0, crypto_version = RVKV_1_0_0_RC5,
     vcrypto_version = RVKVV_MASTER, crypto_absent = 0\<rparr>
    ISA_B \<lparr>opB = RVBOP_BEXT, opK = RVBOP_NONE, opP = RVBOP_NONE\<rparr>))"
  by (subst ratified_bitmanip_operations)
    (simp_all add: bitmanipEnabled_def cryptoEnabled_def ISA_B_def ISA_K_def RISCV_FEATURE_BIT_def)

text \<open>The callback lookup succeeds exactly for the operations implemented by callbacks, in every
  version, with the bit-matrix operations available at 64 bits only.\<close>

theorem riscvGetBOpCB_available:
  "(riscvGetBOpCB cfg op 32 \<noteq> None \<longleftrightarrow> op \<in> callback_ops) \<and>
   (riscvGetBOpCB cfg op 64 \<noteq> None \<longleftrightarrow> op \<in> callback_ops \<union> {RVBOP_BMATFLIP, RVBOP_BMATOR, RVBOP_BMATXOR})"
  by (cases op) (simp_all add: riscvGetBOpCB_def getOpDescB_def Let_def callback_ops_def)

end
