(* ===== verification/RV_Views.thy ===== *)
theory RV_Views
  imports RV_Prelude
begin

text \<open>
  Views of a word as an array of narrower words on a little-endian host, the reading of the
  C unions that overlay \<^verbatim>\<open>u8\<close>, \<^verbatim>\<open>u32\<close> and \<^verbatim>\<open>u64\<close> members.
\<close>

text \<open>Element \<open>i\<close> of a view, and the value with given elements, element 0 lowest.\<close>

definition elem :: "'a::len word \<Rightarrow> nat \<Rightarrow> 'b::len word" where
  "elem v i = ucast (drop_bit (i * LENGTH('b)) v)"

definition of_elems :: "'b::len word list \<Rightarrow> 'a::len word" where
  "of_elems xs = foldr (\<lambda>x v. ucast x OR push_bit LENGTH('b) v) xs 0"

abbreviation u8 :: "'a::len word \<Rightarrow> nat \<Rightarrow> Uns8" where "u8 \<equiv> elem"
abbreviation u32 :: "'a::len word \<Rightarrow> nat \<Rightarrow> Uns32" where "u32 \<equiv> elem"
abbreviation u64 :: "'a::len word \<Rightarrow> nat \<Rightarrow> Uns64" where "u64 \<equiv> elem"

lemma bit_elem:
  "bit (elem v i :: 'b::len word) n \<longleftrightarrow> n < LENGTH('b) \<and> bit v (i * LENGTH('b) + n)"
  by (auto simp: elem_def bit_simps)

lemma bit_of_elems_Cons:
  "bit (of_elems (x # xs) :: 'a::len word) n \<longleftrightarrow> n < LENGTH('a) \<and>
    (if n < LENGTH('b) then bit x n else bit (of_elems xs :: 'a word) (n - LENGTH('b)))"
  for x :: "'b::len word"
  by (auto simp: of_elems_def bit_simps dest: bit_imp_le_length)

lemma elem_of_elems:
  "(i + 1) * LENGTH('b) \<le> LENGTH('a) \<Longrightarrow> i < length xs \<Longrightarrow>
    (elem (of_elems xs :: 'a::len word) i :: 'b::len word) = xs ! i"
proof (induction xs arbitrary: i)
  case (Cons x xs)
  show ?case
  proof (rule bit_word_eqI)
    fix n assume n: "n < LENGTH('b)"
    have "i * LENGTH('b) + n < (i + 1) * LENGTH('b)" using n by simp
    then have len: "i * LENGTH('b) + n < LENGTH('a)" using Cons.prems(1) by linarith
    show "bit (elem (of_elems (x # xs) :: 'a word) i :: 'b word) n = bit ((x # xs) ! i) n"
    proof (cases i)
      case 0
      then show ?thesis using n len by (simp add: bit_elem bit_of_elems_Cons)
    next
      case (Suc j)
      then have "(elem (of_elems xs :: 'a word) j :: 'b word) = xs ! j"
        using Cons by simp
      then have "bit (xs ! j) n \<longleftrightarrow> bit (of_elems xs :: 'a word) (j * LENGTH('b) + n)"
        using n bit_elem [of "of_elems xs :: 'a word" j n, where 'b = 'b] by metis
      then show ?thesis using Suc n len
        by (simp add: bit_elem bit_of_elems_Cons add.assoc)
    qed
  qed
qed simp

lemma elem_ext:
  fixes v w :: "'a::len word"
  assumes "LENGTH('a) = N * LENGTH('b)"
    and "\<And>i. i < N \<Longrightarrow> (elem v i :: 'b::len word) = elem w i"
  shows "v = w"
proof (rule bit_word_eqI)
  fix n assume "n < LENGTH('a)"
  then have "n div LENGTH('b) < N"
    by (simp add: assms(1) div_less_iff_less_mult)
  then have "(elem v (n div LENGTH('b)) :: 'b word) = elem w (n div LENGTH('b))"
    by (rule assms(2))
  then have "bit (elem v (n div LENGTH('b)) :: 'b word) (n mod LENGTH('b)) =
    bit (elem w (n div LENGTH('b)) :: 'b word) (n mod LENGTH('b))" by simp
  then show "bit v n = bit w n" by (simp add: bit_elem)
qed

lemma of_elems_elems:
  fixes v :: "'a::len word"
  assumes "LENGTH('a) = N * LENGTH('b)"
  shows "of_elems (map (\<lambda>i. elem v i :: 'b::len word) [0..<N]) = v"
proof (rule elem_ext [OF assms])
  fix i assume "i < N"
  then have "(i + 1) * LENGTH('b) \<le> LENGTH('a)"
    unfolding assms by (intro mult_le_mono1) simp
  then show "(elem (of_elems (map (\<lambda>i. elem v i :: 'b word) [0..<N]) :: 'a word) i :: 'b word) = elem v i"
    using \<open>i < N\<close> by (subst elem_of_elems) simp_all
qed

end
