(* ===== verification/RV_KExt_Base.thy ===== *)
theory RV_KExt_Base
  imports RV_Views
begin

text \<open>
  Utilities of the cryptographic extension, \<^verbatim>\<open>riscvKExtension.c\<close>: the 128- and 256-bit vector
  elements with their byte, word and double-word views (the unions \<^verbatim>\<open>v128\<close> and \<^verbatim>\<open>v256\<close> on a
  little-endian host), the registers \<^verbatim>\<open>vTmp\<close> that receive vector results, the rotations, and
  the legacy table lookups LUT4LO, LUT4HI and LUT4.
\<close>

section \<open>Vector elements\<close>

type_synonym v128 = "128 word"
type_synonym v256 = "256 word"

text \<open>The part of the processor state that the vector callbacks write: \<^verbatim>\<open>riscv->vTmp\<close>.\<close>

record riscvVec =
  vTmp :: "Uns64 list"

definition setResult128 :: "riscvVec \<Rightarrow> v128 \<Rightarrow> riscvVec" where
  "setResult128 riscv result = riscv\<lparr>vTmp := (vTmp riscv)[0 := u64 result 0, 1 := u64 result 1]\<rparr>"

definition setResult256 :: "riscvVec \<Rightarrow> v256 \<Rightarrow> riscvVec" where
  "setResult256 riscv result =
    riscv\<lparr>vTmp := (vTmp riscv)[0 := u64 result 0, 1 := u64 result 1, 2 := u64 result 2, 3 := u64 result 3]\<rparr>"

section \<open>Rotations\<close>

definition ROR32 :: "Uns32 \<Rightarrow> Uns32 \<Rightarrow> Uns32" where
  "ROR32 a amt = push_bit (unat (- amt AND (32 - 1))) a OR drop_bit (unat (amt AND (32 - 1))) a"

definition ROL32 :: "Uns32 \<Rightarrow> Uns32 \<Rightarrow> Uns32" where
  "ROL32 a amt = drop_bit (unat (- amt AND (32 - 1))) a OR push_bit (unat (amt AND (32 - 1))) a"

definition ROR64 :: "Uns64 \<Rightarrow> Uns32 \<Rightarrow> Uns64" where
  "ROR64 a amt = push_bit (unat (- amt AND (64 - 1))) a OR drop_bit (unat (amt AND (64 - 1))) a"

section \<open>Legacy table lookups\<close>

text \<open>The loop state is \<open>(rs1, x)\<close>.\<close>

definition doLUT4LO32 :: "Uns32 \<Rightarrow> Uns32 \<Rightarrow> Uns32" where
  "doLUT4LO32 rs1 rs2 = snd (fold (\<lambda>i (rs1, x).
    let rs1N = rs1 AND 0xf;
        x = (if rs1N < 8
             then (let rs2N = drop_bit (unat (rs1N * 4)) rs2 AND 0xf in x OR push_bit (i * 4) rs2N)
             else x)
    in (drop_bit 4 rs1, x)) [0..<8] (rs1, 0))"

definition doLUT4LO64 :: "Uns64 \<Rightarrow> Uns64 \<Rightarrow> Uns64" where
  "doLUT4LO64 rs1 rs2 = ucast (doLUT4LO32 (ucast rs1) (ucast rs2))"

definition doLUT4HI32 :: "Uns32 \<Rightarrow> Uns32 \<Rightarrow> Uns32" where
  "doLUT4HI32 rs1 rs2 = snd (fold (\<lambda>i (rs1, x).
    let rs1N = rs1 AND 0xf;
        x = (if rs1N \<ge> 8
             then (let rs2N = drop_bit (unat ((rs1N AND 7) * 4)) rs2 AND 0xf in x OR push_bit (i * 4) rs2N)
             else x)
    in (drop_bit 4 rs1, x)) [0..<8] (rs1, 0))"

definition doLUT4HI64 :: "Uns64 \<Rightarrow> Uns64 \<Rightarrow> Uns64" where
  "doLUT4HI64 rs1 rs2 = ucast (doLUT4HI32 (ucast rs1) (ucast rs2))"

definition doLUT4 :: "Uns64 \<Rightarrow> Uns64 \<Rightarrow> Uns64" where
  "doLUT4 rs1 rs2 = snd (fold (\<lambda>i (rs1, x).
    let rs1N = (ucast (rs1 AND 0xf) :: Uns32);
        rs2N = drop_bit (unat (rs1N * 4)) rs2 AND 0xf
    in (drop_bit 4 rs1, x OR push_bit (i * 4) rs2N)) [0..<16] (rs1, 0))"

section \<open>Views\<close>

lemma elem_of_elems_4 [simp]:
  fixes a b c d :: Uns32 and p q r s :: Uns64
  shows "u32 (of_elems [a, b, c, d] :: v128) 0 = a" "u32 (of_elems [a, b, c, d] :: v128) 1 = b"
    "u32 (of_elems [a, b, c, d] :: v128) (Suc 0) = b"
    "u32 (of_elems [a, b, c, d] :: v128) 2 = c" "u32 (of_elems [a, b, c, d] :: v128) 3 = d"
    "u64 (of_elems [p, q] :: v128) 0 = p" "u64 (of_elems [p, q] :: v128) (Suc 0) = q"
    "u64 (of_elems [p, q, r, s] :: v256) 0 = p" "u64 (of_elems [p, q, r, s] :: v256) (Suc 0) = q"
    "u64 (of_elems [p, q, r, s] :: v256) 2 = r" "u64 (of_elems [p, q, r, s] :: v256) 3 = s"
  by (subst elem_of_elems; simp add: nth_Cons')+

text \<open>The 32-bit view of a pair of 64-bit halves.\<close>

lemma u32_of_u64s:
  "u32 (of_elems [l, h] :: v128) 0 = ucast (l::Uns64)" "u32 (of_elems [l, h] :: v128) (Suc 0) = ucast (drop_bit 32 l)"
  "u32 (of_elems [l, h] :: v128) 2 = ucast h" "u32 (of_elems [l, h] :: v128) 3 = ucast (drop_bit 32 h)"
  by (rule bit_word_eqI, auto simp: bit_elem bit_of_elems_Cons bit_simps)+

lemma u64_of_u32s:
  "u64 (of_elems [a, b, c, d] :: v128) 0 = push_bit 32 (ucast b) OR ucast (a::Uns32)"
  "u64 (of_elems [a, b, c, d] :: v128) (Suc 0) = push_bit 32 (ucast d) OR ucast c"
  by (rule bit_word_eqI, auto simp: bit_elem bit_of_elems_Cons bit_simps dest: bit_imp_le_length)+

text \<open>A callback writes exactly the result registers.\<close>

lemma setResult128_vTmp:
  "vTmp riscv = [t0, t1, t2, t3] \<Longrightarrow> vTmp (setResult128 riscv v) = [u64 v 0, u64 v 1, t2, t3]"
  by (simp add: setResult128_def)

lemma setResult256_vTmp:
  "vTmp riscv = [t0, t1, t2, t3] \<Longrightarrow> vTmp (setResult256 riscv v) = [u64 v 0, u64 v 1, u64 v 2, u64 v 3]"
  by (simp add: setResult256_def numeral_3_eq_3)

section \<open>Rotations are word rotations\<close>

lemma rotate_mod:
  "word_rotr (n mod LENGTH('a)) x = word_rotr n x" "word_rotl (n mod LENGTH('a)) x = word_rotl n x"
  for x :: "'a::len word"
  by (rule bit_word_eqI, simp add: bit_word_rotr_iff bit_word_rotl_iff mod_simps)+

lemma minus_amounts:
  fixes m :: Uns32
  shows "unat (- m) mod 32 = (32 - unat m mod 32) mod 32"
    and "unat (- m) mod 64 = (64 - unat m mod 64) mod 64"
  subgoal using unat_minus_mod [of 5 m] by (simp only: power_numeral_reduce) simp
  subgoal using unat_minus_mod [of 6 m] by (simp only: power_numeral_reduce) simp
  done

lemma ROR_rotr: "ROR32 a m = word_rotr (unat m) a" "ROR64 b m = word_rotr (unat m) b"
  using rotr_shifts [of "unat m mod 32" a] rotr_shifts [of "unat m mod 64" b]
    rotate_mod(1) [of "unat m" a] rotate_mod(1) [of "unat m" b]
  unfolding ROR32_def ROR64_def by (simp_all add: unat_and_low minus_amounts)

lemma ROL_rotl: "ROL32 a m = word_rotl (unat m) a"
  using rotl_shifts [of "unat m mod 32" a] rotate_mod(2) [of "unat m" a]
  unfolding ROL32_def by (simp add: unat_and_low minus_amounts or.commute)

end
