(* ===== verification/RV_KExt_AES.thy ===== *)
theory RV_KExt_AES
  imports RV_KExt_Base
begin

text \<open>
  The AES operations of \<^verbatim>\<open>riscvKExtension.c\<close>: S-boxes, the column transformations written as
  macros, the 32- and 64-bit scalar instructions and the vector key-schedule instructions.
  The macros compute on \<open>Uns32\<close> or on promoted bytes; the model uses \<open>Uns32\<close> for both, which
  holds all intermediate values, and a byte shifted into the top bits of a 32-bit value wraps.
\<close>

section \<open>Tables\<close>

definition AES_ENC_SBOX :: "Uns8 list" where
  "AES_ENC_SBOX = [
    0x63, 0x7C, 0x77, 0x7B, 0xF2, 0x6B, 0x6F, 0xC5, 0x30, 0x01, 0x67, 0x2B, 0xFE, 0xD7, 0xAB, 0x76,
    0xCA, 0x82, 0xC9, 0x7D, 0xFA, 0x59, 0x47, 0xF0, 0xAD, 0xD4, 0xA2, 0xAF, 0x9C, 0xA4, 0x72, 0xC0,
    0xB7, 0xFD, 0x93, 0x26, 0x36, 0x3F, 0xF7, 0xCC, 0x34, 0xA5, 0xE5, 0xF1, 0x71, 0xD8, 0x31, 0x15,
    0x04, 0xC7, 0x23, 0xC3, 0x18, 0x96, 0x05, 0x9A, 0x07, 0x12, 0x80, 0xE2, 0xEB, 0x27, 0xB2, 0x75,
    0x09, 0x83, 0x2C, 0x1A, 0x1B, 0x6E, 0x5A, 0xA0, 0x52, 0x3B, 0xD6, 0xB3, 0x29, 0xE3, 0x2F, 0x84,
    0x53, 0xD1, 0x00, 0xED, 0x20, 0xFC, 0xB1, 0x5B, 0x6A, 0xCB, 0xBE, 0x39, 0x4A, 0x4C, 0x58, 0xCF,
    0xD0, 0xEF, 0xAA, 0xFB, 0x43, 0x4D, 0x33, 0x85, 0x45, 0xF9, 0x02, 0x7F, 0x50, 0x3C, 0x9F, 0xA8,
    0x51, 0xA3, 0x40, 0x8F, 0x92, 0x9D, 0x38, 0xF5, 0xBC, 0xB6, 0xDA, 0x21, 0x10, 0xFF, 0xF3, 0xD2,
    0xCD, 0x0C, 0x13, 0xEC, 0x5F, 0x97, 0x44, 0x17, 0xC4, 0xA7, 0x7E, 0x3D, 0x64, 0x5D, 0x19, 0x73,
    0x60, 0x81, 0x4F, 0xDC, 0x22, 0x2A, 0x90, 0x88, 0x46, 0xEE, 0xB8, 0x14, 0xDE, 0x5E, 0x0B, 0xDB,
    0xE0, 0x32, 0x3A, 0x0A, 0x49, 0x06, 0x24, 0x5C, 0xC2, 0xD3, 0xAC, 0x62, 0x91, 0x95, 0xE4, 0x79,
    0xE7, 0xC8, 0x37, 0x6D, 0x8D, 0xD5, 0x4E, 0xA9, 0x6C, 0x56, 0xF4, 0xEA, 0x65, 0x7A, 0xAE, 0x08,
    0xBA, 0x78, 0x25, 0x2E, 0x1C, 0xA6, 0xB4, 0xC6, 0xE8, 0xDD, 0x74, 0x1F, 0x4B, 0xBD, 0x8B, 0x8A,
    0x70, 0x3E, 0xB5, 0x66, 0x48, 0x03, 0xF6, 0x0E, 0x61, 0x35, 0x57, 0xB9, 0x86, 0xC1, 0x1D, 0x9E,
    0xE1, 0xF8, 0x98, 0x11, 0x69, 0xD9, 0x8E, 0x94, 0x9B, 0x1E, 0x87, 0xE9, 0xCE, 0x55, 0x28, 0xDF,
    0x8C, 0xA1, 0x89, 0x0D, 0xBF, 0xE6, 0x42, 0x68, 0x41, 0x99, 0x2D, 0x0F, 0xB0, 0x54, 0xBB, 0x16]"

definition AES_DEC_SBOX :: "Uns8 list" where
  "AES_DEC_SBOX = [
    0x52, 0x09, 0x6A, 0xD5, 0x30, 0x36, 0xA5, 0x38, 0xBF, 0x40, 0xA3, 0x9E, 0x81, 0xF3, 0xD7, 0xFB,
    0x7C, 0xE3, 0x39, 0x82, 0x9B, 0x2F, 0xFF, 0x87, 0x34, 0x8E, 0x43, 0x44, 0xC4, 0xDE, 0xE9, 0xCB,
    0x54, 0x7B, 0x94, 0x32, 0xA6, 0xC2, 0x23, 0x3D, 0xEE, 0x4C, 0x95, 0x0B, 0x42, 0xFA, 0xC3, 0x4E,
    0x08, 0x2E, 0xA1, 0x66, 0x28, 0xD9, 0x24, 0xB2, 0x76, 0x5B, 0xA2, 0x49, 0x6D, 0x8B, 0xD1, 0x25,
    0x72, 0xF8, 0xF6, 0x64, 0x86, 0x68, 0x98, 0x16, 0xD4, 0xA4, 0x5C, 0xCC, 0x5D, 0x65, 0xB6, 0x92,
    0x6C, 0x70, 0x48, 0x50, 0xFD, 0xED, 0xB9, 0xDA, 0x5E, 0x15, 0x46, 0x57, 0xA7, 0x8D, 0x9D, 0x84,
    0x90, 0xD8, 0xAB, 0x00, 0x8C, 0xBC, 0xD3, 0x0A, 0xF7, 0xE4, 0x58, 0x05, 0xB8, 0xB3, 0x45, 0x06,
    0xD0, 0x2C, 0x1E, 0x8F, 0xCA, 0x3F, 0x0F, 0x02, 0xC1, 0xAF, 0xBD, 0x03, 0x01, 0x13, 0x8A, 0x6B,
    0x3A, 0x91, 0x11, 0x41, 0x4F, 0x67, 0xDC, 0xEA, 0x97, 0xF2, 0xCF, 0xCE, 0xF0, 0xB4, 0xE6, 0x73,
    0x96, 0xAC, 0x74, 0x22, 0xE7, 0xAD, 0x35, 0x85, 0xE2, 0xF9, 0x37, 0xE8, 0x1C, 0x75, 0xDF, 0x6E,
    0x47, 0xF1, 0x1A, 0x71, 0x1D, 0x29, 0xC5, 0x89, 0x6F, 0xB7, 0x62, 0x0E, 0xAA, 0x18, 0xBE, 0x1B,
    0xFC, 0x56, 0x3E, 0x4B, 0xC6, 0xD2, 0x79, 0x20, 0x9A, 0xDB, 0xC0, 0xFE, 0x78, 0xCD, 0x5A, 0xF4,
    0x1F, 0xDD, 0xA8, 0x33, 0x88, 0x07, 0xC7, 0x31, 0xB1, 0x12, 0x10, 0x59, 0x27, 0x80, 0xEC, 0x5F,
    0x60, 0x51, 0x7F, 0xA9, 0x19, 0xB5, 0x4A, 0x0D, 0x2D, 0xE5, 0x7A, 0x9F, 0x93, 0xC9, 0x9C, 0xEF,
    0xA0, 0xE0, 0x3B, 0x4D, 0xAE, 0x2A, 0xF5, 0xB0, 0xC8, 0xEB, 0xBB, 0x3C, 0x83, 0x53, 0x99, 0x61,
    0x17, 0x2B, 0x04, 0x7E, 0xBA, 0x77, 0xD6, 0x26, 0xE1, 0x69, 0x14, 0x63, 0x55, 0x21, 0x0C, 0x7D]"

definition round_consts :: "Uns8 list" where
  "round_consts = [
    0x01, 0x02, 0x04, 0x08, 0x10, 0x20, 0x40, 0x80, 0x1b, 0x36, 0x00, 0x00, 0x00, 0x00, 0x00, 0x00]"

section \<open>Macros\<close>

definition AES_XTIME :: "Uns32 \<Rightarrow> Uns32" where
  "AES_XTIME a = push_bit 1 a XOR (if a AND 0x80 \<noteq> 0 then 0x1b else 0)"

definition AES_GFMUL :: "Uns32 \<Rightarrow> Uns32 \<Rightarrow> Uns32" where
  "AES_GFMUL a b =
    ((if b AND 0x1 \<noteq> 0 then a else 0) XOR
     (if b AND 0x2 \<noteq> 0 then AES_XTIME a else 0) XOR
     (if b AND 0x4 \<noteq> 0 then AES_XTIME (AES_XTIME a) else 0) XOR
     (if b AND 0x8 \<noteq> 0 then AES_XTIME (AES_XTIME (AES_XTIME a)) else 0)) AND 0xFF"

definition BY :: "Uns32 \<Rightarrow> nat \<Rightarrow> Uns32" where
  "BY X I = drop_bit (8 * I) X AND 0xFF"

definition AES_SHIFROWS_LO :: "Uns64 \<Rightarrow> Uns64 \<Rightarrow> Uns64" where
  "AES_SHIFROWS_LO RS1 RS2 =
    push_bit 56 (drop_bit 24 RS1 AND 0xFF) OR
    push_bit 48 (drop_bit 48 RS2 AND 0xFF) OR
    push_bit 40 (drop_bit 8 RS2 AND 0xFF) OR
    push_bit 32 (drop_bit 32 RS1 AND 0xFF) OR
    push_bit 24 (drop_bit 56 RS2 AND 0xFF) OR
    push_bit 16 (drop_bit 16 RS2 AND 0xFF) OR
    push_bit 8 (drop_bit 40 RS1 AND 0xFF) OR
    push_bit 0 (drop_bit 0 RS1 AND 0xFF)"

definition AES_INVSHIFROWS_LO :: "Uns64 \<Rightarrow> Uns64 \<Rightarrow> Uns64" where
  "AES_INVSHIFROWS_LO RS1 RS2 =
    push_bit 56 (drop_bit 24 RS2 AND 0xFF) OR
    push_bit 48 (drop_bit 48 RS2 AND 0xFF) OR
    push_bit 40 (drop_bit 8 RS1 AND 0xFF) OR
    push_bit 32 (drop_bit 32 RS1 AND 0xFF) OR
    push_bit 24 (drop_bit 56 RS1 AND 0xFF) OR
    push_bit 16 (drop_bit 16 RS2 AND 0xFF) OR
    push_bit 8 (drop_bit 40 RS2 AND 0xFF) OR
    push_bit 0 (drop_bit 0 RS1 AND 0xFF)"

definition AES_MIXBYTE :: "Uns32 \<Rightarrow> nat \<Rightarrow> nat \<Rightarrow> nat \<Rightarrow> nat \<Rightarrow> Uns32" where
  "AES_MIXBYTE COL B0 B1 B2 B3 =
    BY COL B3 XOR BY COL B2 XOR AES_GFMUL (BY COL B1) 3 XOR AES_GFMUL (BY COL B0) 2"

definition AES_MIXCOLUMN :: "Uns32 \<Rightarrow> Uns32" where
  "AES_MIXCOLUMN COL =
    push_bit 24 (AES_MIXBYTE COL 3 0 1 2) OR
    push_bit 16 (AES_MIXBYTE COL 2 3 0 1) OR
    push_bit 8 (AES_MIXBYTE COL 1 2 3 0) OR
    push_bit 0 (AES_MIXBYTE COL 0 1 2 3)"

definition AES_INVMIXBYTE :: "Uns32 \<Rightarrow> nat \<Rightarrow> nat \<Rightarrow> nat \<Rightarrow> nat \<Rightarrow> Uns32" where
  "AES_INVMIXBYTE COL B0 B1 B2 B3 =
    AES_GFMUL (BY COL B3) 0x9 XOR AES_GFMUL (BY COL B2) 0xd XOR
    AES_GFMUL (BY COL B1) 0xb XOR AES_GFMUL (BY COL B0) 0xe"

definition AES_INVMIXCOLUMN :: "Uns32 \<Rightarrow> Uns32" where
  "AES_INVMIXCOLUMN COL =
    push_bit 24 (AES_INVMIXBYTE COL 3 0 1 2) OR
    push_bit 16 (AES_INVMIXBYTE COL 2 3 0 1) OR
    push_bit 8 (AES_INVMIXBYTE COL 1 2 3 0) OR
    push_bit 0 (AES_INVMIXBYTE COL 0 1 2 3)"

section \<open>32-bit scalar instructions\<close>

text \<open>The byte select \<open>bs\<close> is a two-bit field of the instruction, so \<open>8 * bs\<close> is below 32.\<close>

definition doSAES32_ENCS :: "Uns32 \<Rightarrow> Uns32 \<Rightarrow> Uns32 \<Rightarrow> Uns32" where
  "doSAES32_ENCS rs1 bs rs2 =
    (let t0 = (ucast (drop_bit (unat (8 * bs)) rs2) :: Uns8);
         x = AES_ENC_SBOX ! unat t0;
         u = (ucast x :: Uns32);
         u = ROL32 u (8 * bs)
     in u XOR rs1)"

definition doSAES32_ENCSM :: "Uns32 \<Rightarrow> Uns32 \<Rightarrow> Uns32 \<Rightarrow> Uns32" where
  "doSAES32_ENCSM rs1 bs rs2 =
    (let t0 = (ucast (drop_bit (unat (8 * bs)) rs2) :: Uns8);
         x = (ucast (AES_ENC_SBOX ! unat t0) :: Uns32);
         u = push_bit 24 (AES_GFMUL x 3) OR push_bit 16 x OR push_bit 8 x OR push_bit 0 (AES_GFMUL x 2);
         u = ROL32 u (8 * bs)
     in u XOR rs1)"

definition doSAES32_DECS :: "Uns32 \<Rightarrow> Uns32 \<Rightarrow> Uns32 \<Rightarrow> Uns32" where
  "doSAES32_DECS rs1 bs rs2 =
    (let t0 = (ucast (drop_bit (unat (8 * bs)) rs2) :: Uns8);
         x = AES_DEC_SBOX ! unat t0;
         u = (ucast x :: Uns32);
         u = ROL32 u (8 * bs)
     in u XOR rs1)"

definition doSAES32_DECSM :: "Uns32 \<Rightarrow> Uns32 \<Rightarrow> Uns32 \<Rightarrow> Uns32" where
  "doSAES32_DECSM rs1 bs rs2 =
    (let t0 = (ucast (drop_bit (unat (8 * bs)) rs2) :: Uns8);
         x = (ucast (AES_DEC_SBOX ! unat t0) :: Uns32);
         u = push_bit 24 (AES_GFMUL x 0xb) OR push_bit 16 (AES_GFMUL x 0xd) OR
             push_bit 8 (AES_GFMUL x 0x9) OR push_bit 0 (AES_GFMUL x 0xe);
         u = ROL32 u (8 * bs)
     in u XOR rs1)"

section \<open>64-bit scalar instructions\<close>

definition doSAES64_KS1 :: "Uns64 \<Rightarrow> Uns32 \<Rightarrow> Uns64" where
  "doSAES64_KS1 rs1 rnum =
    (let temp = (ucast (drop_bit 32 rs1) :: Uns32);
         (temp, rcon) = (if rnum < 0xA then (ROR32 temp 8, round_consts ! unat rnum) else (temp, 0));
         temp = push_bit 24 (ucast (AES_ENC_SBOX ! unat (drop_bit 24 temp AND 0xFF))) OR
                push_bit 16 (ucast (AES_ENC_SBOX ! unat (drop_bit 16 temp AND 0xFF))) OR
                push_bit 8 (ucast (AES_ENC_SBOX ! unat (drop_bit 8 temp AND 0xFF))) OR
                push_bit 0 (ucast (AES_ENC_SBOX ! unat (drop_bit 0 temp AND 0xFF)));
         temp = (temp XOR ucast rcon :: Uns32)
     in push_bit 32 (ucast temp) OR ucast temp)"

definition doSAES64_KS2 :: "Uns64 \<Rightarrow> Uns64 \<Rightarrow> Uns64" where
  "doSAES64_KS2 rs1 rs2 =
    (let rs1_hi = (ucast (drop_bit 32 rs1) :: Uns32);
         rs2_lo = (ucast rs2 :: Uns32);
         rs2_hi = (ucast (drop_bit 32 rs2) :: Uns32);
         r_lo = rs1_hi XOR rs2_lo;
         r_hi = rs1_hi XOR rs2_lo XOR rs2_hi
     in push_bit 32 (ucast r_hi) OR ucast r_lo)"

definition doSAES64_IMIX :: "Uns64 \<Rightarrow> Uns64" where
  "doSAES64_IMIX rs1 =
    (let col_0 = (ucast (rs1 AND 0xFFFFFFFF) :: Uns32);
         col_1 = (ucast (drop_bit 32 rs1) :: Uns32);
         col_0 = AES_INVMIXCOLUMN col_0;
         col_1 = AES_INVMIXCOLUMN col_1
     in push_bit 32 (ucast col_1) OR ucast col_0)"

definition doSAES64_ENCS :: "Uns64 \<Rightarrow> Uns64 \<Rightarrow> Uns64" where
  "doSAES64_ENCS rs1 rs2 =
    (let temp = AES_SHIFROWS_LO rs1 rs2 in
       push_bit 0 (ucast (AES_ENC_SBOX ! unat (drop_bit 0 temp AND 0xFF))) OR
       push_bit 8 (ucast (AES_ENC_SBOX ! unat (drop_bit 8 temp AND 0xFF))) OR
       push_bit 16 (ucast (AES_ENC_SBOX ! unat (drop_bit 16 temp AND 0xFF))) OR
       push_bit 24 (ucast (AES_ENC_SBOX ! unat (drop_bit 24 temp AND 0xFF))) OR
       push_bit 32 (ucast (AES_ENC_SBOX ! unat (drop_bit 32 temp AND 0xFF))) OR
       push_bit 40 (ucast (AES_ENC_SBOX ! unat (drop_bit 40 temp AND 0xFF))) OR
       push_bit 48 (ucast (AES_ENC_SBOX ! unat (drop_bit 48 temp AND 0xFF))) OR
       push_bit 56 (ucast (AES_ENC_SBOX ! unat (drop_bit 56 temp AND 0xFF))))"

definition doSAES64_ENCSM :: "Uns64 \<Rightarrow> Uns64 \<Rightarrow> Uns64" where
  "doSAES64_ENCSM rs1 rs2 =
    (let temp = doSAES64_ENCS rs1 rs2;
         col_0 = (ucast temp :: Uns32);
         col_1 = (ucast (drop_bit 32 temp) :: Uns32);
         col_0 = AES_MIXCOLUMN col_0;
         col_1 = AES_MIXCOLUMN col_1
     in push_bit 32 (ucast col_1) OR ucast col_0)"

definition doSAES64_DECS :: "Uns64 \<Rightarrow> Uns64 \<Rightarrow> Uns64" where
  "doSAES64_DECS rs1 rs2 =
    (let temp = AES_INVSHIFROWS_LO rs1 rs2 in
       push_bit 0 (ucast (AES_DEC_SBOX ! unat (drop_bit 0 temp AND 0xFF))) OR
       push_bit 8 (ucast (AES_DEC_SBOX ! unat (drop_bit 8 temp AND 0xFF))) OR
       push_bit 16 (ucast (AES_DEC_SBOX ! unat (drop_bit 16 temp AND 0xFF))) OR
       push_bit 24 (ucast (AES_DEC_SBOX ! unat (drop_bit 24 temp AND 0xFF))) OR
       push_bit 32 (ucast (AES_DEC_SBOX ! unat (drop_bit 32 temp AND 0xFF))) OR
       push_bit 40 (ucast (AES_DEC_SBOX ! unat (drop_bit 40 temp AND 0xFF))) OR
       push_bit 48 (ucast (AES_DEC_SBOX ! unat (drop_bit 48 temp AND 0xFF))) OR
       push_bit 56 (ucast (AES_DEC_SBOX ! unat (drop_bit 56 temp AND 0xFF))))"

definition doSAES64_DECSM :: "Uns64 \<Rightarrow> Uns64 \<Rightarrow> Uns64" where
  "doSAES64_DECSM rs1 rs2 =
    (let temp = doSAES64_DECS rs1 rs2;
         col_0 = (ucast temp :: Uns32);
         col_1 = (ucast (drop_bit 32 temp) :: Uns32);
         col_0 = AES_INVMIXCOLUMN col_0;
         col_1 = AES_INVMIXCOLUMN col_1
     in push_bit 32 (ucast col_1) OR ucast col_0)"

section \<open>Vector key schedule\<close>

definition aes_subword_fwd :: "Uns32 \<Rightarrow> Uns32" where
  "aes_subword_fwd x =
    push_bit 0 (ucast (AES_ENC_SBOX ! unat (drop_bit 0 x AND 0xFF))) OR
    push_bit 8 (ucast (AES_ENC_SBOX ! unat (drop_bit 8 x AND 0xFF))) OR
    push_bit 16 (ucast (AES_ENC_SBOX ! unat (drop_bit 16 x AND 0xFF))) OR
    push_bit 24 (ucast (AES_ENC_SBOX ! unat (drop_bit 24 x AND 0xFF)))"

definition rndClamp :: "Uns32 \<Rightarrow> Uns32 \<Rightarrow> Uns32 \<Rightarrow> Uns32" where
  "rndClamp rnd lo hi =
    (let rnd = rnd AND 15 in if rnd < lo \<or> rnd > hi then rnd XOR 8 else rnd)"

definition doVAESKF1 :: "riscvVec \<Rightarrow> Uns64 \<Rightarrow> Uns64 \<Rightarrow> Uns32 \<Rightarrow> riscvVec" where
  "doVAESKF1 riscv crkl crkh rnd =
    (let rnd = rndClamp rnd 1 10;
         r = rnd - 1;
         rc = (ucast (round_consts ! unat r) :: Uns32);
         crk = (of_elems [crkl, crkh] :: v128);
         w0 = u32 crk 0 XOR aes_subword_fwd (ROR32 (u32 crk 3) 8) XOR rc;
         w1 = w0 XOR u32 crk 1;
         w2 = w1 XOR u32 crk 2;
         w3 = w2 XOR u32 crk 3
     in setResult128 riscv (of_elems [w0, w1, w2, w3]))"

definition doVAESKF2 :: "riscvVec \<Rightarrow> Uns64 \<Rightarrow> Uns64 \<Rightarrow> Uns64 \<Rightarrow> Uns64 \<Rightarrow> Uns32 \<Rightarrow> riscvVec" where
  "doVAESKF2 riscv rkbl rkbh crkl crkh rnd =
    (let rnd = rndClamp rnd 2 14;
         rkb = (of_elems [rkbl, rkbh] :: v128);
         crk = (of_elems [crkl, crkh] :: v128);
         w0 = (if rnd AND 1 \<noteq> 0 then u32 rkb 0 XOR aes_subword_fwd (u32 crk 3)
               else (let rc = (ucast (round_consts ! unat (drop_bit 1 rnd - 1)) :: Uns32)
                     in u32 rkb 0 XOR aes_subword_fwd (ROR32 (u32 crk 3) 8) XOR rc));
         w1 = w0 XOR u32 rkb 1;
         w2 = w1 XOR u32 rkb 2;
         w3 = w2 XOR u32 rkb 3
     in setResult128 riscv (of_elems [w0, w1, w2, w3]))"

end
