(* ===== verification/RV_GF2.thy ===== *)
theory RV_GF2
  imports RV_Prelude
begin

text \<open>
  Multiplication of polynomials over the field of two elements, packed in words and reduced while
  shifting. \<open>poly_mul\<close> is the loop; the locale \<open>shift_register\<close> states what it relies on of the
  step that multiplies by the polynomial variable and derives that the product is commutative,
  associative, additive and has the unit 1. It is interpreted for the field of AES
  (\<^verbatim>\<open>RV_KExt_Sbox\<close>) and for the field of GCM (\<^verbatim>\<open>RV_KExt_GCM\<close>).
\<close>

section \<open>Multiplication by shift and reduce\<close>

text \<open>\<open>poly_mul X n a b\<close> adds the multiples \<open>X (X \<dots> a)\<close> of \<open>a\<close> selected by the low \<open>n\<close> bits of \<open>b\<close>.\<close>

primrec poly_mul :: "('a::len word \<Rightarrow> 'a word) \<Rightarrow> nat \<Rightarrow> 'a word \<Rightarrow> 'a word \<Rightarrow> 'a word" where
  "poly_mul X 0 a b = 0"
| "poly_mul X (Suc n) a b = (if bit b 0 then a else 0) XOR poly_mul X n (X a) (drop_bit 1 b)"

primrec xor_sum :: "(nat \<Rightarrow> 'a::len word) \<Rightarrow> nat \<Rightarrow> 'a word" where
  "xor_sum f 0 = 0"
| "xor_sum f (Suc n) = xor_sum f n XOR f n"

lemma xor_sum_xor: "xor_sum (\<lambda>i. f i XOR g i) n = xor_sum f n XOR xor_sum g n"
  by (induction n) (simp_all add: ac_simps)

lemma xor_sum_0: "xor_sum (\<lambda>i. 0) n = 0"
  by (induction n) simp_all

lemma xor_sum_if: "xor_sum (\<lambda>i. if c then f i else 0) n = (if c then xor_sum f n else 0)"
  by (simp add: xor_sum_0)

lemma xor_sum_swap: "xor_sum (\<lambda>i. xor_sum (f i) m) n = xor_sum (\<lambda>j. xor_sum (\<lambda>i. f i j) n) m"
  by (induction n) (simp_all add: xor_sum_0 xor_sum_xor)

lemma xor_sum_cong: "(\<And>i. i < n \<Longrightarrow> f i = g i) \<Longrightarrow> xor_sum f n = xor_sum g n"
  by (induction n) simp_all

lemma xor_sum_Suc_left: "xor_sum f (Suc n) = f 0 XOR xor_sum (\<lambda>i. f (Suc i)) n"
  by (induction n) (simp_all add: xor.assoc)

lemma xor_sum_bits: "n \<le> LENGTH('a) \<Longrightarrow> xor_sum (\<lambda>i. if bit x i then push_bit i 1 else 0) n = take_bit n x" for x :: "'a::len word"
proof (induction n)
  case (Suc n)
  have "take_bit (Suc n) x = take_bit n x XOR (if bit x n then push_bit n 1 else 0)"
    using Suc.prems by (intro bit_word_eqI) (auto simp: bit_simps less_Suc_eq)
  with Suc show ?case by simp
qed simp

text \<open>The contract of a multiplication by the polynomial variable: it is additive and shifts the
  powers below the top.\<close>

locale shift_register =
  fixes X :: "'a::len word \<Rightarrow> 'a word"
  assumes X_xor: "X (a XOR b) = X a XOR X b"
    and X_shift: "Suc k < LENGTH('a) \<Longrightarrow> X (push_bit k 1) = push_bit (Suc k) 1"
begin

lemma X_0: "X 0 = 0"
  using X_xor [of 0 0] by simp

lemma pow_xor: "(X ^^ k) (a XOR b) = (X ^^ k) a XOR (X ^^ k) b"
  by (induction k) (simp_all add: X_xor)

lemma pow_0: "(X ^^ k) 0 = 0"
  by (induction k) (simp_all add: X_0)

lemma pow_1: "k < LENGTH('a) \<Longrightarrow> (X ^^ k) 1 = push_bit k 1"
  by (induction k) (simp_all add: X_shift del: push_bit_of_1 push_bit_Suc)

lemma pow_xor_sum: "(X ^^ k) (xor_sum f n) = xor_sum (\<lambda>i. (X ^^ k) (f i)) n"
  by (induction n) (simp_all add: pow_xor pow_0)

lemma mul_sum: "poly_mul X n a b = xor_sum (\<lambda>i. if bit b i then (X ^^ i) a else 0) n"
proof (induction n arbitrary: a b)
  case (Suc n)
  have "poly_mul X n (X a) (drop_bit 1 b) = xor_sum (\<lambda>i. if bit b (Suc i) then (X ^^ Suc i) a else 0) n"
    unfolding Suc by (rule xor_sum_cong) (simp add: bit_drop_bit_eq funpow_swap1)
  then show ?case by (simp only: poly_mul.simps xor_sum_Suc_left funpow_0 id_apply funpow.simps)
qed simp

lemma mul_xor_left: "poly_mul X n (a XOR a') b = poly_mul X n a b XOR poly_mul X n a' b"
  unfolding mul_sum xor_sum_xor [symmetric] by (rule xor_sum_cong) (simp add: pow_xor)

lemma mul_xor_right: "poly_mul X n a (b XOR b') = poly_mul X n a b XOR poly_mul X n a b'"
  unfolding mul_sum xor_sum_xor [symmetric] by (rule xor_sum_cong) (simp add: bit_xor_iff)

lemma word_sum: "a = xor_sum (\<lambda>i. if bit a i then (X ^^ i) 1 else 0) LENGTH('a)"
proof -
  have "a = xor_sum (\<lambda>i. if bit a i then push_bit i 1 else 0) LENGTH('a)"
    by (subst xor_sum_bits) simp_all
  also have "\<dots> = xor_sum (\<lambda>i. if bit a i then (X ^^ i) 1 else 0) LENGTH('a)"
    by (rule xor_sum_cong) (simp add: pow_1)
  finally show ?thesis .
qed

lemma mul_double_sum: "poly_mul X LENGTH('a) a b =
    xor_sum (\<lambda>i. xor_sum (\<lambda>j. if bit b i \<and> bit a j then (X ^^ (i + j)) 1 else 0) LENGTH('a)) LENGTH('a)"
  unfolding mul_sum
proof (rule xor_sum_cong)
  fix i
  have "(X ^^ i) a = xor_sum (\<lambda>j. if bit a j then (X ^^ (i + j)) 1 else 0) LENGTH('a)"
    by (subst word_sum) (simp add: pow_xor_sum funpow_add pow_0 if_distrib cong: if_cong)
  then show "(if bit b i then (X ^^ i) a else 0) =
      xor_sum (\<lambda>j. if bit b i \<and> bit a j then (X ^^ (i + j)) 1 else 0) LENGTH('a)"
    by (simp add: xor_sum_0)
qed

lemma mul_commute: "poly_mul X LENGTH('a) a b = poly_mul X LENGTH('a) b a"
  unfolding mul_double_sum by (subst xor_sum_swap, intro xor_sum_cong) (simp add: conj_commute add.commute)

lemma mul_pow: "poly_mul X n ((X ^^ k) a) b = (X ^^ k) (poly_mul X n a b)"
  unfolding mul_sum pow_xor_sum
  by (rule xor_sum_cong) (simp add: pow_0 add.commute flip: funpow_add [THEN fun_cong, unfolded o_apply])

lemma mul_0: "poly_mul X n 0 b = 0"
  by (induction n arbitrary: b) (simp_all add: X_0)

lemma mul_mul_swap: "poly_mul X n (poly_mul X m a b) c = poly_mul X m (poly_mul X n a c) b"
proof -
  have dist: "poly_mul X m (xor_sum f k) b = xor_sum (\<lambda>i. poly_mul X m (f i) b) k" for f k
    by (induction k) (simp_all add: mul_xor_left mul_0)
  have "poly_mul X n (poly_mul X m a b) c = xor_sum (\<lambda>i. if bit c i then poly_mul X m ((X ^^ i) a) b else 0) n"
    unfolding mul_sum [of n] mul_pow ..
  also have "\<dots> = poly_mul X m (poly_mul X n a c) b"
    unfolding mul_sum [of n a c] dist by (rule xor_sum_cong) (simp add: mul_0)
  finally show ?thesis .
qed

lemma mul_assoc: "poly_mul X LENGTH('a) (poly_mul X LENGTH('a) a b) c = poly_mul X LENGTH('a) a (poly_mul X LENGTH('a) b c)"
  by (metis mul_commute mul_mul_swap)

lemma mul_1: "poly_mul X LENGTH('a) 1 b = b"
  using word_sum [of b] by (simp add: mul_sum)

end

end
