(* ===== verification/RV_KExt_Sbox.thy ===== *)
theory RV_KExt_Sbox
  imports RV_KExt_AES RV_GF2
begin

text \<open>
  The AES S-box tables of \<^verbatim>\<open>riscvKExtension.c\<close>: the decryption table inverts the encryption
  table, and the encryption table is the Rijndael S-box, the affine map of the multiplicative
  inverse in the field of 256 elements. The tables are checked entry by entry by evaluation
  in the kernel; the field argument uses the powers of the generator 3.
\<close>

section \<open>The field of 256 elements\<close>

definition xtime :: "Uns8 \<Rightarrow> Uns8" where
  "xtime a = push_bit 1 a XOR (if bit a 7 then 0x1b else 0)"

interpretation aes: shift_register xtime
proof
  show "xtime (a XOR b) = xtime a XOR xtime b" for a b
    by (rule bit_word_eqI) (auto simp: xtime_def bit_simps)
  show "Suc k < LENGTH(8) \<Longrightarrow> xtime (push_bit k 1) = push_bit (Suc k) 1" for k
    by (simp add: xtime_def bit_push_bit_iff bit_1_iff push_bit_push_bit del: push_bit_of_1)
qed

abbreviation gf_mul :: "Uns8 \<Rightarrow> Uns8 \<Rightarrow> Uns8" where
  "gf_mul \<equiv> poly_mul xtime 8"

text \<open>The inverse of the affine map of the S-box.\<close>

definition sbox_affine_inv :: "Uns8 \<Rightarrow> Uns8" where
  "sbox_affine_inv s = word_rotl 1 s XOR word_rotl 3 s XOR word_rotl 6 s XOR 0x05"

definition times3 :: "Uns8 \<Rightarrow> Uns8" where
  "times3 a = a XOR xtime a"

lemma gf_mul_times3: "gf_mul (times3 a) b = times3 (gf_mul a b)"
  using aes.mul_pow [of 8 1 a b] by (simp add: times3_def aes.mul_xor_left)

lemma gf_mul_pow3: "gf_mul ((times3 ^^ k) a) b = (times3 ^^ k) (gf_mul a b)"
  by (induction k) (simp_all add: gf_mul_times3)

lemma gf_mul_1: "gf_mul 1 b = b"
  using aes.mul_1 by simp

section \<open>Powers and logarithms to the base 3\<close>

definition gf_exp :: "Uns8 list" where
  "gf_exp = [
    1, 3, 5, 15, 17, 51, 85, 255, 26, 46, 114, 150, 161, 248, 19, 53, 95, 225, 56, 72, 216, 115, 149, 164,
    247, 2, 6, 10, 30, 34, 102, 170, 229, 52, 92, 228, 55, 89, 235, 38, 106, 190, 217, 112, 144, 171, 230, 49,
    83, 245, 4, 12, 20, 60, 68, 204, 79, 209, 104, 184, 211, 110, 178, 205, 76, 212, 103, 169, 224, 59, 77, 215,
    98, 166, 241, 8, 24, 40, 120, 136, 131, 158, 185, 208, 107, 189, 220, 127, 129, 152, 179, 206, 73, 219, 118, 154,
    181, 196, 87, 249, 16, 48, 80, 240, 11, 29, 39, 105, 187, 214, 97, 163, 254, 25, 43, 125, 135, 146, 173, 236,
    47, 113, 147, 174, 233, 32, 96, 160, 251, 22, 58, 78, 210, 109, 183, 194, 93, 231, 50, 86, 250, 21, 63, 65,
    195, 94, 226, 61, 71, 201, 64, 192, 91, 237, 44, 116, 156, 191, 218, 117, 159, 186, 213, 100, 172, 239, 42, 126,
    130, 157, 188, 223, 122, 142, 137, 128, 155, 182, 193, 88, 232, 35, 101, 175, 234, 37, 111, 177, 200, 67, 197, 84,
    252, 31, 33, 99, 165, 244, 7, 9, 27, 45, 119, 153, 176, 203, 70, 202, 69, 207, 74, 222, 121, 139, 134, 145,
    168, 227, 62, 66, 198, 81, 243, 14, 18, 54, 90, 238, 41, 123, 141, 140, 143, 138, 133, 148, 167, 242, 13, 23,
    57, 75, 221, 124, 132, 151, 162, 253, 28, 36, 108, 180, 199, 82, 246, 1]"

definition gf_log :: "Uns8 list" where
  "gf_log = [
    0, 0, 25, 1, 50, 2, 26, 198, 75, 199, 27, 104, 51, 238, 223, 3, 100, 4, 224, 14, 52, 141, 129, 239,
    76, 113, 8, 200, 248, 105, 28, 193, 125, 194, 29, 181, 249, 185, 39, 106, 77, 228, 166, 114, 154, 201, 9, 120,
    101, 47, 138, 5, 33, 15, 225, 36, 18, 240, 130, 69, 53, 147, 218, 142, 150, 143, 219, 189, 54, 208, 206, 148,
    19, 92, 210, 241, 64, 70, 131, 56, 102, 221, 253, 48, 191, 6, 139, 98, 179, 37, 226, 152, 34, 136, 145, 16,
    126, 110, 72, 195, 163, 182, 30, 66, 58, 107, 40, 84, 250, 133, 61, 186, 43, 121, 10, 21, 155, 159, 94, 202,
    78, 212, 172, 229, 243, 115, 167, 87, 175, 88, 168, 80, 244, 234, 214, 116, 79, 174, 233, 213, 231, 230, 173, 232,
    44, 215, 117, 122, 235, 22, 11, 245, 89, 203, 95, 176, 156, 169, 81, 160, 127, 12, 246, 111, 23, 196, 73, 236,
    216, 67, 31, 45, 164, 118, 123, 183, 204, 187, 62, 90, 251, 96, 177, 134, 59, 82, 161, 108, 170, 85, 41, 157,
    151, 178, 135, 144, 97, 190, 220, 252, 188, 149, 207, 205, 55, 63, 91, 209, 83, 57, 132, 60, 65, 162, 109, 71,
    20, 42, 158, 93, 86, 242, 211, 171, 68, 17, 146, 217, 35, 32, 46, 137, 180, 124, 184, 38, 119, 153, 227, 165,
    103, 74, 237, 222, 197, 49, 254, 24, 13, 99, 140, 128, 192, 247, 112, 7]"

lemma gf_exp_chain: "list_all (\<lambda>k. gf_exp ! Suc k = times3 (gf_exp ! k)) [0..<255]"
  by code_simp

lemma gf_log_exp: "list_all (\<lambda>n. gf_exp ! unat (gf_log ! n) = of_nat n) [1..<256]"
  by code_simp

lemma gf_exp_pow: "k \<le> 255 \<Longrightarrow> gf_exp ! k = (times3 ^^ k) 1"
proof (induction k)
  case 0
  show ?case by (simp add: gf_exp_def)
next
  case (Suc k)
  then show ?case using gf_exp_chain unfolding list_all_iff set_upt by simp
qed

section \<open>The tables\<close>

lemma sbox_tables_inverse: "list_all (\<lambda>n. AES_DEC_SBOX ! unat (AES_ENC_SBOX ! n) = of_nat n) [0..<256]"
  by code_simp

definition sbox_entry_ok :: "nat \<Rightarrow> bool" where
  "sbox_entry_ok n \<longleftrightarrow> sbox_affine_inv (AES_ENC_SBOX ! n) = gf_exp ! unat (255 - gf_log ! n)"

lemma sbox_entries_low: "list_all sbox_entry_ok [1..<96]"
  by code_simp

lemma sbox_entries_mid: "list_all sbox_entry_ok [96..<176]"
  by code_simp

lemma sbox_entries_high: "list_all sbox_entry_ok [176..<256]"
  by code_simp

lemma sbox_inverse_powers: "n \<in> set [1..<256] \<Longrightarrow> sbox_affine_inv (AES_ENC_SBOX ! n) = gf_exp ! unat (255 - gf_log ! n)"
  using sbox_entries_low sbox_entries_mid sbox_entries_high
  unfolding sbox_entry_ok_def list_all_iff set_upt by (cases "n < 96"; cases "n < 176") simp_all

lemma sbox_zero: "sbox_affine_inv (AES_ENC_SBOX ! 0) = 0"
  by code_simp

lemma gf_exp_period: "(times3 ^^ 255) 1 = 1"
  using gf_exp_pow [of 255] by (simp add: gf_exp_def)

lemma sbox_field_inverse:
  assumes "x \<noteq> 0"
  shows "gf_mul x (sbox_affine_inv (AES_ENC_SBOX ! unat x)) = 1"
proof -
  define k where "k = gf_log ! unat x"
  have x: "unat x \<in> set [1..<256]"
    unfolding set_upt using assms unsigned_less [of x, where 'a = nat] by (auto simp: Suc_le_eq unat_gt_0)
  have k: "unat k \<le> 255" using unsigned_less [of k, where 'a = nat] by simp
  have "k \<le> 255" using k by (simp add: word_le_nat_alt)
  then have sub: "unat (255 - k) = 255 - unat k" by (simp add: unat_sub)
  have "x = gf_exp ! unat k"
    using gf_log_exp x unfolding list_all_iff set_upt by (simp add: k_def)
  then have "x = (times3 ^^ unat k) 1" using gf_exp_pow [OF k] by simp
  moreover have "sbox_affine_inv (AES_ENC_SBOX ! unat x) = (times3 ^^ (255 - unat k)) 1"
    using sbox_inverse_powers [OF x] gf_exp_pow [of "255 - unat k"] sub by (simp add: k_def)
  ultimately have "gf_mul x (sbox_affine_inv (AES_ENC_SBOX ! unat x)) =
    (times3 ^^ unat k) ((times3 ^^ (255 - unat k)) 1)"
    by (simp only: gf_mul_pow3 gf_mul_1)
  also have "\<dots> = 1"
    using k gf_exp_period funpow_add [of "unat k" "255 - unat k" times3] by simp
  finally show ?thesis .
qed

lemma AES_DEC_ENC: "AES_DEC_SBOX ! unat (AES_ENC_SBOX ! unat b) = b"
proof -
  have "unat b \<in> set [0..<256]" unfolding set_upt using unsigned_less [of b, where 'a = nat] by simp
  then show ?thesis using sbox_tables_inverse unfolding list_all_iff set_upt by simp
qed

text \<open>C33: The decryption S-box table inverts the encryption S-box table, and the encryption table is
  the Rijndael S-box: undoing the affine map of every entry gives the multiplicative inverse of
  the index in the field of 256 elements, with zero sent to zero.\<close>

theorem AES_SBOX_is_Rijndael:
  "AES_DEC_SBOX ! unat (AES_ENC_SBOX ! unat b) = b \<and>
   gf_mul b (sbox_affine_inv (AES_ENC_SBOX ! unat b)) = (if b = 0 then 0 else 1) \<and>
   sbox_affine_inv (AES_ENC_SBOX ! 0) = 0"
proof (cases "b = 0")
  case True
  then show ?thesis using AES_DEC_ENC [of 0] sbox_zero aes.mul_0 by simp
next
  case False
  then show ?thesis using AES_DEC_ENC sbox_field_inverse sbox_zero by simp
qed

end
