(* ===== verification/RV_KExt_Bytes.thy ===== *)
theory RV_KExt_Bytes
  imports RV_KExt_Base
begin

text \<open>
  Words as sequences of bytes: packing, byte selection by shift and mask, rotations by whole
  bytes, and the halves of 64- and 128-bit values. The AES and SM4 proofs compute with these.
\<close>

section \<open>Byte views\<close>

abbreviation pack4 :: "Uns8 \<Rightarrow> Uns8 \<Rightarrow> Uns8 \<Rightarrow> Uns8 \<Rightarrow> Uns32" where
  "pack4 a b c d \<equiv> of_elems [a, b, c, d]"

abbreviation pack8 :: "Uns8 \<Rightarrow> Uns8 \<Rightarrow> Uns8 \<Rightarrow> Uns8 \<Rightarrow> Uns8 \<Rightarrow> Uns8 \<Rightarrow> Uns8 \<Rightarrow> Uns8 \<Rightarrow> Uns64" where
  "pack8 a b c d e f g h \<equiv> of_elems [a, b, c, d, e, f, g, h]"

lemma u8_pack4 [simp]:
  "u8 (pack4 a b c d) 0 = a" "u8 (pack4 a b c d) (Suc 0) = b" "u8 (pack4 a b c d) 2 = c" "u8 (pack4 a b c d) 3 = d"
  by (subst elem_of_elems; simp add: nth_Cons')+

lemma u8_pack8 [simp]:
  "u8 (pack8 a b c d e f g h) 0 = a" "u8 (pack8 a b c d e f g h) (Suc 0) = b" "u8 (pack8 a b c d e f g h) 2 = c"
  "u8 (pack8 a b c d e f g h) 3 = d" "u8 (pack8 a b c d e f g h) 4 = e" "u8 (pack8 a b c d e f g h) 5 = f"
  "u8 (pack8 a b c d e f g h) 6 = g" "u8 (pack8 a b c d e f g h) 7 = h"
  by (subst elem_of_elems; simp add: nth_Cons')+

lemma pack4_shifts:
  "push_bit 24 (ucast d) OR push_bit 16 (ucast c) OR push_bit 8 (ucast b) OR push_bit 0 (ucast a) = pack4 a b c d"
  "push_bit 0 (ucast a) OR push_bit 8 (ucast b) OR push_bit 16 (ucast c) OR push_bit 24 (ucast d) = pack4 a b c d"
  by (rule bit_word_eqI, auto simp: bit_of_elems_Cons bit_simps of_elems_def [of "[]"] dest: bit_imp_le_length)+

lemma of_elems_Cons: "of_elems (x # xs) = ucast x OR push_bit LENGTH('b) (of_elems xs :: 'a::len word)"
  for x :: "'b::len word"
  by (simp add: of_elems_def)

lemma of_elems_Nil: "of_elems [] = 0"
  by (simp add: of_elems_def)

lemmas of_elems_shifts = of_elems_Cons of_elems_Nil push_bit_or push_bit_push_bit push_bit_of_0 or.right_neutral
  len_num0 len_num1 len_bit0 len_bit1 numeral_plus_numeral add_num_simps mult_1_right numeral_times_numeral mult_num_simps

lemma pack8_shifts:
  "push_bit 0 (ucast a) OR push_bit 8 (ucast b) OR push_bit 16 (ucast c) OR push_bit 24 (ucast d) OR
   push_bit 32 (ucast e) OR push_bit 40 (ucast f) OR push_bit 48 (ucast g) OR push_bit 56 (ucast h) = pack8 a b c d e f g h"
  "push_bit 56 (ucast h) OR push_bit 48 (ucast g) OR push_bit 40 (ucast f) OR push_bit 32 (ucast e) OR
   push_bit 24 (ucast d) OR push_bit 16 (ucast c) OR push_bit 8 (ucast b) OR push_bit 0 (ucast a) = pack8 a b c d e f g h"
  by (simp_all only: of_elems_shifts push_bit_0_id id_apply or.assoc) (simp_all only: ac_simps)

lemma pack4_eta: "pack4 (u8 x 0) (u8 x 1) (u8 x 2) (u8 x 3) = x"
  using of_elems_elems [of 4 x, where 'b = 8] by (simp add: upt_rec numeral_eq_Suc)

lemma pack8_eta: "pack8 (u8 x 0) (u8 x 1) (u8 x 2) (u8 x 3) (u8 x 4) (u8 x 5) (u8 x 6) (u8 x 7) = x"
  using of_elems_elems [of 8 x, where 'b = 8] by (simp add: upt_rec numeral_eq_Suc)

lemma byte_mask: "(0xFF::Uns32) = mask 8" "(0xFF::Uns64) = mask 8"
  by (simp_all add: mask_eq_exp_minus_1)

lemma byte_of_word:
  "drop_bit k x AND 0xFF = (ucast (u8 x (k div 8)) :: Uns32)" "drop_bit k y AND 0xFF = (ucast (u8 y (k div 8)) :: Uns64)"
  if "8 dvd k" for x :: Uns32 and y :: Uns64
  by (rule bit_word_eqI, use that in \<open>auto simp: bit_elem bit_simps byte_mask\<close>)+

lemma low_byte: "x AND 0xFF = (ucast (ucast x :: Uns8) :: Uns32)"
  by (rule bit_word_eqI) (auto simp: bit_simps byte_mask)

lemma ucast_xor8: "(ucast (x XOR y) :: Uns8) = ucast x XOR ucast y" for x y :: Uns32
  by (rule bit_word_eqI) (simp add: bit_simps)

lemma ucast_xor32: "(ucast (x XOR y) :: Uns32) = ucast x XOR ucast y" for x y :: Uns8
  by (rule bit_word_eqI) (auto simp: bit_simps)

lemma ucast_ucast8: "(ucast (ucast (b::Uns8) :: Uns32) :: Uns8) = b"
  by (rule bit_word_eqI) (simp add: bit_simps)

lemma xor_cancel: "x XOR (x XOR y) = y" for x y :: "'a::len word"
  by (simp flip: xor.assoc)

lemma byte_shifts:
  fixes x :: Uns32 and y :: Uns64
  shows "drop_bit 0 x AND 0xFF = ucast (u8 x 0)" "drop_bit 8 x AND 0xFF = ucast (u8 x 1)"
    "drop_bit 16 x AND 0xFF = ucast (u8 x 2)" "drop_bit 24 x AND 0xFF = ucast (u8 x 3)"
    "drop_bit 0 y AND 0xFF = ucast (u8 y 0)" "drop_bit 8 y AND 0xFF = ucast (u8 y 1)"
    "drop_bit 16 y AND 0xFF = ucast (u8 y 2)" "drop_bit 24 y AND 0xFF = ucast (u8 y 3)"
    "drop_bit 32 y AND 0xFF = ucast (u8 y 4)" "drop_bit 40 y AND 0xFF = ucast (u8 y 5)"
    "drop_bit 48 y AND 0xFF = ucast (u8 y 6)" "drop_bit 56 y AND 0xFF = ucast (u8 y 7)"
  by (subst byte_of_word; simp)+

lemma unat_ucast_byte: "unat (ucast (b::Uns8) :: Uns32) = unat b" "unat (ucast (b::Uns8) :: Uns64) = unat b"
  by (simp_all add: unsigned_ucast_eq take_bit_nat_eq_self unsigned_less [THEN less_le_trans])

lemma columns_of_pair:
  "ucast (push_bit 32 (ucast h) OR ucast l :: Uns64) = (l::Uns32)"
  "ucast ((push_bit 32 (ucast h) OR ucast l :: Uns64) AND 0xFFFFFFFF) = (l::Uns32)"
  "ucast (drop_bit 32 (push_bit 32 (ucast h) OR ucast l :: Uns64)) = (h::Uns32)"
proof -
  have m: "(0xFFFFFFFF::Uns64) = mask 32" by (simp add: mask_eq_exp_minus_1)
  show "ucast (push_bit 32 (ucast h) OR ucast l :: Uns64) = (l::Uns32)"
    "ucast ((push_bit 32 (ucast h) OR ucast l :: Uns64) AND 0xFFFFFFFF) = (l::Uns32)"
    "ucast (drop_bit 32 (push_bit 32 (ucast h) OR ucast l :: Uns64)) = (h::Uns32)"
    unfolding m by (rule bit_word_eqI, auto simp: bit_simps dest: bit_imp_le_length)+
qed

lemma pair_of_columns: "push_bit 32 (ucast (ucast (drop_bit 32 x) :: Uns32)) OR ucast (ucast x :: Uns32) = (x::Uns64)"
  by (rule bit_word_eqI) (auto simp: bit_simps)

lemma bit_pack4: "bit (pack4 a b c d) n \<longleftrightarrow>
    (if n < 8 then bit a n else if n < 16 then bit b (n - 8) else if n < 24 then bit c (n - 16)
     else bit d (n - 24))"
proof (cases "n < 32")
  case True
  then consider "n < 8" | "8 \<le> n" "n < 16" | "16 \<le> n" "n < 24" | "24 \<le> n" by linarith
  then show ?thesis using True
    by cases (simp_all add: bit_of_elems_Cons of_elems_Nil less_diff_conv2 less_diff_conv)
next
  case False
  then show ?thesis using bit_imp_le_length [of d "n - 24"] by (auto dest: bit_imp_le_length)
qed

lemma rotate_pack4:
  "push_bit 8 (pack4 a b c d) OR drop_bit 24 (pack4 a b c d) = pack4 d a b c" (is ?one)
  "push_bit 16 (pack4 a b c d) OR drop_bit 16 (pack4 a b c d) = pack4 c d a b" (is ?two)
  "push_bit 24 (pack4 a b c d) OR drop_bit 8 (pack4 a b c d) = pack4 b c d a" (is ?three)
proof -
  have split: "(n < 8 \<Longrightarrow> P n) \<Longrightarrow> (8 \<le> n \<Longrightarrow> n < 16 \<Longrightarrow> P n) \<Longrightarrow> (16 \<le> n \<Longrightarrow> n < 24 \<Longrightarrow> P n) \<Longrightarrow>
    (24 \<le> n \<Longrightarrow> n < 32 \<Longrightarrow> P n) \<Longrightarrow> n < LENGTH(32) \<Longrightarrow> P n" for n :: nat and P
    by (cases "n < 8"; cases "n < 16"; cases "n < 24") simp_all
  have out: "8 \<le> k \<Longrightarrow> \<not> bit (x::Uns8) k" for x k
    using bit_imp_le_length [of x k] by auto
  show ?one by (rule bit_word_eqI, erule split [rotated 4])
      (simp_all add: bit_or_iff bit_push_bit_iff bit_drop_bit_eq bit_pack4 out)
  show ?two by (rule bit_word_eqI, erule split [rotated 4])
      (simp_all add: bit_or_iff bit_push_bit_iff bit_drop_bit_eq bit_pack4 out)
  show ?three by (rule bit_word_eqI, erule split [rotated 4])
      (simp_all add: bit_or_iff bit_push_bit_iff bit_drop_bit_eq bit_pack4 out)
qed

lemma ROL32_pack4:
  "ROL32 (pack4 a b c d) 8 = pack4 d a b c" "ROL32 (pack4 a b c d) 16 = pack4 c d a b"
  "ROL32 (pack4 a b c d) 24 = pack4 b c d a"
proof -
  have "ROL32 x 8 = push_bit 8 x OR drop_bit 24 x" "ROL32 x 16 = push_bit 16 x OR drop_bit 16 x"
    "ROL32 x 24 = push_bit 24 x OR drop_bit 8 x" for x
    by (simp_all add: ROL32_def or.commute)
  then show "ROL32 (pack4 a b c d) 8 = pack4 d a b c" "ROL32 (pack4 a b c d) 16 = pack4 c d a b"
    "ROL32 (pack4 a b c d) 24 = pack4 b c d a"
    by (simp_all only: rotate_pack4)
qed

lemma ROL32_0: "ROL32 x 0 = x"
  by (simp add: ROL32_def)

lemma xor_pack4: "pack4 a b c d XOR pack4 p q r s = pack4 (a XOR p) (b XOR q) (c XOR r) (d XOR s)"
  by (rule elem_ext [where N = 4 and 'b = 8]) (auto simp: bit_elem bit_of_elems_Cons bit_xor_iff intro!: bit_word_eqI)

lemma u8_drop_32: "u8 (drop_bit 32 (x::Uns64)) i = u8 x (i + 4)"
  by (rule bit_word_eqI) (simp add: bit_elem bit_drop_bit_eq algebra_simps)

lemma u8_low_column: "i < 4 \<Longrightarrow> u8 (ucast (x::Uns64) :: Uns32) i = u8 x i"
  by (rule bit_word_eqI) (auto simp: bit_elem bit_simps)

lemmas u8_columns = u8_drop_32 u8_low_column

lemma select_byte:
  "ucast (drop_bit (unat (8 * 0 :: Uns32)) x) = u8 x 0" "ucast (drop_bit (unat (8 * 1 :: Uns32)) x) = u8 x 1"
  "ucast (drop_bit (unat (8 * 2 :: Uns32)) x) = u8 x 2" "ucast (drop_bit (unat (8 * 3 :: Uns32)) x) = u8 x 3" for x :: Uns32
  by (simp_all add: elem_def)

lemma ROL32_by:
  "ROL32 x (8 * 0) = x" "ROL32 (pack4 a b c d) (8 * 1) = pack4 d a b c" "ROL32 (pack4 a b c d) (8 * 2) = pack4 c d a b"
  "ROL32 (pack4 a b c d) (8 * 3) = pack4 b c d a"
  by (simp_all add: ROL32_0 ROL32_pack4)

lemma ucast_pack4: "(ucast (b::Uns8) :: Uns32) = pack4 b 0 0 0"
  by (simp add: of_elems_def)

lemma low_column: "(ucast (pack8 a b c d e f g h) :: Uns32) = pack4 a b c d"
proof (rule elem_ext [where N = 4 and 'b = 8])
  fix i :: nat assume "i < 4"
  then consider "i = 0" | "i = 1" | "i = 2" | "i = 3" by linarith
  then show "u8 (ucast (pack8 a b c d e f g h) :: Uns32) i = u8 (pack4 a b c d) i"
    by cases (simp_all add: u8_columns)
qed simp

lemma of_elems_halves:
  "(of_elems [a, b, c, d] :: v128) = of_elems [push_bit 32 (ucast b) OR ucast a, push_bit 32 (ucast d) OR ucast c :: Uns64]"
  for a b c d :: Uns32
proof (rule elem_ext [where N = 2 and 'b = 64])
  fix i :: nat assume "i < 2"
  then consider "i = 0" | "i = 1" by linarith
  then show "u64 (of_elems [a, b, c, d] :: v128) i =
    u64 (of_elems [push_bit 32 (ucast b) OR ucast a, push_bit 32 (ucast d) OR ucast c :: Uns64] :: v128) i"
    by cases (simp_all only: u64_of_u32s elem_of_elems_4 One_nat_def)
qed simp

end
