(* ===== verification/RV_KExt_AES_Round.thy ===== *)
theory RV_KExt_AES_Round
  imports RV_KExt_Sbox RV_KExt_Bytes
begin

text \<open>
  The AES instructions byte by byte: the column transformations are inverse to each other, the
  64-bit decryption instructions undo the encryption instructions, the 32-bit instructions
  compute the columns of the 64-bit ones, and the scalar and vector key schedules agree.
\<close>

section \<open>Columns\<close>

text \<open>Multiplication of a byte by a constant below 16.\<close>

definition gmul :: "Uns8 \<Rightarrow> nat \<Rightarrow> Uns8" where
  "gmul a c = (if bit c 0 then a else 0) XOR (if bit c 1 then xtime a else 0) XOR
    (if bit c 2 then xtime (xtime a) else 0) XOR (if bit c 3 then xtime (xtime (xtime a)) else 0)"

lemma AES_XTIME_byte: "(ucast (AES_XTIME x) :: Uns8) = xtime (ucast x)"
proof -
  have "x AND 0x80 \<noteq> 0 \<longleftrightarrow> bit x 7"
    using bit_iff_and_push_bit_not_eq_0 [of x 7] by simp
  then show ?thesis
    by (intro bit_word_eqI) (auto simp: AES_XTIME_def xtime_def bit_simps simp del: push_bit_Suc One_nat_def)
qed

lemma AES_GFMUL_byte:
  "AES_GFMUL x 2 = ucast (gmul (ucast x) 2)" "AES_GFMUL x 3 = ucast (gmul (ucast x) 3)"
  "AES_GFMUL x 0x9 = ucast (gmul (ucast x) 9)" "AES_GFMUL x 0xb = ucast (gmul (ucast x) 11)"
  "AES_GFMUL x 0xd = ucast (gmul (ucast x) 13)" "AES_GFMUL x 0xe = ucast (gmul (ucast x) 14)"
  unfolding AES_GFMUL_def low_byte ucast_xor8
  by (simp_all add: gmul_def AES_XTIME_byte ucast_xor8 bit_0)

definition mixcol :: "Uns8 \<Rightarrow> Uns8 \<Rightarrow> Uns8 \<Rightarrow> Uns8 \<Rightarrow> Uns32" where
  "mixcol a b c d = pack4
    (gmul a 2 XOR gmul b 3 XOR c XOR d) (a XOR gmul b 2 XOR gmul c 3 XOR d)
    (a XOR b XOR gmul c 2 XOR gmul d 3) (gmul a 3 XOR b XOR c XOR gmul d 2)"

lemma BY_byte: "BY x i = ucast (u8 x i)"
  using byte_of_word(1) [of "8 * i" x] by (simp add: BY_def)

lemma AES_MIXCOLUMN_bytes: "AES_MIXCOLUMN x = mixcol (u8 x 0) (u8 x 1) (u8 x 2) (u8 x 3)"
  unfolding AES_MIXCOLUMN_def AES_MIXBYTE_def mixcol_def BY_byte AES_GFMUL_byte ucast_ucast8
  unfolding ucast_xor32 [symmetric] pack4_shifts by (simp add: ac_simps)

lemma AES_INVMIXCOLUMN_bytes: "AES_INVMIXCOLUMN x = pack4
    (gmul (u8 x 0) 14 XOR gmul (u8 x 1) 11 XOR gmul (u8 x 2) 13 XOR gmul (u8 x 3) 9)
    (gmul (u8 x 0) 9 XOR gmul (u8 x 1) 14 XOR gmul (u8 x 2) 11 XOR gmul (u8 x 3) 13)
    (gmul (u8 x 0) 13 XOR gmul (u8 x 1) 9 XOR gmul (u8 x 2) 14 XOR gmul (u8 x 3) 11)
    (gmul (u8 x 0) 11 XOR gmul (u8 x 1) 13 XOR gmul (u8 x 2) 9 XOR gmul (u8 x 3) 14)"
  unfolding AES_INVMIXCOLUMN_def AES_INVMIXBYTE_def BY_byte AES_GFMUL_byte ucast_ucast8
  unfolding ucast_xor32 [symmetric] pack4_shifts by (simp add: ac_simps)

lemma gmul_consts:
  "gmul a 2 = xtime a" "gmul a 3 = a XOR xtime a" "gmul a 9 = a XOR xtime (xtime (xtime a))"
  "gmul a 11 = a XOR xtime a XOR xtime (xtime (xtime a))"
  "gmul a 13 = a XOR xtime (xtime a) XOR xtime (xtime (xtime a))"
  "gmul a 14 = xtime a XOR xtime (xtime a) XOR xtime (xtime (xtime a))"
  by (simp_all add: gmul_def bit_0)

lemma INVMIX_MIX: "AES_INVMIXCOLUMN (AES_MIXCOLUMN x) = x"
proof -
  have "AES_INVMIXCOLUMN (mixcol a b c d) = pack4 a b c d" for a b c d
    unfolding AES_INVMIXCOLUMN_bytes mixcol_def
    by (simp add: gmul_consts aes.X_xor xor_cancel ac_simps)
  then show ?thesis by (simp add: AES_MIXCOLUMN_bytes pack4_eta del: One_nat_def)
qed

lemma MIX_INVMIX: "AES_MIXCOLUMN (AES_INVMIXCOLUMN x) = x"
proof -
  have "AES_MIXCOLUMN (AES_INVMIXCOLUMN (pack4 a b c d)) = pack4 a b c d" for a b c d
    unfolding AES_INVMIXCOLUMN_bytes AES_MIXCOLUMN_bytes mixcol_def
    by (simp add: gmul_consts aes.X_xor xor_cancel ac_simps)
  then show ?thesis using pack4_eta [of x] by metis
qed


section \<open>Rounds\<close>

abbreviation enc :: "Uns8 \<Rightarrow> Uns8" where "enc b \<equiv> AES_ENC_SBOX ! unat b"
abbreviation dec :: "Uns8 \<Rightarrow> Uns8" where "dec b \<equiv> AES_DEC_SBOX ! unat b"

lemma AES_SHIFROWS_LO_bytes:
  "AES_SHIFROWS_LO x y = pack8 (u8 x 0) (u8 x 5) (u8 y 2) (u8 y 7) (u8 x 4) (u8 y 1) (u8 y 6) (u8 x 3)"
  unfolding AES_SHIFROWS_LO_def byte_shifts pack8_shifts by simp

lemma AES_INVSHIFROWS_LO_bytes:
  "AES_INVSHIFROWS_LO x y = pack8 (u8 x 0) (u8 y 5) (u8 y 2) (u8 x 7) (u8 x 4) (u8 x 1) (u8 y 6) (u8 y 3)"
  unfolding AES_INVSHIFROWS_LO_def byte_shifts pack8_shifts by simp

lemma doSAES64_ENCS_bytes:
  "doSAES64_ENCS x y = pack8 (enc (u8 x 0)) (enc (u8 x 5)) (enc (u8 y 2)) (enc (u8 y 7))
    (enc (u8 x 4)) (enc (u8 y 1)) (enc (u8 y 6)) (enc (u8 x 3))"
  unfolding doSAES64_ENCS_def Let_def byte_shifts unat_ucast_byte pack8_shifts by (simp add: AES_SHIFROWS_LO_bytes)

lemma doSAES64_DECS_bytes:
  "doSAES64_DECS x y = pack8 (dec (u8 x 0)) (dec (u8 y 5)) (dec (u8 y 2)) (dec (u8 x 7))
    (dec (u8 x 4)) (dec (u8 x 1)) (dec (u8 y 6)) (dec (u8 y 3))"
  unfolding doSAES64_DECS_def Let_def byte_shifts unat_ucast_byte pack8_shifts by (simp add: AES_INVSHIFROWS_LO_bytes)

lemma DECS_ENCS: "doSAES64_DECS (doSAES64_ENCS a b) (doSAES64_ENCS b a) = a"
  using pack8_eta [of a] by (simp add: doSAES64_DECS_bytes doSAES64_ENCS_bytes AES_DEC_ENC)

lemma IMIX_ENCSM: "doSAES64_IMIX (doSAES64_ENCSM a b) = doSAES64_ENCS a b"
  unfolding doSAES64_IMIX_def doSAES64_ENCSM_def Let_def columns_of_pair INVMIX_MIX pair_of_columns ..

text \<open>C34: The 64-bit AES decryption round undoes the encryption round on the two halves of the state,
  also through the inverse mix-columns step, and the combined decryption round is the inverse
  mix-columns of the plain one.\<close>

theorem aes64_rounds_inverse:
  "doSAES64_DECS (doSAES64_ENCS a b) (doSAES64_ENCS b a) = a \<and>
   doSAES64_DECS (doSAES64_IMIX (doSAES64_ENCSM a b)) (doSAES64_IMIX (doSAES64_ENCSM b a)) = a \<and>
   doSAES64_DECSM (doSAES64_ENCS a b) (doSAES64_ENCS b a) = doSAES64_IMIX a"
proof -
  have "doSAES64_DECSM x y = doSAES64_IMIX (doSAES64_DECS x y)" for x y
  proof -
    have "(ucast (t AND 0xFFFFFFFF) :: Uns32) = ucast t" for t :: Uns64
      using columns_of_pair(1,2) [of "ucast (drop_bit 32 t)" "ucast t"] by (simp add: pair_of_columns)
    then show ?thesis by (simp add: doSAES64_DECSM_def doSAES64_IMIX_def Let_def)
  qed
  then show ?thesis by (simp add: IMIX_ENCSM DECS_ENCS)
qed

section \<open>Scalar 32-bit and 64-bit instructions agree\<close>

definition aes32_column :: "(Uns32 \<Rightarrow> Uns32 \<Rightarrow> Uns32 \<Rightarrow> Uns32) \<Rightarrow> Uns32 \<Rightarrow> Uns32 \<Rightarrow> Uns32 \<Rightarrow> Uns32 \<Rightarrow> Uns32 \<Rightarrow> Uns32" where
  "aes32_column f k c0 c1 c2 c3 = f (f (f (f k 0 c0) 1 c1) 2 c2) 3 c3"

lemma aes32_ENCS_column:
  "aes32_column doSAES32_ENCS k c0 c1 c2 c3 = pack4 (enc (u8 c0 0)) (enc (u8 c1 1)) (enc (u8 c2 2)) (enc (u8 c3 3)) XOR k"
  "aes32_column doSAES32_DECS k c0 c1 c2 c3 = pack4 (dec (u8 c0 0)) (dec (u8 c1 1)) (dec (u8 c2 2)) (dec (u8 c3 3)) XOR k"
  unfolding aes32_column_def doSAES32_ENCS_def doSAES32_DECS_def Let_def select_byte ucast_pack4 ROL32_by
    xor.assoc [symmetric] xor_pack4 by simp_all

lemma aes32_ENCSM_column:
  "aes32_column doSAES32_ENCSM k c0 c1 c2 c3 = mixcol (enc (u8 c0 0)) (enc (u8 c1 1)) (enc (u8 c2 2)) (enc (u8 c3 3)) XOR k"
  unfolding aes32_column_def doSAES32_ENCSM_def Let_def select_byte AES_GFMUL_byte ucast_ucast8 pack4_shifts ROL32_by
    mixcol_def xor.assoc [symmetric] xor_pack4 by (simp add: ac_simps)

lemma aes32_DECSM_column:
  "aes32_column doSAES32_DECSM k c0 c1 c2 c3 =
    AES_INVMIXCOLUMN (pack4 (dec (u8 c0 0)) (dec (u8 c1 1)) (dec (u8 c2 2)) (dec (u8 c3 3))) XOR k"
  unfolding aes32_column_def doSAES32_DECSM_def Let_def select_byte AES_GFMUL_byte ucast_ucast8 pack4_shifts ROL32_by
    AES_INVMIXCOLUMN_bytes xor.assoc [symmetric] xor_pack4 by (simp add: ac_simps)

text \<open>Four 32-bit AES instructions, one per byte, accumulate into a round key exactly the column
  that the 64-bit instruction computes, for the four encryption and decryption rounds.\<close>

theorem aes32_computes_aes64:
  fixes rs1 rs2 :: Uns64 and k c0 c1 c2 c3 :: Uns32
  defines "c0 \<equiv> ucast rs1" and "c1 \<equiv> ucast (drop_bit 32 rs1)"
    and "c2 \<equiv> ucast rs2" and "c3 \<equiv> ucast (drop_bit 32 rs2)"
  shows "aes32_column doSAES32_ENCS k c0 c1 c2 c3 = ucast (doSAES64_ENCS rs1 rs2) XOR k \<and>
    aes32_column doSAES32_ENCSM k c0 c1 c2 c3 = ucast (doSAES64_ENCSM rs1 rs2) XOR k \<and>
    aes32_column doSAES32_DECS k c0 c3 c2 c1 = ucast (doSAES64_DECS rs1 rs2) XOR k \<and>
    aes32_column doSAES32_DECSM k c0 c3 c2 c1 = ucast (doSAES64_DECSM rs1 rs2) XOR k"
  unfolding aes32_ENCS_column aes32_ENCSM_column aes32_DECSM_column doSAES64_ENCSM_def doSAES64_DECSM_def Let_def
    columns_of_pair doSAES64_ENCS_bytes doSAES64_DECS_bytes low_column c0_def c1_def c2_def c3_def AES_MIXCOLUMN_bytes
  by (simp add: u8_columns)

section \<open>Key schedule\<close>

lemma aes_subword_KS1:
  "push_bit 24 (ucast (AES_ENC_SBOX ! unat (drop_bit 24 t AND 0xFF))) OR
   push_bit 16 (ucast (AES_ENC_SBOX ! unat (drop_bit 16 t AND 0xFF))) OR
   push_bit 8 (ucast (AES_ENC_SBOX ! unat (drop_bit 8 t AND 0xFF))) OR
   push_bit 0 (ucast (AES_ENC_SBOX ! unat (drop_bit 0 t AND 0xFF))) = aes_subword_fwd t"
  unfolding aes_subword_fwd_def pack4_shifts ..

lemma doSAES64_KS1_round:
  "rnum < 10 \<Longrightarrow> doSAES64_KS1 key rnum =
    (let t = aes_subword_fwd (ROR32 (ucast (drop_bit 32 key)) 8) XOR ucast (round_consts ! unat rnum)
     in push_bit 32 (ucast t) OR ucast t)"
  unfolding doSAES64_KS1_def Let_def by (simp only: if_True prod.case aes_subword_KS1)

lemma rndClamp_id:
  assumes "1 \<le> rnd" "rnd \<le> 10"
  shows "rndClamp rnd 1 10 = rnd"
proof -
  have "unat (rnd AND mask 4) = unat rnd"
    using assms unat_and_mask_numeral [of rnd 4] by (simp add: word_le_nat_alt)
  then have "rnd AND 15 = rnd"
    by (simp add: word_unat_eq_iff mask_eq_exp_minus_1)
  moreover have "\<not> (rnd < 1 \<or> rnd > 10)" using assms by (simp only: not_less de_Morgan_disj simp_thms)
  ultimately show ?thesis by (simp only: rndClamp_def Let_def if_False)
qed

text \<open>For the round numbers 1 to 10 the vector key-schedule step VAESKF1 computes the same round
  key as the sequence of the scalar steps KS1, KS2 and KS2.\<close>

theorem aes_key_schedules_agree:
  assumes "1 \<le> rnd" "rnd \<le> 10"
  shows "doVAESKF1 riscv crkl crkh rnd =
    (let t = doSAES64_KS1 crkh (rnd - 1);
         nl = doSAES64_KS2 t crkl;
         nh = doSAES64_KS2 nl crkh
     in setResult128 riscv (of_elems [nl, nh]))"
proof -
  have r: "rnd - 1 < 10" using assms by (simp add: word_le_nat_alt word_less_nat_alt unat_sub)
  show ?thesis
    unfolding doVAESKF1_def Let_def rndClamp_id [OF assms] doSAES64_KS1_round [OF r] doSAES64_KS2_def
      columns_of_pair u32_of_u64s [folded One_nat_def] of_elems_halves
    by (simp add: ac_simps)
qed

theorem aes_key_schedules_agree_witness:
  "doVAESKF1 \<lparr>vTmp = [0, 0, 0, 0]\<rparr> 0 0 1 =
    (let t = doSAES64_KS1 0 0; nl = doSAES64_KS2 t 0; nh = doSAES64_KS2 nl 0
     in setResult128 \<lparr>vTmp = [0, 0, 0, 0]\<rparr> (of_elems [nl, nh]))"
  using aes_key_schedules_agree [of 1] by simp

end
