(* ===== verification/RV_KExt_SHA.thy ===== *)
theory RV_KExt_SHA
  imports RV_KExt_Base
begin

text \<open>
  SHA-256 and SHA-512 of \<^verbatim>\<open>riscvKExtension.c\<close>: the helper functions, the scalar instructions (with
  the register-pair forms of SHA-512 for RV32) and the vector instructions for the message
  schedule and the compression rounds. Local arrays are lists; array elements that the C
  initialiser leaves out are zero.
\<close>

section \<open>SHA-256\<close>

definition sig032 :: "Uns32 \<Rightarrow> Uns32" where
  "sig032 x = ROR32 x 7 XOR ROR32 x 18 XOR drop_bit 3 x"

definition sig132 :: "Uns32 \<Rightarrow> Uns32" where
  "sig132 x = ROR32 x 17 XOR ROR32 x 19 XOR drop_bit 10 x"

definition sum032 :: "Uns32 \<Rightarrow> Uns32" where
  "sum032 x = ROR32 x 2 XOR ROR32 x 13 XOR ROR32 x 22"

definition sum132 :: "Uns32 \<Rightarrow> Uns32" where
  "sum132 x = ROR32 x 6 XOR ROR32 x 11 XOR ROR32 x 25"

definition ch32 :: "Uns32 \<Rightarrow> Uns32 \<Rightarrow> Uns32 \<Rightarrow> Uns32" where
  "ch32 x y z = (x AND y) XOR (NOT x AND z)"

definition maj32 :: "Uns32 \<Rightarrow> Uns32 \<Rightarrow> Uns32 \<Rightarrow> Uns32" where
  "maj32 x y z = (x AND y) XOR (x AND z) XOR (y AND z)"

definition doSSHA256_SIG032 :: "Uns32 \<Rightarrow> Uns32" where
  "doSSHA256_SIG032 a = sig032 a"

definition doSSHA256_SIG064 :: "Uns64 \<Rightarrow> Uns64" where
  "doSSHA256_SIG064 a = ucast (sig032 (ucast a))"

definition doSSHA256_SIG132 :: "Uns32 \<Rightarrow> Uns32" where
  "doSSHA256_SIG132 a = sig132 a"

definition doSSHA256_SIG164 :: "Uns64 \<Rightarrow> Uns64" where
  "doSSHA256_SIG164 a = ucast (sig132 (ucast a))"

definition doSSHA256_SUM032 :: "Uns32 \<Rightarrow> Uns32" where
  "doSSHA256_SUM032 a = sum032 a"

definition doSSHA256_SUM064 :: "Uns64 \<Rightarrow> Uns64" where
  "doSSHA256_SUM064 a = ucast (sum032 (ucast a))"

definition doSSHA256_SUM132 :: "Uns32 \<Rightarrow> Uns32" where
  "doSSHA256_SUM132 a = sum132 a"

definition doSSHA256_SUM164 :: "Uns64 \<Rightarrow> Uns64" where
  "doSSHA256_SUM164 a = ucast (sum132 (ucast a))"

definition doVSHA2MS32 ::
  "riscvVec \<Rightarrow> Uns64 \<Rightarrow> Uns64 \<Rightarrow> Uns64 \<Rightarrow> Uns64 \<Rightarrow> Uns64 \<Rightarrow> Uns64 \<Rightarrow> riscvVec" where
  "doVSHA2MS32 riscv vdl vdh vs2l vs2h vs1l vs1h =
    (let W = [ucast vdl, ucast (drop_bit 32 vdl), ucast vdh, ucast (drop_bit 32 vdh),
              ucast vs2l, 0, 0, 0,
              0, ucast (drop_bit 32 vs2l), ucast vs2h, ucast (drop_bit 32 vs2h),
              ucast vs1l, ucast (drop_bit 32 vs1l), ucast vs1h, ucast (drop_bit 32 vs1h),
              0, 0, 0, 0];
         W = fold (\<lambda>i W. W[i + 16 := sig132 (W ! (i + 14)) + W ! (i + 9) + sig032 (W ! (i + 1)) + W ! i])
               [0..<4] W
     in setResult128 riscv (of_elems (map (\<lambda>i. W ! (i + 16)) [0..<4])))"

text \<open>The loop state of the compression rounds is \<open>(a, b, c, d, e, f, g, h)\<close>.\<close>

definition doVSHA2C32 :: "riscvVec \<Rightarrow> Uns64 \<Rightarrow> Uns64 \<Rightarrow> Uns64 \<Rightarrow> Uns64 \<Rightarrow> Uns64 \<Rightarrow> riscvVec" where
  "doVSHA2C32 riscv vdl vdh vs2l vs2h vs1 =
    (let a = ucast (drop_bit 32 vs2h); b = ucast vs2h; e = ucast (drop_bit 32 vs2l); f = ucast vs2l;
         c = ucast (drop_bit 32 vdh); d = ucast vdh; g = ucast (drop_bit 32 vdl); h = ucast vdl;
         W = [ucast vs1, ucast (drop_bit 32 vs1)];
         (a, b, c, d, e, f, g, h) = fold (\<lambda>i (a, b, c, d, e, f, g, h).
           let T1 = h + sum132 e + ch32 e f g + W ! i;
               T2 = sum032 a + maj32 a b c
           in (T1 + T2, a, b, c, d + T1, e, f, g)) [0..<2] (a, b, c, d, e, f, g, h)
     in setResult128 riscv (of_elems [f, e, b, a]))"

section \<open>SHA-512\<close>

definition sig064 :: "Uns64 \<Rightarrow> Uns64" where
  "sig064 x = ROR64 x 1 XOR ROR64 x 8 XOR drop_bit 7 x"

definition sig164 :: "Uns64 \<Rightarrow> Uns64" where
  "sig164 x = ROR64 x 19 XOR ROR64 x 61 XOR drop_bit 6 x"

definition sum064 :: "Uns64 \<Rightarrow> Uns64" where
  "sum064 x = ROR64 x 28 XOR ROR64 x 34 XOR ROR64 x 39"

definition sum164 :: "Uns64 \<Rightarrow> Uns64" where
  "sum164 x = ROR64 x 14 XOR ROR64 x 18 XOR ROR64 x 41"

definition ch64 :: "Uns64 \<Rightarrow> Uns64 \<Rightarrow> Uns64 \<Rightarrow> Uns64" where
  "ch64 x y z = (x AND y) XOR (NOT x AND z)"

definition maj64 :: "Uns64 \<Rightarrow> Uns64 \<Rightarrow> Uns64 \<Rightarrow> Uns64" where
  "maj64 x y z = (x AND y) XOR (x AND z) XOR (y AND z)"

definition doSSHA512_SIG0L :: "Uns32 \<Rightarrow> Uns32 \<Rightarrow> Uns32" where
  "doSSHA512_SIG0L rs1 rs2 = drop_bit 1 rs1 XOR drop_bit 7 rs1 XOR drop_bit 8 rs1 XOR
    push_bit 31 rs2 XOR push_bit 25 rs2 XOR push_bit 24 rs2"

definition doSSHA512_SIG0H :: "Uns32 \<Rightarrow> Uns32 \<Rightarrow> Uns32" where
  "doSSHA512_SIG0H rs1 rs2 = drop_bit 1 rs1 XOR drop_bit 7 rs1 XOR drop_bit 8 rs1 XOR
    push_bit 31 rs2 XOR push_bit 24 rs2"

definition doSSHA512_SIG1L :: "Uns32 \<Rightarrow> Uns32 \<Rightarrow> Uns32" where
  "doSSHA512_SIG1L rs1 rs2 = push_bit 3 rs1 XOR drop_bit 6 rs1 XOR drop_bit 19 rs1 XOR
    drop_bit 29 rs2 XOR push_bit 26 rs2 XOR push_bit 13 rs2"

definition doSSHA512_SIG1H :: "Uns32 \<Rightarrow> Uns32 \<Rightarrow> Uns32" where
  "doSSHA512_SIG1H rs1 rs2 = push_bit 3 rs1 XOR drop_bit 6 rs1 XOR drop_bit 19 rs1 XOR
    drop_bit 29 rs2 XOR push_bit 13 rs2"

definition doSSHA512_SUM0R :: "Uns32 \<Rightarrow> Uns32 \<Rightarrow> Uns32" where
  "doSSHA512_SUM0R rs1 rs2 = push_bit 25 rs1 XOR push_bit 30 rs1 XOR drop_bit 28 rs1 XOR
    drop_bit 7 rs2 XOR drop_bit 2 rs2 XOR push_bit 4 rs2"

definition doSSHA512_SUM1R :: "Uns32 \<Rightarrow> Uns32 \<Rightarrow> Uns32" where
  "doSSHA512_SUM1R rs1 rs2 = push_bit 23 rs1 XOR drop_bit 14 rs1 XOR drop_bit 18 rs1 XOR
    drop_bit 9 rs2 XOR push_bit 18 rs2 XOR push_bit 14 rs2"

definition doSSHA512_SIG0 :: "Uns64 \<Rightarrow> Uns64" where "doSSHA512_SIG0 a = sig064 a"
definition doSSHA512_SIG1 :: "Uns64 \<Rightarrow> Uns64" where "doSSHA512_SIG1 a = sig164 a"
definition doSSHA512_SUM0 :: "Uns64 \<Rightarrow> Uns64" where "doSSHA512_SUM0 a = sum064 a"
definition doSSHA512_SUM1 :: "Uns64 \<Rightarrow> Uns64" where "doSSHA512_SUM1 a = sum164 a"

definition doVSHA2MS64 ::
  "riscvVec \<Rightarrow> Uns64 \<Rightarrow> Uns64 \<Rightarrow> Uns64 \<Rightarrow> Uns64 \<Rightarrow> Uns64 \<Rightarrow> Uns64 \<Rightarrow> Uns64 \<Rightarrow> Uns64 \<Rightarrow>
   Uns64 \<Rightarrow> Uns64 \<Rightarrow> Uns64 \<Rightarrow> Uns64 \<Rightarrow> riscvVec" where
  "doVSHA2MS64 riscv vda vdb vdc vdd vs2a vs2b vs2c vs2d vs1a vs1b vs1c vs1d =
    (let W = [vda, vdb, vdc, vdd, vs2a, 0, 0, 0, 0, vs2b, vs2c, vs2d, vs1a, vs1b, vs1c, vs1d, 0, 0, 0, 0];
         W = fold (\<lambda>i W. W[i + 16 := sig164 (W ! (i + 14)) + W ! (i + 9) + sig064 (W ! (i + 1)) + W ! i])
               [0..<4] W
     in setResult256 riscv (of_elems (map (\<lambda>i. W ! (i + 16)) [0..<4])))"

definition doVSHA2C64 ::
  "riscvVec \<Rightarrow> Uns64 \<Rightarrow> Uns64 \<Rightarrow> Uns64 \<Rightarrow> Uns64 \<Rightarrow> Uns64 \<Rightarrow> Uns64 \<Rightarrow> Uns64 \<Rightarrow> Uns64 \<Rightarrow>
   Uns64 \<Rightarrow> Uns64 \<Rightarrow> riscvVec" where
  "doVSHA2C64 riscv vda vdb vdc vdd vs2a vs2b vs2c vs2d vs1a vs1b =
    (let a = vs2d; b = vs2c; e = vs2b; f = vs2a; c = vdd; d = vdc; g = vdb; h = vda;
         W = [vs1a, vs1b];
         (a, b, c, d, e, f, g, h) = fold (\<lambda>i (a, b, c, d, e, f, g, h).
           let T1 = h + sum164 e + ch64 e f g + W ! i;
               T2 = sum064 a + maj64 a b c
           in (T1 + T2, a, b, c, d + T1, e, f, g)) [0..<2] (a, b, c, d, e, f, g, h)
     in setResult256 riscv (of_elems [f, e, b, a]))"

section \<open>SHA-512 on register pairs\<close>

lemma bit_ROR64: "bit (ROR64 x m) n \<longleftrightarrow> n < 64 \<and> bit x ((n + unat m) mod 64)"
  by (simp add: ROR_rotr bit_word_rotr_iff)

lemma bit_pair:
  "bit (word_cat hi lo :: Uns64) n \<longleftrightarrow> (if n < 32 then bit lo n else n < 64 \<and> bit hi (n - 32))" for hi lo :: Uns32
  by (auto simp: bit_word_cat_iff dest: bit_imp_le_length)

lemma bit_half:
  fixes A B :: Uns32
  assumes "0 < k" "k < 32" "n < 32"
  shows "bit (drop_bit k A XOR push_bit (32 - k) B) n \<longleftrightarrow> (if n + k < 32 then bit A (n + k) else bit B (n + k - 32))"
proof (cases "n + k < 32")
  case True
  then have "\<not> 32 - k \<le> n" by simp
  with True show ?thesis by (simp add: bit_xor_iff bit_drop_bit_eq bit_push_bit_iff add.commute)
next
  case False
  moreover from this have "\<not> bit A (k + n)" using bit_imp_le_length [of A "k + n"] by (auto simp: add.commute)
  moreover have "n - (32 - k) = n + k - 32" "32 - k \<le> n" using assms False by simp_all
  ultimately show ?thesis using assms by (simp add: bit_xor_iff bit_drop_bit_eq bit_push_bit_iff)
qed

lemma pair_shift:
  fixes hi lo :: Uns32
  assumes "0 < k" "k < 32"
  shows "ucast (drop_bit k (word_cat hi lo :: Uns64)) = drop_bit k lo XOR push_bit (32 - k) hi"
    and "ucast (drop_bit 32 (drop_bit k (word_cat hi lo :: Uns64))) = drop_bit k hi"
proof -
  show "ucast (drop_bit k (word_cat hi lo :: Uns64)) = drop_bit k lo XOR push_bit (32 - k) hi"
  proof (rule bit_word_eqI)
    fix n assume "n < LENGTH(32)"
    then show "bit (ucast (drop_bit k (word_cat hi lo :: Uns64)) :: Uns32) n =
      bit (drop_bit k lo XOR push_bit (32 - k) hi) n"
      unfolding bit_half [OF assms, of n, simplified]
      using assms by (simp add: bit_half bit_unsigned_iff bit_drop_bit_eq bit_pair add.commute)
  qed
  show "ucast (drop_bit 32 (drop_bit k (word_cat hi lo :: Uns64))) = drop_bit k hi"
    by (rule bit_word_eqI) (auto simp: bit_unsigned_iff bit_drop_bit_eq bit_pair dest: bit_imp_le_length)
qed

lemma pair_rotate:
  fixes hi lo :: Uns32
  assumes "0 < k" "k < 32"
  shows "ucast (word_rotr k (word_cat hi lo :: Uns64)) = drop_bit k lo XOR push_bit (32 - k) hi"
    and "ucast (drop_bit 32 (word_rotr k (word_cat hi lo :: Uns64))) = drop_bit k hi XOR push_bit (32 - k) lo"
    and "ucast (word_rotr (32 + k) (word_cat hi lo :: Uns64)) = drop_bit k hi XOR push_bit (32 - k) lo"
    and "ucast (drop_bit 32 (word_rotr (32 + k) (word_cat hi lo :: Uns64))) = drop_bit k lo XOR push_bit (32 - k) hi"
proof -
  have m: "(n + k) mod 64 = n + k" "(n + (32 + k)) mod 64 = (if n + k < 32 then n + 32 + k else n + k - 32)"
    "(32 + n + k) mod 64 = (if n + k < 32 then n + 32 + k else n + k - 32)"
    "(32 + n + (32 + k)) mod 64 = n + k" if "n < 32" for n
    using that assms by (auto simp: mod_if)
  show "ucast (word_rotr k (word_cat hi lo :: Uns64)) = drop_bit k lo XOR push_bit (32 - k) hi"
    "ucast (drop_bit 32 (word_rotr k (word_cat hi lo :: Uns64))) = drop_bit k hi XOR push_bit (32 - k) lo"
    "ucast (word_rotr (32 + k) (word_cat hi lo :: Uns64)) = drop_bit k hi XOR push_bit (32 - k) lo"
    "ucast (drop_bit 32 (word_rotr (32 + k) (word_cat hi lo :: Uns64))) = drop_bit k lo XOR push_bit (32 - k) hi"
    using assms by (auto intro!: bit_word_eqI simp: bit_half bit_unsigned_iff bit_drop_bit_eq bit_pair bit_word_rotr_iff m split: if_splits)
qed

lemma ucast_xor: "(ucast (x XOR y) :: Uns32) = ucast x XOR ucast y" for x y :: Uns64
  by (rule bit_word_eqI) (simp add: bit_simps)

lemma ROR64_consts:
  "ROR64 x 1 = word_rotr 1 x" "ROR64 x 8 = word_rotr 8 x" "ROR64 x 19 = word_rotr 19 x" "ROR64 x 61 = word_rotr 61 x"
  "ROR64 x 28 = word_rotr 28 x" "ROR64 x 34 = word_rotr 34 x" "ROR64 x 39 = word_rotr 39 x" "ROR64 x 14 = word_rotr 14 x"
  "ROR64 x 18 = word_rotr 18 x" "ROR64 x 41 = word_rotr 41 x"
  by (simp_all add: ROR_rotr)

lemmas pair_rotations = ROR64_consts ucast_xor drop_bit_xor
  pair_rotate(1,2) [of 1, simplified] pair_rotate(1,2) [of 8, simplified] pair_rotate(1,2) [of 19, simplified]
  pair_rotate(3,4) [of 29, simplified] pair_rotate(1,2) [of 28, simplified] pair_rotate(3,4) [of 2, simplified]
  pair_rotate(3,4) [of 7, simplified] pair_rotate(1,2) [of 14, simplified] pair_rotate(1,2) [of 18, simplified]
  pair_rotate(3,4) [of 9, simplified] pair_shift [of 7, simplified] pair_shift [of 6, simplified]

text \<open>The 32-bit SHA-512 instructions on a pair of registers compute the two halves of the 64-bit
  SHA-512 functions on the pair.\<close>

theorem sha512_pairs_compute_sha512:
  "doSSHA512_SIG0L lo hi = ucast (doSSHA512_SIG0 (word_cat hi lo)) \<and>
   doSSHA512_SIG0H hi lo = ucast (drop_bit 32 (doSSHA512_SIG0 (word_cat hi lo))) \<and>
   doSSHA512_SIG1L lo hi = ucast (doSSHA512_SIG1 (word_cat hi lo)) \<and>
   doSSHA512_SIG1H hi lo = ucast (drop_bit 32 (doSSHA512_SIG1 (word_cat hi lo))) \<and>
   doSSHA512_SUM0R lo hi = ucast (doSSHA512_SUM0 (word_cat hi lo)) \<and>
   doSSHA512_SUM0R hi lo = ucast (drop_bit 32 (doSSHA512_SUM0 (word_cat hi lo))) \<and>
   doSSHA512_SUM1R lo hi = ucast (doSSHA512_SUM1 (word_cat hi lo)) \<and>
   doSSHA512_SUM1R hi lo = ucast (drop_bit 32 (doSSHA512_SUM1 (word_cat hi lo)))"
  by (intro conjI; simp add: doSSHA512_SIG0L_def doSSHA512_SIG0H_def doSSHA512_SIG1L_def doSSHA512_SIG1H_def
    doSSHA512_SUM0R_def doSSHA512_SUM1R_def doSSHA512_SIG0_def doSSHA512_SIG1_def doSSHA512_SUM0_def
    doSSHA512_SUM1_def sig064_def sig164_def sum064_def sum164_def pair_rotations ac_simps)

lemma pair_halves:
  "(ucast (word_cat h l :: Uns64) :: Uns32) = l" "(ucast (drop_bit 32 (word_cat h l :: Uns64)) :: Uns32) = h"
  for h l :: Uns32
  by (rule bit_word_eqI, auto simp: bit_unsigned_iff bit_drop_bit_eq bit_pair)+

lemma pair_cat: "push_bit 32 (ucast h) OR ucast l = (word_cat h l :: Uns64)" for h l :: Uns32
  by (rule bit_word_eqI) (auto simp: bit_pair bit_simps dest: bit_imp_le_length)

section \<open>Message schedule\<close>

text \<open>The standard's recurrence for the words of the message schedule.\<close>

definition schedule :: "('a::plus \<Rightarrow> 'a) \<Rightarrow> ('a \<Rightarrow> 'a) \<Rightarrow> (nat \<Rightarrow> 'a) \<Rightarrow> bool" where
  "schedule s0 s1 w \<longleftrightarrow>
    (\<forall>t\<in>{16..<20}. w t = s1 (w (t - 2)) + w (t - 7) + s0 (w (t - 15)) + w (t - 16))"

lemma schedule_words:
  "schedule s0 s1 w \<Longrightarrow> w 16 = s1 (w 14) + w 9 + s0 (w 1) + w 0"
  "schedule s0 s1 w \<Longrightarrow> w 17 = s1 (w 15) + w 10 + s0 (w 2) + w 1"
  "schedule s0 s1 w \<Longrightarrow> w 18 = s1 (w 16) + w 11 + s0 (w 3) + w 2"
  "schedule s0 s1 w \<Longrightarrow> w 19 = s1 (w 17) + w 12 + s0 (w 4) + w 3"
  by (simp_all add: schedule_def)

text \<open>If a word sequence satisfies the recurrence of the SHA-2 message schedule, then VSHA2MS on
  twelve of its first sixteen words returns the next four, for SHA-256 and SHA-512.\<close>

theorem vsha2ms_extends_schedule:
  "(schedule sig032 sig132 w \<longrightarrow> doVSHA2MS32 riscv (word_cat (w 1) (w 0)) (word_cat (w 3) (w 2))
      (word_cat (w 9) (w 4)) (word_cat (w 11) (w 10)) (word_cat (w 13) (w 12)) (word_cat (w 15) (w 14)) =
      setResult128 riscv (of_elems [w 16, w 17, w 18, w 19])) \<and>
   (schedule sig064 sig164 v \<longrightarrow> doVSHA2MS64 riscv (v 0) (v 1) (v 2) (v 3) (v 4) (v 9) (v 10) (v 11)
      (v 12) (v 13) (v 14) (v 15) = setResult256 riscv (of_elems [v 16, v 17, v 18, v 19]))"
proof (intro conjI impI)
  assume s: "schedule sig032 sig132 w"
  have halves: "(ucast (word_cat h l :: Uns64) :: Uns32) = l" "(ucast (drop_bit 32 (word_cat h l :: Uns64)) :: Uns32) = h"
    for h l :: Uns32
    by (rule bit_word_eqI, auto simp: bit_unsigned_iff bit_drop_bit_eq bit_pair)+
  show "doVSHA2MS32 riscv (word_cat (w 1) (w 0)) (word_cat (w 3) (w 2))
      (word_cat (w 9) (w 4)) (word_cat (w 11) (w 10)) (word_cat (w 13) (w 12)) (word_cat (w 15) (w 14)) =
      setResult128 riscv (of_elems [w 16, w 17, w 18, w 19])"
    unfolding schedule_words [OF s] doVSHA2MS32_def halves by (simp add: upt_4 nth_Cons' Let_def)
next
  assume s: "schedule sig064 sig164 v"
  show "doVSHA2MS64 riscv (v 0) (v 1) (v 2) (v 3) (v 4) (v 9) (v 10) (v 11)
      (v 12) (v 13) (v 14) (v 15) = setResult256 riscv (of_elems [v 16, v 17, v 18, v 19])"
    unfolding schedule_words [OF s] doVSHA2MS64_def by (simp add: upt_4 nth_Cons' Let_def)
qed

theorem vsha2ms_extends_schedule_witness:
  "doVSHA2MS32 \<lparr>vTmp = [0, 0, 0, 0]\<rparr> 1 0 0 0 0 0 =
    setResult128 \<lparr>vTmp = [0, 0, 0, 0]\<rparr> (of_elems [1, 0, sig132 1, 0])"
proof -
  define w :: "nat \<Rightarrow> Uns32" where "w t = (if t = 0 \<or> t = 16 then 1 else if t = 18 then sig132 1 else 0)" for t
  have "sig032 0 = 0" "sig132 0 = 0" by (simp_all add: sig032_def sig132_def ROR_rotr)
  moreover have "{16..<20} = {16, 17, 18, 19 :: nat}" by auto
  ultimately have "schedule sig032 sig132 w" by (simp add: schedule_def w_def)
  then show ?thesis
    using vsha2ms_extends_schedule [of w "\<lparr>vTmp = [0, 0, 0, 0]\<rparr>" "\<lambda>_. 0"] by (simp add: w_def flip: pair_cat)
qed

section \<open>Compression rounds\<close>

text \<open>The functions of the standard (FIPS 180-4), written with the library's rotation: the sums of three
  rotations, the choice and the majority, and one round on the working variables \<open>(a, b, c, d, e, f, g, h)\<close>
  for word \<open>w\<close> with the round constant already added. They share nothing with the definitions above.\<close>

type_synonym 'w sha_state = "'w \<times> 'w \<times> 'w \<times> 'w \<times> 'w \<times> 'w \<times> 'w \<times> 'w"

definition rot_sum :: "nat \<Rightarrow> nat \<Rightarrow> nat \<Rightarrow> 'w::len word \<Rightarrow> 'w word" where
  "rot_sum i j k x = word_rotr i x XOR word_rotr j x XOR word_rotr k x"

definition choice :: "'w::len word \<Rightarrow> 'w word \<Rightarrow> 'w word \<Rightarrow> 'w word" where
  "choice x y z = (x AND y) OR (NOT x AND z)"

definition majority :: "'w::len word \<Rightarrow> 'w word \<Rightarrow> 'w word \<Rightarrow> 'w word" where
  "majority x y z = (x AND y) OR (x AND z) OR (y AND z)"

fun sha256_round :: "Uns32 \<Rightarrow> Uns32 sha_state \<Rightarrow> Uns32 sha_state" where
  "sha256_round w (a, b, c, d, e, f, g, h) =
    (let T1 = h + rot_sum 6 11 25 e + choice e f g + w; T2 = rot_sum 2 13 22 a + majority a b c
     in (T1 + T2, a, b, c, d + T1, e, f, g))"

fun sha512_round :: "Uns64 \<Rightarrow> Uns64 sha_state \<Rightarrow> Uns64 sha_state" where
  "sha512_round w (a, b, c, d, e, f, g, h) =
    (let T1 = h + rot_sum 14 18 41 e + choice e f g + w; T2 = rot_sum 28 34 39 a + majority a b c
     in (T1 + T2, a, b, c, d + T1, e, f, g))"

lemma sha_functions:
  "sum032 x = rot_sum 2 13 22 x" "sum132 x = rot_sum 6 11 25 x"
  "sum064 y = rot_sum 28 34 39 y" "sum164 y = rot_sum 14 18 41 y"
  "ch32 x a b = choice x a b" "maj32 x a b = majority x a b" "ch64 y c d = choice y c d" "maj64 y c d = majority y c d"
  by (simp_all add: sum032_def sum132_def sum064_def sum164_def rot_sum_def ROR_rotr)
    (rule bit_word_eqI, auto simp: ch32_def maj32_def ch64_def maj64_def choice_def majority_def bit_simps)+

text \<open>The two halves of the state as element groups of the vector registers.\<close>

fun abef :: "'w sha_state \<Rightarrow> 'w list" where
  "abef (a, b, c, d, e, f, g, h) = [f, e, b, a]"

fun cdgh :: "'w sha_state \<Rightarrow> 'w list" where
  "cdgh (a, b, c, d, e, f, g, h) = [h, g, d, c]"

lemma two_rounds_swap:
  "cdgh (sha256_round w1 (sha256_round w0 s)) = abef s" "cdgh (sha512_round v1 (sha512_round v0 t)) = abef t"
  by (cases s rule: cdgh.cases, simp add: Let_def) (cases t rule: cdgh.cases, simp add: Let_def)

abbreviation words64 :: "Uns32 list \<Rightarrow> Uns64 list" where
  "words64 xs \<equiv> [word_cat (xs ! 1) (xs ! 0), word_cat (xs ! 3) (xs ! 2)]"

text \<open>A sequence of instructions, two rounds each: the result registers become the \<open>abef\<close>
  operand and the old \<open>abef\<close> operand the \<open>cdgh\<close> operand of the next instruction.\<close>

fun vsha2c32_seq :: "riscvVec \<Rightarrow> (Uns32 \<times> Uns32) list \<Rightarrow> Uns64 list \<Rightarrow> Uns64 list \<Rightarrow> Uns64 list \<times> Uns64 list" where
  "vsha2c32_seq riscv [] vd vs2 = (vd, vs2)"
| "vsha2c32_seq riscv ((w0, w1) # ws) vd vs2 =
    (let riscv' = doVSHA2C32 riscv (vd ! 0) (vd ! 1) (vs2 ! 0) (vs2 ! 1) (word_cat w1 w0)
     in vsha2c32_seq riscv' ws vs2 (take 2 (vTmp riscv')))"

fun vsha2c64_seq :: "riscvVec \<Rightarrow> (Uns64 \<times> Uns64) list \<Rightarrow> Uns64 list \<Rightarrow> Uns64 list \<Rightarrow> Uns64 list \<times> Uns64 list" where
  "vsha2c64_seq riscv [] vd vs2 = (vd, vs2)"
| "vsha2c64_seq riscv ((w0, w1) # ws) vd vs2 =
    (let riscv' = doVSHA2C64 riscv (vd ! 0) (vd ! 1) (vd ! 2) (vd ! 3) (vs2 ! 0) (vs2 ! 1) (vs2 ! 2) (vs2 ! 3) w0 w1
     in vsha2c64_seq riscv' ws vs2 (take 4 (vTmp riscv')))"

lemma doVSHA2C32_rounds:
  assumes "length (vTmp riscv) = 4"
  shows "\<exists>riscv'. doVSHA2C32 riscv (words64 (cdgh s) ! 0) (words64 (cdgh s) ! 1) (words64 (abef s) ! 0) (words64 (abef s) ! 1)
      (word_cat w1 w0) = riscv' \<and> take 2 (vTmp riscv') = words64 (abef (sha256_round w1 (sha256_round w0 s))) \<and> length (vTmp riscv') = 4"
proof -
  obtain a b c d e f g h where s: "s = (a, b, c, d, e, f, g, h)" by (cases s rule: cdgh.cases)
  obtain t0 t1 t2 t3 where t: "vTmp riscv = [t0, t1, t2, t3]"
    using assms(1) by (auto simp: length_Suc_conv numeral_eq_Suc)
  show ?thesis
    unfolding doVSHA2C32_def s sha_functions
    by (simp add: pair_halves upt_2 Let_def setResult128_vTmp [OF t] u64_of_u32s pair_cat)
qed

lemma doVSHA2C64_rounds:
  assumes "length (vTmp riscv) = 4"
  shows "\<exists>riscv'. doVSHA2C64 riscv (cdgh s ! 0) (cdgh s ! 1) (cdgh s ! 2) (cdgh s ! 3)
      (abef s ! 0) (abef s ! 1) (abef s ! 2) (abef s ! 3) w0 w1 = riscv' \<and>
    take 4 (vTmp riscv') = abef (sha512_round w1 (sha512_round w0 s)) \<and> length (vTmp riscv') = 4"
proof -
  obtain a b c d e f g h where s: "s = (a, b, c, d, e, f, g, h)" by (cases s rule: cdgh.cases)
  obtain t0 t1 t2 t3 where t: "vTmp riscv = [t0, t1, t2, t3]"
    using assms(1) by (auto simp: length_Suc_conv numeral_eq_Suc)
  show ?thesis
    unfolding doVSHA2C64_def s sha_functions
    by (simp add: upt_2 Let_def setResult256_vTmp [OF t] nth_Cons')
qed

text \<open>C35: Running VSHA2C over a list of pairs of scheduled words, with the destination of one step as
  the other half of the state of the next, computes the rounds of the SHA-256 and SHA-512
  compression functions on all eight working variables, with the sums, choice and majority of
  the standard.\<close>

theorem vsha2c_sequence_compresses:
  "length (vTmp riscv) = 4 \<longrightarrow>
    (let s' = fold (\<lambda>(w0, w1) s. sha256_round w1 (sha256_round w0 s)) ws s in
     vsha2c32_seq riscv ws (words64 (cdgh s)) (words64 (abef s)) = (words64 (cdgh s'), words64 (abef s'))) \<and>
    (let t' = fold (\<lambda>(w0, w1) t. sha512_round w1 (sha512_round w0 t)) vs t in
     vsha2c64_seq riscv vs (cdgh t) (abef t) = (cdgh t', abef t'))"
proof (intro impI conjI)
  show "length (vTmp riscv) = 4 \<Longrightarrow> let s' = fold (\<lambda>(w0, w1) s. sha256_round w1 (sha256_round w0 s)) ws s in
     vsha2c32_seq riscv ws (words64 (cdgh s)) (words64 (abef s)) = (words64 (cdgh s'), words64 (abef s'))"
  proof (induction ws arbitrary: riscv s)
    case (Cons w ws)
    obtain w0 w1 where w: "w = (w0, w1)" by (cases w)
    from doVSHA2C32_rounds [OF Cons.prems, where s = s and ?w1.0 = w1 and ?w0.0 = w0] Cons.IH show ?case
      by (auto simp: w Let_def simp flip: two_rounds_swap(1) [of w1 w0 s])
  qed simp
  show "length (vTmp riscv) = 4 \<Longrightarrow> let t' = fold (\<lambda>(w0, w1) t. sha512_round w1 (sha512_round w0 t)) vs t in
     vsha2c64_seq riscv vs (cdgh t) (abef t) = (cdgh t', abef t')"
  proof (induction vs arbitrary: riscv t)
    case (Cons w ws)
    obtain w0 w1 where w: "w = (w0, w1)" by (cases w)
    from doVSHA2C64_rounds [OF Cons.prems, where s = t and ?w1.0 = w1 and ?w0.0 = w0] Cons.IH show ?case
      by (auto simp: w Let_def simp flip: two_rounds_swap(2) [of w1 w0 t])
  qed simp
qed

theorem vsha2c_sequence_compresses_witness:
  "vsha2c32_seq \<lparr>vTmp = [0, 0, 0, 0]\<rparr> [(1, 2), (3, 4)] [0, 0] [0, 0] =
    (words64 (cdgh (fold sha256_round [1, 2, 3, 4] (0, 0, 0, 0, 0, 0, 0, 0))),
     words64 (abef (fold sha256_round [1, 2, 3, 4] (0, 0, 0, 0, 0, 0, 0, 0))))"
  using vsha2c_sequence_compresses [of "\<lparr>vTmp = [0, 0, 0, 0]\<rparr>" "[(1, 2), (3, 4)]" "(0, 0, 0, 0, 0, 0, 0, 0)" "[]"]
  by (simp add: Let_def flip: pair_cat)

end
