(* ===== verification/RV_KExt_SM3.thy ===== *)
theory RV_KExt_SM3
  imports RV_KExt_Bytes
begin

text \<open>
  The SM3 hash operations of \<^verbatim>\<open>riscvKExtension.c\<close>: the permutations P0 and P1, the message
  expansion VSM3ME and the compression rounds VSM3C, with the byte swaps at their borders.
  Local arrays are lists; elements that the C initialiser leaves out are zero.
\<close>

section \<open>Operations\<close>

definition rev8 :: "Uns32 \<Rightarrow> Uns32" where
  "rev8 x = push_bit 24 x OR push_bit 8 (x AND 0x0000FF00) OR drop_bit 8 (x AND 0x00FF0000) OR drop_bit 24 x"

definition doSSM3_P032 :: "Uns32 \<Rightarrow> Uns32" where
  "doSSM3_P032 rs1 = rs1 XOR ROL32 rs1 9 XOR ROL32 rs1 17"

definition doSSM3_P064 :: "Uns64 \<Rightarrow> Uns64" where
  "doSSM3_P064 rs1 = ucast (doSSM3_P032 (ucast rs1))"

definition doSSM3_P132 :: "Uns32 \<Rightarrow> Uns32" where
  "doSSM3_P132 rs1 = rs1 XOR ROL32 rs1 15 XOR ROL32 rs1 23"

definition doSSM3_P164 :: "Uns64 \<Rightarrow> Uns64" where
  "doSSM3_P164 rs1 = ucast (doSSM3_P132 (ucast rs1))"

definition P1 :: "Uns32 \<Rightarrow> Uns32" where
  "P1 X = X XOR ROL32 X 15 XOR ROL32 X 23"

definition ZVKSH_W :: "Uns32 \<Rightarrow> Uns32 \<Rightarrow> Uns32 \<Rightarrow> Uns32 \<Rightarrow> Uns32 \<Rightarrow> Uns32" where
  "ZVKSH_W M16 M9 M3 M13 M6 = P1 (M16 XOR M9 XOR ROL32 M3 15) XOR ROL32 M13 7 XOR M6"

definition doVSM3ME ::
  "riscvVec \<Rightarrow> Uns64 \<Rightarrow> Uns64 \<Rightarrow> Uns64 \<Rightarrow> Uns64 \<Rightarrow> Uns64 \<Rightarrow> Uns64 \<Rightarrow> Uns64 \<Rightarrow> Uns64 \<Rightarrow> riscvVec" where
  "doVSM3ME riscv vs2a vs2b vs2c vs2d vs1a vs1b vs1c vs1d =
    (let w = [ucast vs1a, ucast (drop_bit 32 vs1a), ucast vs1b, ucast (drop_bit 32 vs1b),
              ucast vs1c, ucast (drop_bit 32 vs1c), ucast vs1d, ucast (drop_bit 32 vs1d),
              ucast vs2a, ucast (drop_bit 32 vs2a), ucast vs2b, ucast (drop_bit 32 vs2b),
              ucast vs2c, ucast (drop_bit 32 vs2c), ucast vs2d, ucast (drop_bit 32 vs2d),
              0, 0, 0, 0, 0, 0, 0, 0];
         w = fold (\<lambda>i w. w[i := rev8 (w ! i)]) [0..<16] w;
         w = fold (\<lambda>i w. w[i + 16 := ZVKSH_W (w ! (i + 0)) (w ! (i + 7)) (w ! (i + 13)) (w ! (i + 3)) (w ! (i + 10))])
               [0..<8] w
     in setResult256 riscv (of_elems (map (\<lambda>i. rev8 (w ! (i + 16))) [0..<8])))"

definition FF1 :: "Uns32 \<Rightarrow> Uns32 \<Rightarrow> Uns32 \<Rightarrow> Uns32" where
  "FF1 X Y Z = X XOR Y XOR Z"

definition FF2 :: "Uns32 \<Rightarrow> Uns32 \<Rightarrow> Uns32 \<Rightarrow> Uns32" where
  "FF2 X Y Z = (X AND Y) OR (X AND Z) OR (Y AND Z)"

definition FF_j :: "Uns32 \<Rightarrow> Uns32 \<Rightarrow> Uns32 \<Rightarrow> Uns32 \<Rightarrow> Uns32" where
  "FF_j X Y Z J = (if J \<le> 15 then FF1 X Y Z else FF2 X Y Z)"

definition GG1 :: "Uns32 \<Rightarrow> Uns32 \<Rightarrow> Uns32 \<Rightarrow> Uns32" where
  "GG1 X Y Z = X XOR Y XOR Z"

definition GG2 :: "Uns32 \<Rightarrow> Uns32 \<Rightarrow> Uns32 \<Rightarrow> Uns32" where
  "GG2 X Y Z = (X AND Y) OR (NOT X AND Z)"

definition GG_j :: "Uns32 \<Rightarrow> Uns32 \<Rightarrow> Uns32 \<Rightarrow> Uns32 \<Rightarrow> Uns32" where
  "GG_j X Y Z J = (if J \<le> 15 then GG1 X Y Z else GG2 X Y Z)"

definition T_j :: "Uns32 \<Rightarrow> Uns32" where
  "T_j J = (if J \<le> 15 then 0x79CC4519 else 0x7A879D8A)"

definition P_0 :: "Uns32 \<Rightarrow> Uns32" where
  "P_0 X = X XOR ROL32 X 9 XOR ROL32 X 17"

text \<open>The loop state is \<open>(A, B, C, D, E, F, G, H)\<close> with the arrays \<open>A\<close>, \<open>C\<close>, \<open>E\<close>, \<open>G\<close> as lists.\<close>

definition doVSM3C ::
  "riscvVec \<Rightarrow> Uns64 \<Rightarrow> Uns64 \<Rightarrow> Uns64 \<Rightarrow> Uns64 \<Rightarrow> Uns64 \<Rightarrow> Uns64 \<Rightarrow> Uns64 \<Rightarrow> Uns64 \<Rightarrow> Uns32 \<Rightarrow> riscvVec" where
  "doVSM3C riscv vda vdb vdc vdd vs2a vs2b vs2c vs2d rnds =
    (let H = rev8 (ucast (drop_bit 32 vdd)); G = [rev8 (ucast vdd), 0, 0];
         F = rev8 (ucast (drop_bit 32 vdc)); E = [rev8 (ucast vdc), 0, 0];
         D = rev8 (ucast (drop_bit 32 vdb)); C = [rev8 (ucast vdb), 0, 0];
         B = rev8 (ucast (drop_bit 32 vda)); A = [rev8 (ucast vda), 0, 0];
         w0 = rev8 (ucast vs2a); w1 = rev8 (ucast (drop_bit 32 vs2a));
         w4 = rev8 (ucast vs2c); w5 = rev8 (ucast (drop_bit 32 vs2c));
         w = [w0, w1]; x = [w0 XOR w4, w1 XOR w5];
         (A, B, C, D, E, F, G, H) = fold (\<lambda>i (A, B, C, D, E, F, G, H).
           let j = 2 * rnds + of_nat i;
               ss1 = ROL32 (ROL32 (A ! i) 12 + E ! i + ROL32 (T_j j) (j mod 32)) 7;
               ss2 = ss1 XOR ROL32 (A ! i) 12;
               tt1 = FF_j (A ! i) B (C ! i) j + D + ss2 + x ! i;
               tt2 = GG_j (E ! i) F (G ! i) j + H + ss1 + w ! i
           in (A[i + 1 := tt1], A ! i, C[i + 1 := ROL32 B 9], C ! i,
               E[i + 1 := P_0 tt2], E ! i, G[i + 1 := ROL32 F 19], G ! i))
           [0..<2] (A, B, C, D, E, F, G, H)
     in setResult256 riscv (of_elems
          [rev8 (A ! 2), rev8 (A ! 1), rev8 (C ! 2), rev8 (C ! 1),
           rev8 (E ! 2), rev8 (E ! 1), rev8 (G ! 2), rev8 (G ! 1)]))"

section \<open>Byte reversal\<close>

lemma byte_cases:
  "n < 32 \<Longrightarrow> (n < 8 \<Longrightarrow> P n) \<Longrightarrow> (8 \<le> n \<Longrightarrow> n < 16 \<Longrightarrow> P n) \<Longrightarrow>
    (16 \<le> n \<Longrightarrow> n < 24 \<Longrightarrow> P n) \<Longrightarrow> (24 \<le> n \<Longrightarrow> n < 32 \<Longrightarrow> P n) \<Longrightarrow> P (n::nat)"
  by (cases "n < 8"; cases "n < 16"; cases "n < 24") simp_all

lemma no_bit8: "8 \<le> k \<Longrightarrow> \<not> bit (x::Uns8) k"
  by (auto dest: bit_imp_le_length)

lemma bit_rev8:
  "bit (rev8 x) n \<longleftrightarrow> n < 32 \<and>
    bit x (if n < 8 then n + 24 else if n < 16 then n + 8 else if n < 24 then n - 8 else n - 24)"
proof -
  have out: "32 \<le> k \<Longrightarrow> \<not> bit x k" for k by (auto dest: bit_imp_le_length)
  have "\<forall>n<32. bit (rev8 x) n \<longleftrightarrow>
    bit x (if n < 8 then n + 24 else if n < 16 then n + 8 else if n < 24 then n - 8 else n - 24)"
    unfolding rev8_def all_less_upt upt_32 list.pred_inject
    by (intro conjI; simp add: bit_or_iff bit_and_iff bit_push_bit_iff bit_drop_bit_eq out)
  moreover have "bit (rev8 x) n \<Longrightarrow> n < 32" using bit_imp_le_length [of "rev8 x" n] by simp
  ultimately show ?thesis by blast
qed

lemma rev8_pack4: "rev8 (pack4 a b c d) = pack4 d c b a"
proof (rule bit_word_eqI)
  fix n assume "n < LENGTH(32)"
  then have "n < 32" by simp
  then show "bit (rev8 (pack4 a b c d)) n = bit (pack4 d c b a) n"
    by (rule byte_cases) (simp_all add: bit_rev8 bit_pack4 less_diff_conv2 less_diff_conv)
qed

lemma rev8_rev8: "rev8 (rev8 x) = x"
  using rev8_pack4 pack4_eta by metis

lemma rev8_xor: "rev8 (x XOR y) = rev8 x XOR rev8 y"
  using pack4_eta [of x] pack4_eta [of y] by (metis rev8_pack4 xor_pack4)

lemma rev8_ROL:
  "rev8 (ROL32 x 24) = ROL32 (rev8 x) 8" "rev8 (ROL32 x 16) = ROL32 (rev8 x) 16" "rev8 (ROL32 x 8) = ROL32 (rev8 x) 24"
  by (subst (1 2) pack4_eta [of x, symmetric], simp only: ROL32_pack4 rev8_pack4)+

section \<open>Message expansion\<close>

text \<open>The standard's recurrence for the expanded message words.\<close>

definition sm3_schedule :: "(nat \<Rightarrow> Uns32) \<Rightarrow> bool" where
  "sm3_schedule w \<longleftrightarrow> (\<forall>j\<in>{16..<24}. w j = doSSM3_P132 (w (j - 16) XOR w (j - 9) XOR ROL32 (w (j - 3)) 15) XOR
    ROL32 (w (j - 13)) 7 XOR w (j - 6))"

text \<open>Words \<open>k\<close> and \<open>k + 1\<close> of the schedule as stored in a register, in big-endian byte order.\<close>

definition big_endian :: "Uns32 \<Rightarrow> Uns32" where
  "big_endian x = pack4 (ucast (drop_bit 24 x)) (ucast (drop_bit 16 x)) (ucast (drop_bit 8 x)) (ucast x)"

definition sm3_reg :: "Uns32 \<Rightarrow> Uns32 \<Rightarrow> Uns64" where
  "sm3_reg h l = push_bit 32 (ucast (big_endian h)) OR ucast (big_endian l)"

lemma big_endian_rev8: "big_endian x = rev8 x"
  by (rule bit_word_eqI, rule byte_cases) (auto simp: big_endian_def bit_rev8 bit_pack4 bit_simps add.commute)

definition sm3_pair :: "(nat \<Rightarrow> Uns32) \<Rightarrow> nat \<Rightarrow> Uns64" where
  "sm3_pair w k = sm3_reg (w (k + 1)) (w k)"

lemma sm3_reg_words:
  "(ucast (sm3_reg h l) :: Uns32) = rev8 l" "(ucast (drop_bit 32 (sm3_reg h l)) :: Uns32) = rev8 h"
  unfolding sm3_reg_def big_endian_rev8 by (rule columns_of_pair)+

lemma sm3_pair_words:
  "(ucast (sm3_pair w k) :: Uns32) = rev8 (w k)" "(ucast (drop_bit 32 (sm3_pair w k)) :: Uns32) = rev8 (w (k + 1))"
  unfolding sm3_pair_def by (rule sm3_reg_words)+

lemma sm3_schedule_words:
  assumes "sm3_schedule w"
  shows "\<And>i. i < 8 \<Longrightarrow> w (16 + i) = ZVKSH_W (w i) (w (i + 7)) (w (i + 13)) (w (i + 3)) (w (i + 10))"
proof -
  fix i :: nat assume "i < 8"
  then have "w (16 + i) = doSSM3_P132 (w (16 + i - 16) XOR w (16 + i - 9) XOR ROL32 (w (16 + i - 3)) 15) XOR
    ROL32 (w (16 + i - 13)) 7 XOR w (16 + i - 6)"
    using assms by (simp only: sm3_schedule_def) simp
  moreover have "16 + i - 16 = i" "16 + i - 9 = i + 7" "16 + i - 3 = i + 13" "16 + i - 13 = i + 3" "16 + i - 6 = i + 10"
    by simp_all
  ultimately show "w (16 + i) = ZVKSH_W (w i) (w (i + 7)) (w (i + 13)) (w (i + 3)) (w (i + 10))"
    by (simp only: ZVKSH_W_def P1_def doSSM3_P132_def)
qed

text \<open>If a word sequence satisfies the recurrence of the SM3 message expansion, then VSM3ME on
  its first sixteen words, in the big-endian register layout, returns the next eight.\<close>

theorem vsm3me_extends_schedule:
  assumes "sm3_schedule w"
  shows "doVSM3ME riscv (sm3_pair w 8) (sm3_pair w 10) (sm3_pair w 12) (sm3_pair w 14)
      (sm3_pair w 0) (sm3_pair w 2) (sm3_pair w 4) (sm3_pair w 6) =
    setResult256 riscv (of_elems (map (\<lambda>i. rev8 (w (16 + i))) [0..<8]))"
proof -
  note e = sm3_schedule_words [OF assms, of 0, simplified] sm3_schedule_words [OF assms, of 1, simplified]
    sm3_schedule_words [OF assms, of 2, simplified] sm3_schedule_words [OF assms, of 3, simplified]
    sm3_schedule_words [OF assms, of 4, simplified] sm3_schedule_words [OF assms, of 5, simplified]
    sm3_schedule_words [OF assms, of 6, simplified] sm3_schedule_words [OF assms, of 7, simplified]
  show ?thesis
    unfolding doVSM3ME_def sm3_pair_words Let_def by (simp add: upt_16 upt_8 nth_Cons' rev8_rev8 e)
qed

theorem vsm3me_extends_schedule_witness:
  "doVSM3ME \<lparr>vTmp = [0, 0, 0, 0]\<rparr> 0 0 0 0 0 0 0 0 = setResult256 \<lparr>vTmp = [0, 0, 0, 0]\<rparr> (of_elems (replicate 8 (0::Uns32)))"
proof -
  have "sm3_schedule (\<lambda>j. 0)" by (simp add: sm3_schedule_def doSSM3_P132_def ROL_rotl)
  then show ?thesis
    using vsm3me_extends_schedule [of "\<lambda>j. 0" "\<lparr>vTmp = [0, 0, 0, 0]\<rparr>"]
    by (simp add: sm3_pair_def sm3_reg_def big_endian_rev8 rev8_def upt_8 numeral_eq_Suc)
qed

section \<open>Compression rounds\<close>

text \<open>The functions of the standard (GB/T 32905), for round number \<open>j\<close> of the rounds 0 to 63, written with
  the library's rotation and independently of the definitions above: the constants, the Boolean
  functions, the permutation, and one round on \<open>(A, B, C, D, E, F, G, H)\<close> for the words \<open>W\<close> and \<open>W'\<close> of the
  two message sequences.\<close>

type_synonym sm3_state = "Uns32 \<times> Uns32 \<times> Uns32 \<times> Uns32 \<times> Uns32 \<times> Uns32 \<times> Uns32 \<times> Uns32"

definition sm3_T :: "nat \<Rightarrow> Uns32" where
  "sm3_T j = (if j < 16 then 0x79CC4519 else 0x7A879D8A)"

definition sm3_FF :: "nat \<Rightarrow> Uns32 \<Rightarrow> Uns32 \<Rightarrow> Uns32 \<Rightarrow> Uns32" where
  "sm3_FF j X Y Z = (if j < 16 then X XOR Y XOR Z else (X AND (Y OR Z)) OR (Y AND Z))"

definition sm3_GG :: "nat \<Rightarrow> Uns32 \<Rightarrow> Uns32 \<Rightarrow> Uns32 \<Rightarrow> Uns32" where
  "sm3_GG j X Y Z = (if j < 16 then X XOR Y XOR Z else Z XOR (X AND (Y XOR Z)))"

definition sm3_P0 :: "Uns32 \<Rightarrow> Uns32" where
  "sm3_P0 X = X XOR word_rotl 9 X XOR word_rotl 17 X"

fun sm3_round :: "nat \<Rightarrow> Uns32 \<Rightarrow> Uns32 \<Rightarrow> sm3_state \<Rightarrow> sm3_state" where
  "sm3_round j W W' (A, B, C, D, E, F, G, H) =
    (let SS1 = word_rotl 7 (word_rotl 12 A + E + word_rotl (j mod 32) (sm3_T j));
         SS2 = SS1 XOR word_rotl 12 A;
         TT1 = sm3_FF j A B C + D + SS2 + W';
         TT2 = sm3_GG j E F G + H + SS1 + W
     in (TT1, A, word_rotl 9 B, C, sm3_P0 TT2, E, word_rotl 19 F, G))"

lemma sm3_functions:
  assumes "unat j = k"
  shows "T_j j = sm3_T k" "FF_j X Y Z j = sm3_FF k X Y Z" "GG_j X Y Z j = sm3_GG k X Y Z" "P_0 X = sm3_P0 X"
    "ROL32 X (j mod 32) = word_rotl (k mod 32) X" "ROL32 X 7 = word_rotl 7 X" "ROL32 X 9 = word_rotl 9 X"
    "ROL32 X 12 = word_rotl 12 X" "ROL32 X 19 = word_rotl 19 X"
proof -
  have le: "j \<le> 15 \<longleftrightarrow> k < 16" using assms by (auto simp: word_le_nat_alt)
  show "T_j j = sm3_T k" by (simp add: T_j_def sm3_T_def le)
  have "FF2 X Y Z = (X AND (Y OR Z)) OR (Y AND Z)" "GG2 X Y Z = Z XOR (X AND (Y XOR Z))"
    by (rule bit_word_eqI, auto simp: FF2_def GG2_def bit_simps)+
  then show "FF_j X Y Z j = sm3_FF k X Y Z" "GG_j X Y Z j = sm3_GG k X Y Z"
    by (simp_all add: FF_j_def GG_j_def sm3_FF_def sm3_GG_def le FF1_def GG1_def)
qed (use assms in \<open>simp_all add: P_0_def sm3_P0_def ROL_rotl unat_mod\<close>)

fun sm3_regs :: "sm3_state \<Rightarrow> Uns32 list" where
  "sm3_regs (A, B, C, D, E, F, G, H) = [A, B, C, D, E, F, G, H]"

fun regs64 :: "sm3_state \<Rightarrow> Uns64 list" where
  "regs64 (A, B, C, D, E, F, G, H) = [sm3_reg B A, sm3_reg D C, sm3_reg F E, sm3_reg H G]"

lemma doVSM3C_rounds:
  assumes "unat (2 * rnds) = r" "unat (2 * rnds + 1) = r + 1"
  shows "doVSM3C riscv (regs64 s ! 0) (regs64 s ! 1) (regs64 s ! 2) (regs64 s ! 3) (sm3_pair w k) y (sm3_pair w (k + 4)) z rnds =
    setResult256 riscv (of_elems (map rev8 (sm3_regs
      (sm3_round (r + 1) (w (k + 1)) (w (k + 1) XOR w (k + 5)) (sm3_round r (w k) (w k XOR w (k + 4)) s)))))"
proof -
  obtain A B C D E F G H where s: "s = (A, B, C, D, E, F, G, H)" by (cases s rule: sm3_regs.cases)
  have k: "k + 4 + 1 = k + 5" "Suc (k + 4) = k + 5" by simp_all
  show ?thesis
    unfolding doVSM3C_def sm3_pair_words s
    by (simp add: sm3_reg_words upt_2 rev8_rev8 Let_def nth_Cons' k sm3_functions [OF assms(1)] sm3_functions [OF assms(2)])
qed

lemma vTmp_sm3_state:
  assumes "length (vTmp riscv) = 4"
  shows "vTmp (setResult256 riscv (of_elems (map rev8 (sm3_regs s)))) = regs64 s"
proof -
  obtain A B C D E F G H where s: "s = (A, B, C, D, E, F, G, H)" by (cases s rule: sm3_regs.cases)
  obtain t0 t1 t2 t3 where t: "vTmp riscv = [t0, t1, t2, t3]"
    using assms by (auto simp: length_Suc_conv numeral_eq_Suc)
  have "u64 (of_elems [a, b, c, d, e, f, g, h] :: v256) 0 = push_bit 32 (ucast b) OR ucast (a::Uns32)"
    "u64 (of_elems [a, b, c, d, e, f, g, h] :: v256) 1 = push_bit 32 (ucast d) OR ucast c"
    "u64 (of_elems [a, b, c, d, e, f, g, h] :: v256) 2 = push_bit 32 (ucast f) OR ucast e"
    "u64 (of_elems [a, b, c, d, e, f, g, h] :: v256) 3 = push_bit 32 (ucast h) OR ucast g" for a b c d e f g h
    by (rule bit_word_eqI, auto simp: bit_elem bit_of_elems_Cons bit_simps dest: bit_imp_le_length)+
  then show ?thesis by (simp add: setResult256_vTmp [OF t] s sm3_reg_def big_endian_rev8)
qed

text \<open>A sequence of instructions for the round pairs \<open>r\<close>, \<open>r + 1\<close>, and so on.\<close>

primrec vsm3c_seq :: "riscvVec \<Rightarrow> (nat \<Rightarrow> Uns32) \<Rightarrow> nat \<Rightarrow> nat \<Rightarrow> Uns64 list \<Rightarrow> Uns64 list" where
  "vsm3c_seq riscv w r 0 vd = vd"
| "vsm3c_seq riscv w r (Suc n) vd =
    (let riscv' = doVSM3C riscv (vd ! 0) (vd ! 1) (vd ! 2) (vd ! 3)
           (sm3_pair w (2 * r)) (sm3_pair w (2 * r + 2)) (sm3_pair w (2 * r + 4)) (sm3_pair w (2 * r + 6)) (of_nat r)
     in vsm3c_seq riscv' w (Suc r) n (vTmp riscv'))"

text \<open>C36: Running VSM3C with the round counter computes the rounds of the SM3 compression function on
  the eight working variables, with the constants and functions of the standard, for every
  starting round and length within its 64 rounds.\<close>

theorem vsm3c_sequence_compresses:
  assumes "length (vTmp riscv) = 4" and "2 * (r + n) \<le> 64"
  shows "vsm3c_seq riscv w r n (regs64 s) =
    regs64 (fold (\<lambda>j. sm3_round j (w j) (w j XOR w (j + 4))) [2 * r..<2 * (r + n)] s)"
  using assms
proof (induction n arbitrary: riscv r s)
  case (Suc n)
  define s' where "s' = sm3_round (2 * r + 1) (w (2 * r + 1)) (w (2 * r + 1) XOR w (2 * r + 5))
    (sm3_round (2 * r) (w (2 * r)) (w (2 * r) XOR w (2 * r + 4)) s)"
  define riscv' where "riscv' = setResult256 riscv (of_elems (map rev8 (sm3_regs s')))"
  have "vTmp riscv' = regs64 s'" unfolding riscv'_def by (rule vTmp_sm3_state [OF Suc.prems(1)])
  moreover have "length (regs64 s') = 4" by (cases s' rule: regs64.cases) simp
  ultimately have rest: "vsm3c_seq riscv' w (Suc r) n (vTmp riscv') =
    regs64 (fold (\<lambda>j. sm3_round j (w j) (w j XOR w (j + 4))) [2 * Suc r..<2 * (Suc r + n)] s')"
    using Suc.IH [of riscv' "Suc r" s'] Suc.prems(2) by simp
  have upt: "[2 * r..<2 * (r + Suc n)] = 2 * r # (2 * r + 1) # [2 * Suc r..<2 * (Suc r + n)]"
    by (simp add: upt_conv_Cons)
  have "unat (of_nat (2 * r) :: Uns32) = 2 * r" "unat (of_nat (2 * r + 1) :: Uns32) = 2 * r + 1"
    using Suc.prems(2) by (simp_all only: unat_of_nat) simp_all
  then have rounds: "unat (2 * of_nat r :: Uns32) = 2 * r" "unat (2 * of_nat r + 1 :: Uns32) = 2 * r + 1"
    by (simp_all only: of_nat_add of_nat_mult of_nat_numeral of_nat_1)
  have "2 * r + 1 + 4 = 2 * r + 5" by simp
  then have "fold (\<lambda>j. sm3_round j (w j) (w j XOR w (j + 4))) [2 * r..<2 * (r + Suc n)] s =
    fold (\<lambda>j. sm3_round j (w j) (w j XOR w (j + 4))) [2 * Suc r..<2 * (Suc r + n)] s'"
    by (simp only: upt fold_simps s'_def)
  moreover have "vsm3c_seq riscv w r (Suc n) (regs64 s) = vsm3c_seq riscv' w (Suc r) n (vTmp riscv')"
    by (simp only: vsm3c_seq.simps Let_def doVSM3C_rounds [OF rounds] riscv'_def s'_def)
  ultimately show ?case using rest by (simp only:)
qed simp

theorem vsm3c_sequence_compresses_witness:
  "vsm3c_seq \<lparr>vTmp = [0, 0, 0, 0]\<rparr> (\<lambda>j. of_nat j) 7 2 (regs64 (1, 2, 3, 4, 5, 6, 7, 8)) =
    regs64 (fold (\<lambda>j. sm3_round j (of_nat j) (of_nat j XOR of_nat (j + 4))) [14..<18] (1, 2, 3, 4, 5, 6, 7, 8))"
  using vsm3c_sequence_compresses [of "\<lparr>vTmp = [0, 0, 0, 0]\<rparr>" 7 2 "\<lambda>j. of_nat j" "(1, 2, 3, 4, 5, 6, 7, 8)"]
  by (simp del: regs64.simps upt_Suc)

end
