(* ===== verification/RV_KExt_SM4.thy ===== *)
theory RV_KExt_SM4
  imports RV_KExt_SM3
begin

text \<open>
  The SM4 block cipher operations of \<^verbatim>\<open>riscvKExtension.c\<close>: the scalar instructions for one byte
  of the encryption and key-schedule rounds, and the vector instructions for four rounds.
  The scalar functions shift a 32-bit value right by \<open>32 - 8 * bs\<close>, which for \<open>bs = 0\<close> is a
  shift by the full width that C leaves undefined: the value the target gives for it is the
  parameter \<open>oversh\<close> of the model.
\<close>

section \<open>Tables\<close>

definition sm4_sbox :: "Uns8 list" where
  "sm4_sbox = [
    0xD6, 0x90, 0xE9, 0xFE, 0xCC, 0xE1, 0x3D, 0xB7, 0x16, 0xB6, 0x14, 0xC2, 0x28, 0xFB, 0x2C, 0x05,
    0x2B, 0x67, 0x9A, 0x76, 0x2A, 0xBE, 0x04, 0xC3, 0xAA, 0x44, 0x13, 0x26, 0x49, 0x86, 0x06, 0x99,
    0x9C, 0x42, 0x50, 0xF4, 0x91, 0xEF, 0x98, 0x7A, 0x33, 0x54, 0x0B, 0x43, 0xED, 0xCF, 0xAC, 0x62,
    0xE4, 0xB3, 0x1C, 0xA9, 0xC9, 0x08, 0xE8, 0x95, 0x80, 0xDF, 0x94, 0xFA, 0x75, 0x8F, 0x3F, 0xA6,
    0x47, 0x07, 0xA7, 0xFC, 0xF3, 0x73, 0x17, 0xBA, 0x83, 0x59, 0x3C, 0x19, 0xE6, 0x85, 0x4F, 0xA8,
    0x68, 0x6B, 0x81, 0xB2, 0x71, 0x64, 0xDA, 0x8B, 0xF8, 0xEB, 0x0F, 0x4B, 0x70, 0x56, 0x9D, 0x35,
    0x1E, 0x24, 0x0E, 0x5E, 0x63, 0x58, 0xD1, 0xA2, 0x25, 0x22, 0x7C, 0x3B, 0x01, 0x21, 0x78, 0x87,
    0xD4, 0x00, 0x46, 0x57, 0x9F, 0xD3, 0x27, 0x52, 0x4C, 0x36, 0x02, 0xE7, 0xA0, 0xC4, 0xC8, 0x9E,
    0xEA, 0xBF, 0x8A, 0xD2, 0x40, 0xC7, 0x38, 0xB5, 0xA3, 0xF7, 0xF2, 0xCE, 0xF9, 0x61, 0x15, 0xA1,
    0xE0, 0xAE, 0x5D, 0xA4, 0x9B, 0x34, 0x1A, 0x55, 0xAD, 0x93, 0x32, 0x30, 0xF5, 0x8C, 0xB1, 0xE3,
    0x1D, 0xF6, 0xE2, 0x2E, 0x82, 0x66, 0xCA, 0x60, 0xC0, 0x29, 0x23, 0xAB, 0x0D, 0x53, 0x4E, 0x6F,
    0xD5, 0xDB, 0x37, 0x45, 0xDE, 0xFD, 0x8E, 0x2F, 0x03, 0xFF, 0x6A, 0x72, 0x6D, 0x6C, 0x5B, 0x51,
    0x8D, 0x1B, 0xAF, 0x92, 0xBB, 0xDD, 0xBC, 0x7F, 0x11, 0xD9, 0x5C, 0x41, 0x1F, 0x10, 0x5A, 0xD8,
    0x0A, 0xC1, 0x31, 0x88, 0xA5, 0xCD, 0x7B, 0xBD, 0x2D, 0x74, 0xD0, 0x12, 0xB8, 0xE5, 0xB4, 0xB0,
    0x89, 0x69, 0x97, 0x4A, 0x0C, 0x96, 0x77, 0x7E, 0x65, 0xB9, 0xF1, 0x09, 0xC5, 0x6E, 0xC6, 0x84,
    0x18, 0xF0, 0x7D, 0xEC, 0x3A, 0xDC, 0x4D, 0x20, 0x79, 0xEE, 0x5F, 0x3E, 0xD7, 0xCB, 0x39, 0x48]"

definition ck :: "Uns32 list" where
  "ck = [
    0x00070E15, 0x1C232A31, 0x383F464D, 0x545B6269, 0x70777E85, 0x8C939AA1, 0xA8AFB6BD, 0xC4CBD2D9,
    0xE0E7EEF5, 0xFC030A11, 0x181F262D, 0x343B4249, 0x50575E65, 0x6C737A81, 0x888F969D, 0xA4ABB2B9,
    0xC0C7CED5, 0xDCE3EAF1, 0xF8FF060D, 0x141B2229, 0x30373E45, 0x4C535A61, 0x686F767D, 0x848B9299,
    0xA0A7AEB5, 0xBCC3CAD1, 0xD8DFE6ED, 0xF4FB0209, 0x10171E25, 0x2C333A41, 0x484F565D, 0x646B7279]"

section \<open>Scalar instructions\<close>

text \<open>A right shift of the C code by an amount that may reach the width.\<close>

definition shr32 :: "(Uns32 \<Rightarrow> Uns32 \<Rightarrow> Uns32) \<Rightarrow> Uns32 \<Rightarrow> Uns32 \<Rightarrow> Uns32" where
  "shr32 oversh x n = (if n < 32 then drop_bit (unat n) x else oversh x n)"

definition doSSM4_ED32 :: "(Uns32 \<Rightarrow> Uns32 \<Rightarrow> Uns32) \<Rightarrow> Uns32 \<Rightarrow> Uns32 \<Rightarrow> Uns32 \<Rightarrow> Uns32" where
  "doSSM4_ED32 oversh rs1 bs rs2 =
    (let sb_in = drop_bit (unat (8 * bs)) rs2 AND 0xFF;
         sb_out = (ucast (sm4_sbox ! unat sb_in) :: Uns32);
         linear = sb_out XOR push_bit 8 sb_out XOR push_bit 2 sb_out XOR push_bit 18 sb_out XOR
                  push_bit 26 (sb_out AND 0x3f) XOR push_bit 10 (sb_out AND 0xC0);
         rotl = push_bit (unat (8 * bs)) linear OR shr32 oversh linear (32 - 8 * bs)
     in rotl XOR rs1)"

definition doSSM4_ED64 :: "(Uns32 \<Rightarrow> Uns32 \<Rightarrow> Uns32) \<Rightarrow> Uns64 \<Rightarrow> Uns32 \<Rightarrow> Uns64 \<Rightarrow> Uns64" where
  "doSSM4_ED64 oversh rs1 bs rs2 = ucast (doSSM4_ED32 oversh (ucast rs1) bs (ucast rs2))"

definition doSSM4_KS32 :: "(Uns32 \<Rightarrow> Uns32 \<Rightarrow> Uns32) \<Rightarrow> Uns32 \<Rightarrow> Uns32 \<Rightarrow> Uns32 \<Rightarrow> Uns32" where
  "doSSM4_KS32 oversh rs1 bs rs2 =
    (let sb_in = drop_bit (unat (8 * bs)) rs2 AND 0xFF;
         sb_out = (ucast (sm4_sbox ! unat sb_in) :: Uns32);
         x = sb_out XOR push_bit 29 (sb_out AND 0x07) XOR push_bit 7 (sb_out AND 0xFE) XOR
             push_bit 23 (sb_out AND 0x01) XOR push_bit 13 (sb_out AND 0xF8);
         rotl = push_bit (unat (8 * bs)) x OR shr32 oversh x (32 - 8 * bs)
     in rotl XOR rs1)"

definition doSSM4_KS64 :: "(Uns32 \<Rightarrow> Uns32 \<Rightarrow> Uns32) \<Rightarrow> Uns64 \<Rightarrow> Uns32 \<Rightarrow> Uns64 \<Rightarrow> Uns64" where
  "doSSM4_KS64 oversh rs1 bs rs2 = ucast (doSSM4_KS32 oversh (ucast rs1) bs (ucast rs2))"

section \<open>Vector instructions\<close>

definition ROUND_KEY_VSM4K :: "Uns32 \<Rightarrow> Uns32 \<Rightarrow> Uns32" where
  "ROUND_KEY_VSM4K X S = X XOR S XOR ROL32 S 13 XOR ROL32 S 23"

definition ROUND_KEY_VSM4R :: "Uns32 \<Rightarrow> Uns32 \<Rightarrow> Uns32" where
  "ROUND_KEY_VSM4R X S = X XOR S XOR ROL32 S 2 XOR ROL32 S 10 XOR ROL32 S 18 XOR ROL32 S 24"

definition sm4_subword :: "Uns32 \<Rightarrow> Uns32" where
  "sm4_subword x =
    push_bit 0 (ucast (sm4_sbox ! unat (drop_bit 0 x AND 0xFF))) OR
    push_bit 8 (ucast (sm4_sbox ! unat (drop_bit 8 x AND 0xFF))) OR
    push_bit 16 (ucast (sm4_sbox ! unat (drop_bit 16 x AND 0xFF))) OR
    push_bit 24 (ucast (sm4_sbox ! unat (drop_bit 24 x AND 0xFF)))"

definition doVSM4K :: "riscvVec \<Rightarrow> Uns64 \<Rightarrow> Uns64 \<Rightarrow> Uns32 \<Rightarrow> riscvVec" where
  "doVSM4K riscv rkl rkh uimm =
    (let crk = [ucast rkl, ucast (drop_bit 32 rkl), ucast rkh, ucast (drop_bit 32 rkh), 0, 0, 0, 0];
         rnd = unat (uimm AND 7);
         crk = fold (\<lambda>i crk.
           let B = crk ! (i + 1) XOR crk ! (i + 2) XOR crk ! (i + 3) XOR ck ! (4 * rnd + i);
               S = sm4_subword B
           in crk[i + 4 := ROUND_KEY_VSM4K (crk ! i) S]) [0..<4] crk
     in setResult128 riscv (of_elems (map (\<lambda>i. crk ! (i + 4)) [0..<4])))"

definition doVSM4R :: "riscvVec \<Rightarrow> Uns64 \<Rightarrow> Uns64 \<Rightarrow> Uns64 \<Rightarrow> Uns64 \<Rightarrow> riscvVec" where
  "doVSM4R riscv xl xh rkl rkh =
    (let X = [ucast xl, ucast (drop_bit 32 xl), ucast xh, ucast (drop_bit 32 xh), 0, 0, 0, 0];
         crk = [ucast rkl, ucast (drop_bit 32 rkl), ucast rkh, ucast (drop_bit 32 rkh)];
         X = fold (\<lambda>i X.
           let B = X ! (i + 1) XOR X ! (i + 2) XOR X ! (i + 3) XOR crk ! i;
               S = sm4_subword B
           in X[i + 4 := ROUND_KEY_VSM4R (X ! i) S]) [0..<4] X
     in setResult128 riscv (of_elems (map (\<lambda>i. X ! (i + 4)) [0..<4])))"

section \<open>Four rounds and their inverse\<close>

text \<open>The round function of the cipher and four rounds on a state of four words.\<close>

definition sm4_T :: "Uns32 \<Rightarrow> Uns32" where
  "sm4_T x = ROUND_KEY_VSM4R 0 (sm4_subword x)"

definition sm4_rounds :: "Uns32 list \<Rightarrow> Uns32 list \<Rightarrow> Uns32 list" where
  "sm4_rounds X k =
    (let X4 = X ! 0 XOR sm4_T (X ! 1 XOR X ! 2 XOR X ! 3 XOR k ! 0);
         X5 = X ! 1 XOR sm4_T (X ! 2 XOR X ! 3 XOR X4 XOR k ! 1);
         X6 = X ! 2 XOR sm4_T (X ! 3 XOR X4 XOR X5 XOR k ! 2);
         X7 = X ! 3 XOR sm4_T (X4 XOR X5 XOR X6 XOR k ! 3)
     in [X4, X5, X6, X7])"

abbreviation words32 :: "Uns64 \<Rightarrow> Uns64 \<Rightarrow> Uns32 list" where
  "words32 l h \<equiv> [ucast l, ucast (drop_bit 32 l), ucast h, ucast (drop_bit 32 h)]"

lemma ROUND_KEY_VSM4R_T: "ROUND_KEY_VSM4R X (sm4_subword B) = X XOR sm4_T B"
  by (simp add: sm4_T_def ROUND_KEY_VSM4R_def xor.assoc)

lemma doVSM4R_rounds:
  "doVSM4R riscv xl xh rkl rkh = setResult128 riscv (of_elems (sm4_rounds (words32 xl xh) (words32 rkl rkh)))"
  unfolding doVSM4R_def Let_def ROUND_KEY_VSM4R_T
  by (simp add: upt_4 sm4_rounds_def nth_Cons' Let_def)

lemma sm4_rounds_inverse:
  "sm4_rounds (rev (sm4_rounds [a, b, c, d] [k0, k1, k2, k3])) [k3, k2, k1, k0] = [d, c, b, a]"
  by (simp add: sm4_rounds_def Let_def nth_Cons' xor.assoc xor.left_commute xor.commute xor_cancel)


text \<open>Reversal of the four words held in a pair of 64-bit registers.\<close>

abbreviation swap32 :: "Uns64 \<Rightarrow> Uns64" where
  "swap32 x \<equiv> push_bit 32 (ucast (ucast x :: Uns32)) OR ucast (ucast (drop_bit 32 x) :: Uns32)"

lemma words32_swap: "words32 (swap32 h) (swap32 l) = rev (words32 l h)"
  by (simp only: columns_of_pair rev.simps append.simps)

lemma vTmp_setResult_words:
  assumes "length (vTmp riscv) = 4"
  shows "take 2 (vTmp (setResult128 riscv (of_elems [a, b, c, d :: Uns32]))) =
    [push_bit 32 (ucast b) OR ucast a, push_bit 32 (ucast d) OR ucast c]"
    and "length (vTmp (setResult128 riscv v)) = 4"
proof -
  obtain t0 t1 t2 t3 where "vTmp riscv = [t0, t1, t2, t3]"
    using assms by (auto simp: length_Suc_conv numeral_eq_Suc)
  note t = setResult128_vTmp [OF this]
  show "take 2 (vTmp (setResult128 riscv (of_elems [a, b, c, d :: Uns32]))) =
    [push_bit 32 (ucast b) OR ucast a, push_bit 32 (ucast d) OR ucast c]"
    by (simp add: t u64_of_u32s)
  show "length (vTmp (setResult128 riscv v)) = 4" by (simp add: t)
qed

text \<open>Four SM4 rounds with the round keys in reverse order on the word-reversed result give back
  the word-reversed input, so that decryption inverts encryption.\<close>

theorem vsm4r_reversed_keys_invert:
  assumes "length (vTmp riscv) = 4"
  shows "\<exists>riscv' yl yh. riscv' = doVSM4R riscv xl xh rkl rkh \<and> take 2 (vTmp riscv') = [yl, yh] \<and>
    take 2 (vTmp (doVSM4R riscv' (swap32 yh) (swap32 yl) (swap32 rkh) (swap32 rkl))) = [swap32 xh, swap32 xl]"
proof -
  obtain a b c d where ys: "sm4_rounds (words32 xl xh) (words32 rkl rkh) = [a, b, c, d]"
    by (simp add: sm4_rounds_def Let_def)
  define riscv' where "riscv' = doVSM4R riscv xl xh rkl rkh"
  define yl yh where "yl = (push_bit 32 (ucast b) OR ucast a :: Uns64)" and "yh = (push_bit 32 (ucast d) OR ucast c :: Uns64)"
  have "take 2 (vTmp riscv') = [yl, yh]" and len: "length (vTmp riscv') = 4"
    using vTmp_setResult_words [OF assms] by (simp_all add: riscv'_def doVSM4R_rounds ys yl_def yh_def)
  moreover have "words32 yl yh = [a, b, c, d]"
    by (simp only: yl_def yh_def columns_of_pair)
  then have "sm4_rounds (words32 (swap32 yh) (swap32 yl)) (words32 (swap32 rkh) (swap32 rkl)) = rev (words32 xl xh)"
    unfolding words32_swap by (simp add: sm4_rounds_inverse flip: ys)
  then have "take 2 (vTmp (doVSM4R riscv' (swap32 yh) (swap32 yl) (swap32 rkh) (swap32 rkl))) = [swap32 xh, swap32 xl]"
    using vTmp_setResult_words(1) [OF len] by (simp add: doVSM4R_rounds)
  ultimately show ?thesis using riscv'_def by blast
qed

section \<open>Scalar and vector rounds\<close>

text \<open>The linear maps of the two round functions; they commute with rotations.\<close>

definition sm4_L :: "Uns32 \<Rightarrow> Uns32" where "sm4_L S = ROUND_KEY_VSM4R 0 S"
definition sm4_L' :: "Uns32 \<Rightarrow> Uns32" where "sm4_L' S = ROUND_KEY_VSM4K 0 S"

lemma rotl_commute: "word_rotl a (word_rotl b x) = word_rotl b (word_rotl a x)" for x :: "'a::len word"
proof (rule bit_word_eqI)
  fix n assume n: "n < LENGTH('a)"
  define p q where "p = LENGTH('a) - a mod LENGTH('a)" and "q = LENGTH('a) - b mod LENGTH('a)"
  have "((n + p) mod LENGTH('a) + q) mod LENGTH('a) = ((n + q) mod LENGTH('a) + p) mod LENGTH('a)"
    by (simp add: mod_simps ac_simps)
  then show "bit (word_rotl a (word_rotl b x)) n = bit (word_rotl b (word_rotl a x)) n"
    unfolding bit_word_rotl_iff p_def [symmetric] q_def [symmetric] using n by simp
qed

lemma sm4_L_xor: "sm4_L (x XOR y) = sm4_L x XOR sm4_L y" "sm4_L' (x XOR y) = sm4_L' x XOR sm4_L' y"
  by (simp_all add: sm4_L_def sm4_L'_def ROUND_KEY_VSM4R_def ROUND_KEY_VSM4K_def ROL_rotl word_rot_logs ac_simps)

lemma sm4_L_ROL: "sm4_L (ROL32 x m) = ROL32 (sm4_L x) m" "sm4_L' (ROL32 x m) = ROL32 (sm4_L' x) m"
  by (simp_all add: sm4_L_def sm4_L'_def ROUND_KEY_VSM4R_def ROUND_KEY_VSM4K_def ROL_rotl word_rot_logs
    rotl_commute [of "unat m"])

definition lin_ED :: "Uns8 \<Rightarrow> Uns32" where
  "lin_ED b = (let sb_out = ucast b in sb_out XOR push_bit 8 sb_out XOR push_bit 2 sb_out XOR push_bit 18 sb_out XOR
                  push_bit 26 (sb_out AND 0x3f) XOR push_bit 10 (sb_out AND 0xC0))"

definition lin_KS :: "Uns8 \<Rightarrow> Uns32" where
  "lin_KS b = (let sb_out = ucast b in sb_out XOR push_bit 29 (sb_out AND 0x07) XOR push_bit 7 (sb_out AND 0xFE) XOR
             push_bit 23 (sb_out AND 0x01) XOR push_bit 13 (sb_out AND 0xF8))"

lemma eq32I:
  fixes x y :: Uns32
  assumes "\<forall>n<32. bit x n \<longleftrightarrow> bit y n"
  shows "x = y"
  using assms by (auto intro: bit_word_eqI)

lemma bit_ROL32: "bit (ROL32 x m) n \<longleftrightarrow> n < 32 \<and> bit x ((n + (32 - unat m mod 32)) mod 32)"
  by (simp add: ROL_rotl bit_word_rotl_iff)

lemma rev8_L_byte: "rev8 (sm4_L (pack4 0 0 0 b)) = lin_ED b"
  unfolding sm4_L_def ROUND_KEY_VSM4R_def lin_ED_def Let_def
  by (rule eq32I, unfold all_less_upt upt_32 list.pred_inject, intro conjI;
      (simp add: bit_rev8 bit_xor_iff bit_ROL32 bit_pack4 bit_and_iff bit_push_bit_iff bit_unsigned_iff no_bit8; blast?))


lemma rev8_L'_byte: "rev8 (sm4_L' (pack4 0 0 0 b)) = lin_KS b"
  unfolding sm4_L'_def ROUND_KEY_VSM4K_def lin_KS_def Let_def
  by (rule eq32I, unfold all_less_upt upt_32 list.pred_inject, intro conjI;
      (simp add: bit_rev8 bit_xor_iff bit_ROL32 bit_pack4 bit_and_iff bit_push_bit_iff bit_unsigned_iff no_bit8; blast?))

abbreviation sbox4 :: "Uns8 \<Rightarrow> Uns8" where "sbox4 b \<equiv> sm4_sbox ! unat b"

lemma sm4_subword_bytes:
  "sm4_subword x = pack4 (sbox4 (u8 x 0)) (sbox4 (u8 x 1)) (sbox4 (u8 x 2)) (sbox4 (u8 x 3))"
  unfolding sm4_subword_def byte_shifts unat_ucast_byte pack4_shifts ..

lemma pack4_sum:
  "pack4 d c b a = pack4 0 0 0 a XOR ROL32 (pack4 0 0 0 b) 24 XOR ROL32 (pack4 0 0 0 c) 16 XOR ROL32 (pack4 0 0 0 d) 8"
  by (simp add: ROL32_pack4 xor_pack4)

lemma rev8_L_word:
  "rev8 (sm4_L (pack4 d c b a)) = lin_ED a XOR ROL32 (lin_ED b) 8 XOR ROL32 (lin_ED c) 16 XOR ROL32 (lin_ED d) 24"
  "rev8 (sm4_L' (pack4 d c b a)) = lin_KS a XOR ROL32 (lin_KS b) 8 XOR ROL32 (lin_KS c) 16 XOR ROL32 (lin_KS d) 24"
  unfolding pack4_sum [of d c b a] sm4_L_xor sm4_L_ROL rev8_xor rev8_ROL rev8_L_byte rev8_L'_byte by simp_all

text \<open>A target gives zero or the unshifted value for a shift by the full width.\<close>

definition oversh_ok :: "(Uns32 \<Rightarrow> Uns32 \<Rightarrow> Uns32) \<Rightarrow> bool" where
  "oversh_ok oversh \<longleftrightarrow> (\<forall>x. oversh x 32 = 0 \<or> oversh x 32 = x)"

lemma scalar_rotate:
  assumes "oversh_ok oversh"
  shows "push_bit (unat (8 * 0 :: Uns32)) x OR shr32 oversh x (32 - 8 * 0) = x"
    "push_bit (unat (8 * 1 :: Uns32)) x OR shr32 oversh x (32 - 8 * 1) = ROL32 x 8"
    "push_bit (unat (8 * 2 :: Uns32)) x OR shr32 oversh x (32 - 8 * 2) = ROL32 x 16"
    "push_bit (unat (8 * 3 :: Uns32)) x OR shr32 oversh x (32 - 8 * 3) = ROL32 x 24"
  using assms [unfolded oversh_ok_def, rule_format, of x] by (auto simp: shr32_def ROL32_def or.commute)

lemma select_shift:
  "unat (drop_bit (unat (8 * 0 :: Uns32)) x AND 0xFF) = unat (u8 x 0)"
  "unat (drop_bit (unat (8 * 1 :: Uns32)) x AND 0xFF) = unat (u8 x 1)"
  "unat (drop_bit (unat (8 * 2 :: Uns32)) x AND 0xFF) = unat (u8 x 2)"
  "unat (drop_bit (unat (8 * 3 :: Uns32)) x AND 0xFF) = unat (u8 x 3)" for x :: Uns32
  using byte_shifts(1-4) [of x] by (simp_all add: unat_ucast_byte)

lemma rev8_u8: "u8 (rev8 x) 0 = u8 x 3" "u8 (rev8 x) 1 = u8 x 2" "u8 (rev8 x) 2 = u8 x 1" "u8 (rev8 x) 3 = u8 x 0"
  by (subst (1) pack4_eta [of x, symmetric], simp only: rev8_pack4 u8_pack4 One_nat_def)+

text \<open>The four scalar instructions of a round, one per byte.\<close>

definition sm4_bytes :: "(Uns32 \<Rightarrow> Uns32 \<Rightarrow> Uns32 \<Rightarrow> Uns32) \<Rightarrow> Uns32 \<Rightarrow> Uns32 \<Rightarrow> Uns32" where
  "sm4_bytes f x y = f (f (f (f x 0 y) 1 y) 2 y) 3 y"

lemma sm4_scalar_steps:
  assumes "oversh_ok oversh"
  shows "sm4_bytes (doSSM4_ED32 oversh) x y = lin_ED (sbox4 (u8 y 0)) XOR ROL32 (lin_ED (sbox4 (u8 y 1))) 8 XOR
      ROL32 (lin_ED (sbox4 (u8 y 2))) 16 XOR ROL32 (lin_ED (sbox4 (u8 y 3))) 24 XOR x"
    and "sm4_bytes (doSSM4_KS32 oversh) x y = lin_KS (sbox4 (u8 y 0)) XOR ROL32 (lin_KS (sbox4 (u8 y 1))) 8 XOR
      ROL32 (lin_KS (sbox4 (u8 y 2))) 16 XOR ROL32 (lin_KS (sbox4 (u8 y 3))) 24 XOR x"
  unfolding sm4_bytes_def doSSM4_ED32_def doSSM4_KS32_def Let_def select_shift scalar_rotate [OF assms]
    lin_ED_def [unfolded Let_def, symmetric] lin_KS_def [unfolded Let_def, symmetric] by (simp_all add: ac_simps)

text \<open>C37: The four scalar SM4 instructions of a word compute the round function and the key-schedule
  function of the vector instructions, if the shift by 32 that the scalar code performs when the
  byte select is zero yields zero or its operand.\<close>

theorem sm4_scalar_computes_vector_round:
  assumes "oversh_ok oversh"
  shows "sm4_bytes (doSSM4_ED32 oversh) x y = rev8 (ROUND_KEY_VSM4R (rev8 x) (sm4_subword (rev8 y))) \<and>
    sm4_bytes (doSSM4_KS32 oversh) x y = rev8 (ROUND_KEY_VSM4K (rev8 x) (sm4_subword (rev8 y)))"
proof -
  have "ROUND_KEY_VSM4R X S = X XOR sm4_L S" "ROUND_KEY_VSM4K X S = X XOR sm4_L' S" for X S
    by (simp_all add: sm4_L_def sm4_L'_def ROUND_KEY_VSM4R_def ROUND_KEY_VSM4K_def xor.assoc)
  then show ?thesis
    by (simp add: sm4_scalar_steps [OF assms] rev8_xor rev8_rev8 sm4_subword_bytes rev8_u8 [unfolded One_nat_def]
        rev8_L_word ac_simps)
qed

theorem sm4_scalar_computes_vector_round_witness:
  "sm4_bytes (doSSM4_ED32 (\<lambda>x n. x)) 1 2 = rev8 (ROUND_KEY_VSM4R (rev8 1) (sm4_subword (rev8 2)))"
  using sm4_scalar_computes_vector_round [of "\<lambda>x n. x" 1 2] by (simp add: oversh_ok_def)

theorem vsm4r_reversed_keys_invert_witness:
  "\<exists>riscv' yl yh. riscv' = doVSM4R \<lparr>vTmp = [0, 0, 0, 0]\<rparr> 1 2 3 4 \<and> take 2 (vTmp riscv') = [yl, yh] \<and>
    take 2 (vTmp (doVSM4R riscv' (swap32 yh) (swap32 yl) (swap32 4) (swap32 3))) = [swap32 2, swap32 1]"
  by (rule vsm4r_reversed_keys_invert) simp

end
