(* ===== verification/RV_KExt_GCM.thy ===== *)
theory RV_KExt_GCM
  imports RV_KExt_Bytes RV_GF2
begin

text \<open>
  The GCM operations of \<^verbatim>\<open>riscvKExtension.c\<close>: the bit-reversal table, VGMUL (multiplication in the
  field of \<open>2 ^ 128\<close> elements in GCM bit order) and VGHSH.
\<close>

section \<open>Operations\<close>

definition brev8 :: "Uns8 list" where
  "brev8 = [
    0x00, 0x80, 0x40, 0xc0, 0x20, 0xa0, 0x60, 0xe0, 0x10, 0x90, 0x50, 0xd0, 0x30, 0xb0, 0x70, 0xf0,
    0x08, 0x88, 0x48, 0xc8, 0x28, 0xa8, 0x68, 0xe8, 0x18, 0x98, 0x58, 0xd8, 0x38, 0xb8, 0x78, 0xf8,
    0x04, 0x84, 0x44, 0xc4, 0x24, 0xa4, 0x64, 0xe4, 0x14, 0x94, 0x54, 0xd4, 0x34, 0xb4, 0x74, 0xf4,
    0x0c, 0x8c, 0x4c, 0xcc, 0x2c, 0xac, 0x6c, 0xec, 0x1c, 0x9c, 0x5c, 0xdc, 0x3c, 0xbc, 0x7c, 0xfc,
    0x02, 0x82, 0x42, 0xc2, 0x22, 0xa2, 0x62, 0xe2, 0x12, 0x92, 0x52, 0xd2, 0x32, 0xb2, 0x72, 0xf2,
    0x0a, 0x8a, 0x4a, 0xca, 0x2a, 0xaa, 0x6a, 0xea, 0x1a, 0x9a, 0x5a, 0xda, 0x3a, 0xba, 0x7a, 0xfa,
    0x06, 0x86, 0x46, 0xc6, 0x26, 0xa6, 0x66, 0xe6, 0x16, 0x96, 0x56, 0xd6, 0x36, 0xb6, 0x76, 0xf6,
    0x0e, 0x8e, 0x4e, 0xce, 0x2e, 0xae, 0x6e, 0xee, 0x1e, 0x9e, 0x5e, 0xde, 0x3e, 0xbe, 0x7e, 0xfe,
    0x01, 0x81, 0x41, 0xc1, 0x21, 0xa1, 0x61, 0xe1, 0x11, 0x91, 0x51, 0xd1, 0x31, 0xb1, 0x71, 0xf1,
    0x09, 0x89, 0x49, 0xc9, 0x29, 0xa9, 0x69, 0xe9, 0x19, 0x99, 0x59, 0xd9, 0x39, 0xb9, 0x79, 0xf9,
    0x05, 0x85, 0x45, 0xc5, 0x25, 0xa5, 0x65, 0xe5, 0x15, 0x95, 0x55, 0xd5, 0x35, 0xb5, 0x75, 0xf5,
    0x0d, 0x8d, 0x4d, 0xcd, 0x2d, 0xad, 0x6d, 0xed, 0x1d, 0x9d, 0x5d, 0xdd, 0x3d, 0xbd, 0x7d, 0xfd,
    0x03, 0x83, 0x43, 0xc3, 0x23, 0xa3, 0x63, 0xe3, 0x13, 0x93, 0x53, 0xd3, 0x33, 0xb3, 0x73, 0xf3,
    0x0b, 0x8b, 0x4b, 0xcb, 0x2b, 0xab, 0x6b, 0xeb, 0x1b, 0x9b, 0x5b, 0xdb, 0x3b, 0xbb, 0x7b, 0xfb,
    0x07, 0x87, 0x47, 0xc7, 0x27, 0xa7, 0x67, 0xe7, 0x17, 0x97, 0x57, 0xd7, 0x37, 0xb7, 0x77, 0xf7,
    0x0f, 0x8f, 0x4f, 0xcf, 0x2f, 0xaf, 0x6f, 0xef, 0x1f, 0x9f, 0x5f, 0xdf, 0x3f, 0xbf, 0x7f, 0xff]"

definition brev8_128 :: "v128 \<Rightarrow> v128" where
  "brev8_128 v = of_elems (map (\<lambda>i. brev8 ! unat (u8 v i)) [0..<16])"

text \<open>One iteration of the loop of VGMUL on \<open>(Y, H, Z)\<close>, each a pair of 64-bit halves, low half first.\<close>

type_synonym u64x2 = "Uns64 \<times> Uns64"

fun vgmul_body :: "u64x2 \<times> u64x2 \<times> u64x2 \<Rightarrow> u64x2 \<times> u64x2 \<times> u64x2" where
  "vgmul_body ((Y0, Y1), (H0, H1), (Z0, Z1)) =
    (let (Z0, Z1) = (if Y0 AND 1 \<noteq> 0 then (Z0 XOR H0, Z1 XOR H1) else (Z0, Z1));
         Y0 = drop_bit 1 Y0;
         Y0 = Y0 OR push_bit 63 Y1;
         Y1 = drop_bit 1 Y1;
         polynomial = (if drop_bit 63 H1 \<noteq> 0 then 0x87 else 0);
         H1 = push_bit 1 H1;
         H1 = H1 OR drop_bit 63 H0;
         H0 = push_bit 1 H0;
         H0 = H0 XOR polynomial
     in ((Y0, Y1), (H0, H1), (Z0, Z1)))"

definition doVGMUL :: "riscvVec \<Rightarrow> Uns64 \<Rightarrow> Uns64 \<Rightarrow> Uns64 \<Rightarrow> Uns64 \<Rightarrow> riscvVec" where
  "doVGMUL riscv vdl vdh vs2l vs2h =
    (let H = (of_elems [vs2l, vs2h] :: v128);
         Y = (of_elems [vdl, vdh] :: v128);
         H = brev8_128 H;
         Y = brev8_128 Y;
         (_, _, Z) = (vgmul_body ^^ 128) ((u64 Y 0, u64 Y 1), (u64 H 0, u64 H 1), (0, 0));
         result = brev8_128 (of_elems [fst Z, snd Z])
     in setResult128 riscv result)"

definition doVGHSH :: "riscvVec \<Rightarrow> Uns64 \<Rightarrow> Uns64 \<Rightarrow> Uns64 \<Rightarrow> Uns64 \<Rightarrow> Uns64 \<Rightarrow> Uns64 \<Rightarrow> riscvVec" where
  "doVGHSH riscv vdl vdh vs2l vs2h vs1l vs1h =
    doVGMUL riscv (vdl XOR vs1l) (vdh XOR vs1h) vs2l vs2h"

section \<open>The loop of VGMUL\<close>

definition xtime128 :: "v128 \<Rightarrow> v128" where
  "xtime128 h = push_bit 1 h XOR (if bit h 127 then 0x87 else 0)"

interpretation gcm: shift_register xtime128
proof
  show "xtime128 (a XOR b) = xtime128 a XOR xtime128 b" for a b
    by (rule bit_word_eqI) (auto simp: xtime128_def bit_simps simp del: push_bit_Suc One_nat_def)
  show "Suc k < LENGTH(128) \<Longrightarrow> xtime128 (push_bit k 1) = push_bit (Suc k) 1" for k
    by (simp add: xtime128_def bit_push_bit_iff bit_1_iff push_bit_push_bit del: push_bit_of_1)
qed

abbreviation halves :: "u64x2 \<Rightarrow> v128" where
  "halves p \<equiv> of_elems [fst p, snd p]"

lemma bit_halves: "bit (of_elems [l :: Uns64, h] :: v128) n \<longleftrightarrow> (if n < 64 then bit l n else n < 128 \<and> bit h (n - 64))"
  by (auto simp: bit_of_elems_Cons of_elems_Nil dest: bit_imp_le_length)

lemma halves_xor: "(of_elems [a XOR c, b XOR d :: Uns64] :: v128) = of_elems [a, b] XOR of_elems [c, d]"
  by (rule bit_word_eqI) (auto simp: bit_halves bit_xor_iff)

lemma halves_shr: "halves (drop_bit 1 a OR push_bit 63 b, drop_bit 1 b) = drop_bit 1 (halves (a, b))"
proof (rule bit_word_eqI)
  fix n assume "n < LENGTH(128)"
  moreover have "64 \<le> k \<Longrightarrow> \<not> bit a k" "64 \<le> k \<Longrightarrow> \<not> bit b k" for k by (auto dest: bit_imp_le_length)
  moreover have "Suc (n - 64) = n - 63" if "64 \<le> n" using that by simp
  ultimately show "bit (halves (drop_bit 1 a OR push_bit 63 b, drop_bit 1 b)) n = bit (drop_bit 1 (halves (a, b))) n"
    by (cases "n < 63"; cases "n = 63"; cases "n = 127")
      (auto simp: bit_halves bit_or_iff bit_drop_bit_eq bit_push_bit_iff)
qed

lemma halves_shl: "(of_elems [push_bit 1 a, push_bit 1 b OR drop_bit 63 a :: Uns64] :: v128) = push_bit 1 (of_elems [a, b])"
proof (rule bit_word_eqI)
  fix n assume "n < LENGTH(128)"
  moreover have "64 \<le> k \<Longrightarrow> \<not> bit a k" for k by (auto dest: bit_imp_le_length)
  ultimately show "bit (of_elems [push_bit 1 a, push_bit 1 b OR drop_bit 63 a] :: v128) n = bit (push_bit 1 (of_elems [a, b]) :: v128) n"
    by (cases "n < 64"; cases "n = 64")
      (auto simp: bit_halves bit_or_iff bit_drop_bit_eq bit_push_bit_iff simp del: push_bit_Suc One_nat_def)
qed

lemma vgmul_body_halves:
  "vgmul_body (Y, H, Z) = (Y', H', Z') \<Longrightarrow> halves Y' = drop_bit 1 (halves Y) \<and> halves H' = xtime128 (halves H) \<and>
    halves Z' = halves Z XOR (if bit (halves Y) 0 then halves H else 0)"
proof -
  assume step: "vgmul_body (Y, H, Z) = (Y', H', Z')"
  obtain Y0 Y1 H0 H1 Z0 Z1 where p: "Y = (Y0, Y1)" "H = (H0, H1)" "Z = (Z0, Z1)"
    by (cases Y, cases H, cases Z)
  define r where "r = (if bit H1 63 then 0x87 else 0 :: Uns64)"
  have "Y0 AND 1 \<noteq> 0 \<longleftrightarrow> bit Y0 0"
    using bit_iff_and_push_bit_not_eq_0 [of Y0 0] by simp
  moreover have "drop_bit 63 H1 = (if bit H1 63 then 1 else 0)"
  proof (rule bit_word_eqI)
    fix n show "bit (drop_bit 63 H1) n = bit (if bit H1 63 then 1 else 0 :: Uns64) n"
      using bit_imp_le_length [of H1 "63 + n"] by (cases "n = 0") (auto simp: bit_simps)
  qed
  then have "drop_bit 63 H1 \<noteq> 0 \<longleftrightarrow> bit H1 63" by simp
  ultimately have Y': "Y' = (drop_bit 1 Y0 OR push_bit 63 Y1, drop_bit 1 Y1)"
    and H': "H' = (push_bit 1 H0 XOR r, (push_bit 1 H1 OR drop_bit 63 H0) XOR 0)"
    and Z': "Z' = (if bit Y0 0 then (Z0 XOR H0, Z1 XOR H1) else (Z0, Z1))"
    using step by (auto simp: p r_def Let_def simp del: push_bit_Suc One_nat_def split: if_splits)
  have "halves (r, 0) = (if bit (halves H) 127 then 0x87 else 0)"
    using bit_halves [of H0 H1 127] by (simp add: p r_def of_elems_def)
  then have "halves H' = xtime128 (halves H)"
    by (simp only: H' halves_xor halves_shl xtime128_def p fst_conv snd_conv)
  moreover have "bit (halves Y) 0 \<longleftrightarrow> bit Y0 0" using bit_halves [of Y0 Y1 0] by (simp add: p)
  then have "halves Z' = halves Z XOR (if bit (halves Y) 0 then halves H else 0)"
    by (simp add: Z' p halves_xor)
  moreover have "halves Y' = drop_bit 1 (halves Y)" by (simp only: Y' p halves_shr)
  ultimately show ?thesis by blast
qed

lemma vgmul_loop:
  "(vgmul_body ^^ n) (Y, H, Z) = (Y', H', Z') \<Longrightarrow> halves Z' = halves Z XOR poly_mul xtime128 n (halves H) (halves Y)"
proof (induction n arbitrary: Y H Z)
  case (Suc n)
  obtain Y1 H1 Z1 where b: "vgmul_body (Y, H, Z) = (Y1, H1, Z1)" by (cases "vgmul_body (Y, H, Z)")
  then have "(vgmul_body ^^ n) (Y1, H1, Z1) = (Y', H', Z')"
    using Suc.prems by (simp add: funpow_swap1)
  from Suc.IH [OF this] vgmul_body_halves [OF b] show ?case by (simp add: xor.assoc)
qed simp

section \<open>Bit reversal\<close>

lemma brev8_table: "list_all (\<lambda>n. list_all (\<lambda>k. bit (brev8 ! n) k = bit (of_nat n :: Uns8) (7 - k)) [0..<8]) [0..<256]"
  by code_simp

lemma bit_brev8: "k < 8 \<Longrightarrow> bit (brev8 ! unat (b::Uns8)) k \<longleftrightarrow> bit b (7 - k)"
proof -
  assume k: "k < 8"
  have "unat b < 256" using unsigned_less [of b, where 'a = nat] by simp
  then show ?thesis using brev8_table k unfolding list_all_iff set_upt by simp
qed

lemma bit_brev8_128:
  assumes "n < 128"
  shows "bit (brev8_128 v) n \<longleftrightarrow> bit v (8 * (n div 8) + (7 - n mod 8))"
proof -
  have "n div 8 < 16" using assms by simp
  then have "u8 (brev8_128 v) (n div 8) = brev8 ! unat (u8 v (n div 8))"
    unfolding brev8_128_def by (subst elem_of_elems) (simp_all del: upt_Suc)
  then have "bit (u8 (brev8_128 v) (n div 8)) (n mod 8) \<longleftrightarrow> bit (u8 v (n div 8)) (7 - n mod 8)"
    by (simp add: bit_brev8)
  moreover have "7 - n mod 8 < 8" by simp
  ultimately show ?thesis by (simp add: bit_elem mult.commute)
qed

lemma brev8_128_xor: "brev8_128 (v XOR w) = brev8_128 v XOR brev8_128 w"
  by (rule bit_word_eqI) (simp add: bit_brev8_128 bit_xor_iff)

lemma brev8_128_involution: "brev8_128 (brev8_128 v) = v"
proof (rule bit_word_eqI)
  fix n assume "n < LENGTH(128)"
  moreover have "8 * (n div 8) + (7 - n mod 8) < 128" if "n < 128"
  proof -
    have "8 * (n div 8) \<le> 8 * 15" using that by (intro mult_le_mono2) simp
    then show ?thesis by simp
  qed
  moreover have "7 - n mod 8 < 8" by simp
  then have "(8 * (n div 8) + (7 - n mod 8)) div 8 = n div 8" "(8 * (n div 8) + (7 - n mod 8)) mod 8 = 7 - n mod 8"
    by (simp_all only: div_mult_self4 mod_mult_self4 div_less mod_less add_0_right)
  moreover have "7 - (7 - n mod 8) = n mod 8" by simp
  ultimately show "bit (brev8_128 (brev8_128 v)) n = bit v n"
    by (simp add: bit_brev8_128)
qed

section \<open>The field product\<close>

definition gcm_mul :: "v128 \<Rightarrow> v128 \<Rightarrow> v128" where
  "gcm_mul y h = brev8_128 (poly_mul xtime128 128 (brev8_128 h) (brev8_128 y))"

lemma doVGMUL_mul: "doVGMUL riscv yl yh hl hh = setResult128 riscv (gcm_mul (of_elems [yl, yh]) (of_elems [hl, hh]))"
proof -
  define Y H where "Y = brev8_128 (of_elems [yl, yh])" and "H = brev8_128 (of_elems [hl, hh])"
  obtain Y' H' Z' where loop: "(vgmul_body ^^ 128) ((u64 Y 0, u64 Y 1), (u64 H 0, u64 H 1), (0, 0)) = (Y', H', Z')"
    by (cases "(vgmul_body ^^ 128) ((u64 Y 0, u64 Y 1), (u64 H 0, u64 H 1), (0, 0))")
  have "of_elems [u64 v 0, u64 v 1] = v" for v :: v128
    using of_elems_elems [of 2 v, where 'b = 64] by (simp add: upt_rec)
  moreover have "of_elems [0, 0 :: Uns64] = (0 :: v128)" by (simp add: of_elems_def)
  ultimately have "halves Z' = poly_mul xtime128 128 H Y"
    using vgmul_loop [OF loop] by simp
  then show ?thesis
    by (simp add: doVGMUL_def Let_def gcm_mul_def loop flip: Y_def H_def One_nat_def)
qed

text \<open>C38: VGMUL is the product of the field of GCM and VGHSH the hash step built from it: the product
  is commutative, associative and additive, and its unit is the block with only the first bit
  set.\<close>

theorem vgmul_field_product:
  "doVGMUL riscv yl yh hl hh = setResult128 riscv (gcm_mul (of_elems [yl, yh]) (of_elems [hl, hh])) \<and>
   doVGHSH riscv yl yh hl hh xl xh =
     setResult128 riscv (gcm_mul (of_elems [yl, yh]) (of_elems [hl, hh]) XOR gcm_mul (of_elems [xl, xh]) (of_elems [hl, hh])) \<and>
   gcm_mul a b = gcm_mul b a \<and> gcm_mul (gcm_mul a b) c = gcm_mul a (gcm_mul b c) \<and>
   gcm_mul (a XOR b) c = gcm_mul a c XOR gcm_mul b c \<and> gcm_mul 0x80 a = a"
proof -
  have length_128: "LENGTH(128) = 128" by simp
  have dist: "gcm_mul (a XOR b) c = gcm_mul a c XOR gcm_mul b c" for a b c
    by (simp add: gcm_mul_def brev8_128_xor gcm.mul_xor_right)
  moreover have "gcm_mul a b = gcm_mul b a" for a b
    using gcm.mul_commute by (simp add: gcm_mul_def)
  moreover have "gcm_mul (gcm_mul a b) c = gcm_mul a (gcm_mul b c)"
    using gcm.mul_assoc gcm.mul_commute by (simp add: gcm_mul_def brev8_128_involution)
  moreover have "brev8_128 0x80 = 1" by code_simp
  then have "gcm_mul 0x80 a = a"
    using gcm.mul_1 [of "brev8_128 a"] gcm.mul_commute [of 1 "brev8_128 a"]
    by (metis gcm_mul_def brev8_128_involution length_128)
  ultimately show ?thesis
    by (simp add: doVGMUL_mul doVGHSH_def halves_xor)
qed

end
