(* ===== verification/RV_KExt_Sets.thy ===== *)
theory RV_KExt_Sets
  imports RV_Variant
begin

text \<open>
  The descriptor tables of \<^verbatim>\<open>riscvKExtension.c\<close> for the scalar and the vector cryptographic
  operations: feature subsets and callbacks per specification version, callback lookup and
  legality check; and the entropy source. A failing \<open>VMI_ASSERT\<close> is \<open>None\<close>; a row that the C
  initialiser leaves out is a zero row.
\<close>

section \<open>Operations\<close>

datatype riscvKExtOp =
  RVKOP_NONE | RVKOP_Zkr | RVKOP_Zknd | RVKOP_Zkne | RVKOP_Zknh | RVKOP_Zksed | RVKOP_Zksh |
  RVKOP_LUT4LO | RVKOP_LUT4HI | RVKOP_LUT4 | RVKOP_SAES32_ENCS | RVKOP_SAES32_ENCSM |
  RVKOP_SAES32_DECS | RVKOP_SAES32_DECSM | RVKOP_SAES64_KS1 | RVKOP_SAES64_KS2 |
  RVKOP_SAES64_IMIX | RVKOP_SAES64_ENCSM | RVKOP_SAES64_ENCS | RVKOP_SAES64_DECSM |
  RVKOP_SAES64_DECS | RVKOP_SSM3_P0 | RVKOP_SSM3_P1 | RVKOP_SSM4_ED | RVKOP_SSM4_KS |
  RVKOP_SSHA256_SIG0 | RVKOP_SSHA256_SIG1 | RVKOP_SSHA256_SUM0 | RVKOP_SSHA256_SUM1 |
  RVKOP_SSHA512_SIG0L | RVKOP_SSHA512_SIG0H | RVKOP_SSHA512_SIG1L | RVKOP_SSHA512_SIG1H |
  RVKOP_SSHA512_SUM0R | RVKOP_SSHA512_SUM1R | RVKOP_SSHA512_SIG0 | RVKOP_SSHA512_SIG1 |
  RVKOP_SSHA512_SUM0 | RVKOP_SSHA512_SUM1

datatype riscvVKExtOp =
  RVVKOP_NONE | RVVKOP_Zvbb | RVVKOP_Zvbb_0_4_5 | RVVKOP_Zvbc | RVVKOP_Zvkg | RVVKOP_Zvknha |
  RVVKOP_Zvknhb | RVVKOP_Zvkned | RVVKOP_Zvksed | RVVKOP_Zvksh | RVVKOP_VAESKF1 | RVVKOP_VAESKF2 |
  RVVKOP_VGMUL | RVVKOP_VGHSH | RVVKOP_VSM3ME | RVVKOP_VSM3C | RVVKOP_VSM4K | RVVKOP_VSM4R |
  RVVKOP_VSHA2MS | RVVKOP_VSHA2CL | RVVKOP_VSHA2CH

text \<open>A function of the C file that a table holds, by its name.\<close>

type_synonym vmiCallFn = string

record opDesc =
  cb32 :: "vmiCallFn option"
  cb64 :: "vmiCallFn option"
  subset :: riscvCryptoSet

section \<open>Table entries\<close>

definition OPENTRY_S :: "riscvCryptoSet \<Rightarrow> opDesc" where
  "OPENTRY_S S = \<lparr>cb32 = None, cb64 = None, subset = S\<rparr>"

definition OPENTRY_S_CB :: "riscvCryptoSet \<Rightarrow> vmiCallFn \<Rightarrow> vmiCallFn \<Rightarrow> opDesc" where
  "OPENTRY_S_CB S CB32 CB64 = \<lparr>cb32 = Some CB32, cb64 = Some CB64, subset = S\<rparr>"

definition OPENTRY_S_CB32 :: "riscvCryptoSet \<Rightarrow> vmiCallFn \<Rightarrow> opDesc" where
  "OPENTRY_S_CB32 S CB32 = \<lparr>cb32 = Some CB32, cb64 = None, subset = S\<rparr>"

definition OPENTRY_S_CB64 :: "riscvCryptoSet \<Rightarrow> vmiCallFn \<Rightarrow> opDesc" where
  "OPENTRY_S_CB64 S CB64 = \<lparr>cb32 = None, cb64 = Some CB64, subset = S\<rparr>"

definition KOPENTRYxV_S :: "riscvCryptoSet \<Rightarrow> riscvCryptoVer \<Rightarrow> opDesc" where
  "KOPENTRYxV_S S v = OPENTRY_S S"

definition KOPENTRYxV_S_CB :: "riscvCryptoSet \<Rightarrow> vmiCallFn \<Rightarrow> vmiCallFn \<Rightarrow> riscvCryptoVer \<Rightarrow> opDesc" where
  "KOPENTRYxV_S_CB S CB32 CB64 v = OPENTRY_S_CB S CB32 CB64"

definition KOPENTRYxV_S_CB32 :: "riscvCryptoSet \<Rightarrow> vmiCallFn \<Rightarrow> riscvCryptoVer \<Rightarrow> opDesc" where
  "KOPENTRYxV_S_CB32 S CB32 v = OPENTRY_S_CB32 S CB32"

definition KOPENTRYxV_S_CB64 :: "riscvCryptoSet \<Rightarrow> vmiCallFn \<Rightarrow> riscvCryptoVer \<Rightarrow> opDesc" where
  "KOPENTRYxV_S_CB64 S CB64 v = OPENTRY_S_CB64 S CB64"

primrec kopInfo :: "riscvKExtOp \<Rightarrow> riscvCryptoVer \<Rightarrow> opDesc" where
  "kopInfo RVKOP_Zkr = KOPENTRYxV_S RVKS_Zkr"
| "kopInfo RVKOP_Zknd = KOPENTRYxV_S RVKS_Zknd"
| "kopInfo RVKOP_Zkne = KOPENTRYxV_S RVKS_Zkne"
| "kopInfo RVKOP_Zknh = KOPENTRYxV_S RVKS_Zknh"
| "kopInfo RVKOP_Zksed = KOPENTRYxV_S RVKS_Zksed"
| "kopInfo RVKOP_Zksh = KOPENTRYxV_S RVKS_Zksh"
| "kopInfo RVKOP_LUT4LO = KOPENTRYxV_S_CB RVKS_Zkb ''doLUT4LO32'' ''doLUT4LO64''"
| "kopInfo RVKOP_LUT4HI = KOPENTRYxV_S_CB RVKS_Zkb ''doLUT4HI32'' ''doLUT4HI64''"
| "kopInfo RVKOP_LUT4 = KOPENTRYxV_S_CB64 RVKS_Zkb ''doLUT4''"
| "kopInfo RVKOP_SAES32_ENCS = KOPENTRYxV_S_CB32 RVKS_Zkne ''doSAES32_ENCS''"
| "kopInfo RVKOP_SAES32_ENCSM = KOPENTRYxV_S_CB32 RVKS_Zkne ''doSAES32_ENCSM''"
| "kopInfo RVKOP_SAES32_DECS = KOPENTRYxV_S_CB32 RVKS_Zknd ''doSAES32_DECS''"
| "kopInfo RVKOP_SAES32_DECSM = KOPENTRYxV_S_CB32 RVKS_Zknd ''doSAES32_DECSM''"
| "kopInfo RVKOP_SAES64_KS1 = KOPENTRYxV_S_CB64 RVKS_Zkne ''doSAES64_KS1''"
| "kopInfo RVKOP_SAES64_KS2 = KOPENTRYxV_S_CB64 RVKS_Zkne ''doSAES64_KS2''"
| "kopInfo RVKOP_SAES64_IMIX = KOPENTRYxV_S_CB64 RVKS_Zknd ''doSAES64_IMIX''"
| "kopInfo RVKOP_SAES64_ENCS = KOPENTRYxV_S_CB64 RVKS_Zkne ''doSAES64_ENCS''"
| "kopInfo RVKOP_SAES64_ENCSM = KOPENTRYxV_S_CB64 RVKS_Zkne ''doSAES64_ENCSM''"
| "kopInfo RVKOP_SAES64_DECS = KOPENTRYxV_S_CB64 RVKS_Zknd ''doSAES64_DECS''"
| "kopInfo RVKOP_SAES64_DECSM = KOPENTRYxV_S_CB64 RVKS_Zknd ''doSAES64_DECSM''"
| "kopInfo RVKOP_SSM3_P0 = KOPENTRYxV_S_CB RVKS_Zksh ''doSSM3_P032'' ''doSSM3_P064''"
| "kopInfo RVKOP_SSM3_P1 = KOPENTRYxV_S_CB RVKS_Zksh ''doSSM3_P132'' ''doSSM3_P164''"
| "kopInfo RVKOP_SSM4_ED = KOPENTRYxV_S_CB RVKS_Zksed ''doSSM4_ED32'' ''doSSM4_ED64''"
| "kopInfo RVKOP_SSM4_KS = KOPENTRYxV_S_CB RVKS_Zksed ''doSSM4_KS32'' ''doSSM4_KS64''"
| "kopInfo RVKOP_SSHA256_SIG0 = KOPENTRYxV_S_CB RVKS_Zknh ''doSSHA256_SIG032'' ''doSSHA256_SIG064''"
| "kopInfo RVKOP_SSHA256_SIG1 = KOPENTRYxV_S_CB RVKS_Zknh ''doSSHA256_SIG132'' ''doSSHA256_SIG164''"
| "kopInfo RVKOP_SSHA256_SUM0 = KOPENTRYxV_S_CB RVKS_Zknh ''doSSHA256_SUM032'' ''doSSHA256_SUM064''"
| "kopInfo RVKOP_SSHA256_SUM1 = KOPENTRYxV_S_CB RVKS_Zknh ''doSSHA256_SUM132'' ''doSSHA256_SUM164''"
| "kopInfo RVKOP_SSHA512_SIG0L = KOPENTRYxV_S_CB32 RVKS_Zknh ''doSSHA512_SIG0L''"
| "kopInfo RVKOP_SSHA512_SIG0H = KOPENTRYxV_S_CB32 RVKS_Zknh ''doSSHA512_SIG0H''"
| "kopInfo RVKOP_SSHA512_SIG1L = KOPENTRYxV_S_CB32 RVKS_Zknh ''doSSHA512_SIG1L''"
| "kopInfo RVKOP_SSHA512_SIG1H = KOPENTRYxV_S_CB32 RVKS_Zknh ''doSSHA512_SIG1H''"
| "kopInfo RVKOP_SSHA512_SUM0R = KOPENTRYxV_S_CB32 RVKS_Zknh ''doSSHA512_SUM0R''"
| "kopInfo RVKOP_SSHA512_SUM1R = KOPENTRYxV_S_CB32 RVKS_Zknh ''doSSHA512_SUM1R''"
| "kopInfo RVKOP_SSHA512_SIG0 = KOPENTRYxV_S_CB64 RVKS_Zknh ''doSSHA512_SIG0''"
| "kopInfo RVKOP_SSHA512_SIG1 = KOPENTRYxV_S_CB64 RVKS_Zknh ''doSSHA512_SIG1''"
| "kopInfo RVKOP_SSHA512_SUM0 = KOPENTRYxV_S_CB64 RVKS_Zknh ''doSSHA512_SUM0''"
| "kopInfo RVKOP_SSHA512_SUM1 = KOPENTRYxV_S_CB64 RVKS_Zknh ''doSSHA512_SUM1''"
| "kopInfo RVKOP_NONE = KOPENTRYxV_S RVKS_Zk_none"

definition VKOPENTRYxV_S :: "riscvCryptoSet \<Rightarrow> riscvVCryptoVer \<Rightarrow> opDesc" where
  "VKOPENTRYxV_S S v = OPENTRY_S S"

fun VKOPENTRYxV_SxV ::
  "riscvCryptoSet \<Rightarrow> riscvCryptoSet \<Rightarrow> riscvCryptoSet \<Rightarrow> riscvCryptoSet \<Rightarrow> riscvVCryptoVer \<Rightarrow> opDesc" where
  "VKOPENTRYxV_SxV S030 S052 S100RC1 SMASTER RVKVV_0_3_0 = OPENTRY_S S030"
| "VKOPENTRYxV_SxV S030 S052 S100RC1 SMASTER RVKVV_0_5_2 = OPENTRY_S S052"
| "VKOPENTRYxV_SxV S030 S052 S100RC1 SMASTER RVKVV_1_0_0_RC1 = OPENTRY_S S100RC1"
| "VKOPENTRYxV_SxV S030 S052 S100RC1 SMASTER RVKVV_MASTER = OPENTRY_S SMASTER"

definition VKOPENTRYxV_S_CB :: "riscvCryptoSet \<Rightarrow> vmiCallFn \<Rightarrow> vmiCallFn \<Rightarrow> riscvVCryptoVer \<Rightarrow> opDesc" where
  "VKOPENTRYxV_S_CB S CB32 CB64 v = OPENTRY_S_CB S CB32 CB64"

definition VKOPENTRYxV_S_CB32 :: "riscvCryptoSet \<Rightarrow> vmiCallFn \<Rightarrow> riscvVCryptoVer \<Rightarrow> opDesc" where
  "VKOPENTRYxV_S_CB32 S CB32 v = OPENTRY_S_CB32 S CB32"

primrec vkopInfo :: "riscvVKExtOp \<Rightarrow> riscvVCryptoVer \<Rightarrow> opDesc" where
  "vkopInfo RVVKOP_Zvbb = VKOPENTRYxV_SxV RVKS_Zvkb RVKS_Zvbb RVKS_Zvbb RVKS_Zvbb"
| "vkopInfo RVVKOP_Zvbb_0_4_5 = VKOPENTRYxV_SxV RVKS_Zk_none RVKS_Zvbb RVKS_Zvbb RVKS_Zvbb"
| "vkopInfo RVVKOP_Zvbc = VKOPENTRYxV_SxV RVKS_Zvkb RVKS_Zvbc RVKS_Zvbc RVKS_Zvbc"
| "vkopInfo RVVKOP_Zvkg = VKOPENTRYxV_SxV RVKS_Zvkg RVKS_Zvkg RVKS_Zvkg RVKS_Zvkg"
| "vkopInfo RVVKOP_Zvknha = VKOPENTRYxV_S RVKS_Zvknha"
| "vkopInfo RVVKOP_Zvknhb = VKOPENTRYxV_S RVKS_Zvknhb"
| "vkopInfo RVVKOP_Zvkned = VKOPENTRYxV_S RVKS_Zvkned"
| "vkopInfo RVVKOP_Zvksed = VKOPENTRYxV_S RVKS_Zvksed"
| "vkopInfo RVVKOP_Zvksh = VKOPENTRYxV_S RVKS_Zvksh"
| "vkopInfo RVVKOP_VAESKF1 = VKOPENTRYxV_S_CB32 RVKS_Zvkned ''doVAESKF1''"
| "vkopInfo RVVKOP_VAESKF2 = VKOPENTRYxV_S_CB32 RVKS_Zvkned ''doVAESKF2''"
| "vkopInfo RVVKOP_VGMUL = VKOPENTRYxV_S_CB32 RVKS_Zvkg ''doVGMUL''"
| "vkopInfo RVVKOP_VGHSH = VKOPENTRYxV_S_CB32 RVKS_Zvkg ''doVGHSH''"
| "vkopInfo RVVKOP_VSM3ME = VKOPENTRYxV_S_CB32 RVKS_Zvksh ''doVSM3ME''"
| "vkopInfo RVVKOP_VSM3C = VKOPENTRYxV_S_CB32 RVKS_Zvksh ''doVSM3C''"
| "vkopInfo RVVKOP_VSM4K = VKOPENTRYxV_S_CB32 RVKS_Zvksed ''doVSM4K''"
| "vkopInfo RVVKOP_VSM4R = VKOPENTRYxV_S_CB32 RVKS_Zvksed ''doVSM4R''"
| "vkopInfo RVVKOP_VSHA2MS = VKOPENTRYxV_S_CB RVKS_Zvknha ''doVSHA2MS32'' ''doVSHA2MS64''"
| "vkopInfo RVVKOP_VSHA2CL = VKOPENTRYxV_S_CB RVKS_Zvknha ''doVSHA2C32'' ''doVSHA2C64''"
| "vkopInfo RVVKOP_VSHA2CH = VKOPENTRYxV_S_CB RVKS_Zvknha ''doVSHA2C32'' ''doVSHA2C64''"
| "vkopInfo RVVKOP_NONE = VKOPENTRYxV_S RVKS_Zk_none"

section \<open>Callback lookup and legality\<close>

definition getSubsetDesc :: "riscvCryptoSet \<Rightarrow> string option" where
  "getSubsetDesc requiredSet = map_of [
    (RVKS_Zk_none, ''always''),
    (RVKS_Zbkb, ''Zbkb''),
    (RVKS_Zkr, ''Zkr''),
    (RVKS_Zknd, ''Zknd''),
    (RVKS_Zkne, ''Zkne''),
    (RVKS_Zknh, ''Zknh''),
    (RVKS_Zksed, ''Zksed''),
    (RVKS_Zksh, ''Zksh''),
    (RVKS_Zvbb, ''Zvbb''),
    (RVKS_Zvbc, ''Zvbc''),
    (RVKS_Zvkg, ''Zvkg''),
    (RVKS_Zvknha, ''Zvknha''),
    (RVKS_Zvknhb, ''Zvknhb''),
    (RVKS_Zvkned, ''Zvkned''),
    (RVKS_Zvksed, ''Zvksed''),
    (RVKS_Zvksh, ''Zvksh'')] requiredSet"

definition getKOpDesc :: "riscvConfig \<Rightarrow> riscvKExtOp \<Rightarrow> opDesc" where
  "getKOpDesc cfg op = kopInfo op (crypto_version cfg)"

definition riscvGetKOpCB :: "riscvConfig \<Rightarrow> riscvKExtOp \<Rightarrow> Uns32 \<Rightarrow> vmiCallFn option" where
  "riscvGetKOpCB cfg op bits =
    (let desc = getKOpDesc cfg op
     in if bits = 32 then cb32 desc else cb64 desc)"

text \<open>The result with the description that the Illegal Instruction exception reports, if one is
  taken.\<close>

definition riscvValidateKExtSubset :: "riscvConfig \<Rightarrow> riscvKExtOp \<Rightarrow> (bool \<times> string option) option" where
  "riscvValidateKExtSubset cfg op =
    (if op \<noteq> RVKOP_NONE
     then let desc = getKOpDesc cfg op;
              requiredSet = subset desc
          in if requiredSet AND NOT (crypto_absent cfg) = 0
             then map_option (\<lambda>d. (False, Some d)) (getSubsetDesc requiredSet)
             else Some (True, None)
     else Some (True, None))"

definition getVKOpDesc :: "riscvConfig \<Rightarrow> riscvVKExtOp \<Rightarrow> opDesc" where
  "getVKOpDesc cfg op = vkopInfo op (vcrypto_version cfg)"

definition riscvGetVKOpCB :: "riscvConfig \<Rightarrow> riscvVKExtOp \<Rightarrow> Uns32 \<Rightarrow> vmiCallFn option" where
  "riscvGetVKOpCB cfg op bits =
    (let desc = getVKOpDesc cfg op
     in if bits = 32 then cb32 desc else cb64 desc)"

text \<open>\<open>SEW\<close> is the current element width that \<^verbatim>\<open>riscvGetSEWMt\<close> returns.\<close>

definition riscvValidateVKExtSubset :: "riscvConfig \<Rightarrow> Uns32 \<Rightarrow> riscvVKExtOp \<Rightarrow> (bool \<times> string option) option" where
  "riscvValidateVKExtSubset cfg SEW op =
    (if op \<noteq> RVVKOP_NONE
     then let desc = getVKOpDesc cfg op;
              requiredSet = subset desc;
              requiredSet = (if requiredSet = RVKS_Zvknha \<and> SEW = 64 then RVKS_Zvknhb else requiredSet)
          in if requiredSet AND NOT (crypto_absent cfg) = 0
             then map_option (\<lambda>d. (False, Some d)) (getSubsetDesc requiredSet)
             else Some (True, None)
     else Some (True, None))"

section \<open>Entropy source\<close>

text \<open>The hart number is read through the common view of the register, which has 32 bits.\<close>

record riscvEntropy =
  configInfo :: riscvConfig
  NOISE_TEST :: bool
  mhartid :: Uns32
  entropyLFSR :: Uns32

definition getCryptoVersion :: "riscvEntropy \<Rightarrow> riscvCryptoVer" where
  "getCryptoVersion riscv = crypto_version (configInfo riscv)"

definition riscvPollEntropy :: "riscvEntropy \<Rightarrow> Uns32 \<times> riscvEntropy" where
  "riscvPollEntropy riscv =
    (let result = 0
     in if \<not> NOISE_TEST riscv
        then let lfsr = entropyLFSR riscv;
                 lfsr = (if lfsr = 0
                         then (if mhartid riscv XOR 0xdeadbeef \<noteq> 0 then mhartid riscv XOR 0xdeadbeef else 0xdeadbeef)
                         else lfsr);
                 lfsr = drop_bit 1 lfsr XOR ((- (lfsr AND 1)) AND 0x8000000);
                 riscv = riscv\<lparr>entropyLFSR := lfsr\<rparr>;
                 ES16 = push_bit 30 (if riscvCryptoVer_index (getCryptoVersion riscv) \<ge> riscvCryptoVer_index RVKV_1_0_0_RC1
                                     then 2 else 1);
                 result = (lfsr AND 0xffff) OR ES16
             in (result, riscv)
        else (result, riscv))"

section \<open>Legality of the cryptographic operations\<close>

text \<open>Subsets of the tables are single features, and each has a description.\<close>

lemma getSubsetDesc_described:
  "S \<in> {RVKS_Zk_none, RVKS_Zbkb, RVKS_Zkr, RVKS_Zknd, RVKS_Zkne, RVKS_Zknh, RVKS_Zksed, RVKS_Zksh, RVKS_Zvbb, RVKS_Zvbc,
     RVKS_Zvkg, RVKS_Zvknha, RVKS_Zvknhb, RVKS_Zvkned, RVKS_Zvksed, RVKS_Zvksh} \<Longrightarrow> \<exists>d. getSubsetDesc S = Some d"
  unfolding getSubsetDesc_def not_None_eq [symmetric] map_of_eq_None_iff by simp

lemmas opentry_subset = KOPENTRYxV_S_def KOPENTRYxV_S_CB_def KOPENTRYxV_S_CB32_def KOPENTRYxV_S_CB64_def
  VKOPENTRYxV_S_def VKOPENTRYxV_S_CB_def VKOPENTRYxV_S_CB32_def OPENTRY_S_def OPENTRY_S_CB_def
  OPENTRY_S_CB32_def OPENTRY_S_CB64_def

lemma VKOPENTRYxV_SxV_subset: "subset (VKOPENTRYxV_SxV a b c d v) \<in> {a, b, c, d}"
  by (cases v) (simp_all add: opentry_subset)

lemma kopInfo_described: "\<exists>d. getSubsetDesc (subset (kopInfo op v)) = Some d"
  by (rule getSubsetDesc_described, cases op) (simp_all add: opentry_subset RVKS_Zkb_def)

lemma vkopInfo_described: "\<exists>d. getSubsetDesc (subset (vkopInfo op v)) = Some d"
proof (rule getSubsetDesc_described)
  show "subset (vkopInfo op v) \<in> {RVKS_Zk_none, RVKS_Zbkb, RVKS_Zkr, RVKS_Zknd, RVKS_Zkne, RVKS_Zknh, RVKS_Zksed,
    RVKS_Zksh, RVKS_Zvbb, RVKS_Zvbc, RVKS_Zvkg, RVKS_Zvknha, RVKS_Zvknhb, RVKS_Zvkned, RVKS_Zvksed, RVKS_Zvksh}"
    using VKOPENTRYxV_SxV_subset by (cases op) (force simp: opentry_subset RVKS_Zvkb_def)+
qed

text \<open>The subset a vector cryptographic operation needs at an element width.\<close>

definition vk_required :: "riscvConfig \<Rightarrow> Uns32 \<Rightarrow> riscvVKExtOp \<Rightarrow> riscvCryptoSet" where
  "vk_required cfg SEW op =
    (if subset (getVKOpDesc cfg op) = RVKS_Zvknha \<and> SEW = 64 then RVKS_Zvknhb else subset (getVKOpDesc cfg op))"

text \<open>C39: The legality checks of the scalar and vector cryptographic instructions never fail their
  assertions, accept an instruction exactly when its subset is present, with SHA-2 at element
  width 64 needing Zvknhb, and exactly the SHA-2 operations have a 64-bit callback.\<close>

theorem crypto_legality_total:
  "(\<exists>d. riscvValidateKExtSubset cfg op =
      (if op \<noteq> RVKOP_NONE \<and> subset (getKOpDesc cfg op) AND NOT (crypto_absent cfg) = 0
       then Some (False, Some d) else Some (True, None))) \<and>
   (\<exists>d. riscvValidateVKExtSubset cfg SEW vop =
      (if vop \<noteq> RVVKOP_NONE \<and> vk_required cfg SEW vop AND NOT (crypto_absent cfg) = 0
       then Some (False, Some d) else Some (True, None))) \<and>
   (vop \<in> {RVVKOP_VSHA2MS, RVVKOP_VSHA2CL, RVVKOP_VSHA2CH} \<longleftrightarrow> riscvGetVKOpCB cfg vop 64 \<noteq> None)"
proof -
  obtain d where d: "getSubsetDesc (subset (getKOpDesc cfg op)) = Some d"
    using kopInfo_described by (auto simp: getKOpDesc_def)
  obtain e where e: "getSubsetDesc (subset (getVKOpDesc cfg vop)) = Some e"
    using vkopInfo_described by (auto simp: getVKOpDesc_def)
  obtain f where f: "getSubsetDesc RVKS_Zvknhb = Some f"
    using getSubsetDesc_described [of RVKS_Zvknhb] by auto
  have "vop \<in> {RVVKOP_VSHA2MS, RVVKOP_VSHA2CL, RVVKOP_VSHA2CH} \<longleftrightarrow> riscvGetVKOpCB cfg vop 64 \<noteq> None"
    by (cases vop; cases "vcrypto_version cfg") (simp_all add: riscvGetVKOpCB_def getVKOpDesc_def opentry_subset)
  moreover have "\<exists>d. riscvValidateVKExtSubset cfg SEW vop =
      (if vop \<noteq> RVVKOP_NONE \<and> vk_required cfg SEW vop AND NOT (crypto_absent cfg) = 0
       then Some (False, Some d) else Some (True, None))"
    by (simp add: riscvValidateVKExtSubset_def vk_required_def Let_def e f)
  ultimately show ?thesis
    by (simp add: riscvValidateKExtSubset_def Let_def d)
qed

section \<open>Behaviour of the entropy source\<close>

lemma lfsr_tap: "- (x AND 1) AND 0x8000000 = (if bit x 0 then 0x8000000 else 0)" for x :: Uns32
proof -
  have "x AND 1 = (if bit x 0 then 1 else 0)"
    by (rule bit_word_eqI) (auto simp: bit_simps intro: gr0I)
  then show ?thesis by simp
qed

definition lfsr_step :: "Uns32 \<Rightarrow> Uns32" where
  "lfsr_step x = drop_bit 1 x XOR (if bit x 0 then 0x8000000 else 0)"

lemma less_exp_take_bit: "k < LENGTH('a) \<Longrightarrow> x < 2 ^ k \<longleftrightarrow> take_bit k x = x" for x :: "'a::len word"
  using mask_eq_iff_w2p [of k x] by (simp add: word_size take_bit_eq_mask)

lemma no_high_bit: "take_bit k x = x \<Longrightarrow> k \<le> n \<Longrightarrow> \<not> bit x n" for x :: "'a::len word"
  by (metis bit_take_bit_iff not_less)

lemma bit_lfsr_step:
  assumes "take_bit 28 x = x"
  shows "bit (lfsr_step x) n \<longleftrightarrow> n < 28 \<and> bit x (Suc n mod 28)"
proof -
  have c: "(0x8000000 :: Uns32) = push_bit 27 1" by simp
  have "28 \<le> k \<Longrightarrow> \<not> bit x k" for k using no_high_bit [of 28 x k] assms by simp
  then show ?thesis unfolding lfsr_step_def c
    by (cases "n < 27"; cases "n = 27")
      (auto simp: bit_xor_iff bit_drop_bit_eq bit_push_bit_iff bit_1_iff simp del: push_bit_of_1)
qed

text \<open>Below \<open>2 ^ 28\<close> the register is rotated, so that it keeps its bits and repeats after 28 polls.\<close>

lemma lfsr_iterate:
  assumes "take_bit 28 x = x"
  shows "take_bit 28 ((lfsr_step ^^ k) x) = (lfsr_step ^^ k) x \<and> (\<forall>n. bit ((lfsr_step ^^ k) x) n \<longleftrightarrow> n < 28 \<and> bit x ((n + k) mod 28))"
proof (induction k)
  case 0
  have "bit x n \<Longrightarrow> n < 28" for n using no_high_bit [of 28 x n] assms by fastforce
  then show ?case using assms by auto
next
  case (Suc k)
  have b: "bit ((lfsr_step ^^ Suc k) x) n \<longleftrightarrow> n < 28 \<and> bit x ((n + Suc k) mod 28)" for n
    using Suc bit_lfsr_step [of "(lfsr_step ^^ k) x" n] by (simp add: mod_add_left_eq)
  have "take_bit 28 ((lfsr_step ^^ Suc k) x) = (lfsr_step ^^ Suc k) x"
    by (rule bit_word_eqI) (auto simp: bit_take_bit_iff b simp del: funpow.simps)
  then show ?case using b by blast
qed

lemma lfsr_nonzero:
  assumes "take_bit 28 x = x" and "x \<noteq> 0"
  shows "(lfsr_step ^^ k) x \<noteq> 0"
proof
  assume z: "(lfsr_step ^^ k) x = 0"
  obtain m where m: "bit x m" using assms(2) by (metis bit_0_eq bot_apply bot_bool_def bit_eq_iff)
  then have "m < 28" using no_high_bit [of 28 x m] assms(1) by fastforce
  then have "((m + 27 * k) mod 28 + k) mod 28 = m" by (simp add: mod_add_left_eq)
  then have "bit ((lfsr_step ^^ k) x) ((m + 27 * k) mod 28)" using lfsr_iterate [OF assms(1), of k] m by simp
  then show False using z by simp
qed

lemma riscvPollEntropy_step:
  assumes "\<not> NOISE_TEST s" and "entropyLFSR s \<noteq> 0"
  shows "snd (riscvPollEntropy s) = s\<lparr>entropyLFSR := lfsr_step (entropyLFSR s)\<rparr>"
  using assms by (simp add: riscvPollEntropy_def Let_def lfsr_tap lfsr_step_def)

lemma riscvPollEntropy_iterate:
  assumes "\<not> NOISE_TEST s" and "entropyLFSR s \<noteq> 0" and "take_bit 28 (entropyLFSR s) = entropyLFSR s"
  shows "((snd \<circ> riscvPollEntropy) ^^ k) s = s\<lparr>entropyLFSR := (lfsr_step ^^ k) (entropyLFSR s)\<rparr>"
  by (induction k) (use assms lfsr_nonzero [OF assms(3,2)] in \<open>simp_all add: riscvPollEntropy_step\<close>)

text \<open>C40: The entropy source returns zero and keeps its state in noise test mode; otherwise its
  status field is ES16 in the encoding of the configured version and its low half comes from the
  shift register, which repeats after 28 polls once it is below \<open>2 ^ 28\<close> and not
  zero.\<close>

theorem riscvPollEntropy_behaviour:
  "(NOISE_TEST s \<longrightarrow> riscvPollEntropy s = (0, s)) \<and>
   (\<not> NOISE_TEST s \<longrightarrow> drop_bit 30 (fst (riscvPollEntropy s)) =
      (if crypto_version (configInfo s) \<in> {RVKV_1_0_0_RC1, RVKV_1_0_0_RC5} then 2 else 1) \<and>
      take_bit 16 (fst (riscvPollEntropy s)) = take_bit 16 (entropyLFSR (snd (riscvPollEntropy s)))) \<and>
   (\<not> NOISE_TEST s \<and> entropyLFSR s \<noteq> 0 \<and> entropyLFSR s < 2 ^ 28 \<longrightarrow>
      ((snd \<circ> riscvPollEntropy) ^^ 28) s = s)"
proof (intro conjI impI)
  show "NOISE_TEST s \<Longrightarrow> riscvPollEntropy s = (0, s)" by (simp add: riscvPollEntropy_def)
  assume n: "\<not> NOISE_TEST s"
  have m: "x AND 0xffff = take_bit 16 x" for x :: Uns32 by (simp add: take_bit_eq_mask mask_eq_exp_minus_1)
  have d: "drop_bit 30 (take_bit 16 x) = 0" for x :: Uns32
    by (rule bit_word_eqI) (simp add: bit_simps)
  have e: "crypto_version (configInfo s) \<in> {RVKV_1_0_0_RC1, RVKV_1_0_0_RC5} \<longleftrightarrow>
    4 \<le> riscvCryptoVer_index (crypto_version (configInfo s))"
    by (cases "crypto_version (configInfo s)") simp_all
  show "drop_bit 30 (fst (riscvPollEntropy s)) =
      (if crypto_version (configInfo s) \<in> {RVKV_1_0_0_RC1, RVKV_1_0_0_RC5} then 2 else 1)"
    unfolding e using n by (simp add: riscvPollEntropy_def Let_def getCryptoVersion_def m drop_bit_or d)
  show "take_bit 16 (fst (riscvPollEntropy s)) = take_bit 16 (entropyLFSR (snd (riscvPollEntropy s)))"
    using n by (simp add: riscvPollEntropy_def Let_def m take_bit_or)
next
  assume a: "\<not> NOISE_TEST s \<and> entropyLFSR s \<noteq> 0 \<and> entropyLFSR s < 2 ^ 28"
  then have t: "take_bit 28 (entropyLFSR s) = entropyLFSR s" using less_exp_take_bit [of 28 "entropyLFSR s"] by simp
  define p where "p = (28 :: nat)"
  have "(n < 28 \<and> bit (entropyLFSR s) ((n + p) mod 28)) = bit (entropyLFSR s) n" for n
    using no_high_bit [OF t, of n] by (cases "n < 28") (simp_all add: p_def)
  then have "(lfsr_step ^^ p) (entropyLFSR s) = entropyLFSR s"
    using lfsr_iterate [OF t, of p] by (intro bit_word_eqI) simp
  then show "((snd \<circ> riscvPollEntropy) ^^ 28) s = s"
    using a t riscvPollEntropy_iterate [of s p] by (simp add: p_def [symmetric])
qed

theorem riscvPollEntropy_behaviour_witness:
  "((snd \<circ> riscvPollEntropy) ^^ 28)
     \<lparr>configInfo = \<lparr>bitmanip_version = RVBV_1_0_0, bitmanip_absent = 0, crypto_version = RVKV_1_0_0_RC5,
       vcrypto_version = RVKVV_MASTER, crypto_absent = 0\<rparr>, NOISE_TEST = False, mhartid = 0, entropyLFSR = 0x1234567\<rparr> =
     \<lparr>configInfo = \<lparr>bitmanip_version = RVBV_1_0_0, bitmanip_absent = 0, crypto_version = RVKV_1_0_0_RC5,
       vcrypto_version = RVKVV_MASTER, crypto_absent = 0\<rparr>, NOISE_TEST = False, mhartid = 0, entropyLFSR = 0x1234567\<rparr>"
  by (rule riscvPollEntropy_behaviour [THEN conjunct2, THEN conjunct2, THEN mp]) simp

end
