(* ===== verification/RV_Mode.thy ===== *)
theory RV_Mode
  imports RV_Prelude
begin

text \<open>
  Execution modes and dictionary modes, \<^verbatim>\<open>riscvMode.h\<close>. Enumerations are datatypes with the
  source's constructors; the encodings that the bit operations of the source use are the
  functions \<open>riscvMode_code\<close> and \<open>riscvDMode_code\<close>. A table lookup beyond the end of the C array
  is \<open>None\<close>. The theorem shows that the tables are consistent with each other and with the
  encodings.
\<close>

section \<open>Modes\<close>

datatype riscvMode =
  RISCV_MODE_U | RISCV_MODE_S | RISCV_MODE_H | RISCV_MODE_M | RISCV_MODE_VU | RISCV_MODE_VS | RISCV_MODE_LAST

datatype riscvVMMode =
  RISCV_VMMODE_U | RISCV_VMMODE_S | RISCV_VMMODE_VU | RISCV_VMMODE_VS | RISCV_VMMODE_LAST

datatype riscvDMode =
  RISCV_DMODE32_U | RISCV_DMODE32_U_VM | RISCV_DMODE32_VU | RISCV_DMODE32_VU_VM |
  RISCV_DMODE64_U | RISCV_DMODE64_U_VM | RISCV_DMODE64_VU | RISCV_DMODE64_VU_VM |
  RISCV_DMODE32_S | RISCV_DMODE32_S_VM | RISCV_DMODE32_VS | RISCV_DMODE32_VS_VM |
  RISCV_DMODE64_S | RISCV_DMODE64_S_VM | RISCV_DMODE64_VS | RISCV_DMODE64_VS_VM |
  RISCV_DMODE32_M | RISCV_DMODE64_M | RISCV_DMODE_LAST

fun riscvMode_code :: "riscvMode \<Rightarrow> Uns32" where
  "riscvMode_code RISCV_MODE_U = 0"
| "riscvMode_code RISCV_MODE_S = 1"
| "riscvMode_code RISCV_MODE_H = 2"
| "riscvMode_code RISCV_MODE_M = 3"
| "riscvMode_code RISCV_MODE_VU = 4"
| "riscvMode_code RISCV_MODE_VS = 5"
| "riscvMode_code RISCV_MODE_LAST = 6"

fun riscvDMode_code :: "riscvDMode \<Rightarrow> Uns32" where
  "riscvDMode_code RISCV_DMODE32_U = 0x0"
| "riscvDMode_code RISCV_DMODE32_U_VM = 0x4"
| "riscvDMode_code RISCV_DMODE32_VU = 0x8"
| "riscvDMode_code RISCV_DMODE32_VU_VM = 0xc"
| "riscvDMode_code RISCV_DMODE64_U = 0x1"
| "riscvDMode_code RISCV_DMODE64_U_VM = 0x5"
| "riscvDMode_code RISCV_DMODE64_VU = 0x9"
| "riscvDMode_code RISCV_DMODE64_VU_VM = 0xd"
| "riscvDMode_code RISCV_DMODE32_S = 0x2"
| "riscvDMode_code RISCV_DMODE32_S_VM = 0x6"
| "riscvDMode_code RISCV_DMODE32_VS = 0xa"
| "riscvDMode_code RISCV_DMODE32_VS_VM = 0xe"
| "riscvDMode_code RISCV_DMODE64_S = 0x3"
| "riscvDMode_code RISCV_DMODE64_S_VM = 0x7"
| "riscvDMode_code RISCV_DMODE64_VS = 0xb"
| "riscvDMode_code RISCV_DMODE64_VS_VM = 0xf"
| "riscvDMode_code RISCV_DMODE32_M = 0x10"
| "riscvDMode_code RISCV_DMODE64_M = 0x11"
| "riscvDMode_code RISCV_DMODE_LAST = 0x12"

section \<open>Access privileges and address masks\<close>

text \<open>Privileges in the encoding of the simulator, which the PMP configuration bytes use too.\<close>

type_synonym memPriv = Uns8

abbreviation MEM_PRIV_NONE :: memPriv where "MEM_PRIV_NONE \<equiv> 0"
abbreviation MEM_PRIV_R :: memPriv where "MEM_PRIV_R \<equiv> 1"
abbreviation MEM_PRIV_W :: memPriv where "MEM_PRIV_W \<equiv> 2"
abbreviation MEM_PRIV_RW :: memPriv where "MEM_PRIV_RW \<equiv> 3"
abbreviation MEM_PRIV_X :: memPriv where "MEM_PRIV_X \<equiv> 4"
abbreviation MEM_PRIV_RX :: memPriv where "MEM_PRIV_RX \<equiv> 5"
abbreviation MEM_PRIV_WX :: memPriv where "MEM_PRIV_WX \<equiv> 6"
abbreviation MEM_PRIV_RWX :: memPriv where "MEM_PRIV_RWX \<equiv> 7"

definition getAddressMask :: "nat \<Rightarrow> Uns64" where
  "getAddressMask bits = (if bits = 64 then - 1 else push_bit bits 1 - 1)"

section \<open>Functions\<close>

text \<open>\<open>mode & RISCV_MODE_M\<close>, on the encodings.\<close>

fun getBaseMode :: "riscvMode \<Rightarrow> riscvMode" where
  "getBaseMode RISCV_MODE_U = RISCV_MODE_U"
| "getBaseMode RISCV_MODE_S = RISCV_MODE_S"
| "getBaseMode RISCV_MODE_H = RISCV_MODE_H"
| "getBaseMode RISCV_MODE_M = RISCV_MODE_M"
| "getBaseMode RISCV_MODE_VU = RISCV_MODE_U"
| "getBaseMode RISCV_MODE_VS = RISCV_MODE_S"
| "getBaseMode RISCV_MODE_LAST = RISCV_MODE_H"

fun dmodeToVMMode :: "riscvDMode \<Rightarrow> riscvVMMode option" where
  "dmodeToVMMode RISCV_DMODE32_U = Some RISCV_VMMODE_LAST"
| "dmodeToVMMode RISCV_DMODE32_U_VM = Some RISCV_VMMODE_U"
| "dmodeToVMMode RISCV_DMODE32_VU = Some RISCV_VMMODE_LAST"
| "dmodeToVMMode RISCV_DMODE32_VU_VM = Some RISCV_VMMODE_VU"
| "dmodeToVMMode RISCV_DMODE64_U = Some RISCV_VMMODE_LAST"
| "dmodeToVMMode RISCV_DMODE64_U_VM = Some RISCV_VMMODE_U"
| "dmodeToVMMode RISCV_DMODE64_VU = Some RISCV_VMMODE_LAST"
| "dmodeToVMMode RISCV_DMODE64_VU_VM = Some RISCV_VMMODE_VU"
| "dmodeToVMMode RISCV_DMODE32_S = Some RISCV_VMMODE_LAST"
| "dmodeToVMMode RISCV_DMODE32_S_VM = Some RISCV_VMMODE_S"
| "dmodeToVMMode RISCV_DMODE32_VS = Some RISCV_VMMODE_LAST"
| "dmodeToVMMode RISCV_DMODE32_VS_VM = Some RISCV_VMMODE_VS"
| "dmodeToVMMode RISCV_DMODE64_S = Some RISCV_VMMODE_LAST"
| "dmodeToVMMode RISCV_DMODE64_S_VM = Some RISCV_VMMODE_S"
| "dmodeToVMMode RISCV_DMODE64_VS = Some RISCV_VMMODE_LAST"
| "dmodeToVMMode RISCV_DMODE64_VS_VM = Some RISCV_VMMODE_VS"
| "dmodeToVMMode RISCV_DMODE32_M = Some RISCV_VMMODE_LAST"
| "dmodeToVMMode RISCV_DMODE64_M = Some RISCV_VMMODE_LAST"
| "dmodeToVMMode _ = None"

fun vmmodeToMode :: "riscvVMMode \<Rightarrow> riscvMode" where
  "vmmodeToMode RISCV_VMMODE_U = RISCV_MODE_U"
| "vmmodeToMode RISCV_VMMODE_VU = RISCV_MODE_VU"
| "vmmodeToMode RISCV_VMMODE_S = RISCV_MODE_S"
| "vmmodeToMode RISCV_VMMODE_VS = RISCV_MODE_VS"
| "vmmodeToMode RISCV_VMMODE_LAST = RISCV_MODE_LAST"

fun modeToVMMode :: "riscvMode \<Rightarrow> riscvVMMode option" where
  "modeToVMMode RISCV_MODE_U = Some RISCV_VMMODE_U"
| "modeToVMMode RISCV_MODE_S = Some RISCV_VMMODE_S"
| "modeToVMMode RISCV_MODE_H = Some RISCV_VMMODE_LAST"
| "modeToVMMode RISCV_MODE_M = Some RISCV_VMMODE_LAST"
| "modeToVMMode RISCV_MODE_VU = Some RISCV_VMMODE_VU"
| "modeToVMMode RISCV_MODE_VS = Some RISCV_VMMODE_VS"
| "modeToVMMode _ = None"

fun modeToDMode :: "riscvMode \<Rightarrow> bool \<Rightarrow> riscvDMode option" where
  "modeToDMode RISCV_MODE_U xlen64 = Some (if xlen64 then RISCV_DMODE64_U else RISCV_DMODE32_U)"
| "modeToDMode RISCV_MODE_S xlen64 = Some (if xlen64 then RISCV_DMODE64_S else RISCV_DMODE32_S)"
| "modeToDMode RISCV_MODE_H xlen64 = Some (if xlen64 then RISCV_DMODE_LAST else RISCV_DMODE_LAST)"
| "modeToDMode RISCV_MODE_M xlen64 = Some (if xlen64 then RISCV_DMODE64_M else RISCV_DMODE32_M)"
| "modeToDMode RISCV_MODE_VU xlen64 = Some (if xlen64 then RISCV_DMODE64_VU else RISCV_DMODE32_VU)"
| "modeToDMode RISCV_MODE_VS xlen64 = Some (if xlen64 then RISCV_DMODE64_VS else RISCV_DMODE32_VS)"
| "modeToDMode _ xlen64 = None"

fun dmodeToMode5 :: "riscvDMode \<Rightarrow> riscvMode option" where
  "dmodeToMode5 RISCV_DMODE32_U = Some RISCV_MODE_U"
| "dmodeToMode5 RISCV_DMODE32_U_VM = Some RISCV_MODE_U"
| "dmodeToMode5 RISCV_DMODE32_VU = Some RISCV_MODE_VU"
| "dmodeToMode5 RISCV_DMODE32_VU_VM = Some RISCV_MODE_VU"
| "dmodeToMode5 RISCV_DMODE64_U = Some RISCV_MODE_U"
| "dmodeToMode5 RISCV_DMODE64_U_VM = Some RISCV_MODE_U"
| "dmodeToMode5 RISCV_DMODE64_VU = Some RISCV_MODE_VU"
| "dmodeToMode5 RISCV_DMODE64_VU_VM = Some RISCV_MODE_VU"
| "dmodeToMode5 RISCV_DMODE32_S = Some RISCV_MODE_S"
| "dmodeToMode5 RISCV_DMODE32_S_VM = Some RISCV_MODE_S"
| "dmodeToMode5 RISCV_DMODE32_VS = Some RISCV_MODE_VS"
| "dmodeToMode5 RISCV_DMODE32_VS_VM = Some RISCV_MODE_VS"
| "dmodeToMode5 RISCV_DMODE64_S = Some RISCV_MODE_S"
| "dmodeToMode5 RISCV_DMODE64_S_VM = Some RISCV_MODE_S"
| "dmodeToMode5 RISCV_DMODE64_VS = Some RISCV_MODE_VS"
| "dmodeToMode5 RISCV_DMODE64_VS_VM = Some RISCV_MODE_VS"
| "dmodeToMode5 RISCV_DMODE32_M = Some RISCV_MODE_M"
| "dmodeToMode5 RISCV_DMODE64_M = Some RISCV_MODE_M"
| "dmodeToMode5 _ = None"

fun dmodeToMode4 :: "riscvDMode \<Rightarrow> riscvMode option" where
  "dmodeToMode4 RISCV_DMODE32_U = Some RISCV_MODE_U"
| "dmodeToMode4 RISCV_DMODE32_U_VM = Some RISCV_MODE_U"
| "dmodeToMode4 RISCV_DMODE32_VU = Some RISCV_MODE_U"
| "dmodeToMode4 RISCV_DMODE32_VU_VM = Some RISCV_MODE_U"
| "dmodeToMode4 RISCV_DMODE64_U = Some RISCV_MODE_U"
| "dmodeToMode4 RISCV_DMODE64_U_VM = Some RISCV_MODE_U"
| "dmodeToMode4 RISCV_DMODE64_VU = Some RISCV_MODE_U"
| "dmodeToMode4 RISCV_DMODE64_VU_VM = Some RISCV_MODE_U"
| "dmodeToMode4 RISCV_DMODE32_S = Some RISCV_MODE_H"
| "dmodeToMode4 RISCV_DMODE32_S_VM = Some RISCV_MODE_H"
| "dmodeToMode4 RISCV_DMODE32_VS = Some RISCV_MODE_S"
| "dmodeToMode4 RISCV_DMODE32_VS_VM = Some RISCV_MODE_S"
| "dmodeToMode4 RISCV_DMODE64_S = Some RISCV_MODE_H"
| "dmodeToMode4 RISCV_DMODE64_S_VM = Some RISCV_MODE_H"
| "dmodeToMode4 RISCV_DMODE64_VS = Some RISCV_MODE_S"
| "dmodeToMode4 RISCV_DMODE64_VS_VM = Some RISCV_MODE_S"
| "dmodeToMode4 RISCV_DMODE32_M = Some RISCV_MODE_M"
| "dmodeToMode4 RISCV_DMODE64_M = Some RISCV_MODE_M"
| "dmodeToMode4 _ = None"

fun dmodeToMode3 :: "riscvDMode \<Rightarrow> riscvMode option" where
  "dmodeToMode3 RISCV_DMODE32_U = Some RISCV_MODE_U"
| "dmodeToMode3 RISCV_DMODE32_U_VM = Some RISCV_MODE_U"
| "dmodeToMode3 RISCV_DMODE32_VU = Some RISCV_MODE_U"
| "dmodeToMode3 RISCV_DMODE32_VU_VM = Some RISCV_MODE_U"
| "dmodeToMode3 RISCV_DMODE64_U = Some RISCV_MODE_U"
| "dmodeToMode3 RISCV_DMODE64_U_VM = Some RISCV_MODE_U"
| "dmodeToMode3 RISCV_DMODE64_VU = Some RISCV_MODE_U"
| "dmodeToMode3 RISCV_DMODE64_VU_VM = Some RISCV_MODE_U"
| "dmodeToMode3 RISCV_DMODE32_S = Some RISCV_MODE_S"
| "dmodeToMode3 RISCV_DMODE32_S_VM = Some RISCV_MODE_S"
| "dmodeToMode3 RISCV_DMODE32_VS = Some RISCV_MODE_S"
| "dmodeToMode3 RISCV_DMODE32_VS_VM = Some RISCV_MODE_S"
| "dmodeToMode3 RISCV_DMODE64_S = Some RISCV_MODE_S"
| "dmodeToMode3 RISCV_DMODE64_S_VM = Some RISCV_MODE_S"
| "dmodeToMode3 RISCV_DMODE64_VS = Some RISCV_MODE_S"
| "dmodeToMode3 RISCV_DMODE64_VS_VM = Some RISCV_MODE_S"
| "dmodeToMode3 RISCV_DMODE32_M = Some RISCV_MODE_M"
| "dmodeToMode3 RISCV_DMODE64_M = Some RISCV_MODE_M"
| "dmodeToMode3 _ = None"

definition modeIsVirtual :: "riscvMode \<Rightarrow> bool" where
  "modeIsVirtual mode \<longleftrightarrow> riscvMode_code mode \<ge> 4 \<and> riscvMode_code mode < riscvMode_code RISCV_MODE_LAST"

definition getSMode :: "riscvMode \<Rightarrow> riscvMode" where
  "getSMode mode = (if modeIsVirtual mode then RISCV_MODE_VS else RISCV_MODE_S)"

definition dmodeIsXLEN64 :: "riscvDMode \<Rightarrow> bool" where
  "dmodeIsXLEN64 dMode \<longleftrightarrow> riscvDMode_code dMode AND 0x1 \<noteq> 0"

definition dmodeIsVM :: "riscvDMode \<Rightarrow> bool" where
  "dmodeIsVM dMode \<longleftrightarrow> riscvDMode_code dMode AND 0x4 \<noteq> 0"

definition dmodeIsVirtual :: "riscvDMode \<Rightarrow> bool" where
  "dmodeIsVirtual dMode \<longleftrightarrow> riscvDMode_code dMode AND 0x8 \<noteq> 0"

definition dmodeToXLEN :: "riscvDMode \<Rightarrow> Uns32" where
  "dmodeToXLEN dMode = (if dmodeIsXLEN64 dMode then 64 else 32)"

fun mode5Priority :: "riscvMode \<Rightarrow> Uns8 option" where
  "mode5Priority RISCV_MODE_U = Some 3"
| "mode5Priority RISCV_MODE_S = Some 4"
| "mode5Priority RISCV_MODE_M = Some 5"
| "mode5Priority RISCV_MODE_VU = Some 1"
| "mode5Priority RISCV_MODE_VS = Some 2"
| "mode5Priority RISCV_MODE_H = Some 0"
| "mode5Priority _ = None"

section \<open>Consistency\<close>

lemma modeIsVirtual_iff [simp]: "modeIsVirtual mode \<longleftrightarrow> mode = RISCV_MODE_VU \<or> mode = RISCV_MODE_VS"
  by (cases mode) (simp_all add: modeIsVirtual_def word_le_nat_alt word_less_nat_alt)

text \<open>The tables between execution modes, dictionary modes and virtual memory modes invert each
  other where the modes exist and agree with the encodings.\<close>

theorem mode_tables_consistent:
  "riscvMode_code (getBaseMode mode) = riscvMode_code mode AND riscvMode_code RISCV_MODE_M \<and>
   (modeToDMode mode xlen64 = Some dMode \<and> dMode \<noteq> RISCV_DMODE_LAST \<longrightarrow>
     dmodeToMode5 dMode = Some mode \<and> dmodeToMode3 dMode = Some (getBaseMode mode) \<and>
     dmodeIsXLEN64 dMode = xlen64 \<and> dmodeIsVirtual dMode = modeIsVirtual mode \<and> \<not> dmodeIsVM dMode) \<and>
   (dMode \<noteq> RISCV_DMODE_LAST \<longrightarrow>
     dmodeToVMMode dMode = (if dmodeIsVM dMode then Option.bind (dmodeToMode5 dMode) modeToVMMode else Some RISCV_VMMODE_LAST)) \<and>
   (modeToVMMode mode = Some vmMode \<and> vmMode \<noteq> RISCV_VMMODE_LAST \<longrightarrow> vmmodeToMode vmMode = mode)"
proof (intro conjI impI)
  show "riscvMode_code (getBaseMode mode) = riscvMode_code mode AND riscvMode_code RISCV_MODE_M"
    by (cases mode) simp_all
  assume "modeToDMode mode xlen64 = Some dMode \<and> dMode \<noteq> RISCV_DMODE_LAST"
  then have "dmodeToMode5 dMode = Some mode \<and> dmodeToMode3 dMode = Some (getBaseMode mode) \<and>
    dmodeIsXLEN64 dMode = xlen64 \<and> dmodeIsVirtual dMode = modeIsVirtual mode \<and> \<not> dmodeIsVM dMode"
    by (cases mode; cases xlen64) (clarsimp simp: dmodeIsXLEN64_def dmodeIsVirtual_def dmodeIsVM_def)+
  then show "dmodeToMode5 dMode = Some mode" "dmodeToMode3 dMode = Some (getBaseMode mode)"
    "dmodeIsXLEN64 dMode = xlen64" "dmodeIsVirtual dMode = modeIsVirtual mode" "\<not> dmodeIsVM dMode"
    by simp_all
next
  assume "dMode \<noteq> RISCV_DMODE_LAST"
  then show "dmodeToVMMode dMode =
    (if dmodeIsVM dMode then Option.bind (dmodeToMode5 dMode) modeToVMMode else Some RISCV_VMMODE_LAST)"
    by (cases dMode) (simp_all add: dmodeIsVM_def)
next
  assume "modeToVMMode mode = Some vmMode \<and> vmMode \<noteq> RISCV_VMMODE_LAST"
  then show "vmmodeToMode vmMode = mode" by (cases mode) auto
qed

theorem mode_tables_consistent_witness:
  "dmodeToMode5 RISCV_DMODE64_VS = Some RISCV_MODE_VS \<and> dmodeToVMMode RISCV_DMODE64_VS_VM = Some RISCV_VMMODE_VS \<and>
   vmmodeToMode RISCV_VMMODE_VS = RISCV_MODE_VS"
  using mode_tables_consistent [of RISCV_MODE_VS True RISCV_DMODE64_VS RISCV_VMMODE_VS]
    mode_tables_consistent [of RISCV_MODE_VS True RISCV_DMODE64_VS_VM] by (simp add: dmodeIsVM_def)

end
