(* ===== verification/RV_PMP.thy ===== *)
theory RV_PMP
  imports RV_Views RV_Mode
begin

text \<open>
  Physical memory protection, \<^verbatim>\<open>riscvVM.c\<close>: the PMP registers with their lock and grain rules,
  the region of an entry, the privileges of an entry in each mode with and without the
  enhanced rules of \<^verbatim>\<open>mseccfg\<close>, invalidation, reset and the lookup \<^verbatim>\<open>mapPMP\<close> that decides an
  access and installs mappings. The simulator memory domains are represented by the sequence
  of \<^verbatim>\<open>vmirtProtectMemory\<close> calls the code makes, most recent first. Derived models may refine the
  privilege of an entry by callbacks, which are a field of the state; coverage points and debug
  messages have no effect on the state and are left out. An aborting \<^verbatim>\<open>VMI_ASSERT\<close> is \<open>None\<close>.
\<close>

section \<open>Data\<close>

datatype pmpcfgMode = PMPM_OFF | PMPM_TOR | PMPM_NA4 | PMPM_NAPOT

text \<open>The union \<^verbatim>\<open>pmpcfgElem\<close> is its byte; these are its fields.\<close>

type_synonym pmpcfgElem = Uns8

definition cfg_priv :: "pmpcfgElem \<Rightarrow> memPriv" where
  "cfg_priv e = e AND 7"

definition cfg_mode :: "pmpcfgElem \<Rightarrow> pmpcfgMode" where
  "cfg_mode e = (if bit e 4 then (if bit e 3 then PMPM_NAPOT else PMPM_NA4)
                 else (if bit e 3 then PMPM_TOR else PMPM_OFF))"

definition cfg_L :: "pmpcfgElem \<Rightarrow> bool" where
  "cfg_L e \<longleftrightarrow> bit e 7"

text \<open>A PMP domain, by base mode and whether it serves fetches, and one call of
  \<^verbatim>\<open>vmirtProtectMemory\<close> with \<^verbatim>\<open>MEM_PRIV_SET\<close>: domain, bounds and privilege.\<close>

type_synonym memDomain = "riscvMode \<times> bool"
type_synonym protectCall = "memDomain \<times> Uns64 \<times> Uns64 \<times> memPriv"

record riscvPMP =
  xlen64M :: bool
  PMP_registers :: nat
  PMP_grain :: nat
  PMP_max_page :: Uns32
  PMP_decompose :: bool
  unaligned :: bool
  Smepmp_version :: bool
  extBits :: nat
  pmpStraddle :: bool
  distinctPhysMem :: bool
  romask_pmpaddr :: "Uns64 list"
  cfg_pmpaddr :: "Uns64 list"
  cfg_pmpcfg :: "Uns64 list"
  cfg_romask_pmpcfg :: "Uns64 list"
  cfg_mseccfg :: Uns64
  mask_mseccfg :: Uns64
  extPMPPriv :: "(memPriv \<Rightarrow> nat \<Rightarrow> memPriv) list"
  pmpcfg :: "Uns8 list"
  romask_pmpcfg :: "Uns8 list"
  pmpaddr :: "Uns64 list"
  mseccfg :: Uns64
  artifactAccess :: bool
  warnNoPMPUS :: bool
  exceptionDetail_PMP :: bool
  protections :: "protectCall list"

abbreviation MML :: "riscvPMP \<Rightarrow> bool" where "MML riscv \<equiv> bit (mseccfg riscv) 0"
abbreviation MMWP :: "riscvPMP \<Rightarrow> bool" where "MMWP riscv \<equiv> bit (mseccfg riscv) 1"
abbreviation RLB :: "riscvPMP \<Rightarrow> bool" where "RLB riscv \<equiv> bit (mseccfg riscv) 2"

definition getNumPMPs :: "riscvPMP \<Rightarrow> nat" where
  "getNumPMPs riscv = PMP_registers riscv"

text \<open>User mode shares the domains of Supervisor mode; code and data share a domain unless an
  extension requires distinct ones.\<close>

definition getPMPDomainCorD :: "riscvPMP \<Rightarrow> riscvMode \<Rightarrow> bool \<Rightarrow> memDomain" where
  "getPMPDomainCorD riscv mode isCode =
    (if getBaseMode mode = RISCV_MODE_U then RISCV_MODE_S else getBaseMode mode, isCode \<and> distinctPhysMem riscv)"

section \<open>Entries\<close>

definition isPMP64 :: "riscvPMP \<Rightarrow> bool" where
  "isPMP64 riscv = xlen64M riscv"

definition readPMPCFGInt :: "riscvPMP \<Rightarrow> nat \<Rightarrow> Uns64" where
  "readPMPCFGInt riscv index =
    (if isPMP64 riscv
     then of_elems (map (\<lambda>i. pmpcfg riscv ! (index div 2 * 8 + i)) [0..<8])
     else of_elems (map (\<lambda>i. pmpcfg riscv ! (index * 4 + i)) [0..<4]))"

definition getPMPCFGElem :: "riscvPMP \<Rightarrow> nat \<Rightarrow> pmpcfgElem" where
  "getPMPCFGElem riscv index = pmpcfg riscv ! index"

definition pmpLocked :: "riscvPMP \<Rightarrow> nat \<Rightarrow> bool" where
  "pmpLocked riscv index \<longleftrightarrow> \<not> artifactAccess riscv \<and> \<not> RLB riscv \<and> cfg_L (getPMPCFGElem riscv index)"

definition getEffectivePMPAddr :: "riscvPMP \<Rightarrow> nat \<Rightarrow> Uns64" where
  "getEffectivePMPAddr riscv index =
    (let e = getPMPCFGElem riscv index;
         G = PMP_grain riscv;
         result = pmpaddr riscv ! index
     in if cfg_mode e \<noteq> PMPM_NAPOT then result AND push_bit G (- 1)
        else if G \<ge> 2 then result OR (push_bit (G - 1) 1 - 1)
        else result)"

definition getPMPRegionActive :: "riscvPMP \<Rightarrow> pmpcfgElem \<Rightarrow> nat \<Rightarrow> bool" where
  "getPMPRegionActive riscv e index =
    (if cfg_mode e = PMPM_OFF then False
     else if cfg_mode e \<noteq> PMPM_TOR then True
     else getEffectivePMPAddr riscv index \<noteq> 0)"

definition pmpLockedTOR :: "riscvPMP \<Rightarrow> nat \<Rightarrow> bool" where
  "pmpLockedTOR riscv index =
    (if index < getNumPMPs riscv
     then let e = getPMPCFGElem riscv index in cfg_mode e = PMPM_TOR \<and> pmpLocked riscv index
     else False)"

section \<open>Protection updates\<close>

type_synonym pmpUpdate = Uns8

abbreviation PMPU_SET_PRIV :: pmpUpdate where "PMPU_SET_PRIV \<equiv> 1"
abbreviation PMPU_LO :: pmpUpdate where "PMPU_LO \<equiv> 2"
abbreviation PMPU_HI :: pmpUpdate where "PMPU_HI \<equiv> 4"

definition vmirtProtectMemory :: "riscvPMP \<Rightarrow> memDomain \<Rightarrow> Uns64 \<Rightarrow> Uns64 \<Rightarrow> memPriv \<Rightarrow> riscvPMP" where
  "vmirtProtectMemory riscv domain lo hi priv = riscv\<lparr>protections := (domain, lo, hi, priv) # protections riscv\<rparr>"

definition pmpProtect ::
  "riscvPMP \<Rightarrow> memDomain \<Rightarrow> Uns64 \<Rightarrow> Uns64 \<Rightarrow> memPriv \<Rightarrow> pmpUpdate \<Rightarrow> riscvPMP" where
  "pmpProtect riscv domain lo hi priv update =
    (let unalignedOK = unaligned riscv;
         updatePriv = update AND PMPU_SET_PRIV \<noteq> 0;
         riscv = (if updatePriv then vmirtProtectMemory riscv domain lo hi priv else riscv)
     in if pmpStraddle riscv \<and> (priv \<noteq> 0 \<or> \<not> updatePriv)
        then let loMin = 0;
                 hiMax = getAddressMask (extBits riscv);
                 riscv = (if update AND PMPU_LO \<noteq> 0 \<and> lo > loMin \<and> (unalignedOK \<or> lo AND 7 \<noteq> 0)
                          then vmirtProtectMemory riscv domain (lo - 1) (lo - 1) MEM_PRIV_NONE else riscv)
             in if update AND PMPU_HI \<noteq> 0 \<and> hi < hiMax \<and> (unalignedOK \<or> (hi + 1) AND 7 \<noteq> 0)
                then vmirtProtectMemory riscv domain (hi + 1) (hi + 1) MEM_PRIV_NONE else riscv
        else riscv)"

definition setPMPPriv ::
  "riscvPMP \<Rightarrow> riscvMode \<Rightarrow> Uns64 \<Rightarrow> Uns64 \<Rightarrow> memPriv \<Rightarrow> pmpUpdate \<Rightarrow> riscvPMP" where
  "setPMPPriv riscv mode low high priv update =
    (let dataDomain = getPMPDomainCorD riscv mode False;
         codeDomain = getPMPDomainCorD riscv mode True;
         updatePriv = update AND PMPU_SET_PRIV \<noteq> 0
     in if dataDomain = codeDomain
        then pmpProtect riscv dataDomain low high priv update
        else let privRW = (if priv AND MEM_PRIV_RW \<noteq> 0 then priv AND NOT MEM_PRIV_X else MEM_PRIV_NONE);
                 privX = (if priv AND MEM_PRIV_X \<noteq> 0 then priv else MEM_PRIV_NONE);
                 riscv = (if \<not> updatePriv \<or> priv = MEM_PRIV_NONE \<or> privRW \<noteq> 0
                          then pmpProtect riscv dataDomain low high privRW update else riscv)
             in if \<not> updatePriv \<or> priv = MEM_PRIV_NONE \<or> privX \<noteq> 0
                then pmpProtect riscv codeDomain low high privX update else riscv)"

definition setPMPPrivB :: "riscvPMP \<Rightarrow> riscvMode \<Rightarrow> Uns64 \<Rightarrow> memPriv \<Rightarrow> pmpUpdate \<Rightarrow> riscvPMP" where
  "setPMPPrivB riscv mode addr priv update = setPMPPriv riscv mode addr addr priv update"

section \<open>Regions and privileges\<close>

text \<open>The bounds of an entry, low bound first.\<close>

definition getPMPEntryBounds :: "riscvPMP \<Rightarrow> nat \<Rightarrow> Uns64 \<times> Uns64" where
  "getPMPEntryBounds riscv index =
    (let e = getPMPCFGElem riscv index;
         low = push_bit 2 (getEffectivePMPAddr riscv index)
     in case cfg_mode e of
          PMPM_NA4 \<Rightarrow> (low, low + 3)
        | PMPM_NAPOT \<Rightarrow>
            (let notLow = NOT (low + 3);
                 mask = push_bit 1 (notLow AND - notLow) - 1;
                 low = low AND NOT mask
             in (low, low OR mask))
        | _ \<Rightarrow>
            (let high = low - 1;
                 low = (if index \<noteq> 0 then push_bit 2 (pmpaddr riscv ! (index - 1)) else 0);
                 low = low AND push_bit (PMP_grain riscv) (- 4)
             in (low, high)))"

definition usePMPEntryMMode :: "riscvPMP \<Rightarrow> pmpcfgElem \<Rightarrow> bool" where
  "usePMPEntryMMode riscv e \<longleftrightarrow> MML riscv \<or> cfg_L e"

text \<open>The privilege tables of \<^verbatim>\<open>mseccfg.MML\<close>, indexed by the privilege of the entry in the order
  none, R, W, RW, X, RX, WX, RWX.\<close>

definition mapMML1ML0 :: "memPriv list" where
  "mapMML1ML0 = [MEM_PRIV_NONE, MEM_PRIV_NONE, MEM_PRIV_RW, MEM_PRIV_NONE,
    MEM_PRIV_NONE, MEM_PRIV_NONE, MEM_PRIV_RW, MEM_PRIV_NONE]"

definition mapMML1ML1 :: "memPriv list" where
  "mapMML1ML1 = [MEM_PRIV_NONE, MEM_PRIV_R, MEM_PRIV_X, MEM_PRIV_RW,
    MEM_PRIV_X, MEM_PRIV_RX, MEM_PRIV_RX, MEM_PRIV_R]"

definition mapMML1SL0 :: "memPriv list" where
  "mapMML1SL0 = [MEM_PRIV_NONE, MEM_PRIV_R, MEM_PRIV_R, MEM_PRIV_RW,
    MEM_PRIV_X, MEM_PRIV_RX, MEM_PRIV_RW, MEM_PRIV_RWX]"

definition mapMML1SL1 :: "memPriv list" where
  "mapMML1SL1 = [MEM_PRIV_NONE, MEM_PRIV_NONE, MEM_PRIV_X, MEM_PRIV_NONE,
    MEM_PRIV_NONE, MEM_PRIV_NONE, MEM_PRIV_X, MEM_PRIV_R]"

definition getPMPEntryPriv :: "riscvPMP \<Rightarrow> riscvMode \<Rightarrow> pmpcfgElem \<Rightarrow> memPriv" where
  "getPMPEntryPriv riscv mode e =
    (let isM = (mode = RISCV_MODE_M)
     in if \<not> MML riscv
        then let priv = (if isM \<and> \<not> cfg_L e then MEM_PRIV_RWX else cfg_priv e)
             in if priv AND MEM_PRIV_R = 0 then priv AND NOT MEM_PRIV_W else priv
        else if isM \<and> \<not> cfg_L e then mapMML1ML0 ! unat (cfg_priv e)
        else if isM then mapMML1ML1 ! unat (cfg_priv e)
        else if \<not> cfg_L e then mapMML1SL0 ! unat (cfg_priv e)
        else mapMML1SL1 ! unat (cfg_priv e))"

definition useLowerPriorityPMPEntryMMode :: "riscvPMP \<Rightarrow> nat \<Rightarrow> bool" where
  "useLowerPriorityPMPEntryMMode riscv index =
    list_ex (\<lambda>i. let e = getPMPCFGElem riscv i in cfg_mode e \<noteq> PMPM_OFF \<and> usePMPEntryMMode riscv e)
      [index + 1..<getNumPMPs riscv]"

definition hasPMPPrivCB :: "riscvPMP \<Rightarrow> bool" where
  "hasPMPPrivCB riscv \<longleftrightarrow> extPMPPriv riscv \<noteq> []"

section \<open>Invalidation\<close>

definition invalidatePMPEntry :: "riscvPMP \<Rightarrow> nat \<Rightarrow> riscvPMP" where
  "invalidatePMPEntry riscv index =
    (let e = getPMPCFGElem riscv index
     in if getPMPRegionActive riscv e index
        then let (low, high) = getPMPEntryBounds riscv index
             in if low \<le> high
                then let updateS = PMPU_SET_PRIV;
                         updateM = (if usePMPEntryMMode riscv e \<or> useLowerPriorityPMPEntryMMode riscv index \<or>
                                       hasPMPPrivCB riscv
                                    then PMPU_SET_PRIV else PMPU_LO OR PMPU_HI);
                         riscv = setPMPPriv riscv RISCV_MODE_S low high MEM_PRIV_NONE updateS
                     in setPMPPriv riscv RISCV_MODE_M low high MEM_PRIV_NONE updateM
                else riscv
        else riscv)"

definition invalidatePMPEntryTOR :: "riscvPMP \<Rightarrow> nat \<Rightarrow> riscvPMP" where
  "invalidatePMPEntryTOR riscv index =
    (if index = getNumPMPs riscv then riscv
     else if cfg_mode (getPMPCFGElem riscv index) = PMPM_TOR then invalidatePMPEntry riscv index
     else riscv)"

section \<open>Registers\<close>

definition getPMPCFGOffset :: "riscvPMP \<Rightarrow> nat \<Rightarrow> nat" where
  "getPMPCFGOffset riscv index = (if isPMP64 riscv then index div 2 else index)"

definition getPMPAddrROMask :: "riscvPMP \<Rightarrow> nat \<Rightarrow> Uns64" where
  "getPMPAddrROMask riscv index = romask_pmpaddr riscv ! index"

definition entriesPerCFG :: "riscvPMP \<Rightarrow> nat" where
  "entriesPerCFG riscv = (if isPMP64 riscv then 8 else 4)"

definition validPMPCFG :: "riscvPMP \<Rightarrow> nat \<Rightarrow> bool" where
  "validPMPCFG riscv index \<longleftrightarrow>
    getPMPCFGOffset riscv index < (getNumPMPs riscv + entriesPerCFG riscv - 1) div entriesPerCFG riscv"

definition riscvVMReadPMPCFG :: "riscvPMP \<Rightarrow> nat \<Rightarrow> Uns64" where
  "riscvVMReadPMPCFG riscv index = (if validPMPCFG riscv index then readPMPCFGInt riscv index else 0)"

text \<open>The value that a write gives the byte of an entry, from the source byte and the current
  byte, if the entry is not locked.\<close>

definition newPMPCFG :: "riscvPMP \<Rightarrow> Uns8 \<Rightarrow> pmpcfgElem \<Rightarrow> pmpcfgElem \<Rightarrow> pmpcfgElem" where
  "newPMPCFG riscv romask srcCFG dstCFG =
    (let srcCFG = (srcCFG AND NOT romask) OR (dstCFG AND romask);
         (srcCFG, resR0W1) =
           (if \<not> Smepmp_version riscv then (srcCFG, True)
            else if artifactAccess riscv then (srcCFG, False)
            else if \<not> MML riscv then (srcCFG, True)
            else if cfg_L srcCFG \<and> \<not> RLB riscv
            then (let priv = mapMML1ML1 ! unat (cfg_priv srcCFG)
                  in if priv AND MEM_PRIV_X \<noteq> 0 then (dstCFG, False) else (srcCFG, False))
            else (srcCFG, False));
         srcCFG = (if resR0W1 \<and> cfg_priv srcCFG AND MEM_PRIV_R = 0 then srcCFG AND NOT MEM_PRIV_W else srcCFG)
     in if PMP_grain riscv \<noteq> 0 \<and> cfg_mode srcCFG = PMPM_NA4
        then (srcCFG AND NOT 0x18) OR (dstCFG AND 0x18)
        else srcCFG)"

definition writePMPCFGEntry :: "Uns64 \<Rightarrow> nat \<Rightarrow> nat \<Rightarrow> riscvPMP \<Rightarrow> riscvPMP" where
  "writePMPCFGEntry src index i riscv =
    (let cfgIndex = index * 4 + i;
         dst = pmpcfg riscv ! cfgIndex;
         romask = romask_pmpcfg riscv ! cfgIndex;
         srcCFG = newPMPCFG riscv romask (u8 src i) dst
     in if dst \<noteq> srcCFG \<and> \<not> pmpLocked riscv cfgIndex
        then let riscv = invalidatePMPEntry riscv cfgIndex;
                 riscv = riscv\<lparr>pmpcfg := (pmpcfg riscv)[cfgIndex := srcCFG]\<rparr>
             in invalidatePMPEntry riscv cfgIndex
        else riscv)"

definition WM64_pmpcfg :: Uns64 where
  "WM64_pmpcfg = 0x9f9f9f9f9f9f9f9f"

definition riscvVMWritePMPCFG :: "riscvPMP \<Rightarrow> nat \<Rightarrow> Uns64 \<Rightarrow> Uns64 \<times> riscvPMP" where
  "riscvVMWritePMPCFG riscv index newValue =
    (if validPMPCFG riscv index
     then let offset = getPMPCFGOffset riscv index;
              numBytes = getNumPMPs riscv - offset * entriesPerCFG riscv;
              mask = (if numBytes \<ge> 8 then - 1 else push_bit (numBytes * 8) 1 - 1);
              riscv = (if newValue \<noteq> 0 then riscv\<lparr>warnNoPMPUS := False\<rparr> else riscv);
              src = newValue AND WM64_pmpcfg AND mask;
              riscv = fold (writePMPCFGEntry src index) (rev [0..<entriesPerCFG riscv]) riscv
          in (readPMPCFGInt riscv index, riscv)
     else (0, riscv))"

definition validPMPAddr :: "riscvPMP \<Rightarrow> nat \<Rightarrow> bool" where
  "validPMPAddr riscv index \<longleftrightarrow> index < getNumPMPs riscv"

definition riscvVMReadPMPAddr :: "riscvPMP \<Rightarrow> nat \<Rightarrow> Uns64" where
  "riscvVMReadPMPAddr riscv index = (if validPMPAddr riscv index then getEffectivePMPAddr riscv index else 0)"

definition riscvVMWritePMPAddr :: "riscvPMP \<Rightarrow> nat \<Rightarrow> Uns64 \<Rightarrow> Uns64 \<times> riscvPMP" where
  "riscvVMWritePMPAddr riscv index newValue =
    (let G = PMP_grain riscv;
         newValue = newValue AND drop_bit 2 (getAddressMask (extBits riscv));
         newValue = (if G \<noteq> 0 then newValue AND push_bit (G - 1) (- 1) else newValue)
     in if validPMPAddr riscv index
        then let oldValue = pmpaddr riscv ! index;
                 romask = getPMPAddrROMask riscv index;
                 newValue = (newValue AND NOT romask) OR (oldValue AND romask)
             in if pmpaddr riscv ! index \<noteq> newValue
                then let riscv =
                           (if pmpLocked riscv index then riscv
                            else if pmpLockedTOR riscv (index + 1) then riscv
                            else let riscv = invalidatePMPEntry riscv index;
                                     riscv = invalidatePMPEntryTOR riscv (index + 1);
                                     riscv = riscv\<lparr>pmpaddr := (pmpaddr riscv)[index := newValue]\<rparr>;
                                     riscv = invalidatePMPEntry riscv index
                                 in invalidatePMPEntryTOR riscv (index + 1))
                     in (getEffectivePMPAddr riscv index, riscv)
                else (0, riscv)
        else (0, riscv))"

definition riscvVMAnyPMPLocked :: "riscvPMP \<Rightarrow> bool" where
  "riscvVMAnyPMPLocked riscv = list_ex (pmpLocked riscv) [0..<getNumPMPs riscv]"

definition riscvVMUnmapAllPMP :: "riscvPMP \<Rightarrow> riscvPMP" where
  "riscvVMUnmapAllPMP riscv =
    (let riscv = setPMPPriv riscv RISCV_MODE_M 0 (- 1) MEM_PRIV_NONE PMPU_SET_PRIV
     in setPMPPriv riscv RISCV_MODE_S 0 (- 1) MEM_PRIV_NONE PMPU_SET_PRIV)"

text \<open>Store the low \<open>n\<close> bytes of a value at an offset of a byte array.\<close>

definition storeBytes :: "nat \<Rightarrow> nat \<Rightarrow> Uns64 \<Rightarrow> Uns8 list \<Rightarrow> Uns8 list" where
  "storeBytes off n v bytes = fold (\<lambda>j bytes. bytes[off + j := u8 v j]) [0..<n] bytes"

definition riscvVMResetPMP :: "riscvPMP \<Rightarrow> riscvPMP" where
  "riscvVMResetPMP riscv =
    (let numRegs = getNumPMPs riscv;
         numCfgRegs = (numRegs + 3) div 4;
         riscv = fold (\<lambda>i riscv.
           let riscv = (if pmpaddr riscv ! i \<noteq> 0 \<or> pmpcfg riscv ! i \<noteq> 0 then invalidatePMPEntry riscv i else riscv)
           in riscv\<lparr>pmpaddr := (pmpaddr riscv)[i := cfg_pmpaddr riscv ! i]\<rparr>) [0..<numRegs] riscv;
         riscv = (if isPMP64 riscv
           then fold (\<lambda>i riscv.
             riscv\<lparr>pmpcfg := storeBytes (i div 2 * 8) 8 (cfg_pmpcfg riscv ! i) (pmpcfg riscv),
               romask_pmpcfg := storeBytes (i div 2 * 8) 8 (cfg_romask_pmpcfg riscv ! i) (romask_pmpcfg riscv)\<rparr>)
             (filter even [0..<numCfgRegs]) riscv
           else fold (\<lambda>i riscv.
             riscv\<lparr>pmpcfg := storeBytes (i * 4) 4 (cfg_pmpcfg riscv ! i) (pmpcfg riscv),
               romask_pmpcfg := storeBytes (i * 4) 4 (cfg_romask_pmpcfg riscv ! i) (romask_pmpcfg riscv)\<rparr>)
             [0..<numCfgRegs] riscv)
     in riscv\<lparr>mseccfg := cfg_mseccfg riscv\<rparr>)"

definition riscvVMUnmapPMPRegion :: "riscvPMP \<Rightarrow> nat \<Rightarrow> riscvPMP" where
  "riscvVMUnmapPMPRegion riscv regionIndex = invalidatePMPEntry riscv regionIndex"

definition riscvVMNewPMP :: "riscvPMP \<Rightarrow> riscvPMP" where
  "riscvVMNewPMP riscv =
    (let numRegs = getNumPMPs riscv
     in if numRegs \<noteq> 0
        then let numUns64Regs = (numRegs + 7) div 8
             in riscv\<lparr>warnNoPMPUS := True, pmpcfg := replicate (numUns64Regs * 8) 0,
                  romask_pmpcfg := replicate (numUns64Regs * 8) 0, pmpaddr := replicate numRegs 0\<rparr>
        else riscv)"

text \<open>The write function of the register \<^verbatim>\<open>mseccfg\<close> in \<^verbatim>\<open>riscvCSR.c\<close>, which has its fields in the
  low word.\<close>

definition mseccfgW :: "riscvPMP \<Rightarrow> Uns64 \<Rightarrow> Uns64 \<times> riscvPMP" where
  "mseccfgW riscv newValue =
    (let oldValue = mseccfg riscv;
         wMask = mask_mseccfg riscv;
         wMask = (if \<not> artifactAccess riscv
                  then let wMask = (if MML riscv then wMask AND NOT 1 else wMask);
                           wMask = (if MMWP riscv then wMask AND NOT 2 else wMask)
                       in if \<not> RLB riscv \<and> newValue AND wMask AND 4 \<noteq> 0 \<and> riscvVMAnyPMPLocked riscv
                          then wMask AND NOT 4 else wMask
                  else wMask);
         newValue = (newValue AND wMask) OR (oldValue AND NOT wMask);
         riscv = (if oldValue AND 3 \<noteq> newValue AND 3 then riscvVMUnmapAllPMP riscv else riscv);
         riscv = riscv\<lparr>mseccfg := newValue\<rparr>
     in (mseccfg riscv, riscv))"

section \<open>Lookup\<close>

record PMPMap =
  lowPA :: Uns64
  highPA :: Uns64
  map_priv :: memPriv

definition refinePMPRegionRange :: "riscvPMP \<Rightarrow> riscvMode \<Rightarrow> Uns64 \<Rightarrow> nat \<Rightarrow> PMPMap \<Rightarrow> PMPMap" where
  "refinePMPRegionRange riscv mode PA index pmap =
    (let e = getPMPCFGElem riscv index
     in if getPMPRegionActive riscv e index
        then let (lowPAEntry, highPAEntry) = getPMPEntryBounds riscv index
             in if lowPAEntry > highPAEntry then pmap
                else if lowPAEntry \<le> PA \<and> PA \<le> highPAEntry
                then let priv = getPMPEntryPriv riscv mode e;
                         priv = fold (\<lambda>cb priv. cb priv index) (extPMPPriv riscv) priv
                     in \<lparr>lowPA = lowPAEntry, highPA = highPAEntry, map_priv = priv\<rparr>
                else if lowPAEntry > PA \<and> lowPAEntry < highPA pmap then pmap\<lparr>highPA := lowPAEntry - 1\<rparr>
                else if highPAEntry < PA \<and> highPAEntry > lowPA pmap then pmap\<lparr>lowPA := highPAEntry + 1\<rparr>
                else pmap
        else pmap)"

datatype unmatchedPMPMode = PMPU_M_BASE | PMPU_M_MMWP | PMPU_M_MML | PMPU_SU

definition getPMPUnmatchedMode :: "riscvPMP \<Rightarrow> riscvMode \<Rightarrow> unmatchedPMPMode" where
  "getPMPUnmatchedMode riscv mode =
    (if mode \<noteq> RISCV_MODE_M then PMPU_SU
     else if MMWP riscv then PMPU_M_MMWP
     else if MML riscv then PMPU_M_MML
     else PMPU_M_BASE)"

fun unmatchedPriv :: "unmatchedPMPMode \<Rightarrow> memPriv" where
  "unmatchedPriv PMPU_M_BASE = MEM_PRIV_RWX"
| "unmatchedPriv PMPU_M_MMWP = MEM_PRIV_NONE"
| "unmatchedPriv PMPU_M_MML = MEM_PRIV_RW"
| "unmatchedPriv PMPU_SU = MEM_PRIV_NONE"

text \<open>The outcomes of a lookup, which the source names by its coverage points.\<close>

datatype pmpOutcome = RVC_PMP_MAPPED | RVC_PMP_BOUNDS | RVC_PMP_PRIV | RVC_PMP_STRADDLE | RVC_PMP_UNALIGNED

definition pmpRegion :: "riscvPMP \<Rightarrow> riscvMode \<Rightarrow> Uns64 \<Rightarrow> PMPMap" where
  "pmpRegion riscv mode thisPA =
    fold (refinePMPRegionRange riscv mode thisPA) (rev [0..<getNumPMPs riscv])
      \<lparr>lowPA = 0, highPA = getAddressMask (extBits riscv),
       map_priv = unmatchedPriv (getPMPUnmatchedMode riscv mode)\<rparr>"

text \<open>The loop over the regions that an access touches. The first argument is the number of free
  slots of the array of regions; without a free slot the assertion fails.\<close>

definition MAX_PMP_STRADDLE_NUM :: nat where
  "MAX_PMP_STRADDLE_NUM = 16"

fun pmpRegions ::
  "nat \<Rightarrow> riscvPMP \<Rightarrow> riscvMode \<Rightarrow> memPriv \<Rightarrow> Uns64 \<Rightarrow> Uns64 \<Rightarrow> (PMPMap list \<times> pmpOutcome) option" where
  "pmpRegions 0 riscv mode requiredPriv thisPA high = None"
| "pmpRegions (Suc n) riscv mode requiredPriv thisPA high =
    (let pmap = pmpRegion riscv mode thisPA;
         type = (if thisPA < lowPA pmap \<or> thisPA > highPA pmap then RVC_PMP_BOUNDS
                 else if map_priv pmap AND requiredPriv \<noteq> requiredPriv then RVC_PMP_PRIV
                 else RVC_PMP_MAPPED);
         mapDone = (highPA pmap \<ge> high)
     in if \<not> mapDone \<and> type = RVC_PMP_MAPPED
        then map_option (\<lambda>(maps, type). (pmap # maps, type))
               (pmpRegions n riscv mode requiredPriv (highPA pmap + 1) high)
        else Some ([pmap], type))"

definition riscvClampPage :: "riscvPMP \<Rightarrow> Uns64 \<Rightarrow> Uns64 \<Rightarrow> Uns64 \<Rightarrow> Uns64 \<Rightarrow> Uns64 \<times> Uns64" where
  "riscvClampPage riscv loPA hiPA loMap hiMap =
    (let clamp = (ucast (PMP_max_page riscv) :: Uns64)
     in if clamp \<noteq> 0
        then let clamp = clamp - 1;
                 loPA = loPA AND NOT clamp;
                 hiPA = (hiPA AND NOT clamp) + clamp
             in (if loMap < loPA then loPA else loMap, if hiMap > hiPA then hiPA else hiMap)
        else (loMap, hiMap))"

definition installPMPMap ::
  "riscvMode \<Rightarrow> Uns64 \<Rightarrow> Uns64 \<Rightarrow> nat \<Rightarrow> nat \<times> PMPMap \<Rightarrow> riscvPMP \<Rightarrow> riscvPMP" where
  "installPMPMap mode low high mapNum = (\<lambda>(i, pmap) riscv.
    let (lowClamp, highClamp) = riscvClampPage riscv low high (lowPA pmap) (highPA pmap);
        update = PMPU_SET_PRIV;
        update = (if i = 0 \<and> lowClamp = lowPA pmap then update OR PMPU_LO else update);
        update = (if i = mapNum - 1 \<and> highClamp = highPA pmap then update OR PMPU_HI else update)
    in setPMPPriv riscv mode lowClamp highClamp (map_priv pmap) update)"

definition installPMPMaps :: "riscvMode \<Rightarrow> Uns64 \<Rightarrow> Uns64 \<Rightarrow> PMPMap list \<Rightarrow> riscvPMP \<Rightarrow> riscvPMP" where
  "installPMPMaps mode low high maps riscv =
    (let mapNum = length maps;
         riscv = fold (installPMPMap mode low high mapNum) (enumerate 0 maps) riscv
     in if mapNum > 1
        then let r0High = highPA (maps ! 0);
                 rNLow = lowPA (maps ! (mapNum - 1));
                 riscv = (if r0High - low < 3 then setPMPPrivB riscv mode (r0High - 3) MEM_PRIV_NONE PMPU_SET_PRIV
                          else riscv)
             in if high - rNLow < 3 then setPMPPrivB riscv mode (rNLow + 3) MEM_PRIV_NONE PMPU_SET_PRIV
                else riscv
        else riscv)"

definition mapPMP :: "riscvPMP \<Rightarrow> riscvMode \<Rightarrow> memPriv \<Rightarrow> Uns64 \<Rightarrow> Uns64 \<Rightarrow> riscvPMP option" where
  "mapPMP riscv mode requiredPriv low high =
    (if getNumPMPs riscv \<noteq> 0
     then let aligned = (low AND (high - low) = 0)
          in case pmpRegions MAX_PMP_STRADDLE_NUM riscv mode requiredPriv low high of
               None \<Rightarrow> None
             | Some (maps, type) \<Rightarrow>
                 (let mapNum = length maps;
                      type = (if type \<noteq> RVC_PMP_MAPPED then type
                              else if mapNum = 1 then type
                              else if aligned then RVC_PMP_STRADDLE
                              else if \<not> PMP_decompose riscv then RVC_PMP_UNALIGNED
                              else type)
                  in if type \<noteq> RVC_PMP_MAPPED
                     then Some (riscv\<lparr>exceptionDetail_PMP := True\<rparr>)
                     else Some (installPMPMaps mode low high maps riscv))
     else Some riscv)"

end
