(* ===== verification/RV_Regions.thy ===== *)
theory RV_Regions
  imports RV_Prelude
begin

text \<open>
  Tables of address regions with priorities. The protection code looks up an address by refining
  a candidate range with every entry, from the lowest to the highest priority: a matching entry
  replaces the range, an entry beside the address cuts it. The locale \<open>region_table\<close> states what
  the lookup relies on of one refinement step and derives that the final range is the largest
  one around the address on which the first matching entry is constant. The cuts compare with a
  strict order, which is right only because bounds are multiples of four: the low bounds end in
  the bits 00 and the high bounds in 11.
\<close>

section \<open>Bounds\<close>

abbreviation low_bound :: "Uns64 \<Rightarrow> bool" where "low_bound a \<equiv> take_bit 2 a = 0"
abbreviation high_bound :: "Uns64 \<Rightarrow> bool" where "high_bound a \<equiv> take_bit 2 a = 3"

lemma word_le_minus_1: "0 < a \<Longrightarrow> x \<le> a - 1 \<longleftrightarrow> x < a" for a x :: "'a::len word"
proof -
  assume a: "0 < a"
  then have "0 < unat a" by (simp add: unat_gt_0)
  moreover have "unat (a - 1) = unat a - 1" using a by (intro unat_minus_one) auto
  ultimately show ?thesis unfolding word_le_nat_alt word_less_nat_alt by arith
qed

lemma word_plus_1_le: "h < c \<Longrightarrow> h + 1 \<le> x \<longleftrightarrow> h < x" for h c x :: "'a::len word"
proof -
  assume "h < c"
  then have "h + 1 \<noteq> 0" by (metis add_eq_0_iff2 minus_equation_iff not_less word_order.extremum)
  then show ?thesis using word_le_minus_1 [of "h + 1" x] by (auto simp: word_neq_0_conv not_less)
qed

lemma take_bit_word_add: "take_bit n (a + b) = take_bit n (take_bit n a + take_bit n b)" for a b :: "'a::len word"
proof transfer
  fix n and a b :: int
  show "take_bit LENGTH('a) (take_bit n (a + b)) = take_bit LENGTH('a) (take_bit n (take_bit n a + take_bit n b))"
    by (simp add: take_bit_add)
qed

lemma low_bound_succ: "high_bound a \<Longrightarrow> low_bound (a + 1)"
  using take_bit_word_add [of 2 a 1] by simp

lemma high_bound_pred: "low_bound a \<Longrightarrow> high_bound (a - 1)"
  using take_bit_word_add [of 2 a "-1"] by (simp add: mask_eq_exp_minus_1)

section \<open>Lookup by refinement\<close>

text \<open>The entries \<open>i < n\<close> of the table: whether they take part, their bounds and the privilege
  they give; \<open>refine a i\<close> is the step of the lookup of \<open>a\<close> for entry \<open>i\<close> on a range.\<close>

locale region_table =
  fixes n :: nat
    and act :: "nat \<Rightarrow> bool"
    and lo hi :: "nat \<Rightarrow> Uns64"
    and P :: "nat \<Rightarrow> 'p"
    and low high :: "'m \<Rightarrow> Uns64"
    and priv :: "'m \<Rightarrow> 'p"
    and refine :: "Uns64 \<Rightarrow> nat \<Rightarrow> 'm \<Rightarrow> 'm"
  assumes lo_bound: "act i \<Longrightarrow> low_bound (lo i)"
    and hi_bound: "act i \<Longrightarrow> high_bound (hi i)"
    and act_ordered: "act i \<Longrightarrow> lo i \<le> hi i"
    and refine_idle: "\<not> act i \<Longrightarrow> refine a i m = m"
    and refine_match: "act i \<Longrightarrow> lo i \<le> a \<Longrightarrow> a \<le> hi i \<Longrightarrow>
      low (refine a i m) = lo i \<and> high (refine a i m) = hi i \<and> priv (refine a i m) = P i"
    and refine_above: "act i \<Longrightarrow> a < lo i \<Longrightarrow>
      low (refine a i m) = low m \<and> priv (refine a i m) = priv m \<and>
      high (refine a i m) = (if lo i < high m then lo i - 1 else high m)"
    and refine_below: "act i \<Longrightarrow> hi i < a \<Longrightarrow>
      high (refine a i m) = high m \<and> priv (refine a i m) = priv m \<and>
      low (refine a i m) = (if low m < hi i then hi i + 1 else low m)"
begin

definition matches :: "nat \<Rightarrow> Uns64 \<Rightarrow> bool" where
  "matches i x \<longleftrightarrow> act i \<and> lo i \<le> x \<and> x \<le> hi i"

definition first_match :: "nat \<Rightarrow> Uns64 \<Rightarrow> nat option" where
  "first_match k x = find (\<lambda>i. matches i x) [k..<n]"

definition region :: "nat \<Rightarrow> Uns64 \<Rightarrow> 'm \<Rightarrow> 'm" where
  "region k a m = fold (refine a) (rev [k..<n]) m"

lemma first_match_n: "first_match n x = None"
  by (simp add: first_match_def)

lemma first_match_step: "k < n \<Longrightarrow> first_match k x = (if matches k x then Some k else first_match (Suc k) x)"
  by (simp add: first_match_def upt_conv_Cons)

lemma region_n: "region n a m = m"
  by (simp add: region_def)

lemma region_step: "k < n \<Longrightarrow> region k a m = refine a k (region (Suc k) a m)"
  by (simp add: region_def upt_conv_Cons)

text \<open>What holds of the range after the entries from \<open>k\<close> on, for a start range from 0 to \<open>M\<close>
  with privilege \<open>U\<close>. Beyond \<open>M\<close> an address that no entry matches is outside the range.\<close>

definition reached :: "nat \<Rightarrow> Uns64 \<Rightarrow> Uns64 \<Rightarrow> bool" where
  "reached k a M \<longleftrightarrow> a \<le> M \<or> first_match k a \<noteq> None"

definition covers :: "nat \<Rightarrow> Uns64 \<Rightarrow> Uns64 \<Rightarrow> 'p \<Rightarrow> 'm \<Rightarrow> bool" where
  "covers k a M U m \<longleftrightarrow> low_bound (low m) \<and> high_bound (high m) \<and>
    priv m = (case first_match k a of None \<Rightarrow> U | Some i \<Rightarrow> P i) \<and>
    (reached k a M \<longrightarrow> low m \<le> a \<and> a \<le> high m) \<and> (\<not> reached k a M \<longrightarrow> high m < a) \<and>
    (first_match k a = None \<longrightarrow> high m \<le> M) \<and>
    (reached k a M \<longrightarrow> (\<forall>x. low m \<le> x \<and> x \<le> high m \<longrightarrow> first_match k x = first_match k a)) \<and>
    (\<forall>y\<ge>a. (\<forall>x. a \<le> x \<and> x \<le> y \<longrightarrow> first_match k x = first_match k a \<and> reached k x M) \<longrightarrow> y \<le> high m)"

lemma covers_inside: "covers k a M U m \<Longrightarrow> reached k a M \<Longrightarrow> low m \<le> a \<and> a \<le> high m"
  and covers_outside: "covers k a M U m \<Longrightarrow> \<not> reached k a M \<Longrightarrow> high m < a"
  and covers_limit: "covers k a M U m \<Longrightarrow> first_match k a = None \<Longrightarrow> high m \<le> M"
  and covers_priv: "covers k a M U m \<Longrightarrow> priv m = (case first_match k a of None \<Rightarrow> U | Some i \<Rightarrow> P i)"
  and covers_bounds: "covers k a M U m \<Longrightarrow> low_bound (low m) \<and> high_bound (high m)"
  unfolding covers_def by blast+

lemma covers_uniform:
  "covers k a M U m \<Longrightarrow> reached k a M \<Longrightarrow> low m \<le> x \<Longrightarrow> x \<le> high m \<Longrightarrow> first_match k x = first_match k a"
  unfolding covers_def by blast

lemma covers_maximal:
  "covers k a M U m \<Longrightarrow> a \<le> y \<Longrightarrow>
    (\<And>x. a \<le> x \<Longrightarrow> x \<le> y \<Longrightarrow> first_match k x = first_match k a \<and> reached k x M) \<Longrightarrow> y \<le> high m"
  unfolding covers_def by blast

lemma covers_start:
  assumes "low_bound (low m)" "high_bound (high m)" "low m = 0" "high m = M" "priv m = U"
  shows "covers n a M U m"
  using assms by (auto simp: covers_def reached_def first_match_n)

lemma covers_match:
  assumes k: "k < n" and m: "matches k a"
  shows "covers k a M U (refine a k r)"
proof -
  have act: "act k" and a: "lo k \<le> a" "a \<le> hi k" using m by (auto simp: matches_def)
  have r: "low (refine a k r) = lo k" "high (refine a k r) = hi k" "priv (refine a k r) = P k"
    using refine_match [OF act a] by auto
  have first: "first_match k x = Some k \<longleftrightarrow> matches k x" for x
    using first_match_step [OF k, of x] by (auto simp: first_match_def find_Some_iff)
  have fa: "first_match k a = Some k" using first m by simp
  have uniform: "first_match k x = Some k" if "lo k \<le> x" "x \<le> hi k" for x
    using that act first by (simp add: matches_def)
  have maximal: "y \<le> hi k" if "a \<le> y" "\<forall>x. a \<le> x \<and> x \<le> y \<longrightarrow> first_match k x = Some k \<and> reached k x M" for y
    using that(1) that(2) [rule_format, of y] first [of y] by (simp add: matches_def)
  show ?thesis
    unfolding covers_def r fa using lo_bound [OF act] hi_bound [OF act] a uniform maximal by (auto simp: reached_def fa)
qed

text \<open>A step for an entry beside the address cuts the range exactly where the entry begins.\<close>

lemma refine_beside:
  assumes act: "act k" and side: "a < lo k \<or> hi k < a"
    and b: "low_bound (low r)" "high_bound (high r)"
  defines "m \<equiv> refine a k r"
  shows "priv m = priv r" and "low_bound (low m)" and "high_bound (high m)"
    and "low r \<le> low m" and "high m \<le> high r"
    and "low m \<le> x \<Longrightarrow> x \<le> high m \<Longrightarrow> \<not> matches k x"
    and "low r \<le> a \<Longrightarrow> low m \<le> a" and "a \<le> high r \<Longrightarrow> a \<le> high m"
    and "a \<le> y \<Longrightarrow> y \<le> high r \<Longrightarrow> (\<And>x. a \<le> x \<Longrightarrow> x \<le> y \<Longrightarrow> \<not> matches k x) \<Longrightarrow> y \<le> high m"
proof -
  have ord: "lo k \<le> hi k" by (rule act_ordered [OF act])
  note bounds = lo_bound [OF act] hi_bound [OF act]
  have eqs: "if a < lo k then low m = low r \<and> high m = (if lo k < high r then lo k - 1 else high r)
    else high m = high r \<and> low m = (if low r < hi k then hi k + 1 else low r)"
    and p: "priv m = priv r"
    using refine_above [OF act, of a r] refine_below [OF act, of a r] side unfolding m_def by auto
  have ne: "lo k \<noteq> high r" "hi k \<noteq> low r" using bounds b by auto
  have minus: "a < lo k \<Longrightarrow> x \<le> lo k - 1 \<longleftrightarrow> x < lo k" for x
    by (rule word_le_minus_1) (metis word_not_simps(1) word_neq_0_conv)
  have plus: "hi k < a \<Longrightarrow> hi k + 1 \<le> x \<longleftrightarrow> hi k < x" for x by (rule word_plus_1_le)
  show "priv m = priv r" by (rule p)
  show "low_bound (low m)" "high_bound (high m)"
    using eqs b bounds side low_bound_succ [of "hi k"] high_bound_pred [of "lo k"] by (auto split: if_splits)
  have "hi k < a \<Longrightarrow> hi k < hi k + 1" "a < lo k \<Longrightarrow> lo k - 1 < lo k"
    using plus [of "hi k + 1"] minus [of "lo k - 1"] by auto
  then show "low r \<le> low m" "high m \<le> high r" using eqs side by (auto split: if_splits)
  show "low m \<le> x \<Longrightarrow> x \<le> high m \<Longrightarrow> \<not> matches k x"
    using eqs side ne minus [of x] plus [of x] by (auto simp: matches_def split: if_splits)
  show "low r \<le> a \<Longrightarrow> low m \<le> a" using eqs side plus [of a] by (auto split: if_splits)
  show "a \<le> high r \<Longrightarrow> a \<le> high m" using eqs side minus [of a] by (auto split: if_splits)
  assume y: "a \<le> y" "y \<le> high r" and none: "\<And>x. a \<le> x \<Longrightarrow> x \<le> y \<Longrightarrow> \<not> matches k x"
  show "y \<le> high m"
    using eqs side y none [of "lo k"] less_imp_le [of a "lo k"] minus [of y] act ord by (auto simp: matches_def not_less split: if_splits)
qed

lemma covers_beside:
  assumes k: "k < n" and act: "act k" and c: "covers (Suc k) a M U r" and side: "a < lo k \<or> hi k < a"
  shows "covers k a M U (refine a k r)"
proof -
  have skip: "\<not> matches k x \<Longrightarrow> first_match k x = first_match (Suc k) x" for x
    using first_match_step [OF k, of x] by simp
  have na: "\<not> matches k a" using side by (auto simp: matches_def)
  have fa: "first_match k a = first_match (Suc k) a" and ra: "reached k a M = reached (Suc k) a M"
    using skip [OF na] by (simp_all add: reached_def)
  have nk: "first_match (Suc k) a \<noteq> Some k" by (auto simp: first_match_def find_Some_iff)
  have b: "low_bound (low r)" "high_bound (high r)" using covers_bounds [OF c] by auto
  note r = refine_beside [OF act side b]
  have maximal: "y \<le> high (refine a k r)"
    if y: "a \<le> y" and const: "\<forall>x. a \<le> x \<and> x \<le> y \<longrightarrow> first_match k x = first_match k a \<and> reached k x M" for y
  proof -
    have none: "\<not> matches k x" if "a \<le> x" "x \<le> y" for x
      using const that first_match_step [OF k, of x] fa nk by auto
    have "first_match (Suc k) x = first_match (Suc k) a \<and> reached (Suc k) x M" if x: "a \<le> x" "x \<le> y" for x
      using const [rule_format, of x] x skip [OF none [OF x]] fa by (auto simp: reached_def)
    then have "y \<le> high r" using covers_maximal [OF c y] by blast
    then show ?thesis using r(9) y none by blast
  qed
  have uniform: "first_match k x = first_match k a"
    if "reached k a M" "low (refine a k r) \<le> x" "x \<le> high (refine a k r)" for x
  proof -
    have "low r \<le> x" by (rule order.trans [OF r(4) that(2)])
    moreover have "x \<le> high r" by (rule order.trans [OF that(3) r(5)])
    ultimately have "first_match (Suc k) x = first_match (Suc k) a" using covers_uniform [OF c] that(1) ra by blast
    moreover have "\<not> matches k x" by (rule r(6) [OF that(2,3)])
    ultimately show ?thesis using skip fa by simp
  qed
  have inside: "low (refine a k r) \<le> a \<and> a \<le> high (refine a k r)" if "reached k a M"
    using covers_inside [OF c] that ra r(7,8) by blast
  have outside: "high (refine a k r) < a" if "\<not> reached k a M"
    using covers_outside [OF c] that ra by (blast intro: order.strict_trans1 [OF r(5)])
  have limit: "high (refine a k r) \<le> M" if "first_match k a = None"
    by (rule order.trans [OF r(5) covers_limit [OF c]]) (use that fa in simp)
  have "priv (refine a k r) = (case first_match k a of None \<Rightarrow> U | Some i \<Rightarrow> P i)"
    using covers_priv [OF c] r(1) fa by simp
  then show ?thesis unfolding covers_def using r(2,3) inside outside limit uniform maximal by blast
qed

lemma covers_region:
  assumes "k \<le> n" and "low m = 0" and "high m = M" and "high_bound M" and "priv m = U"
  shows "covers k a M U (region k a m)"
  using assms(1)
proof (induction rule: inc_induct)
  case base
  show ?case using covers_start [of m M U a] assms by (simp add: region_n)
next
  case (step k)
  show ?case
  proof (cases "act k")
    case False
    then have f: "first_match k = first_match (Suc k)"
      using first_match_step [OF step(2)] by (auto simp: matches_def)
    have r: "region k a m = region (Suc k) a m" using region_step [OF step(2)] refine_idle [OF False] by simp
    show ?thesis unfolding covers_def reached_def f r by (rule step.IH [unfolded covers_def reached_def])
  next
    case True
    then consider "matches k a" | "a < lo k \<or> hi k < a" by (cases "lo k \<le> a \<and> a \<le> hi k") (auto simp: matches_def not_le)
    then show ?thesis
    proof cases
      case 1
      then show ?thesis unfolding region_step [OF step(2)] by (rule covers_match [OF step(2)])
    next
      case 2
      then show ?thesis unfolding region_step [OF step(2)] by (rule covers_beside [OF step(2) True step.IH])
    qed
  qed
qed

end

end
