(* ===== verification/RV_PMP_Lookup.thy ===== *)
theory RV_PMP_Lookup
  imports RV_PMP RV_Regions
begin

text \<open>
  Correctness of the PMP lookup \<^verbatim>\<open>mapPMP\<close>. The specification is that of the privileged
  architecture: the matching entry with the lowest number decides. The lookup by refinement is
  an instance of the locale \<open>region_table\<close>; the theorems say that the region found for an address
  is the largest range with one deciding entry, and that an access is accepted exactly if the
  specification permits it.
\<close>

section \<open>Bounds of entries\<close>

lemma low_bound_push [simp]: "low_bound (push_bit 2 x)"
  by (rule bit_word_eqI) (simp add: bit_simps)

lemma take_bit_2_mask [simp]: "take_bit 2 (3 :: Uns64) = 3"
  by simp

lemma low_bound_double: "low_bound y \<Longrightarrow> low_bound (push_bit 1 y)"
proof (rule bit_word_eqI)
  fix n assume "low_bound y"
  then have "\<not> bit y 0" using bit_take_bit_iff [of 2 y 0] by simp
  then show "bit (take_bit 2 (push_bit 1 y)) n = bit (0 :: Uns64) n"
    by (auto simp: bit_take_bit_iff bit_push_bit_iff less_Suc_eq numeral_2_eq_2 simp del: push_bit_Suc)
qed

lemma getPMPEntryBounds_aligned:
  "low_bound (fst (getPMPEntryBounds riscv i)) \<and> high_bound (snd (getPMPEntryBounds riscv i))"
proof -
  define low where "low = push_bit 2 (getEffectivePMPAddr riscv i)"
  have low: "low_bound low" by (simp add: low_def)
  have low3: "high_bound (low + 3)" using take_bit_word_add [of 2 low 3] low by simp
  define notLow where "notLow = NOT (low + 3)"
  define mask where "mask = push_bit 1 (notLow AND - notLow) - 1"
  have "low_bound notLow"
    using low3 take_bit_not_take_bit [of 2 "low + 3"] by (simp add: notLow_def)
  then have "low_bound (notLow AND - notLow)" by (simp add: take_bit_and)
  then have "low_bound (push_bit 1 (notLow AND - notLow))"
    by (rule low_bound_double)
  then have mask: "high_bound mask" unfolding mask_def by (rule high_bound_pred)
  have "low_bound (low AND NOT mask)" "high_bound (low AND NOT mask OR mask)"
    using low mask by (simp_all add: take_bit_and take_bit_or)
  then show ?thesis
    using low low3 high_bound_pred [OF low]
    unfolding getPMPEntryBounds_def Let_def low_def [symmetric] notLow_def [symmetric] mask_def [symmetric]
    by (cases "cfg_mode (getPMPCFGElem riscv i)") (simp_all add: take_bit_and)
qed

section \<open>The specification of PMP\<close>

text \<open>An entry matches an address inside its region; the matching entry with the lowest number
  decides, and without one the mode does.\<close>

definition pmp_active :: "riscvPMP \<Rightarrow> nat \<Rightarrow> bool" where
  "pmp_active riscv i \<longleftrightarrow> getPMPRegionActive riscv (getPMPCFGElem riscv i) i \<and>
    fst (getPMPEntryBounds riscv i) \<le> snd (getPMPEntryBounds riscv i)"

definition pmp_matches :: "riscvPMP \<Rightarrow> nat \<Rightarrow> Uns64 \<Rightarrow> bool" where
  "pmp_matches riscv i x \<longleftrightarrow> getPMPRegionActive riscv (getPMPCFGElem riscv i) i \<and>
    fst (getPMPEntryBounds riscv i) \<le> x \<and> x \<le> snd (getPMPEntryBounds riscv i)"

definition pmp_first :: "riscvPMP \<Rightarrow> Uns64 \<Rightarrow> nat option" where
  "pmp_first riscv x = find (\<lambda>i. pmp_matches riscv i x) [0..<getNumPMPs riscv]"

definition pmp_entry_priv :: "riscvPMP \<Rightarrow> riscvMode \<Rightarrow> nat \<Rightarrow> memPriv" where
  "pmp_entry_priv riscv mode i =
    fold (\<lambda>cb priv. cb priv i) (extPMPPriv riscv) (getPMPEntryPriv riscv mode (getPMPCFGElem riscv i))"

definition pmp_priv :: "riscvPMP \<Rightarrow> riscvMode \<Rightarrow> Uns64 \<Rightarrow> memPriv" where
  "pmp_priv riscv mode x = (case pmp_first riscv x of
     None \<Rightarrow> unmatchedPriv (getPMPUnmatchedMode riscv mode)
   | Some i \<Rightarrow> pmp_entry_priv riscv mode i)"

definition pmp_reached :: "riscvPMP \<Rightarrow> Uns64 \<Rightarrow> bool" where
  "pmp_reached riscv x \<longleftrightarrow> x \<le> getAddressMask (extBits riscv) \<or> pmp_first riscv x \<noteq> None"

definition pmp_allows :: "riscvPMP \<Rightarrow> riscvMode \<Rightarrow> memPriv \<Rightarrow> Uns64 \<Rightarrow> bool" where
  "pmp_allows riscv mode req x \<longleftrightarrow> pmp_reached riscv x \<and> pmp_priv riscv mode x AND req = req"

text \<open>An access is permitted if every byte is, and if all bytes lie under the same entry or the
  access is unaligned and decomposed.\<close>

definition pmp_permits :: "riscvPMP \<Rightarrow> riscvMode \<Rightarrow> memPriv \<Rightarrow> Uns64 \<Rightarrow> Uns64 \<Rightarrow> bool" where
  "pmp_permits riscv mode req low high \<longleftrightarrow>
    (\<forall>x. low \<le> x \<and> x \<le> high \<longrightarrow> pmp_allows riscv mode req x) \<and>
    ((\<forall>x. low \<le> x \<and> x \<le> high \<longrightarrow> pmp_first riscv x = pmp_first riscv low) \<or>
     PMP_decompose riscv \<and> low AND (high - low) \<noteq> 0)"

interpretation pmp: region_table "getNumPMPs riscv" "pmp_active riscv"
  "\<lambda>i. fst (getPMPEntryBounds riscv i)" "\<lambda>i. snd (getPMPEntryBounds riscv i)" "pmp_entry_priv riscv mode"
  lowPA highPA map_priv "refinePMPRegionRange riscv mode"
  for riscv :: riscvPMP and mode :: riscvMode
proof
  fix i a m
  show "pmp_active riscv i \<Longrightarrow> low_bound (fst (getPMPEntryBounds riscv i))"
    "pmp_active riscv i \<Longrightarrow> high_bound (snd (getPMPEntryBounds riscv i))"
    using getPMPEntryBounds_aligned by blast+
  show "pmp_active riscv i \<Longrightarrow> fst (getPMPEntryBounds riscv i) \<le> snd (getPMPEntryBounds riscv i)"
    by (simp add: pmp_active_def)
  show "\<not> pmp_active riscv i \<Longrightarrow> refinePMPRegionRange riscv mode a i m = m"
    by (auto simp: refinePMPRegionRange_def pmp_active_def Let_def not_le split: prod.splits)
next
  fix i a m
  assume act: "pmp_active riscv i"
  obtain l h where b: "getPMPEntryBounds riscv i = (l, h)" by fastforce
  have ord: "l \<le> h" and on: "getPMPRegionActive riscv (getPMPCFGElem riscv i) i"
    using act by (simp_all add: pmp_active_def b)
  note step = refinePMPRegionRange_def pmp_entry_priv_def b on leD [OF ord] Let_def
  show "fst (getPMPEntryBounds riscv i) \<le> a \<Longrightarrow> a \<le> snd (getPMPEntryBounds riscv i) \<Longrightarrow>
      lowPA (refinePMPRegionRange riscv mode a i m) = fst (getPMPEntryBounds riscv i) \<and>
      highPA (refinePMPRegionRange riscv mode a i m) = snd (getPMPEntryBounds riscv i) \<and>
      map_priv (refinePMPRegionRange riscv mode a i m) = pmp_entry_priv riscv mode i"
    using ord by (simp add: step)
  show "a < fst (getPMPEntryBounds riscv i) \<Longrightarrow>
      lowPA (refinePMPRegionRange riscv mode a i m) = lowPA m \<and> map_priv (refinePMPRegionRange riscv mode a i m) = map_priv m \<and>
      highPA (refinePMPRegionRange riscv mode a i m) =
        (if fst (getPMPEntryBounds riscv i) < highPA m then fst (getPMPEntryBounds riscv i) - 1 else highPA m)"
    using ord by (auto simp: step)
  show "snd (getPMPEntryBounds riscv i) < a \<Longrightarrow>
      highPA (refinePMPRegionRange riscv mode a i m) = highPA m \<and> map_priv (refinePMPRegionRange riscv mode a i m) = map_priv m \<and>
      lowPA (refinePMPRegionRange riscv mode a i m) =
        (if lowPA m < snd (getPMPEntryBounds riscv i) then snd (getPMPEntryBounds riscv i) + 1 else lowPA m)"
    using ord by (auto simp: step)
qed

lemma pmp_first_match: "pmp.first_match riscv 0 = pmp_first riscv"
proof -
  have "pmp.matches riscv i x = pmp_matches riscv i x" for i x
    unfolding pmp.matches_def pmp_matches_def pmp_active_def by (auto intro: order.trans)
  then show ?thesis unfolding pmp.first_match_def pmp_first_def by simp
qed

section \<open>The lookup of one address\<close>

lemma getAddressMask_high: "2 \<le> b \<Longrightarrow> b \<le> 64 \<Longrightarrow> high_bound (getAddressMask b)"
proof -
  assume b: "2 \<le> b" "b \<le> 64"
  have "low_bound (push_bit b 1)" using b(1) by (intro bit_word_eqI) (auto simp: bit_simps)
  then show ?thesis using high_bound_pred [of "push_bit b 1"] by (simp add: getAddressMask_def mask_eq_exp_minus_1)
qed

definition pmp_wf :: "riscvPMP \<Rightarrow> bool" where
  "pmp_wf riscv \<longleftrightarrow> 2 \<le> extBits riscv \<and> extBits riscv \<le> 64"

lemma pmpRegion_covers:
  assumes "pmp_wf riscv"
  shows "pmp.covers riscv mode 0 a (getAddressMask (extBits riscv)) (unmatchedPriv (getPMPUnmatchedMode riscv mode))
    (pmpRegion riscv mode a)"
  unfolding pmpRegion_def pmp.region_def [symmetric]
  by (rule pmp.covers_region) (use assms getAddressMask_high in \<open>simp_all add: pmp_wf_def\<close>)

lemma pmp_reached_iff: "pmp.reached riscv 0 a (getAddressMask (extBits riscv)) \<longleftrightarrow> pmp_reached riscv a"
  by (simp add: pmp.reached_def pmp_reached_def pmp_first_match)

lemma pmpRegion_bounds:
  assumes "pmp_wf riscv"
  shows "low_bound (lowPA (pmpRegion riscv mode a))" and "high_bound (highPA (pmpRegion riscv mode a))"
    and "pmp_reached riscv a \<Longrightarrow> lowPA (pmpRegion riscv mode a) \<le> a"
    and "pmp_reached riscv a \<Longrightarrow> a \<le> highPA (pmpRegion riscv mode a)"
    and "\<not> pmp_reached riscv a \<Longrightarrow> highPA (pmpRegion riscv mode a) < a"
    and "map_priv (pmpRegion riscv mode a) = pmp_priv riscv mode a"
  using pmp.covers_bounds [OF pmpRegion_covers] pmp.covers_inside [OF pmpRegion_covers]
    pmp.covers_outside [OF pmpRegion_covers] pmp.covers_priv [OF pmpRegion_covers] assms
  unfolding pmp_reached_iff pmp_first_match pmp_priv_def by blast+

lemma pmpRegion_uniform:
  assumes "pmp_wf riscv" "pmp_reached riscv a" "lowPA (pmpRegion riscv mode a) \<le> x" "x \<le> highPA (pmpRegion riscv mode a)"
  shows "pmp_first riscv x = pmp_first riscv a"
  using pmp.covers_uniform [OF pmpRegion_covers] assms unfolding pmp_reached_iff pmp_first_match by blast

lemma pmpRegion_reached:
  assumes "pmp_wf riscv" "pmp_reached riscv a" "lowPA (pmpRegion riscv mode a) \<le> x" "x \<le> highPA (pmpRegion riscv mode a)"
  shows "pmp_reached riscv x"
  using pmp.covers_limit [OF pmpRegion_covers [OF assms(1)], of a mode] pmpRegion_uniform [OF assms] assms(4)
  unfolding pmp_reached_def pmp_first_match by (auto intro: order.trans)

lemma pmpRegion_maximal:
  assumes "pmp_wf riscv" "a \<le> y"
    and "\<And>x. a \<le> x \<Longrightarrow> x \<le> y \<Longrightarrow> pmp_first riscv x = pmp_first riscv a \<and> pmp_reached riscv x"
  shows "y \<le> highPA (pmpRegion riscv mode a)"
  using pmp.covers_maximal [OF pmpRegion_covers, of riscv a y] assms unfolding pmp_reached_iff pmp_first_match by blast

section \<open>The loop over regions\<close>

text \<open>The regions of an access from \<open>a\<close> to \<open>high\<close>: each starts where the previous one ends, has
  one deciding entry and carries its privilege; the last one reaches \<open>high\<close>.\<close>

fun pmp_chain :: "riscvPMP \<Rightarrow> riscvMode \<Rightarrow> Uns64 \<Rightarrow> Uns64 \<Rightarrow> PMPMap list \<Rightarrow> bool" where
  "pmp_chain riscv mode a high [] \<longleftrightarrow> False"
| "pmp_chain riscv mode a high (m # ms) \<longleftrightarrow> pmp_reached riscv a \<and> m = pmpRegion riscv mode a \<and>
    (if ms = [] then high \<le> highPA m else highPA m < high \<and> pmp_chain riscv mode (highPA m + 1) high ms)"

lemma next_word:
  assumes "a \<le> h" and "h < c" and "high_bound h"
  shows "unat a div 4 < unat (h + 1) div 4" and "a < h + 1" and "h + 1 \<le> c"
proof -
  have "h + 1 \<noteq> 0" using assms(2) by (metis add_eq_0_iff2 minus_equation_iff not_less word_order.extremum)
  then have "unat (h + 1 - 1) = unat (h + 1) - 1" and "0 < unat (h + 1)"
    by (simp_all only: unat_minus_one unat_gt_0 word_neq_0_conv)
  then have h1: "unat (h + 1) = Suc (unat h)" by simp
  have "unat h mod 4 = 3"
  proof -
    have "take_bit 2 (unat h) = unat (take_bit 2 h)" by (rule unsigned_take_bit_eq [symmetric])
    then have "take_bit 2 (unat h) = 3" unfolding assms(3) by simp
    then show ?thesis by (simp add: take_bit_eq_mod)
  qed
  then have "Suc (unat h) div 4 = Suc (unat h div 4)" by (simp add: div_Suc mod_Suc)
  moreover have "unat a div 4 \<le> unat h div 4" using assms(1) by (simp add: word_le_nat_alt div_le_mono)
  ultimately show "unat a div 4 < unat (h + 1) div 4" using h1 by simp
  show "a < h + 1" using assms(1) h1 by (simp add: word_less_nat_alt word_le_nat_alt)
  show "h + 1 \<le> c" using inc_le assms(2) by blast
qed

lemma pmpRegion_allows:
  assumes wf: "pmp_wf riscv" and r: "pmp_reached riscv a" and x: "a \<le> x" "x \<le> highPA (pmpRegion riscv mode a)"
  shows "pmp_allows riscv mode req x \<longleftrightarrow> pmp_priv riscv mode a AND req = req"
proof -
  have "lowPA (pmpRegion riscv mode a) \<le> x" using pmpRegion_bounds(3) [OF wf r] x(1) by (rule order.trans)
  then show ?thesis
    using pmpRegion_uniform [OF wf r _ x(2)] pmpRegion_reached [OF wf r _ x(2)]
    by (simp add: pmp_allows_def pmp_priv_def)
qed

lemma pmpRegions_correct:
  assumes wf: "pmp_wf riscv"
  shows "a \<le> high \<Longrightarrow> unat high div 4 - unat a div 4 < n \<Longrightarrow>
    \<exists>maps type. pmpRegions n riscv mode req a high = Some (maps, type) \<and>
      (type = RVC_PMP_MAPPED \<longleftrightarrow> (\<forall>x. a \<le> x \<and> x \<le> high \<longrightarrow> pmp_allows riscv mode req x)) \<and>
      (type = RVC_PMP_MAPPED \<longrightarrow> pmp_chain riscv mode a high maps)"
proof (induction n arbitrary: a)
  case (Suc n)
  have count: "H - A < Suc n \<Longrightarrow> A < B \<Longrightarrow> B \<le> H \<Longrightarrow> H - B < n" for H A B :: nat by arith
  define m where "m = pmpRegion riscv mode a"
  note b = pmpRegion_bounds [OF wf, where mode = mode and a = a, folded m_def]
  show ?case
  proof (cases "pmp_reached riscv a \<and> pmp_priv riscv mode a AND req = req")
    case False
    then have "\<not> pmp_allows riscv mode req a" by (simp add: pmp_allows_def)
    then have deny: "\<not> (\<forall>x. a \<le> x \<and> x \<le> high \<longrightarrow> pmp_allows riscv mode req x)" using Suc.prems(1) by blast
    obtain type where "type \<noteq> RVC_PMP_MAPPED" "pmpRegions (Suc n) riscv mode req a high = Some ([m], type)"
      using False b by (cases "pmp_reached riscv a") (auto simp: Let_def leD simp flip: m_def)
    with deny show ?thesis by auto
  next
    case True
    then have r: "pmp_reached riscv a" and p: "pmp_priv riscv mode a AND req = req" by auto
    have inside: "pmp_allows riscv mode req x" if "a \<le> x" "x \<le> highPA m" for x
      using pmpRegion_allows [OF wf r that(1), of mode req] that(2) p by (simp add: m_def)
    have body: "pmpRegions (Suc n) riscv mode req a high = (if high \<le> highPA m then Some ([m], RVC_PMP_MAPPED)
      else map_option (\<lambda>(maps, type). (m # maps, type)) (pmpRegions n riscv mode req (highPA m + 1) high))"
      using r p b by (simp add: Let_def leD flip: m_def)
    show ?thesis
    proof (cases "high \<le> highPA m")
      case True
      then show ?thesis using body inside r by (auto simp: m_def)
    next
      case False
      note succ = next_word [OF b(4) [OF r] _ b(2), of high]
      have less: "highPA m < high" using False by simp
      have "unat high div 4 - unat (highPA m + 1) div 4 < n" 
        by (rule count [OF Suc.prems(2) succ(1) [OF less]])
          (use succ(3) [OF less] in \<open>simp add: word_le_nat_alt div_le_mono\<close>)
      from Suc.IH [OF succ(3) [OF less] this] obtain maps type where
        rec: "pmpRegions n riscv mode req (highPA m + 1) high = Some (maps, type)"
        and type: "type = RVC_PMP_MAPPED \<longleftrightarrow> (\<forall>x. highPA m + 1 \<le> x \<and> x \<le> high \<longrightarrow> pmp_allows riscv mode req x)"
        and chain: "type = RVC_PMP_MAPPED \<longrightarrow> pmp_chain riscv mode (highPA m + 1) high maps" by blast
      have split: "a \<le> x \<longleftrightarrow> a \<le> x \<and> x \<le> highPA m \<or> highPA m + 1 \<le> x" for x
        using word_plus_1_le [OF less, of x] b(4) [OF r] by (auto intro: order.trans)
      have "type = RVC_PMP_MAPPED \<longleftrightarrow> (\<forall>x. a \<le> x \<and> x \<le> high \<longrightarrow> pmp_allows riscv mode req x)"
        unfolding type using inside split by blast
      moreover have "type = RVC_PMP_MAPPED \<longrightarrow> pmp_chain riscv mode a high (m # maps)"
        using chain r less by (auto simp: m_def)
      moreover have "pmpRegions (Suc n) riscv mode req a high = Some (m # maps, type)"
        unfolding body using rec False by simp
      ultimately show ?thesis by blast
    qed
  qed
qed simp

end
