(* ===== verification/RV_PMP_Install.thy ===== *)
theory RV_PMP_Install
  imports RV_PMP_Lookup
begin

text \<open>
  The mappings that \<^verbatim>\<open>mapPMP\<close> installs in the simulator's memory domains. The protection calls
  of each operation are given as lists, and the privilege in force at an address is that of
  the most recent call covering it.
\<close>

section \<open>Functions that only read the registers\<close>

lemma isPMP64_protections [simp]: "isPMP64 (riscv\<lparr>protections := ps\<rparr>) = isPMP64 riscv"
  by (simp add: isPMP64_def)

lemma getNumPMPs_protections [simp]: "getNumPMPs (riscv\<lparr>protections := ps\<rparr>) = getNumPMPs riscv"
  by (simp add: getNumPMPs_def)

lemma readPMPCFGInt_protections [simp]: "readPMPCFGInt (riscv\<lparr>protections := ps\<rparr>) i = readPMPCFGInt riscv i"
  by (simp add: readPMPCFGInt_def)

lemma getPMPCFGElem_protections [simp]: "getPMPCFGElem (riscv\<lparr>protections := ps\<rparr>) i = getPMPCFGElem riscv i"
  by (simp add: getPMPCFGElem_def)

lemma pmpLocked_protections [simp]: "pmpLocked (riscv\<lparr>protections := ps\<rparr>) i = pmpLocked riscv i"
  by (simp add: pmpLocked_def)

lemma getEffectivePMPAddr_protections [simp]: "getEffectivePMPAddr (riscv\<lparr>protections := ps\<rparr>) i = getEffectivePMPAddr riscv i"
  by (simp add: getEffectivePMPAddr_def)

lemma getPMPRegionActive_protections [simp]: "getPMPRegionActive (riscv\<lparr>protections := ps\<rparr>) e i = getPMPRegionActive riscv e i"
  by (simp add: getPMPRegionActive_def)

lemma pmpLockedTOR_protections [simp]: "pmpLockedTOR (riscv\<lparr>protections := ps\<rparr>) i = pmpLockedTOR riscv i"
  by (simp add: pmpLockedTOR_def)

lemma getPMPDomainCorD_protections [simp]: "getPMPDomainCorD (riscv\<lparr>protections := ps\<rparr>) mode c = getPMPDomainCorD riscv mode c"
  by (simp add: getPMPDomainCorD_def)

lemma getPMPEntryBounds_protections [simp]: "getPMPEntryBounds (riscv\<lparr>protections := ps\<rparr>) i = getPMPEntryBounds riscv i"
  by (simp add: getPMPEntryBounds_def Let_def split: pmpcfgMode.split)

lemma usePMPEntryMMode_protections [simp]: "usePMPEntryMMode (riscv\<lparr>protections := ps\<rparr>) e = usePMPEntryMMode riscv e"
  by (simp add: usePMPEntryMMode_def)

lemma getPMPEntryPriv_protections [simp]: "getPMPEntryPriv (riscv\<lparr>protections := ps\<rparr>) mode e = getPMPEntryPriv riscv mode e"
  by (simp add: getPMPEntryPriv_def)

lemma useLowerPriorityPMPEntryMMode_protections [simp]: "useLowerPriorityPMPEntryMMode (riscv\<lparr>protections := ps\<rparr>) i = useLowerPriorityPMPEntryMMode riscv i"
  by (simp add: useLowerPriorityPMPEntryMMode_def)

lemma hasPMPPrivCB_protections [simp]: "hasPMPPrivCB (riscv\<lparr>protections := ps\<rparr>) = hasPMPPrivCB riscv"
  by (simp add: hasPMPPrivCB_def)

lemma riscvClampPage_protections [simp]: "riscvClampPage (riscv\<lparr>protections := ps\<rparr>) l h l' h' = riscvClampPage riscv l h l' h'"
  by (simp add: riscvClampPage_def)

lemma getPMPUnmatchedMode_protections [simp]: "getPMPUnmatchedMode (riscv\<lparr>protections := ps\<rparr>) mode = getPMPUnmatchedMode riscv mode"
  by (simp add: getPMPUnmatchedMode_def)

lemma pmp_matches_protections [simp]: "pmp_matches (riscv\<lparr>protections := ps\<rparr>) i x = pmp_matches riscv i x"
  by (simp add: pmp_matches_def)

lemma pmp_first_protections [simp]: "pmp_first (riscv\<lparr>protections := ps\<rparr>) x = pmp_first riscv x"
  by (simp add: pmp_first_def)

lemma pmp_entry_priv_protections [simp]: "pmp_entry_priv (riscv\<lparr>protections := ps\<rparr>) mode i = pmp_entry_priv riscv mode i"
  by (simp add: pmp_entry_priv_def)

lemma pmp_priv_protections [simp]: "pmp_priv (riscv\<lparr>protections := ps\<rparr>) mode x = pmp_priv riscv mode x"
  by (simp add: pmp_priv_def split: option.split)

section \<open>The calls of a protection update\<close>

text \<open>The protection updates add calls to the protections and change nothing else. The lists have
  the most recent call first.\<close>

definition protect_calls ::
  "riscvPMP \<Rightarrow> memDomain \<Rightarrow> Uns64 \<Rightarrow> Uns64 \<Rightarrow> memPriv \<Rightarrow> pmpUpdate \<Rightarrow> protectCall list" where
  "protect_calls riscv d lo hi p u =
    (let adjacent = pmpStraddle riscv \<and> (p \<noteq> 0 \<or> u AND PMPU_SET_PRIV = 0)
     in (if adjacent \<and> u AND PMPU_HI \<noteq> 0 \<and> hi < getAddressMask (extBits riscv) \<and> (unaligned riscv \<or> (hi + 1) AND 7 \<noteq> 0)
         then [(d, hi + 1, hi + 1, MEM_PRIV_NONE)] else []) @
        (if adjacent \<and> u AND PMPU_LO \<noteq> 0 \<and> 0 < lo \<and> (unaligned riscv \<or> lo AND 7 \<noteq> 0)
         then [(d, lo - 1, lo - 1, MEM_PRIV_NONE)] else []) @
        (if u AND PMPU_SET_PRIV \<noteq> 0 then [(d, lo, hi, p)] else []))"

lemma pmpProtect_calls:
  "pmpProtect riscv d lo hi p u = riscv\<lparr>protections := protect_calls riscv d lo hi p u @ protections riscv\<rparr>"
  by (simp add: pmpProtect_def protect_calls_def vmirtProtectMemory_def Let_def)

lemma protect_calls_protections [simp]:
  "protect_calls (riscv\<lparr>protections := ps\<rparr>) d lo hi p u = protect_calls riscv d lo hi p u"
  by (simp add: protect_calls_def)

definition set_calls :: "riscvPMP \<Rightarrow> riscvMode \<Rightarrow> Uns64 \<Rightarrow> Uns64 \<Rightarrow> memPriv \<Rightarrow> pmpUpdate \<Rightarrow> protectCall list" where
  "set_calls riscv mode lo hi p u =
    (if distinctPhysMem riscv
     then (if u AND PMPU_SET_PRIV = 0 \<or> p = 0 \<or> p AND MEM_PRIV_X \<noteq> 0
           then protect_calls riscv (getPMPDomainCorD riscv mode True) lo hi (if p AND MEM_PRIV_X \<noteq> 0 then p else 0) u else []) @
          (if u AND PMPU_SET_PRIV = 0 \<or> p = 0 \<or> p AND MEM_PRIV_RW \<noteq> 0
           then protect_calls riscv (getPMPDomainCorD riscv mode False) lo hi
             (if p AND MEM_PRIV_RW \<noteq> 0 then p AND NOT MEM_PRIV_X else 0) u else [])
     else protect_calls riscv (getPMPDomainCorD riscv mode False) lo hi p u)"

lemma priv_without_X: "p AND MEM_PRIV_RW \<noteq> 0 \<Longrightarrow> p AND NOT MEM_PRIV_X \<noteq> 0" for p :: memPriv
proof
  assume "p AND 3 \<noteq> 0" and z: "p AND NOT 4 = 0"
  moreover have "p AND 3 = (p AND NOT 4) AND 3" by (simp add: and.assoc)
  ultimately show False by simp
qed

lemma setPMPPriv_calls:
  "setPMPPriv riscv mode lo hi p u = riscv\<lparr>protections := set_calls riscv mode lo hi p u @ protections riscv\<rparr>"
proof (cases "distinctPhysMem riscv")
  case False
  then have "getPMPDomainCorD riscv mode False = getPMPDomainCorD riscv mode True" by (simp add: getPMPDomainCorD_def)
  then show ?thesis using False by (simp add: setPMPPriv_def set_calls_def pmpProtect_calls Let_def)
next
  case True
  then have "getPMPDomainCorD riscv mode False \<noteq> getPMPDomainCorD riscv mode True" by (simp add: getPMPDomainCorD_def)
  then show ?thesis
    using True priv_without_X [of p]
    by (simp add: setPMPPriv_def set_calls_def pmpProtect_calls Let_def)
qed

lemma set_calls_protections [simp]:
  "set_calls (riscv\<lparr>protections := ps\<rparr>) mode lo hi p u = set_calls riscv mode lo hi p u"
  by (simp add: set_calls_def)

section \<open>Installed privileges\<close>

text \<open>The privilege that the most recent call covering an address set; a domain is created without
  privileges.\<close>

fun installed_by :: "protectCall list \<Rightarrow> memDomain \<Rightarrow> Uns64 \<Rightarrow> memPriv" where
  "installed_by [] d x = MEM_PRIV_NONE"
| "installed_by ((d', lo, hi, p) # calls) d x = (if d' = d \<and> lo \<le> x \<and> x \<le> hi then p else installed_by calls d x)"

abbreviation installed :: "riscvPMP \<Rightarrow> memDomain \<Rightarrow> Uns64 \<Rightarrow> memPriv" where
  "installed riscv \<equiv> installed_by (protections riscv)"

lemma protect_calls_inside:
  assumes "u AND PMPU_SET_PRIV \<noteq> 0" "lo \<le> x" "x \<le> hi"
  shows "installed_by (protect_calls riscv d lo hi p u @ ps) d x = p"
proof -
  have "0 < lo \<Longrightarrow> lo - 1 < lo" using word_le_minus_1 [of lo "lo - 1"] by simp
  then have "x \<le> lo - 1 \<Longrightarrow> 0 < lo \<Longrightarrow> False" using assms(2) by (meson leD order.strict_trans1)
  moreover have "hi < getAddressMask (extBits riscv) \<Longrightarrow> hi + 1 \<le> x \<Longrightarrow> False"
    using word_plus_1_le [of hi _ x] assms(3) by (meson leD)
  ultimately show ?thesis using assms by (auto simp: protect_calls_def Let_def)
qed

lemma protect_calls_outside:
  assumes "u AND PMPU_SET_PRIV = 0 \<or> d' \<noteq> d \<or> \<not> (lo \<le> x \<and> x \<le> hi)"
  shows "installed_by (protect_calls riscv d lo hi p u @ ps) d' x \<in> {MEM_PRIV_NONE, installed_by ps d' x}"
  using assms by (auto simp: protect_calls_def Let_def)

lemma protect_calls_other: "d' \<noteq> d \<Longrightarrow> installed_by (protect_calls riscv d lo hi p u @ ps) d' x = installed_by ps d' x"
  by (auto simp: protect_calls_def Let_def)

abbreviation priv_le :: "memPriv \<Rightarrow> memPriv \<Rightarrow> bool" where
  "priv_le p q \<equiv> p AND q = p"

lemma priv_le_zero: "priv_le r p \<Longrightarrow> p AND m = 0 \<Longrightarrow> r AND m = 0" for r p m :: memPriv
  using and.assoc [of r p m] by simp

lemma priv_le_without_X: "priv_le (p AND NOT MEM_PRIV_X) p"
  by (simp add: and.left_commute and.commute)

lemma domains_distinct [simp]:
  "distinctPhysMem riscv \<Longrightarrow> getPMPDomainCorD riscv mode True \<noteq> getPMPDomainCorD riscv mode False"
  "distinctPhysMem riscv \<Longrightarrow> getPMPDomainCorD riscv mode False \<noteq> getPMPDomainCorD riscv mode True"
  by (simp_all add: getPMPDomainCorD_def)

lemma set_calls_clear:
  assumes "u AND PMPU_SET_PRIV \<noteq> 0" "lo \<le> x" "x \<le> hi"
  shows "installed_by (set_calls riscv mode lo hi MEM_PRIV_NONE u @ ps) (getPMPDomainCorD riscv mode c) x = MEM_PRIV_NONE"
proof (cases "distinctPhysMem riscv")
  case False
  then have "getPMPDomainCorD riscv mode c = getPMPDomainCorD riscv mode False" by (simp add: getPMPDomainCorD_def)
  then show ?thesis using False protect_calls_inside [OF assms] by (simp add: set_calls_def)
next
  case True
  then show ?thesis
    using protect_calls_inside [OF assms] protect_calls_other [OF domains_distinct(2)]
    by (cases c) (simp_all add: set_calls_def)
qed

lemma set_calls_other_mode:
  assumes "fst d \<noteq> fst (getPMPDomainCorD riscv mode False)"
  shows "installed_by (set_calls riscv mode lo hi p u @ ps) d x = installed_by ps d x"
proof -
  have "d \<noteq> getPMPDomainCorD riscv mode c" for c using assms by (auto simp: getPMPDomainCorD_def)
  then show ?thesis by (simp add: set_calls_def protect_calls_other)
qed

lemma set_calls_grant:
  assumes "u AND PMPU_SET_PRIV \<noteq> 0" "lo \<le> x" "x \<le> hi" and req: "priv_le req p" "req \<noteq> 0" "priv_le req MEM_PRIV_RWX"
  shows "priv_le req (installed_by (set_calls riscv mode lo hi p u @ ps) (getPMPDomainCorD riscv mode (req AND MEM_PRIV_X \<noteq> 0)) x)"
proof (cases "distinctPhysMem riscv")
  case False
  then have e: "getPMPDomainCorD riscv mode (req AND MEM_PRIV_X \<noteq> 0) = getPMPDomainCorD riscv mode False"
    by (simp add: getPMPDomainCorD_def)
  show ?thesis unfolding e using protect_calls_inside [OF assms(1-3)] req(1) False by (simp add: set_calls_def)
next
  case True
  show ?thesis
  proof (cases "req AND MEM_PRIV_X = 0")
    case noX: True
    have "req AND (3 OR 4) = (req AND 3) OR (req AND 4)" by (rule bit.conj_disj_distrib)
    then have rw: "req AND MEM_PRIV_RW = req" using req(3) noX by simp
    have "p AND MEM_PRIV_RW \<noteq> 0"
      using priv_le_zero [OF req(1), of MEM_PRIV_RW] req(2) rw by auto
    moreover have "req AND (p AND NOT MEM_PRIV_X) = req"
    proof -
      have "req AND (p AND NOT MEM_PRIV_X) = (req AND p) AND NOT MEM_PRIV_X" by (simp only: and.assoc)
      also have "\<dots> = (req AND MEM_PRIV_RW) AND NOT MEM_PRIV_X" using req(1) rw by simp
      also have "\<dots> = req AND MEM_PRIV_RW" by (simp only: and.assoc) simp
      finally show ?thesis using rw by simp
    qed
    ultimately show ?thesis
      using True noX protect_calls_inside [OF assms(1-3)] protect_calls_other [OF domains_distinct(2)]
      by (simp add: set_calls_def)
  next
    case False
    then have "p AND MEM_PRIV_X \<noteq> 0" using priv_le_zero [OF req(1), of MEM_PRIV_X] by auto
    then show ?thesis
      using True False protect_calls_inside [OF assms(1-3)] protect_calls_other [OF domains_distinct(1)] req(1)
      by (simp add: set_calls_def)
  qed
qed

lemma protect_calls_bound:
  "installed_by (protect_calls riscv d' lo hi q u @ qs) d x \<in> {MEM_PRIV_NONE, installed_by qs d x} \<or>
    u AND PMPU_SET_PRIV \<noteq> 0 \<and> lo \<le> x \<and> x \<le> hi \<and> d = d' \<and> installed_by (protect_calls riscv d' lo hi q u @ qs) d x = q"
  using protect_calls_inside [of u lo x hi riscv d' q qs] protect_calls_outside [of u d d' lo x hi riscv q qs] by blast

lemma set_calls_bound:
  "installed_by (set_calls riscv mode lo hi p u @ ps) d x \<in> {MEM_PRIV_NONE, installed_by ps d x} \<or>
    u AND PMPU_SET_PRIV \<noteq> 0 \<and> lo \<le> x \<and> x \<le> hi \<and> fst d = fst (getPMPDomainCorD riscv mode False) \<and>
    priv_le (installed_by (set_calls riscv mode lo hi p u @ ps) d x) p"
proof -
  have fst: "fst (getPMPDomainCorD riscv mode c) = fst (getPMPDomainCorD riscv mode False)" for c
    by (simp add: getPMPDomainCorD_def)
  define B where "B = (if u AND PMPU_SET_PRIV = 0 \<or> p = 0 \<or> p AND MEM_PRIV_RW \<noteq> 0
    then protect_calls riscv (getPMPDomainCorD riscv mode False) lo hi
      (if p AND MEM_PRIV_RW \<noteq> 0 then p AND NOT MEM_PRIV_X else 0) u else [])"
  have B: "installed_by (B @ ps) d x \<in> {MEM_PRIV_NONE, installed_by ps d x} \<or>
    u AND PMPU_SET_PRIV \<noteq> 0 \<and> lo \<le> x \<and> x \<le> hi \<and> d = getPMPDomainCorD riscv mode False \<and>
    priv_le (installed_by (B @ ps) d x) p"
    using protect_calls_bound [of riscv "getPMPDomainCorD riscv mode False" lo hi
        "if p AND MEM_PRIV_RW \<noteq> 0 then p AND NOT MEM_PRIV_X else 0" u ps d x] priv_le_without_X [of p]
    unfolding B_def by (auto split: if_splits)
  show ?thesis
  proof (cases "distinctPhysMem riscv")
    case True
    then show ?thesis
      using protect_calls_bound [of riscv "getPMPDomainCorD riscv mode True" lo hi "if p AND MEM_PRIV_X \<noteq> 0 then p else 0" u "B @ ps" d x]
        B fst [of True]
      unfolding set_calls_def B_def [symmetric] by (auto split: if_splits)
  next
    case False
    then show ?thesis
      using protect_calls_bound [of riscv "getPMPDomainCorD riscv mode False" lo hi p u ps d x]
      unfolding set_calls_def by auto
  qed
qed

section \<open>Clamping\<close>

lemma page_end: "(h AND NOT c) + c = h OR c" for h c :: Uns64
proof -
  have "(h AND NOT c) + c = (h AND NOT c) OR c"
    by (rule disjunctive_add_eq_or) (simp add: and.assoc)
  also have "\<dots> = h OR c" by (rule bit_word_eqI) (auto simp: bit_simps)
  finally show ?thesis .
qed

lemma riscvClampPage_range:
  assumes "riscvClampPage riscv low high l h = (lc, hc)"
  shows "l \<le> lc" and "hc \<le> h"
    and "low \<le> x \<Longrightarrow> l \<le> x \<Longrightarrow> lc \<le> x" and "x \<le> high \<Longrightarrow> x \<le> h \<Longrightarrow> x \<le> hc"
proof -
  define c where "c = (ucast (PMP_max_page riscv) :: Uns64) - 1"
  have "low AND NOT c \<le> low" by (rule word_and_le2)
  moreover have "high \<le> (high AND NOT c) + c" unfolding page_end by (rule le_word_or2)
  moreover have "lc = (if ucast (PMP_max_page riscv) \<noteq> (0 :: Uns64) \<and> l < low AND NOT c then low AND NOT c else l)"
    "hc = (if ucast (PMP_max_page riscv) \<noteq> (0 :: Uns64) \<and> h > (high AND NOT c) + c then (high AND NOT c) + c else h)"
    using assms by (auto simp: riscvClampPage_def c_def Let_def split: if_splits)
  ultimately show "l \<le> lc" "hc \<le> h" "low \<le> x \<Longrightarrow> l \<le> x \<Longrightarrow> lc \<le> x" "x \<le> high \<Longrightarrow> x \<le> h \<Longrightarrow> x \<le> hc"
    by (auto split: if_splits intro: order.trans)
qed

section \<open>The calls of a lookup\<close>

text \<open>The calls for one region of an access, and for the regions from the \<open>i\<close>-th of \<open>n\<close> on.\<close>

definition region_calls :: "riscvPMP \<Rightarrow> riscvMode \<Rightarrow> Uns64 \<Rightarrow> Uns64 \<Rightarrow> nat \<Rightarrow> nat \<Rightarrow> PMPMap \<Rightarrow> protectCall list" where
  "region_calls riscv mode low high n i m =
    (let (lc, hc) = riscvClampPage riscv low high (lowPA m) (highPA m);
         u = PMPU_SET_PRIV;
         u = (if i = 0 \<and> lc = lowPA m then u OR PMPU_LO else u);
         u = (if i = n - 1 \<and> hc = highPA m then u OR PMPU_HI else u)
     in set_calls riscv mode lc hc (map_priv m) u)"

fun regions_calls ::
  "riscvPMP \<Rightarrow> riscvMode \<Rightarrow> Uns64 \<Rightarrow> Uns64 \<Rightarrow> nat \<Rightarrow> nat \<Rightarrow> PMPMap list \<Rightarrow> protectCall list" where
  "regions_calls riscv mode low high n i [] = []"
| "regions_calls riscv mode low high n i (m # ms) =
    regions_calls riscv mode low high n (Suc i) ms @ region_calls riscv mode low high n i m"

lemma installPMPMap_calls:
  "installPMPMap mode low high n (i, m) riscv =
    riscv\<lparr>protections := region_calls riscv mode low high n i m @ protections riscv\<rparr>"
  unfolding installPMPMap_def region_calls_def Let_def setPMPPriv_calls by (simp split: prod.split)

lemma region_calls_protections [simp]:
  "region_calls (riscv\<lparr>protections := ps\<rparr>) mode low high n i m = region_calls riscv mode low high n i m"
  by (simp add: region_calls_def Let_def)

lemma regions_calls_protections [simp]:
  "regions_calls (riscv\<lparr>protections := ps\<rparr>) mode low high n i ms = regions_calls riscv mode low high n i ms"
  by (induction ms arbitrary: i) simp_all

lemma fold_installPMPMap:
  "fold (installPMPMap mode low high n) (enumerate i ms) riscv =
    riscv\<lparr>protections := regions_calls riscv mode low high n i ms @ protections riscv\<rparr>"
  by (induction ms arbitrary: i riscv) (simp_all add: installPMPMap_calls)

definition lookup_calls :: "riscvPMP \<Rightarrow> riscvMode \<Rightarrow> Uns64 \<Rightarrow> Uns64 \<Rightarrow> PMPMap list \<Rightarrow> protectCall list" where
  "lookup_calls riscv mode low high ms =
    (if length ms > 1 \<and> high - lowPA (ms ! (length ms - 1)) < 3
     then set_calls riscv mode (lowPA (ms ! (length ms - 1)) + 3) (lowPA (ms ! (length ms - 1)) + 3) MEM_PRIV_NONE PMPU_SET_PRIV
     else []) @
    (if length ms > 1 \<and> highPA (ms ! 0) - low < 3
     then set_calls riscv mode (highPA (ms ! 0) - 3) (highPA (ms ! 0) - 3) MEM_PRIV_NONE PMPU_SET_PRIV else []) @
    regions_calls riscv mode low high (length ms) 0 ms"

lemma installPMPMaps_calls:
  "installPMPMaps mode low high ms riscv = riscv\<lparr>protections := lookup_calls riscv mode low high ms @ protections riscv\<rparr>"
  by (simp add: installPMPMaps_def lookup_calls_def fold_installPMPMap setPMPPrivB_def setPMPPriv_calls Let_def)

section \<open>Decision\<close>

lemma pmp_chain_single:
  assumes wf: "pmp_wf riscv" and chain: "pmp_chain riscv mode low high ms" and "low \<le> high"
    and all: "\<And>x. low \<le> x \<Longrightarrow> x \<le> high \<Longrightarrow> pmp_reached riscv x"
  shows "length ms = 1 \<longleftrightarrow> (\<forall>x. low \<le> x \<and> x \<le> high \<longrightarrow> pmp_first riscv x = pmp_first riscv low)"
proof -
  obtain m ms' where ms: "ms = m # ms'" using chain by (cases ms) auto
  have r: "pmp_reached riscv low" and m: "m = pmpRegion riscv mode low"
    and last: "if ms' = [] then high \<le> highPA m else highPA m < high" using chain ms by (auto split: if_splits)
  show ?thesis
  proof
    assume "length ms = 1"
    then have "high \<le> highPA m" using last ms by (auto split: if_splits)
    moreover have "lowPA m \<le> low" using pmpRegion_bounds(3) [OF wf r] m by simp
    ultimately show "\<forall>x. low \<le> x \<and> x \<le> high \<longrightarrow> pmp_first riscv x = pmp_first riscv low"
      using pmpRegion_uniform [OF wf r] m by (blast intro: order.trans)
  next
    assume "\<forall>x. low \<le> x \<and> x \<le> high \<longrightarrow> pmp_first riscv x = pmp_first riscv low"
    then have "high \<le> highPA m" unfolding m using pmpRegion_maximal [OF wf \<open>low \<le> high\<close>] all by blast
    then show "length ms = 1" using last ms by (auto split: if_splits)
  qed
qed

lemma mapPMP_cases:
  assumes wf: "pmp_wf riscv" and n: "getNumPMPs riscv \<noteq> 0" and le: "low \<le> high" and span: "unat high - unat low \<le> 60"
  shows "if pmp_permits riscv mode req low high
    then \<exists>ms. pmp_chain riscv mode low high ms \<and>
      mapPMP riscv mode req low high = Some (riscv\<lparr>protections := lookup_calls riscv mode low high ms @ protections riscv\<rparr>)
    else mapPMP riscv mode req low high = Some (riscv\<lparr>exceptionDetail_PMP := True\<rparr>)"
proof -
  have "unat high \<le> unat low + 60" using span by arith
  then have "unat high div 4 \<le> (unat low + 60) div 4" by (rule div_le_mono)
  then have "unat high div 4 - unat low div 4 < MAX_PMP_STRADDLE_NUM" by (simp add: MAX_PMP_STRADDLE_NUM_def)
  from pmpRegions_correct [OF wf le this, of mode req] obtain ms type where
    rec: "pmpRegions MAX_PMP_STRADDLE_NUM riscv mode req low high = Some (ms, type)"
    and type: "type = RVC_PMP_MAPPED \<longleftrightarrow> (\<forall>x. low \<le> x \<and> x \<le> high \<longrightarrow> pmp_allows riscv mode req x)"
    and chain: "type = RVC_PMP_MAPPED \<longrightarrow> pmp_chain riscv mode low high ms" by blast
  have single: "length ms = 1 \<longleftrightarrow> (\<forall>x. low \<le> x \<and> x \<le> high \<longrightarrow> pmp_first riscv x = pmp_first riscv low)"
    if "type = RVC_PMP_MAPPED"
    using pmp_chain_single [OF wf _ le, of mode ms] that chain type unfolding pmp_allows_def by blast
  have permits: "pmp_permits riscv mode req low high \<longleftrightarrow>
      type = RVC_PMP_MAPPED \<and> (length ms = 1 \<or> PMP_decompose riscv \<and> low AND (high - low) \<noteq> 0)"
    unfolding pmp_permits_def using type single by blast
  have run: "mapPMP riscv mode req low high =
    (if type = RVC_PMP_MAPPED \<and> (length ms = 1 \<or> PMP_decompose riscv \<and> low AND (high - low) \<noteq> 0)
     then Some (installPMPMaps mode low high ms riscv) else Some (riscv\<lparr>exceptionDetail_PMP := True\<rparr>))"
    unfolding mapPMP_def Let_def rec by (simp add: n)
  show ?thesis
  proof (cases "pmp_permits riscv mode req low high")
    case True
    then have "mapPMP riscv mode req low high = Some (installPMPMaps mode low high ms riscv)"
      unfolding run permits by simp
    moreover have "pmp_chain riscv mode low high ms" using True permits chain by blast
    ultimately show ?thesis using True installPMPMaps_calls by auto
  next
    case False
    then have "mapPMP riscv mode req low high = Some (riscv\<lparr>exceptionDetail_PMP := True\<rparr>)"
      unfolding run permits by (simp only: if_False)
    then show ?thesis using False by simp
  qed
qed

section \<open>Granted accesses\<close>

lemma installed_by_skip:
  "(\<And>d' lo hi p. (d', lo, hi, p) \<in> set cs \<Longrightarrow> \<not> (lo \<le> x \<and> x \<le> hi)) \<Longrightarrow> installed_by (cs @ ps) d x = installed_by ps d x"
proof (induction cs)
  case (Cons c cs)
  obtain d' lo hi p where "c = (d', lo, hi, p)" by (cases c)
  then show ?case using Cons by (simp, metis)
qed simp

lemma set_calls_frame:
  assumes out: "\<not> (lo \<le> x \<and> x \<le> hi)" and lo: "u AND PMPU_LO = 0 \<or> lo \<le> x" and hi: "u AND PMPU_HI = 0 \<or> x \<le> hi"
  shows "installed_by (set_calls riscv mode lo hi p u @ ps) d x = installed_by ps d x"
proof (rule installed_by_skip)
  have calls: "c \<in> set (protect_calls riscv d' lo hi q u) \<Longrightarrow>
    c = (d', hi + 1, hi + 1, 0) \<and> u AND PMPU_HI \<noteq> 0 \<and> hi < getAddressMask (extBits riscv) \<or>
    c = (d', lo - 1, lo - 1, 0) \<and> u AND PMPU_LO \<noteq> 0 \<and> 0 < lo \<or> c = (d', lo, hi, q)"
    for c d' q by (auto simp: protect_calls_def Let_def split: if_splits)
  have "0 < lo \<Longrightarrow> lo \<le> x \<Longrightarrow> \<not> x \<le> lo - 1" using word_le_minus_1 [of lo x] by auto
  moreover have "hi < getAddressMask (extBits riscv) \<Longrightarrow> x \<le> hi \<Longrightarrow> \<not> hi + 1 \<le> x" using word_plus_1_le [of hi _ x] by auto
  moreover fix d' l h q assume "(d', l, h, q) \<in> set (set_calls riscv mode lo hi p u)"
  then have "\<exists>d'' q'. (d', l, h, q) \<in> set (protect_calls riscv d'' lo hi q' u)"
    unfolding set_calls_def set_append by (auto simp del: split_paired_Ex split: if_splits)
  ultimately show "\<not> (l \<le> x \<and> x \<le> h)" using calls out lo hi by blast
qed

text \<open>A region after the first one of an access starts where the previous one ends.\<close>

lemma pmpRegion_next:
  assumes wf: "pmp_wf riscv" and ra: "pmp_reached riscv a" and less: "highPA (pmpRegion riscv mode a) < c"
    and rb: "pmp_reached riscv (highPA (pmpRegion riscv mode a) + 1)"
  shows "highPA (pmpRegion riscv mode a) < lowPA (pmpRegion riscv mode (highPA (pmpRegion riscv mode a) + 1))"
proof (rule ccontr)
  define h where "h = highPA (pmpRegion riscv mode a)"
  define m' where "m' = pmpRegion riscv mode (h + 1)"
  assume "\<not> h < lowPA m'"
  note succ = word_plus_1_le [OF less, folded h_def]
  have ah: "a \<le> h" and la: "lowPA (pmpRegion riscv mode a) \<le> a"
    using pmpRegion_bounds(3,4) [OF wf ra] by (auto simp: h_def)
  have "lowPA m' \<le> h" using \<open>\<not> h < lowPA m'\<close> by simp
  moreover have "h \<le> highPA m'"
    using pmpRegion_bounds(4) [OF wf rb, where mode = mode, folded h_def, folded m'_def] succ [of "highPA m'"] by auto
  ultimately have "pmp_first riscv h = pmp_first riscv (h + 1)"
    using pmpRegion_uniform [OF wf rb] by (simp add: h_def m'_def)
  moreover have inside: "pmp_first riscv x = pmp_first riscv a \<and> pmp_reached riscv x" if "a \<le> x" "x \<le> h" for x
    using pmpRegion_uniform [OF wf ra order.trans [OF la that(1)]] pmpRegion_reached [OF wf ra order.trans [OF la that(1)]]
      that(2) by (simp add: h_def)
  ultimately have const: "pmp_first riscv x = pmp_first riscv a \<and> pmp_reached riscv x" if "a \<le> x" "x \<le> h + 1" for x
  proof (cases "x \<le> h")
    case False
    then have "x = h + 1" using succ [of x] that(2) by auto
    then show ?thesis using \<open>pmp_first riscv h = pmp_first riscv (h + 1)\<close> inside [OF ah] rb by (simp add: h_def)
  qed (use that inside in blast)
  have "h < h + 1" using succ [of "h + 1"] by simp
  then have "a \<le> h + 1" using ah by (meson less_imp_le order.trans)
  then have "h + 1 \<le> h" unfolding h_def using pmpRegion_maximal [OF wf _ const [unfolded h_def]] by (simp only: h_def)
  then show False using succ [of h] by simp
qed

text \<open>Later regions leave the addresses below their start alone.\<close>

lemma regions_calls_below:
  assumes wf: "pmp_wf riscv"
  shows "pmp_chain riscv mode a high ms \<Longrightarrow> a \<le> lowPA (pmpRegion riscv mode a) \<Longrightarrow> 0 < i \<Longrightarrow> a \<le> high \<Longrightarrow> low \<le> a \<Longrightarrow> x < a \<Longrightarrow>
    installed_by (regions_calls riscv mode low high n i ms @ ps) d x = installed_by ps d x"
proof (induction ms arbitrary: a i ps)
  case (Cons m ms)
  have r: "pmp_reached riscv a" and m: "m = pmpRegion riscv mode a" using Cons.prems(1) by auto
  obtain lc hc where clamp: "riscvClampPage riscv low high (lowPA m) (highPA m) = (lc, hc)" by fastforce
  note range = riscvClampPage_range [OF clamp]
  have "a \<le> lc" using range(1) Cons.prems(2) m by auto
  have "a \<le> highPA m" using pmpRegion_bounds(4) [OF wf r] m by simp
  then have "a \<le> hc" using range(4) [of a] Cons.prems(4) by simp
  have here: "installed_by (region_calls riscv mode low high n i m @ ps) d x = installed_by ps d x" for ps
    unfolding region_calls_def Let_def clamp prod.case
    by (rule set_calls_frame) (use \<open>a \<le> lc\<close> \<open>a \<le> hc\<close> \<open>x < a\<close> \<open>0 < i\<close> in auto)
  show ?case
  proof (cases "ms = []")
    case False
    define b where "b = highPA m + 1"
    have less: "highPA m < high" and chain: "pmp_chain riscv mode b high ms"
      using Cons.prems(1) False by (auto simp: b_def split: if_splits)
    have "pmp_reached riscv b" using chain by (cases ms) auto
    then have "b \<le> lowPA (pmpRegion riscv mode b)"
      using pmpRegion_next [OF wf r, of mode high] less word_plus_1_le [OF less] by (simp add: b_def m)
    moreover have "b \<le> high" "a < b" using word_plus_1_le [OF less, of high] word_plus_1_le [OF less, of b] less \<open>a \<le> highPA m\<close>
      by (auto simp: b_def)
    ultimately show ?thesis using Cons.IH [OF chain, of "Suc i"] Cons.prems(5,6) here by auto
  qed (use here in simp)
qed simp

lemma regions_calls_grant:
  assumes wf: "pmp_wf riscv" and req: "req \<noteq> 0" "priv_le req MEM_PRIV_RWX"
    and all: "\<And>x. low \<le> x \<Longrightarrow> x \<le> high \<Longrightarrow> priv_le req (pmp_priv riscv mode x)"
  shows "pmp_chain riscv mode a high ms \<Longrightarrow> a \<le> high \<Longrightarrow> low \<le> a \<Longrightarrow> a \<le> x \<Longrightarrow> x \<le> high \<Longrightarrow>
    priv_le req (installed_by (regions_calls riscv mode low high n i ms @ ps)
      (getPMPDomainCorD riscv mode (req AND MEM_PRIV_X \<noteq> 0)) x)"
proof (induction ms arbitrary: a i ps)
  case (Cons m ms)
  have r: "pmp_reached riscv a" and m: "m = pmpRegion riscv mode a" using Cons.prems(1) by auto
  obtain lc hc where clamp: "riscvClampPage riscv low high (lowPA m) (highPA m) = (lc, hc)" by fastforce
  note b = pmpRegion_bounds [OF wf, where mode = mode and a = a, folded m]
  have here: "priv_le req (installed_by (region_calls riscv mode low high n i m @ ps)
      (getPMPDomainCorD riscv mode (req AND MEM_PRIV_X \<noteq> 0)) x)" if "x \<le> highPA m" for ps
    unfolding region_calls_def Let_def clamp prod.case
  proof (rule set_calls_grant)
    show "lc \<le> x" using riscvClampPage_range(3) [OF clamp, of x] b(3) [OF r] Cons.prems by simp
    show "x \<le> hc" using riscvClampPage_range(4) [OF clamp, of x] that Cons.prems by simp
    show "priv_le req (map_priv m)" using all [of a] b(6) Cons.prems by simp
  qed (use req in auto)
  show ?case
  proof (cases "ms = []")
    case False
    define c where "c = highPA m + 1"
    have less: "highPA m < high" and chain: "pmp_chain riscv mode c high ms"
      using Cons.prems(1) False by (auto simp: c_def split: if_splits)
    note succ = word_plus_1_le [OF less, folded c_def]
    have c: "c \<le> high" "low \<le> c" "a < c" using succ [of high] succ [of c] less b(4) [OF r] Cons.prems by auto
    show ?thesis
    proof (cases "x \<le> highPA m")
      case True
      have "pmp_reached riscv c" using chain by (cases ms) auto
      then have "c \<le> lowPA (pmpRegion riscv mode c)"
        using pmpRegion_next [OF wf r, of mode high] less succ by (simp add: c_def m)
      then show ?thesis
        using regions_calls_below [OF wf chain, of "Suc i" low x n] c here [OF True] True succ [of c] by auto
    next
      case False
      then show ?thesis using Cons.IH [OF chain c(1,2), of "Suc i"] Cons.prems succ [of x] by simp
    qed
  qed (use here Cons.prems in \<open>auto split: if_splits\<close>)
qed simp

lemma below_first_word: "high_bound r \<Longrightarrow> low \<le> r \<Longrightarrow> r - low < 3 \<Longrightarrow> r - 3 < low" for r low :: Uns64
proof -
  assume r: "high_bound r" and le: "low \<le> r" and less: "r - low < 3"
  have "take_bit 2 (unat r) = unat (take_bit 2 r)" by (rule unsigned_take_bit_eq [symmetric])
  then have "take_bit 2 (unat r) = 3" unfolding r by simp
  then have "3 \<le> unat r" by (metis take_bit_nat_less_eq_self)
  moreover have "unat (r - low) = unat r - unat low" "unat (r - 3) = unat r - unat (3 :: Uns64)"
    using le \<open>3 \<le> unat r\<close> by (auto simp: unat_sub word_le_nat_alt)
  ultimately show "r - 3 < low" using le less by (simp add: word_less_nat_alt word_le_nat_alt)
qed

lemma above_last_word: "low_bound l \<Longrightarrow> l \<le> high \<Longrightarrow> high - l < 3 \<Longrightarrow> high < l + 3" for l high :: Uns64
proof -
  assume l: "low_bound l" and le: "l \<le> high" and less: "high - l < 3"
  have "take_bit 2 (unat l) = unat (take_bit 2 l)" by (rule unsigned_take_bit_eq [symmetric])
  then have "unat l mod 4 = 0" unfolding l by (simp add: take_bit_eq_mod)
  moreover have "unat l < 2 ^ 64" using unsigned_less [of l, where 'a = nat] by simp
  ultimately have "unat l + 3 < 2 ^ 64" by (simp add: mod_eq_0_iff_dvd) presburger
  then have "unat (l + 3) = unat l + unat (3 :: Uns64)" by (subst unat_add_lem [symmetric]) simp
  moreover have "unat (high - l) = unat high - unat l" using le by (simp add: unat_sub)
  ultimately show "high < l + 3" using le less by (simp add: word_less_nat_alt word_le_nat_alt)
qed

lemma pmp_chain_last:
  assumes wf: "pmp_wf riscv"
  shows "pmp_chain riscv mode a high ms \<Longrightarrow> a \<le> high \<Longrightarrow> low_bound (lowPA (last ms)) \<and> lowPA (last ms) \<le> high"
proof (induction ms arbitrary: a)
  case (Cons m ms)
  have r: "pmp_reached riscv a" and m: "m = pmpRegion riscv mode a" using Cons.prems(1) by auto
  show ?case
  proof (cases "ms = []")
    case True
    then show ?thesis using pmpRegion_bounds(1,3) [OF wf, where mode = mode and a = a] r m Cons.prems(2) by auto
  next
    case False
    then have "highPA m < high" "pmp_chain riscv mode (highPA m + 1) high ms" using Cons.prems(1) by (auto split: if_splits)
    then show ?thesis using Cons.IH False word_plus_1_le by auto
  qed
qed simp

lemma lookup_calls_grant:
  assumes wf: "pmp_wf riscv" and req: "req \<noteq> 0" "priv_le req MEM_PRIV_RWX"
    and all: "\<And>x. low \<le> x \<Longrightarrow> x \<le> high \<Longrightarrow> priv_le req (pmp_priv riscv mode x)"
    and chain: "pmp_chain riscv mode low high ms" and le: "low \<le> high" and x: "low \<le> x" "x \<le> high"
  shows "priv_le req (installed_by (lookup_calls riscv mode low high ms @ ps)
    (getPMPDomainCorD riscv mode (req AND MEM_PRIV_X \<noteq> 0)) x)"
proof -
  have ms: "ms \<noteq> []" "ms ! 0 = pmpRegion riscv mode low" "pmp_reached riscv low"
    using chain by (cases ms; auto)+
  have first: "highPA (ms ! 0) - low < 3 \<Longrightarrow> \<not> x \<le> highPA (ms ! 0) - 3"
    using below_first_word [of "highPA (ms ! 0)" low] pmpRegion_bounds(2,4) [OF wf, where mode = mode and a = low] ms x(1) by auto
  have last: "high - lowPA (ms ! (length ms - 1)) < 3 \<Longrightarrow> \<not> lowPA (ms ! (length ms - 1)) + 3 \<le> x"
    using above_last_word [of "lowPA (last ms)" high] pmp_chain_last [OF wf chain le] x(2) ms(1)
    by (auto simp: last_conv_nth)
  have byte: "\<not> (y \<le> x \<and> x \<le> y) \<Longrightarrow>
    installed_by (set_calls riscv mode y y 0 PMPU_SET_PRIV @ ps) d x = installed_by ps d x" for y ps d
    by (rule set_calls_frame) auto
  show ?thesis
    using regions_calls_grant [OF wf req all chain le order.refl x] first last by (simp add: lookup_calls_def byte)
qed

section \<open>The lookup grants no more than the specification\<close>

lemma regions_calls_bound:
  assumes wf: "pmp_wf riscv"
  shows "pmp_chain riscv mode a high ms \<Longrightarrow>
    installed_by (regions_calls riscv mode low high n i ms @ ps) d x \<in> {MEM_PRIV_NONE, installed_by ps d x} \<or>
    fst d = fst (getPMPDomainCorD riscv mode False) \<and>
    priv_le (installed_by (regions_calls riscv mode low high n i ms @ ps) d x) (pmp_priv riscv mode x)"
proof (induction ms arbitrary: a i ps)
  case (Cons m ms)
  have r: "pmp_reached riscv a" and m: "m = pmpRegion riscv mode a" using Cons.prems(1) by auto
  obtain lc hc where clamp: "riscvClampPage riscv low high (lowPA m) (highPA m) = (lc, hc)" by fastforce
  have same: "map_priv m = pmp_priv riscv mode x" if "lc \<le> x" "x \<le> hc"
  proof -
    have "lowPA m \<le> x" "x \<le> highPA m"
      using riscvClampPage_range(1,2) [OF clamp] that by (auto intro: order.trans)
    then show ?thesis
      using pmpRegion_uniform [OF wf r] pmpRegion_bounds(6) [OF wf, of mode a] by (simp add: m pmp_priv_def)
  qed
  have here: "installed_by (region_calls riscv mode low high n i m @ ps) d x \<in> {MEM_PRIV_NONE, installed_by ps d x} \<or>
    fst d = fst (getPMPDomainCorD riscv mode False) \<and>
    priv_le (installed_by (region_calls riscv mode low high n i m @ ps) d x) (pmp_priv riscv mode x)"
    unfolding region_calls_def Let_def clamp prod.case using set_calls_bound same by metis
  show ?case
  proof (cases "ms = []")
    case False
    then have "pmp_chain riscv mode (highPA m + 1) high ms" using Cons.prems(1) by (auto split: if_splits)
    from Cons.IH [OF this, of "Suc i" "region_calls riscv mode low high n i m @ ps"] here show ?thesis by auto
  qed (use here in simp)
qed simp

lemma lookup_calls_bound:
  assumes wf: "pmp_wf riscv" and chain: "pmp_chain riscv mode low high ms"
  shows "installed_by (lookup_calls riscv mode low high ms @ ps) d x \<in> {MEM_PRIV_NONE, installed_by ps d x} \<or>
    fst d = fst (getPMPDomainCorD riscv mode False) \<and>
    priv_le (installed_by (lookup_calls riscv mode low high ms @ ps) d x) (pmp_priv riscv mode x)"
proof -
  have none: "installed_by (set_calls riscv mode y y 0 u @ qs) d x \<in> {MEM_PRIV_NONE, installed_by qs d x}" for y u qs
    using set_calls_bound [of riscv mode y y 0 u qs d x] by auto
  show ?thesis
    using none regions_calls_bound [OF wf chain, of low "length ms" 0 ps d x]
    unfolding lookup_calls_def append_assoc by (auto split: if_splits) metis+
qed

section \<open>Theorems\<close>

text \<open>The region that refinement over the entries in reverse priority order finds for an address
  contains the address, has one deciding entry throughout and carries its privilege, and extends
  upwards as far as that entry decides.\<close>

theorem pmpRegion_correct:
  assumes "pmp_wf riscv" and "pmp_reached riscv a"
  shows "lowPA (pmpRegion riscv mode a) \<le> a \<and> a \<le> highPA (pmpRegion riscv mode a) \<and>
    (\<forall>x. lowPA (pmpRegion riscv mode a) \<le> x \<and> x \<le> highPA (pmpRegion riscv mode a) \<longrightarrow>
      pmp_first riscv x = pmp_first riscv a \<and> map_priv (pmpRegion riscv mode a) = pmp_priv riscv mode x) \<and>
    (\<forall>y\<ge>a. (\<forall>x. a \<le> x \<and> x \<le> y \<longrightarrow> pmp_first riscv x = pmp_first riscv a \<and> pmp_reached riscv x) \<longrightarrow>
      y \<le> highPA (pmpRegion riscv mode a))"
proof -
  have "pmp_first riscv x = pmp_first riscv a \<and> map_priv (pmpRegion riscv mode a) = pmp_priv riscv mode x"
    if "lowPA (pmpRegion riscv mode a) \<le> x" "x \<le> highPA (pmpRegion riscv mode a)" for x
    using pmpRegion_uniform [OF assms that] pmpRegion_bounds(6) [OF assms(1)] by (simp add: pmp_priv_def)
  then show ?thesis
    using pmpRegion_bounds(3,4) [OF assms(1,2)] pmpRegion_maximal [OF assms(1)] by blast
qed

text \<open>A configuration for the witnesses: one entry that makes the first eight bytes of a 32-bit
  address space readable and writable in User mode.\<close>

definition pmp_example :: riscvPMP where
  "pmp_example = \<lparr>xlen64M = False, PMP_registers = 1, PMP_grain = 0, PMP_max_page = 0, PMP_decompose = False,
    unaligned = True, Smepmp_version = False, extBits = 32, pmpStraddle = True, distinctPhysMem = False,
    romask_pmpaddr = [0], cfg_pmpaddr = [0], cfg_pmpcfg = [0], cfg_romask_pmpcfg = [0], cfg_mseccfg = 0, mask_mseccfg = 7,
    extPMPPriv = [], pmpcfg = [0x1b, 0, 0, 0, 0, 0, 0, 0], romask_pmpcfg = [0, 0, 0, 0, 0, 0, 0, 0], pmpaddr = [0],
    mseccfg = 0, artifactAccess = False, warnNoPMPUS = False, exceptionDetail_PMP = False, protections = []\<rparr>"

lemma pmp_example_wf: "pmp_wf pmp_example" "getNumPMPs pmp_example = 1"
  by (simp_all add: pmp_example_def pmp_wf_def getNumPMPs_def)

lemma pmp_example_bounds: "getPMPEntryBounds pmp_example 0 = (0, 7)"
  by (simp add: pmp_example_def getPMPEntryBounds_def getEffectivePMPAddr_def getPMPCFGElem_def cfg_mode_def Let_def)

lemma pmp_example_first: "pmp_first pmp_example x = (if x \<le> 7 then Some 0 else None)"
  by (simp add: pmp_first_def pmp_example_wf pmp_matches_def pmp_example_bounds getPMPRegionActive_def)
    (simp add: pmp_example_def getPMPCFGElem_def cfg_mode_def)

lemma pmp_example_priv: "pmp_priv pmp_example RISCV_MODE_U x = (if x \<le> 7 then MEM_PRIV_RW else MEM_PRIV_NONE)"
  by (simp add: pmp_priv_def pmp_example_first pmp_entry_priv_def getPMPEntryPriv_def getPMPUnmatchedMode_def)
    (simp add: pmp_example_def getPMPCFGElem_def cfg_priv_def cfg_L_def)

theorem pmpRegion_correct_witness:
  "pmp_first pmp_example (lowPA (pmpRegion pmp_example RISCV_MODE_U 4)) = Some 0"
proof -
  have r: "pmp_reached pmp_example 4" and f: "pmp_first pmp_example 4 = Some 0"
    by (simp_all add: pmp_reached_def pmp_example_first)
  note c = pmpRegion_correct [OF pmp_example_wf(1) r, of RISCV_MODE_U]
  then have "lowPA (pmpRegion pmp_example RISCV_MODE_U 4) \<le> highPA (pmpRegion pmp_example RISCV_MODE_U 4)"
    by (blast intro: order.trans)
  with c show ?thesis unfolding f by blast
qed

text \<open>C3: The PMP lookup of an access of at most 61 bytes returns without failing its assertion,
  changes nothing but the protections and the exception detail, and records a PMP exception
  exactly when the privileged specification denies the access: some byte is not permitted by its
  lowest-numbered matching entry, or the bytes have different deciding entries and the access is
  aligned or not decomposed.\<close>

theorem mapPMP_decides:
  assumes "pmp_wf riscv" and "getNumPMPs riscv \<noteq> 0" and "low \<le> high" and "unat high - unat low \<le> 60"
  shows "\<exists>riscv'. mapPMP riscv mode req low high = Some riscv' \<and>
    riscv'\<lparr>protections := protections riscv, exceptionDetail_PMP := exceptionDetail_PMP riscv\<rparr> = riscv \<and>
    (exceptionDetail_PMP riscv' \<longleftrightarrow> exceptionDetail_PMP riscv \<or> \<not> pmp_permits riscv mode req low high)"
proof (cases "pmp_permits riscv mode req low high")
  case True
  then show ?thesis using mapPMP_cases [OF assms, of mode req] by (auto simp: True)
next
  case False
  then show ?thesis using mapPMP_cases [OF assms, of mode req] by auto
qed

theorem mapPMP_decides_witness:
  "\<exists>riscv'. mapPMP pmp_example RISCV_MODE_U MEM_PRIV_R 6 9 = Some riscv' \<and> exceptionDetail_PMP riscv'"
proof -
  have "\<not> pmp_permits pmp_example RISCV_MODE_U MEM_PRIV_R 6 9"
    by (auto simp: pmp_permits_def pmp_allows_def pmp_example_priv intro!: exI [of _ 8])
  then show ?thesis using mapPMP_decides [of pmp_example 6 9 RISCV_MODE_U MEM_PRIV_R] by (auto simp: pmp_example_wf)
qed

text \<open>C4: After the lookup of a permitted access every byte of the access is mapped, in the memory
  domain of the mode, with the required privileges, so that the access proceeds.\<close>

theorem mapPMP_grants:
  assumes "pmp_wf riscv" and "getNumPMPs riscv \<noteq> 0" and "low \<le> high" and "unat high - unat low \<le> 60"
    and "req \<noteq> MEM_PRIV_NONE" and "priv_le req MEM_PRIV_RWX" and "pmp_permits riscv mode req low high"
  shows "\<exists>riscv'. mapPMP riscv mode req low high = Some riscv' \<and>
    (\<forall>x. low \<le> x \<and> x \<le> high \<longrightarrow> priv_le req (installed riscv' (getPMPDomainCorD riscv mode (req AND MEM_PRIV_X \<noteq> 0)) x))"
proof -
  obtain ms where chain: "pmp_chain riscv mode low high ms" and
    run: "mapPMP riscv mode req low high = Some (riscv\<lparr>protections := lookup_calls riscv mode low high ms @ protections riscv\<rparr>)"
    using mapPMP_cases [OF assms(1-4), of mode req] assms(7) by auto
  have "priv_le req (pmp_priv riscv mode x)" if "low \<le> x" "x \<le> high" for x
    using assms(7) that by (simp add: pmp_permits_def pmp_allows_def and.commute)
  from lookup_calls_grant [OF assms(1,5,6) this chain assms(3)] show ?thesis using run by auto
qed

theorem mapPMP_grants_witness:
  "\<exists>riscv'. mapPMP pmp_example RISCV_MODE_U MEM_PRIV_W 4 7 = Some riscv' \<and>
    priv_le MEM_PRIV_W (installed riscv' (RISCV_MODE_S, False) 5)"
proof -
  have "pmp_permits pmp_example RISCV_MODE_U MEM_PRIV_W 4 7"
    by (auto simp: pmp_permits_def pmp_allows_def pmp_example_priv pmp_example_first pmp_reached_def dest: order.trans)
  moreover have "getPMPDomainCorD pmp_example RISCV_MODE_U False = (RISCV_MODE_S, False)"
    by (simp add: getPMPDomainCorD_def)
  ultimately show ?thesis
    using mapPMP_grants [of pmp_example 4 7 MEM_PRIV_W RISCV_MODE_U] by (auto simp: pmp_example_wf)
qed

end
