(* ===== verification/RV_PMP_Coherent.thy ===== *)
theory RV_PMP_Coherent
  imports RV_PMP_Install
begin

text \<open>
  Coherence of the installed mappings with the PMP registers: a mapping in a memory domain never
  grants more than the registers do. The theory has the calls of an invalidation, the part of
  the state that the specification depends on, and the preservation of coherence by the lookup
  and by a change of entries that clears what it changes.
\<close>

section \<open>The calls of an invalidation\<close>

text \<open>Entry \<open>i\<close> is quiet if neither it nor an entry of lower priority can restrict Machine mode: its
  region keeps its mapping in the Machine mode domain.\<close>

definition mquiet :: "riscvPMP \<Rightarrow> nat \<Rightarrow> bool" where
  "mquiet riscv i \<longleftrightarrow> \<not> usePMPEntryMMode riscv (getPMPCFGElem riscv i) \<and>
    \<not> useLowerPriorityPMPEntryMMode riscv i \<and> \<not> hasPMPPrivCB riscv"

definition inval_calls :: "riscvPMP \<Rightarrow> nat \<Rightarrow> protectCall list" where
  "inval_calls riscv i =
    (if pmp_active riscv i
     then set_calls riscv RISCV_MODE_M (fst (getPMPEntryBounds riscv i)) (snd (getPMPEntryBounds riscv i)) MEM_PRIV_NONE
            (if mquiet riscv i then PMPU_LO OR PMPU_HI else PMPU_SET_PRIV) @
          set_calls riscv RISCV_MODE_S (fst (getPMPEntryBounds riscv i)) (snd (getPMPEntryBounds riscv i)) MEM_PRIV_NONE PMPU_SET_PRIV
     else [])"

definition inval_calls_TOR :: "riscvPMP \<Rightarrow> nat \<Rightarrow> protectCall list" where
  "inval_calls_TOR riscv i =
    (if i \<noteq> getNumPMPs riscv \<and> cfg_mode (getPMPCFGElem riscv i) = PMPM_TOR then inval_calls riscv i else [])"

lemma invalidatePMPEntry_calls:
  "invalidatePMPEntry riscv i = riscv\<lparr>protections := inval_calls riscv i @ protections riscv\<rparr>"
  by (auto simp: invalidatePMPEntry_def inval_calls_def pmp_active_def mquiet_def setPMPPriv_calls Let_def split: prod.split)

lemma mquiet_protections [simp]: "mquiet (riscv\<lparr>protections := ps\<rparr>) i = mquiet riscv i"
  and pmp_active_protections [simp]: "pmp_active (riscv\<lparr>protections := ps\<rparr>) i = pmp_active riscv i"
  by (simp_all add: mquiet_def pmp_active_def)

lemma inval_calls_protections [simp]: "inval_calls (riscv\<lparr>protections := ps\<rparr>) i = inval_calls riscv i"
  by (simp add: inval_calls_def)

lemma invalidatePMPEntryTOR_calls:
  "invalidatePMPEntryTOR riscv i = riscv\<lparr>protections := inval_calls_TOR riscv i @ protections riscv\<rparr>"
  by (simp add: invalidatePMPEntryTOR_def inval_calls_TOR_def invalidatePMPEntry_calls)

lemma inval_calls_TOR_protections [simp]: "inval_calls_TOR (riscv\<lparr>protections := ps\<rparr>) i = inval_calls_TOR riscv i"
  by (simp add: inval_calls_TOR_def)

lemma inval_calls_bound: "installed_by (inval_calls riscv i @ ps) d x \<in> {MEM_PRIV_NONE, installed_by ps d x}"
proof -
  have "installed_by (set_calls riscv mode lo hi MEM_PRIV_NONE u @ qs) d x \<in> {MEM_PRIV_NONE, installed_by qs d x}" for mode lo hi u qs
    using set_calls_bound [of riscv mode lo hi MEM_PRIV_NONE u qs d x] by auto
  then show ?thesis unfolding inval_calls_def append_assoc by (auto split: if_splits) metis+
qed

lemma inval_calls_TOR_bound: "installed_by (inval_calls_TOR riscv i @ ps) d x \<in> {MEM_PRIV_NONE, installed_by ps d x}"
  using inval_calls_bound by (simp add: inval_calls_TOR_def)

lemma domain_base:
  "fst (getPMPDomainCorD riscv RISCV_MODE_S c) = RISCV_MODE_S" "fst (getPMPDomainCorD riscv RISCV_MODE_M c) = RISCV_MODE_M"
  by (simp_all add: getPMPDomainCorD_def)

lemma pmp_matches_active: "pmp_matches riscv i x \<Longrightarrow> pmp_active riscv i"
  by (auto simp: pmp_matches_def pmp_active_def intro: order.trans)

lemma inval_calls_S:
  assumes "pmp_matches riscv i x"
  shows "installed_by (inval_calls riscv i @ ps) (getPMPDomainCorD riscv RISCV_MODE_S c) x = MEM_PRIV_NONE"
  using assms pmp_matches_active [OF assms] set_calls_clear [of PMPU_SET_PRIV _ x _ riscv RISCV_MODE_S ps c]
    set_calls_other_mode [of "getPMPDomainCorD riscv RISCV_MODE_S c" riscv RISCV_MODE_M]
  by (simp add: inval_calls_def pmp_matches_def domain_base)

lemma inval_calls_M:
  assumes "pmp_matches riscv i x" and "\<not> mquiet riscv i"
  shows "installed_by (inval_calls riscv i @ ps) (getPMPDomainCorD riscv RISCV_MODE_M c) x = MEM_PRIV_NONE"
  using assms pmp_matches_active [OF assms(1)]
    set_calls_clear [of PMPU_SET_PRIV _ x _ riscv RISCV_MODE_M _ c]
  by (simp add: inval_calls_def pmp_matches_def)

section \<open>What the specification depends on\<close>

text \<open>Two states agree on entry \<open>i\<close> if its registers are the same, and on all entries and the mode
  bits if the specification cannot tell them apart.\<close>

definition same_config :: "riscvPMP \<Rightarrow> riscvPMP \<Rightarrow> bool" where
  "same_config r r' \<longleftrightarrow> PMP_registers r = PMP_registers r' \<and> PMP_grain r = PMP_grain r' \<and> extPMPPriv r = extPMPPriv r' \<and>
    distinctPhysMem r = distinctPhysMem r' \<and> (MML r \<longleftrightarrow> MML r') \<and> (MMWP r \<longleftrightarrow> MMWP r')"

definition same_entry :: "nat \<Rightarrow> riscvPMP \<Rightarrow> riscvPMP \<Rightarrow> bool" where
  "same_entry i r r' \<longleftrightarrow> pmpcfg r ! i = pmpcfg r' ! i \<and> pmpaddr r ! i = pmpaddr r' ! i \<and>
    (cfg_mode (pmpcfg r ! i) = PMPM_TOR \<and> i \<noteq> 0 \<longrightarrow> pmpaddr r ! (i - 1) = pmpaddr r' ! (i - 1))"

lemma same_entry_effective: "PMP_grain r = PMP_grain r' \<Longrightarrow> same_entry i r r' \<Longrightarrow> getEffectivePMPAddr r i = getEffectivePMPAddr r' i"
  by (simp add: same_entry_def getEffectivePMPAddr_def getPMPCFGElem_def)

lemma same_entry_active:
  "PMP_grain r = PMP_grain r' \<Longrightarrow> same_entry i r r' \<Longrightarrow>
    getPMPRegionActive r (getPMPCFGElem r i) i = getPMPRegionActive r' (getPMPCFGElem r' i) i"
  using same_entry_effective [of r r' i] by (simp add: same_entry_def getPMPRegionActive_def getPMPCFGElem_def)

lemma same_entry_bounds:
  "PMP_grain r = PMP_grain r' \<Longrightarrow> same_entry i r r' \<Longrightarrow> cfg_mode (getPMPCFGElem r i) \<noteq> PMPM_OFF \<Longrightarrow>
    getPMPEntryBounds r i = getPMPEntryBounds r' i"
  using same_entry_effective [of r r' i]
  by (auto simp: same_entry_def getPMPEntryBounds_def getPMPCFGElem_def Let_def split: pmpcfgMode.splits)

lemma same_entry_matches_grain: "PMP_grain r = PMP_grain r' \<Longrightarrow> same_entry i r r' \<Longrightarrow> pmp_matches r i x = pmp_matches r' i x"
proof -
  assume s: "PMP_grain r = PMP_grain r'" "same_entry i r r'"
  have "getPMPRegionActive r (getPMPCFGElem r i) i \<Longrightarrow> cfg_mode (getPMPCFGElem r i) \<noteq> PMPM_OFF"
    by (simp add: getPMPRegionActive_def split: if_splits)
  then show ?thesis using same_entry_active [OF s] same_entry_bounds [OF s] by (auto simp: pmp_matches_def)
qed

lemma same_entry_matches: "same_config r r' \<Longrightarrow> same_entry i r r' \<Longrightarrow> pmp_matches r i x = pmp_matches r' i x"
  by (rule same_entry_matches_grain) (simp_all add: same_config_def)

lemma same_entry_priv: "same_config r r' \<Longrightarrow> same_entry i r r' \<Longrightarrow> pmp_entry_priv r mode i = pmp_entry_priv r' mode i"
  by (simp add: same_config_def same_entry_def pmp_entry_priv_def getPMPEntryPriv_def getPMPCFGElem_def)

lemma find_cong_upt: "(\<And>i. i < n \<Longrightarrow> P i = Q i) \<Longrightarrow> find P [0..<n] = find Q [0..<n]"
  by (rule find_cong) auto

text \<open>The deciding entry and the privilege of an address that no changed entry matches are unchanged.\<close>

lemma unchanged_priv:
  assumes c: "same_config r r'" and "\<And>i. i < getNumPMPs r \<Longrightarrow> i \<notin> C \<Longrightarrow> same_entry i r r'"
    and "\<And>i. i \<in> C \<Longrightarrow> i < getNumPMPs r \<Longrightarrow> \<not> pmp_matches r i x \<and> \<not> pmp_matches r' i x"
  shows "pmp_first r' x = pmp_first r x" and "pmp_priv r' mode x = pmp_priv r mode x"
proof -
  have n: "getNumPMPs r' = getNumPMPs r" using c by (simp add: same_config_def getNumPMPs_def)
  show f: "pmp_first r' x = pmp_first r x"
    unfolding pmp_first_def n using assms same_entry_matches [OF c] by (intro find_cong_upt) blast
  show "pmp_priv r' mode x = pmp_priv r mode x"
  proof (cases "pmp_first r x")
    case None
    then show ?thesis using f c by (simp add: pmp_priv_def same_config_def getPMPUnmatchedMode_def)
  next
    case (Some i)
    then have "i < getNumPMPs r" "pmp_matches r i x" by (auto simp: pmp_first_def find_Some_iff)
    then have "same_entry i r r'" using assms by blast
    then show ?thesis using f Some same_entry_priv [OF c] by (simp add: pmp_priv_def)
  qed
qed

lemma same_config_domain: "same_config r r' \<Longrightarrow> getPMPDomainCorD r' mode c = getPMPDomainCorD r mode c"
  by (simp add: same_config_def getPMPDomainCorD_def)

section \<open>Coherence\<close>

definition pmp_coherent :: "riscvPMP \<Rightarrow> riscvMode \<Rightarrow> bool" where
  "pmp_coherent riscv mode \<longleftrightarrow>
    (\<forall>c x. priv_le (installed riscv (getPMPDomainCorD riscv mode c) x) (pmp_priv riscv mode x))"

lemma pmp_priv_mode: "mode \<noteq> RISCV_MODE_M \<Longrightarrow> pmp_priv riscv mode x = pmp_priv riscv RISCV_MODE_S x"
  by (simp add: pmp_priv_def pmp_entry_priv_def getPMPEntryPriv_def getPMPUnmatchedMode_def split: option.split)

lemma domain_mode:
  assumes m: "m \<in> {RISCV_MODE_S, RISCV_MODE_M}" and d: "fst (getPMPDomainCorD riscv m c) = fst (getPMPDomainCorD riscv mode c')"
  shows "pmp_priv riscv mode x = pmp_priv riscv m x"
proof (cases "mode = RISCV_MODE_M")
  case True
  then have "m = RISCV_MODE_M" using m d by (auto simp: getPMPDomainCorD_def)
  then show ?thesis using True by simp
next
  case False
  then have "m = RISCV_MODE_S" using m d by (cases mode) (auto simp: getPMPDomainCorD_def)
  then show ?thesis using pmp_priv_mode [OF False] by simp
qed

lemma mapPMP_coherent:
  assumes "pmp_wf riscv" "getNumPMPs riscv \<noteq> 0" "low \<le> high" "unat high - unat low \<le> 60"
    and run: "mapPMP riscv mode req low high = Some riscv'"
    and m: "m \<in> {RISCV_MODE_S, RISCV_MODE_M}" and coh: "pmp_coherent riscv m"
  shows "pmp_coherent riscv' m"
proof (cases "pmp_permits riscv mode req low high")
  case True
  then obtain ms where chain: "pmp_chain riscv mode low high ms" and
    r': "riscv' = riscv\<lparr>protections := lookup_calls riscv mode low high ms @ protections riscv\<rparr>"
    using mapPMP_cases [OF assms(1-4), of mode req] run by auto
  show ?thesis
    unfolding pmp_coherent_def
  proof (intro allI)
    fix c x
    show "priv_le (installed riscv' (getPMPDomainCorD riscv' m c) x) (pmp_priv riscv' m x)"
      using lookup_calls_bound [OF assms(1) chain, of "protections riscv" "getPMPDomainCorD riscv m c" x]
        coh [unfolded pmp_coherent_def] domain_mode [OF m, of riscv c mode False x] by (auto simp: r')
  qed
next
  case False
  then have "riscv' = riscv\<lparr>exceptionDetail_PMP := True\<rparr>" using mapPMP_cases [OF assms(1-4), of mode req] run by auto
  then have "same_config riscv riscv'" "\<And>i. same_entry i riscv riscv'" "protections riscv' = protections riscv"
    by (simp_all add: same_config_def same_entry_def)
  then show ?thesis
    using coh unchanged_priv(2) [of riscv riscv' "{}"] same_config_domain [of riscv riscv'] by (simp add: pmp_coherent_def)
qed


section \<open>Coherence under a change of entries\<close>

lemma pmp_priv_bound: "extPMPPriv riscv = [] \<Longrightarrow> priv_le (pmp_priv riscv mode x) MEM_PRIV_RWX"
proof -
  assume cb: "extPMPPriv riscv = []"
  have table: "priv_le (t ! unat (cfg_priv e)) MEM_PRIV_RWX"
    if "t \<in> {mapMML1ML0, mapMML1ML1, mapMML1SL0, mapMML1SL1}" for t e
  proof -
    have "cfg_priv e = take_bit 3 e" by (simp add: cfg_priv_def take_bit_eq_mask mask_eq_exp_minus_1)
    then have "unat (cfg_priv e) < 8" using take_bit_nat_less_exp [of 3 "unat e"] by (simp add: unsigned_take_bit_eq)
    then have "unat (cfg_priv e) \<in> {0, 1, 2, 3, 4, 5, 6, 7}" by auto
    then show ?thesis using that by (auto simp: mapMML1ML0_def mapMML1ML1_def mapMML1SL0_def mapMML1SL1_def)
  qed
  have "cfg_priv e AND 7 = cfg_priv e" for e by (simp add: cfg_priv_def)
  then have "priv_le (getPMPEntryPriv riscv mode e) MEM_PRIV_RWX" for e
    using table by (simp add: getPMPEntryPriv_def Let_def and.assoc [symmetric] and.commute and.left_commute)
  moreover have "priv_le (unmatchedPriv u) MEM_PRIV_RWX" for u by (cases u) simp_all
  ultimately show ?thesis by (simp add: pmp_priv_def pmp_entry_priv_def cb split: option.split)
qed

lemma coherent_update:
  assumes coh: "pmp_coherent r m" and c: "same_config r r'"
    and same: "\<And>i. i < getNumPMPs r \<Longrightarrow> i \<notin> C \<Longrightarrow> same_entry i r r'"
    and old: "\<And>d x. installed r' d x \<in> {MEM_PRIV_NONE, installed r d x}"
    and changed: "\<And>i cd x. i \<in> C \<Longrightarrow> i < getNumPMPs r \<Longrightarrow> pmp_matches r i x \<or> pmp_matches r' i x \<Longrightarrow>
      installed r' (getPMPDomainCorD r m cd) x = MEM_PRIV_NONE \<or> priv_le (installed r (getPMPDomainCorD r m cd) x) (pmp_priv r' m x)"
  shows "pmp_coherent r' m"
  unfolding pmp_coherent_def
proof (intro allI)
  fix cd x
  let ?d = "getPMPDomainCorD r m cd"
  have "priv_le (installed r ?d x) (pmp_priv r m x)" using coh by (simp add: pmp_coherent_def)
  then have "installed r' ?d x = MEM_PRIV_NONE \<or> priv_le (installed r ?d x) (pmp_priv r' m x)"
  proof (cases "\<exists>i\<in>C. i < getNumPMPs r \<and> (pmp_matches r i x \<or> pmp_matches r' i x)")
    case True
    then show ?thesis using changed by blast
  next
    case False
    then have "pmp_priv r' m x = pmp_priv r m x" using unchanged_priv(2) [OF c, of C x m] same by blast
    with \<open>priv_le (installed r ?d x) (pmp_priv r m x)\<close> show ?thesis by simp
  qed
  then show "priv_le (installed r' (getPMPDomainCorD r' m cd) x) (pmp_priv r' m x)"
    using old [of ?d x] same_config_domain [OF c] by auto
qed

text \<open>In Machine mode an address may keep its mapping if the entry that decided it, and all of
  lower priority, do not restrict Machine mode.\<close>

definition quiet_at :: "riscvPMP \<Rightarrow> nat \<Rightarrow> Uns64 \<Rightarrow> bool" where
  "quiet_at r k x \<longleftrightarrow> \<not> useLowerPriorityPMPEntryMMode r k \<and> extPMPPriv r = [] \<and>
    (pmp_matches r k x \<longrightarrow> \<not> usePMPEntryMMode r (getPMPCFGElem r k))"

lemma pmp_first_Some: "pmp_first r x = Some j \<longleftrightarrow> j < getNumPMPs r \<and> pmp_matches r j x \<and> (\<forall>i<j. \<not> pmp_matches r i x)"
  unfolding pmp_first_def find_Some_iff by (auto simp: less_trans)

lemma quiet_priv:
  assumes q: "quiet_at r k x" and w: "\<not> MMWP r" and M: "\<not> MML r" and first: "\<And>j. pmp_first r x = Some j \<Longrightarrow> k \<le> j"
  shows "pmp_priv r RISCV_MODE_M x = MEM_PRIV_RWX"
proof (cases "pmp_first r x")
  case None
  then show ?thesis using w M by (simp add: pmp_priv_def getPMPUnmatchedMode_def)
next
  case (Some j)
  then have j: "k \<le> j" "j < getNumPMPs r" "pmp_matches r j x" using first by (auto simp: pmp_first_Some)
  then have "cfg_mode (getPMPCFGElem r j) \<noteq> PMPM_OFF" by (auto simp: pmp_matches_def getPMPRegionActive_def)
  then have "\<not> usePMPEntryMMode r (getPMPCFGElem r j)"
    using q j by (cases "k = j") (auto simp: quiet_at_def useLowerPriorityPMPEntryMMode_def list_ex_iff Let_def)
  then show ?thesis
    using Some q M by (simp add: pmp_priv_def pmp_entry_priv_def quiet_at_def getPMPEntryPriv_def usePMPEntryMMode_def)
qed

lemma quiet_update:
  assumes coh: "priv_le p (pmp_priv r RISCV_MODE_M x)" and c: "same_config r r'"
    and same: "\<And>i. i < k \<Longrightarrow> i < getNumPMPs r \<Longrightarrow> pmp_matches r i x \<or> pmp_matches r' i x \<Longrightarrow> same_entry i r r'"
    and q: "quiet_at r' k x" and w: "\<not> MMWP r" and M: "\<not> MML r"
  shows "priv_le p (pmp_priv r' RISCV_MODE_M x)"
proof (cases "\<exists>j<k. pmp_first r' x = Some j")
  case True
  then obtain j where j: "j < k" "pmp_first r' x = Some j" by blast
  have n: "getNumPMPs r' = getNumPMPs r" using c by (simp add: same_config_def getNumPMPs_def)
  have eq: "pmp_matches r i x = pmp_matches r' i x" if "i \<le> j" for i
    using same [of i] same_entry_matches [OF c, of i x] that j by (auto simp: pmp_first_Some n)
  then have "pmp_first r x = Some j" using j by (auto simp: pmp_first_Some n)
  moreover have "same_entry j r r'" using same [of j] j by (auto simp: pmp_first_Some n)
  ultimately show ?thesis using coh j same_entry_priv [OF c] by (simp add: pmp_priv_def)
next
  case False
  have "priv_le p MEM_PRIV_RWX"
    using pmp_priv_bound [of r RISCV_MODE_M x] coh q c by (simp add: quiet_at_def same_config_def) (metis and.assoc)
  moreover have "pmp_priv r' RISCV_MODE_M x = MEM_PRIV_RWX"
    using quiet_priv [OF q] False w M c by (auto simp: same_config_def not_less)
  ultimately show ?thesis by simp
qed

section \<open>The register updates\<close>

text \<open>The states after an unlocked write to a configuration byte and to an address register.\<close>

abbreviation with_cfg :: "nat \<Rightarrow> Uns8 \<Rightarrow> riscvPMP \<Rightarrow> riscvPMP" where
  "with_cfg k v r \<equiv> r\<lparr>pmpcfg := (pmpcfg r)[k := v]\<rparr>"

abbreviation with_addr :: "nat \<Rightarrow> Uns64 \<Rightarrow> riscvPMP \<Rightarrow> riscvPMP" where
  "with_addr k v r \<equiv> r\<lparr>pmpaddr := (pmpaddr r)[k := v]\<rparr>"

definition set_cfg :: "nat \<Rightarrow> Uns8 \<Rightarrow> riscvPMP \<Rightarrow> riscvPMP" where
  "set_cfg k v r = (with_cfg k v r)\<lparr>protections := inval_calls (with_cfg k v r) k @ inval_calls r k @ protections r\<rparr>"

definition set_addr :: "nat \<Rightarrow> Uns64 \<Rightarrow> riscvPMP \<Rightarrow> riscvPMP" where
  "set_addr k v r = (with_addr k v r)\<lparr>protections := inval_calls_TOR (with_addr k v r) (k + 1) @ inval_calls (with_addr k v r) k @
    inval_calls_TOR r (k + 1) @ inval_calls r k @ protections r\<rparr>"

lemma protections_then:
  "r\<lparr>protections := ps, pmpaddr := a\<rparr> = r\<lparr>pmpaddr := a, protections := ps\<rparr>"
  "r\<lparr>protections := ps, pmpcfg := b\<rparr> = r\<lparr>pmpcfg := b, protections := ps\<rparr>"
  "r\<lparr>protections := ps, mseccfg := c\<rparr> = r\<lparr>mseccfg := c, protections := ps\<rparr>"
  by simp_all

lemma writePMPCFGEntry_cases:
  "writePMPCFGEntry src index i r =
    (let k = index * 4 + i; v = newPMPCFG r (romask_pmpcfg r ! k) (u8 src i) (pmpcfg r ! k)
     in if pmpcfg r ! k \<noteq> v \<and> \<not> pmpLocked r k then set_cfg k v r else r)"
  by (simp add: writePMPCFGEntry_def set_cfg_def Let_def invalidatePMPEntry_calls protections_then)

text \<open>The value that a write gives an address register that is not locked.\<close>

definition newPMPAddr :: "riscvPMP \<Rightarrow> nat \<Rightarrow> Uns64 \<Rightarrow> Uns64" where
  "newPMPAddr r k v =
    (let v = v AND drop_bit 2 (getAddressMask (extBits r));
         v = (if PMP_grain r \<noteq> 0 then v AND push_bit (PMP_grain r - 1) (- 1) else v)
     in (v AND NOT (getPMPAddrROMask r k)) OR (pmpaddr r ! k AND getPMPAddrROMask r k))"

lemma riscvVMWritePMPAddr_cases:
  "snd (riscvVMWritePMPAddr r k v) =
    (if validPMPAddr r k \<and> pmpaddr r ! k \<noteq> newPMPAddr r k v \<and> \<not> pmpLocked r k \<and> \<not> pmpLockedTOR r (k + 1)
     then set_addr k (newPMPAddr r k v) r else r)"
  by (simp add: riscvVMWritePMPAddr_def newPMPAddr_def set_addr_def Let_def invalidatePMPEntry_calls
    invalidatePMPEntryTOR_calls protections_then)

section \<open>The registers after an update\<close>

lemma same_config_with [simp]: "same_config r (with_cfg k v r)" "same_config r (with_addr k w r)"
  by (simp_all add: same_config_def)

lemma same_entry_with_cfg: "i \<noteq> k \<Longrightarrow> same_entry i r (with_cfg k v r)"
  by (simp add: same_entry_def)

lemma same_entry_with_addr: "i \<noteq> k \<Longrightarrow> i \<noteq> k + 1 \<or> cfg_mode (getPMPCFGElem r i) \<noteq> PMPM_TOR \<Longrightarrow> same_entry i r (with_addr k v r)"
  by (cases "i - 1 = k") (auto simp: same_entry_def getPMPCFGElem_def)

lemma same_protections [simp]:
  "same_config r (r'\<lparr>protections := ps\<rparr>) = same_config r r'" "same_entry i r (r'\<lparr>protections := ps\<rparr>) = same_entry i r r'"
  by (simp_all add: same_config_def same_entry_def)

lemma same_config_num: "same_config r r' \<Longrightarrow> getNumPMPs r' = getNumPMPs r"
  by (simp add: same_config_def getNumPMPs_def)

lemma quiet_protections [simp]: "quiet_at (r\<lparr>protections := ps\<rparr>) k x = quiet_at r k x"
  by (simp add: quiet_at_def)

section \<open>Coherence after an update\<close>

text \<open>A sequence of invalidations, most recent first, of entries as states specify them.\<close>

definition inval_all :: "(riscvPMP \<times> nat) list \<Rightarrow> protectCall list" where
  "inval_all invs = concat (map (\<lambda>(q, k). inval_calls q k) invs)"

lemma inval_all_bound: "installed_by (inval_all invs @ ps) d x \<in> {MEM_PRIV_NONE, installed_by ps d x}"
proof (induction invs)
  case (Cons p invs)
  then show ?case
    using inval_calls_bound [of "fst p" "snd p" "inval_all invs @ ps" d x] by (auto simp: inval_all_def split_beta)
qed (simp add: inval_all_def)

lemma inval_all_clears:
  assumes "(q, k) \<in> set invs" and "pmp_matches q k x" and "m = RISCV_MODE_S \<or> m = RISCV_MODE_M \<and> \<not> mquiet q k"
  shows "installed_by (inval_all invs @ ps) (getPMPDomainCorD q m cd) x = MEM_PRIV_NONE"
  using assms(1)
proof (induction invs)
  case (Cons p invs)
  let ?d = "getPMPDomainCorD q m cd"
  show ?case
  proof (cases "p = (q, k)")
    case True
    then show ?thesis using assms(2,3) inval_calls_S [of q k x] inval_calls_M [of q k x] by (auto simp: inval_all_def)
  next
    case False
    then have "installed_by (inval_all invs @ ps) ?d x = MEM_PRIV_NONE" using Cons by simp
    then show ?thesis
      using inval_calls_bound [of "fst p" "snd p" "inval_all invs @ ps" ?d x] by (auto simp: inval_all_def split_beta)
  qed
qed simp

lemma inval_coherent:
  assumes coh: "pmp_coherent r m" and m: "m = RISCV_MODE_S \<or> m = RISCV_MODE_M \<and> (MMWP r \<longrightarrow> MML r)"
    and c: "same_config r r1" and same: "\<And>i. i < getNumPMPs r \<Longrightarrow> i \<notin> C \<Longrightarrow> same_entry i r r1"
    and invs: "\<And>i. i \<in> C \<Longrightarrow> i < getNumPMPs r \<Longrightarrow> (r, i) \<in> set invs \<and> (r1, i) \<in> set invs"
    and low: "\<And>i. i \<in> C \<Longrightarrow> useLowerPriorityPMPEntryMMode r1 i = useLowerPriorityPMPEntryMMode r i"
  shows "pmp_coherent (r1\<lparr>protections := inval_all invs @ protections r\<rparr>) m" (is "pmp_coherent ?r' m")
proof (rule coherent_update [OF coh, where C = C])
  fix i cd x
  let ?d = "getPMPDomainCorD r m cd"
  let ?hit = "\<lambda>i. i \<in> C \<and> i < getNumPMPs r \<and> (pmp_matches r i x \<or> pmp_matches r1 i x)"
  assume "i \<in> C" "i < getNumPMPs r" "pmp_matches r i x \<or> pmp_matches ?r' i x"
  then have "?hit i" by simp
  define k where "k = (LEAST i. ?hit i)"
  have k: "?hit k" unfolding k_def by (rule LeastI [of ?hit, OF \<open>?hit i\<close>])
  have least: "\<not> ?hit j" if "j < k" for j using not_less_Least that unfolding k_def by blast
  have d: "getPMPDomainCorD r1 m cd = ?d" using same_config_domain [OF c] .
  show "installed ?r' ?d x = MEM_PRIV_NONE \<or> priv_le (installed r ?d x) (pmp_priv ?r' m x)"
  proof (cases "m = RISCV_MODE_S \<or> pmp_matches r k x \<and> \<not> mquiet r k \<or> pmp_matches r1 k x \<and> \<not> mquiet r1 k")
    case True
    then show ?thesis
      using m k invs [of k] d inval_all_clears [of r k invs x m "protections r" cd] inval_all_clears [of r1 k invs x m "protections r" cd]
      by auto
  next
    case False
    then have M: "m = RISCV_MODE_M" and q: "pmp_matches r k x \<longrightarrow> mquiet r k" "pmp_matches r1 k x \<longrightarrow> mquiet r1 k"
      using m by auto
    have "quiet_at r1 k x" "\<not> MML r"
      using q k low [of k] c by (auto simp: quiet_at_def mquiet_def hasPMPPrivCB_def same_config_def usePMPEntryMMode_def)
    moreover have "same_entry j r r1" if "j < k" "j < getNumPMPs r" "pmp_matches r j x \<or> pmp_matches r1 j x" for j
      using least [OF that(1)] same [of j] that(2,3) by blast
    ultimately have "priv_le (installed r ?d x) (pmp_priv r1 RISCV_MODE_M x)"
      using quiet_update [OF _ c, of "installed r ?d x" x k] coh m M by (simp add: pmp_coherent_def)
    then show ?thesis by (simp add: M)
  qed
qed (use c same inval_all_bound in auto)

lemma with_cfg_lower: "useLowerPriorityPMPEntryMMode (with_cfg k v r) k = useLowerPriorityPMPEntryMMode r k"
  by (auto simp: useLowerPriorityPMPEntryMMode_def list_ex_iff getPMPCFGElem_def getNumPMPs_def usePMPEntryMMode_def Let_def)

lemma with_addr_lower: "useLowerPriorityPMPEntryMMode (with_addr k v r) i = useLowerPriorityPMPEntryMMode r i"
  by (simp add: useLowerPriorityPMPEntryMMode_def getPMPCFGElem_def getNumPMPs_def usePMPEntryMMode_def)

abbreviation covered_mode :: "riscvPMP \<Rightarrow> riscvMode \<Rightarrow> bool" where
  "covered_mode r m \<equiv> m = RISCV_MODE_S \<or> m = RISCV_MODE_M \<and> (MMWP r \<longrightarrow> MML r)"

lemma set_cfg_coherent:
  assumes "pmp_coherent r m" "covered_mode r m"
  shows "pmp_coherent (set_cfg k v r) m"
proof -
  have "pmp_coherent ((with_cfg k v r)\<lparr>protections := inval_all [(with_cfg k v r, k), (r, k)] @ protections r\<rparr>) m"
    by (rule inval_coherent [OF assms, where C = "{k}"]) (auto simp: same_entry_with_cfg with_cfg_lower)
  then show ?thesis by (simp add: set_cfg_def inval_all_def)
qed

lemma set_addr_coherent:
  assumes "pmp_coherent r m" "covered_mode r m"
  shows "pmp_coherent (set_addr k v r) m"
proof -
  let ?r = "with_addr k v r"
  define t where "t \<longleftrightarrow> k + 1 \<noteq> getNumPMPs r \<and> cfg_mode (getPMPCFGElem r (k + 1)) = PMPM_TOR"
  let ?invs = "(if t then [(?r, k + 1)] else []) @ (?r, k) # (if t then [(r, k + 1)] else []) @ [(r, k)]"
  have "pmp_coherent (?r\<lparr>protections := inval_all ?invs @ protections r\<rparr>) m"
  proof (rule inval_coherent [OF assms, where C = "{k} \<union> (if t then {k + 1} else {})"])
    fix i assume "i < getNumPMPs r" "i \<notin> {k} \<union> (if t then {k + 1} else {})"
    then show "same_entry i r ?r" by (intro same_entry_with_addr) (auto simp: t_def split: if_splits)
  qed (auto simp: with_addr_lower split: if_splits)
  moreover have "inval_calls_TOR ?r (k + 1) = (if t then inval_calls ?r (k + 1) else [])"
    "inval_calls_TOR r (k + 1) = (if t then inval_calls r (k + 1) else [])"
    by (simp_all add: t_def inval_calls_TOR_def getNumPMPs_def getPMPCFGElem_def)
  ultimately show ?thesis unfolding set_addr_def inval_all_def by (cases t) simp_all
qed

end
