(* ===== verification/RV_PMP_Steps.thy ===== *)
theory RV_PMP_Steps
  imports RV_PMP_Coherent
begin

text \<open>
  The PMP registers as a state machine. The steps are the register writes, the lookups and the
  unmapping of regions; the invariants are that installed mappings never grant more than the
  registers, that locked entries never change, and that only legal configurations are stored.
\<close>

section \<open>Steps\<close>

text \<open>The operations on PMP between two resets: writes to the registers, lookups of accesses of at most
  61 bytes and the unmapping of a region by an extension. A reset unlocks the entries and stores the
  configured values; the steps with resets are \<open>pmp_life_step\<close> in \<^verbatim>\<open>RV_PMP_Registers\<close>.\<close>

inductive pmp_step :: "riscvPMP \<Rightarrow> riscvPMP \<Rightarrow> bool" where
  write_cfg: "pmp_step r (snd (riscvVMWritePMPCFG r index v))"
| write_addr: "pmp_step r (snd (riscvVMWritePMPAddr r index v))"
| write_mseccfg: "pmp_step r (snd (mseccfgW r v))"
| lookup: "low \<le> high \<Longrightarrow> unat high - unat low \<le> 60 \<Longrightarrow> mapPMP r mode req low high = Some r' \<Longrightarrow> pmp_step r r'"
| unmap: "pmp_step r (riscvVMUnmapPMPRegion r i)"

text \<open>Every step is a sequence of these changes: a byte of the configuration, an address register, the mode
  bits, or state that the specification does not read.\<close>

lemma fold_writes_inv:
  assumes "\<And>i r. i \<in> set is \<Longrightarrow> P r \<Longrightarrow> P (writePMPCFGEntry src index i r)"
  shows "P r \<Longrightarrow> P (fold (writePMPCFGEntry src index) is r)"
  using assms by (induction "is" arbitrary: r) auto

lemma riscvVMWritePMPCFG_inv:
  assumes "P r" and "\<And>r. P r \<Longrightarrow> P (r\<lparr>warnNoPMPUS := False\<rparr>)"
    and "\<And>i r src mask. i < 8 \<Longrightarrow> P r \<Longrightarrow> P (writePMPCFGEntry (src AND WM64_pmpcfg AND mask) index i r)"
  shows "P (snd (riscvVMWritePMPCFG r index v))"
proof -
  have "P (fold (writePMPCFGEntry (v AND WM64_pmpcfg AND mask) index) (rev [0..<entriesPerCFG q]) r)" if "P r" for q r mask
    by (rule fold_writes_inv [OF assms(3) that]) (auto simp: entriesPerCFG_def split: if_splits)
  then show ?thesis using assms(1,2) by (simp add: riscvVMWritePMPCFG_def Let_def)
qed

lemma set_cfg_config_trans: "same_config r q \<Longrightarrow> same_config r (set_cfg k v q)"
  by (simp add: set_cfg_def same_config_def)

lemma coherent_same:
  assumes "pmp_coherent r m" "same_config r r'" "\<And>i. same_entry i r r'" "\<And>d x. installed r' d x \<in> {MEM_PRIV_NONE, installed r d x}"
  shows "pmp_coherent r' m"
  using coherent_update [of r m r' "{}"] assms by blast

lemma warn_coherent: "pmp_coherent r m \<Longrightarrow> pmp_coherent (r\<lparr>warnNoPMPUS := b\<rparr>) m"
  by (erule coherent_same) (auto simp: same_config_def same_entry_def)

lemma unmapAll_calls:
  "riscvVMUnmapAllPMP r = r\<lparr>protections := set_calls r RISCV_MODE_S 0 (- 1) MEM_PRIV_NONE PMPU_SET_PRIV @
     set_calls r RISCV_MODE_M 0 (- 1) MEM_PRIV_NONE PMPU_SET_PRIV @ protections r\<rparr>"
  by (simp add: riscvVMUnmapAllPMP_def setPMPPriv_calls)

lemma unmapAll_installed:
  assumes "m \<in> {RISCV_MODE_S, RISCV_MODE_M}"
  shows "installed (riscvVMUnmapAllPMP r) (getPMPDomainCorD r m c) x = MEM_PRIV_NONE"
  using assms set_calls_clear [of PMPU_SET_PRIV 0 x "- 1" r m _ c]
    set_calls_other_mode [of "getPMPDomainCorD r m c" r RISCV_MODE_S]
  by (auto simp: unmapAll_calls domain_base)

lemma mseccfgW_coherent:
  assumes "pmp_coherent r m" "m \<in> {RISCV_MODE_S, RISCV_MODE_M}"
  shows "pmp_coherent (snd (mseccfgW r v)) m"
proof -
  have "\<exists>w. snd (mseccfgW r v) = (if mseccfg r AND 3 \<noteq> w AND 3 then riscvVMUnmapAllPMP r else r)\<lparr>mseccfg := w\<rparr>"
    unfolding mseccfgW_def Let_def snd_conv by (rule exI, rule refl)
  then obtain w where w: "snd (mseccfgW r v) = (if mseccfg r AND 3 \<noteq> w AND 3 then riscvVMUnmapAllPMP r else r)\<lparr>mseccfg := w\<rparr>" ..
  show ?thesis
  proof (cases "mseccfg r AND 3 = w AND 3")
    case True
    have "bit (x AND 3) i \<longleftrightarrow> bit x i" if "i < 2" for x :: Uns64 and i
      using that by (auto simp: bit_and_iff less_Suc_eq numeral_2_eq_2) 
    then have "bit (mseccfg r) 0 = bit w 0" "bit (mseccfg r) 1 = bit w 1" using True
      by (metis zero_less_numeral, metis one_less_numeral_iff semiring_norm(76))
    then have "same_config r (r\<lparr>mseccfg := w\<rparr>)" by (simp add: same_config_def)
    then show ?thesis using coherent_same [OF assms(1)] w True by (simp add: same_entry_def)
  next
    case False
    have "getPMPDomainCorD (q\<lparr>mseccfg := w\<rparr>) = getPMPDomainCorD q" for q by (simp add: getPMPDomainCorD_def fun_eq_iff)
    then show ?thesis
      using unmapAll_installed [OF assms(2), of r] False w by (simp add: pmp_coherent_def) (simp add: unmapAll_calls)
  qed
qed

lemma step_coherent:
  assumes "pmp_step r r'" "pmp_wf r" "pmp_coherent r m" "covered_mode r m"
  shows "pmp_coherent r' m"
  using assms
proof cases
  case (write_cfg index v)
  define P where "P = (\<lambda>q. same_config r q \<and> pmp_coherent q m)"
  have "covered_mode q m" if "same_config r q" for q using that assms(4) by (auto simp: same_config_def)
  then have w: "P (writePMPCFGEntry src index i q)" if "P q" for i q src
    using that set_cfg_coherent [of q m] 
    by (simp add: P_def writePMPCFGEntry_cases Let_def set_cfg_config_trans)
  have n: "P (q\<lparr>warnNoPMPUS := False\<rparr>)" if "P q" for q using that warn_coherent by (auto simp: P_def same_config_def)
  have "P r" using assms(3) by (simp add: P_def same_config_def)
  from riscvVMWritePMPCFG_inv [of P, OF this n w] have "P r'" unfolding write_cfg .
  then show ?thesis by (simp add: P_def)
next
  case (write_addr index v)
  then show ?thesis using set_addr_coherent [OF assms(3,4)] assms(3) by (simp add: riscvVMWritePMPAddr_cases)
next
  case (write_mseccfg v)
  then show ?thesis using mseccfgW_coherent [OF assms(3)] assms(4) by auto
next
  case (lookup low high mode req)
  show ?thesis
  proof (cases "getNumPMPs r = 0")
    case True
    then show ?thesis using lookup(3) assms(3) by (simp add: mapPMP_def)
  next
    case False
    show ?thesis by (rule mapPMP_coherent [OF assms(2) False lookup]) (use assms in auto)
  qed
next
  case (unmap i)
  then show ?thesis
    using coherent_same [OF assms(3), of r'] inval_calls_bound [of r i]
    by (simp add: riscvVMUnmapPMPRegion_def invalidatePMPEntry_calls) (auto simp: same_config_def same_entry_def)
qed


section \<open>Locked entries\<close>

lemma installPMPMaps_only: "\<exists>ps. installPMPMaps mode low high maps r = r\<lparr>protections := ps\<rparr>"
proof -
  have one: "\<exists>ps. installPMPMap mode low high n p r = r\<lparr>protections := ps\<rparr>" for n p r
    by (simp add: installPMPMap_def setPMPPriv_calls Let_def split: prod.split) blast
  have "\<exists>ps. fold (installPMPMap mode low high n) xs r = r\<lparr>protections := ps\<rparr>" for n xs
  proof (induction xs arbitrary: r)
    case Nil
    show ?case by (auto intro: exI [of _ "protections r"])
  next
    case (Cons p xs)
    obtain ps where "installPMPMap mode low high n p r = r\<lparr>protections := ps\<rparr>" using one by blast
    moreover obtain qs where "fold (installPMPMap mode low high n) xs (r\<lparr>protections := ps\<rparr>) = r\<lparr>protections := ps\<rparr>\<lparr>protections := qs\<rparr>"
      using Cons by blast
    ultimately show ?case by auto
  qed
  from this [of "length maps" "enumerate 0 maps"] show ?thesis
    by (auto simp: installPMPMaps_def setPMPPrivB_def setPMPPriv_calls Let_def)
qed

lemma mapPMP_only:
  assumes "mapPMP r mode req low high = Some r'"
  shows "\<exists>ps b. r' = r\<lparr>protections := ps, exceptionDetail_PMP := b\<rparr>"
proof -
  have "\<exists>ps b. r = r\<lparr>protections := ps, exceptionDetail_PMP := b\<rparr>"
    by (rule exI [of _ "protections r"], rule exI [of _ "exceptionDetail_PMP r"]) simp
  moreover have "\<exists>ps b. r\<lparr>exceptionDetail_PMP := True\<rparr> = r\<lparr>protections := ps, exceptionDetail_PMP := b\<rparr>"
    by (rule exI [of _ "protections r"], rule exI [of _ True]) simp
  moreover have "\<exists>ps b. installPMPMaps mode low high maps r = r\<lparr>protections := ps, exceptionDetail_PMP := b\<rparr>" for maps
  proof -
    obtain ps where "installPMPMaps mode low high maps r = r\<lparr>protections := ps\<rparr>" using installPMPMaps_only by blast
    then show ?thesis by (intro exI [of _ ps] exI [of _ "exceptionDetail_PMP r"]) simp
  qed
  moreover have "r' = r \<or> r' = r\<lparr>exceptionDetail_PMP := True\<rparr> \<or> (\<exists>maps. r' = installPMPMaps mode low high maps r)"
    using assms by (auto simp: mapPMP_def Let_def split: if_splits option.splits prod.splits)
  ultimately show ?thesis by metis
qed

text \<open>What no operation changes.\<close>

abbreviation pmp_constants :: "riscvPMP \<Rightarrow> nat \<times> nat \<times> nat \<times> bool \<times> bool" where
  "pmp_constants r \<equiv> (PMP_registers r, PMP_grain r, extBits r, Smepmp_version r, artifactAccess r)"

text \<open>The invariant of a locked entry, relative to the state \<open>r\<close> in which it was found locked.\<close>

definition stays_locked :: "nat \<Rightarrow> riscvPMP \<Rightarrow> riscvPMP \<Rightarrow> bool" where
  "stays_locked i r q \<longleftrightarrow> pmp_constants q = pmp_constants r \<and> \<not> artifactAccess r \<and> \<not> RLB q \<and>
    same_entry i r q \<and> cfg_L (pmpcfg r ! i) \<and> i < PMP_registers r"

lemma stays_locked_pmpLocked: "stays_locked i r q \<Longrightarrow> pmpLocked q i"
  by (auto simp: stays_locked_def pmpLocked_def same_entry_def getPMPCFGElem_def)

lemma same_entry_other [simp]:
  "same_entry i r (s\<lparr>warnNoPMPUS := b\<rparr>) = same_entry i r s"
  "same_entry i r (s\<lparr>exceptionDetail_PMP := b\<rparr>) = same_entry i r s"
  "same_entry i r (s\<lparr>mseccfg := v\<rparr>) = same_entry i r s"
  by (simp_all add: same_entry_def)

lemma same_entry_trans: "same_entry i r q \<Longrightarrow> same_entry i q s \<Longrightarrow> same_entry i r s"
  by (auto simp: same_entry_def)

lemma set_cfg_locked:
  assumes "stays_locked i r q" "\<not> pmpLocked q k"
  shows "stays_locked i r (set_cfg k v q)"
proof -
  have "i \<noteq> k" using stays_locked_pmpLocked [OF assms(1)] assms(2) by blast
  then have "same_entry i r (with_cfg k v q)"
    using same_entry_trans [of i r q, OF _ same_entry_with_cfg] assms(1) by (simp add: stays_locked_def)
  then show ?thesis using assms(1) by (simp add: stays_locked_def set_cfg_def)
qed

lemma set_addr_locked:
  assumes "stays_locked i r q" "\<not> pmpLocked q k" "\<not> pmpLockedTOR q (k + 1)"
  shows "stays_locked i r (set_addr k v q)"
proof -
  note locked = stays_locked_pmpLocked [OF assms(1)]
  then have "i \<noteq> k \<and> (i \<noteq> k + 1 \<or> cfg_mode (getPMPCFGElem q i) \<noteq> PMPM_TOR)"
    using assms by (auto simp: pmpLockedTOR_def getNumPMPs_def stays_locked_def Let_def)
  then have "same_entry i r (with_addr k v q)"
    using same_entry_trans [of i r q, OF _ same_entry_with_addr] assms(1) by (simp add: stays_locked_def)
  then show ?thesis using assms(1) by (simp add: stays_locked_def set_addr_def)
qed

lemma RLB_stays_clear:
  assumes "\<not> artifactAccess q" "\<not> RLB q" "riscvVMAnyPMPLocked q"
  shows "\<not> RLB (snd (mseccfgW q v))"
proof -
  have "\<exists>w Z. snd (mseccfgW q v) =
    Z\<lparr>mseccfg := (v AND (if v AND w AND 4 \<noteq> 0 then w AND NOT 4 else w)) OR
      (mseccfg q AND NOT (if v AND w AND 4 \<noteq> 0 then w AND NOT 4 else w))\<rparr>"
    unfolding mseccfgW_def Let_def snd_conv by (simp only: assms simp_thms if_True) (rule exI, rule exI, rule refl)
  then obtain w where w: "mseccfg (snd (mseccfgW q v)) =
    (v AND (if v AND w AND 4 \<noteq> 0 then w AND NOT 4 else w)) OR (mseccfg q AND NOT (if v AND w AND 4 \<noteq> 0 then w AND NOT 4 else w))"
    by auto
  have "v AND w AND 4 = 0 \<longleftrightarrow> \<not> bit (v AND w) 2"
    using and_exp_eq_0_iff_not_bit [of "v AND w" 2] by (simp add: and.assoc)
  then show ?thesis unfolding w using assms(2) by (simp add: bit_simps)
qed

lemma step_locked:
  assumes "pmp_step q q'" "stays_locked i r q"
  shows "stays_locked i r q'"
  using assms(1)
proof cases
  case (write_cfg index v)
  have "stays_locked i r (writePMPCFGEntry src index j s)" if "stays_locked i r s" for src j s
    using that set_cfg_locked [OF that] by (simp add: writePMPCFGEntry_cases Let_def)
  moreover have "stays_locked i r (s\<lparr>warnNoPMPUS := False\<rparr>)" if "stays_locked i r s" for s
    using that by (simp add: stays_locked_def)
  ultimately show ?thesis unfolding write_cfg by (intro riscvVMWritePMPCFG_inv [of "stays_locked i r"] assms(2)) blast+
next
  case (write_addr index v)
  then show ?thesis using set_addr_locked [OF assms(2)] assms(2) by (simp add: riscvVMWritePMPAddr_cases)
next
  case (write_mseccfg v)
  have "riscvVMAnyPMPLocked q"
    using stays_locked_pmpLocked [OF assms(2)] assms(2) by (auto simp: riscvVMAnyPMPLocked_def list_ex_iff stays_locked_def getNumPMPs_def)
  then have "\<not> RLB q'" using RLB_stays_clear assms(2) unfolding write_mseccfg by (simp add: stays_locked_def)
  then show ?thesis
    using assms(2) unfolding write_mseccfg by (auto simp: mseccfgW_def Let_def stays_locked_def unmapAll_calls)
next
  case (lookup low high mode req)
  then obtain ps b where "q' = q\<lparr>protections := ps, exceptionDetail_PMP := b\<rparr>" using mapPMP_only by blast
  then show ?thesis using assms(2) by (simp add: stays_locked_def)
next
  case (unmap j)
  then show ?thesis using assms(2) by (simp add: riscvVMUnmapPMPRegion_def invalidatePMPEntry_calls stays_locked_def)
qed

section \<open>Legal configurations\<close>

text \<open>The reserved bits are clear, four-byte entries exist only without a grain, and without the
  enhanced rules no entry is writable but not readable.\<close>

definition cfg_legal :: "riscvPMP \<Rightarrow> pmpcfgElem \<Rightarrow> bool" where
  "cfg_legal r e \<longleftrightarrow> \<not> bit e 5 \<and> \<not> bit e 6 \<and> (PMP_grain r \<noteq> 0 \<longrightarrow> cfg_mode e \<noteq> PMPM_NA4) \<and>
    (\<not> Smepmp_version r \<longrightarrow> bit e 1 \<longrightarrow> bit e 0)"

definition pmp_legal :: "riscvPMP \<Rightarrow> bool" where
  "pmp_legal r \<longleftrightarrow> list_all (cfg_legal r) (pmpcfg r)"

lemma cfg_priv_R: "cfg_priv e AND MEM_PRIV_R = 0 \<longleftrightarrow> \<not> bit e 0"
proof -
  have "cfg_priv e AND MEM_PRIV_R = e AND 1" by (simp add: cfg_priv_def and.assoc)
  then show ?thesis using and_exp_eq_0_iff_not_bit [of e 0] by simp
qed

lemma mode_bits: "bit (0x18 :: Uns8) n \<longleftrightarrow> n = 3 \<or> n = 4"
proof -
  have "(0x18 :: Uns8) = push_bit 3 1 OR push_bit 4 1" by simp
  then show ?thesis by (simp only: bit_or_iff bit_push_bit_iff bit_1_iff) auto
qed

lemma low_bits: "bit (1 :: Uns8) n \<longleftrightarrow> n = 0" "bit (2 :: Uns8) n \<longleftrightarrow> n = 1"
  using bit_exp_iff [of 1 n, where 'a = Uns8] by (auto simp: bit_1_iff)

lemma cfg_mode_NA4: "cfg_mode e = PMPM_NA4 \<longleftrightarrow> bit e 4 \<and> \<not> bit e 3"
  by (simp add: cfg_mode_def)

lemma newPMPCFG_legal:
  assumes "\<not> bit src 5" "\<not> bit src 6" "cfg_legal r dst"
  shows "cfg_legal r (newPMPCFG r romask src dst)"
proof -
  let ?ok = "\<lambda>e. \<not> bit e 5 \<and> \<not> bit e 6"
  define s1 where "s1 = (src AND NOT romask) OR (dst AND romask)"
  have "?ok s1" using assms by (simp add: s1_def cfg_legal_def bit_simps)
  moreover obtain s2 res where p: "(if \<not> Smepmp_version r then (s1, True) else if artifactAccess r then (s1, False)
      else if \<not> MML r then (s1, True)
      else if cfg_L s1 \<and> \<not> RLB r
      then (if mapMML1ML1 ! unat (cfg_priv s1) AND MEM_PRIV_X \<noteq> 0 then (dst, False) else (s1, False))
      else (s1, False)) = (s2, res)" by (rule prod.exhaust)
  ultimately have s2: "?ok s2" "\<not> Smepmp_version r \<longrightarrow> res"
    using assms(3) by (auto simp: cfg_legal_def split: if_splits)
  have eq: "newPMPCFG r romask src dst =
      (let s3 = (if res \<and> cfg_priv s2 AND MEM_PRIV_R = 0 then s2 AND NOT MEM_PRIV_W else s2)
       in if PMP_grain r \<noteq> 0 \<and> cfg_mode s3 = PMPM_NA4 then (s3 AND NOT 0x18) OR (dst AND 0x18) else s3)"
    unfolding newPMPCFG_def Let_def s1_def [symmetric] p prod.case ..
  define s3 where "s3 = (if res \<and> cfg_priv s2 AND MEM_PRIV_R = 0 then s2 AND NOT MEM_PRIV_W else s2)"
  have s3: "?ok s3" "\<not> Smepmp_version r \<longrightarrow> bit s3 1 \<longrightarrow> bit s3 0"
    using s2 by (auto simp: s3_def cfg_priv_R bit_simps low_bits)
  show ?thesis
    unfolding eq Let_def s3_def [symmetric] cfg_legal_def cfg_mode_NA4
    using s3 assms(3) by (auto simp: cfg_legal_def cfg_mode_NA4 bit_simps mode_bits)
qed

lemma src_reserved: "i < 8 \<Longrightarrow> \<not> bit (u8 (v AND WM64_pmpcfg AND m) i) 5 \<and> \<not> bit (u8 (v AND WM64_pmpcfg AND m) i) 6"
proof -
  assume "i < 8"
  then have "i \<in> {0, 1, 2, 3, 4, 5, 6, 7}" by auto
  then show ?thesis by (auto simp: bit_elem bit_and_iff WM64_pmpcfg_def)
qed

lemma set_cfg_legal: "pmp_legal r \<Longrightarrow> cfg_legal r v \<Longrightarrow> pmp_legal (set_cfg k v r)"
  by (auto simp: pmp_legal_def set_cfg_def cfg_legal_def list_all_iff dest: set_update_subset_insert [THEN subsetD])

lemma writePMPCFGEntry_legal:
  assumes "pmp_legal r" "i < 8"
  shows "pmp_legal (writePMPCFGEntry (v AND WM64_pmpcfg AND m) index i r)"
proof (cases "index * 4 + i < length (pmpcfg r)")
  case True
  then have "cfg_legal r (pmpcfg r ! (index * 4 + i))" using assms(1) by (simp add: pmp_legal_def list_all_length)
  then show ?thesis
    using assms set_cfg_legal [OF assms(1) newPMPCFG_legal] src_reserved [OF assms(2)] by (simp add: writePMPCFGEntry_cases Let_def)
next
  case False
  then have "pmp_legal (set_cfg (index * 4 + i) e r)" for e
    using assms(1) by (simp add: pmp_legal_def set_cfg_def cfg_legal_def list_all_iff list_update_beyond)
  then show ?thesis using assms(1) by (simp add: writePMPCFGEntry_cases Let_def)
qed

lemma pmp_legal_other [simp]:
  "pmp_legal (r\<lparr>warnNoPMPUS := b\<rparr>) = pmp_legal r" "pmp_legal (r\<lparr>protections := ps\<rparr>) = pmp_legal r"
  "pmp_legal (r\<lparr>exceptionDetail_PMP := b\<rparr>) = pmp_legal r" "pmp_legal (r\<lparr>mseccfg := v\<rparr>) = pmp_legal r"
  "pmp_legal (r\<lparr>pmpaddr := as\<rparr>) = pmp_legal r"
  by (simp_all add: pmp_legal_def cfg_legal_def list_all_iff)

lemma step_legal:
  assumes "pmp_step r r'" "pmp_legal r"
  shows "pmp_legal r'"
  using assms(1)
proof cases
  case (write_cfg index v)
  then show ?thesis using assms(2) writePMPCFGEntry_legal by (auto intro: riscvVMWritePMPCFG_inv [of pmp_legal])
next
  case (write_addr index v)
  then show ?thesis using assms(2) by (simp add: riscvVMWritePMPAddr_cases set_addr_def)
next
  case (write_mseccfg v)
  then show ?thesis using assms(2) by (auto simp: mseccfgW_def Let_def unmapAll_calls)
next
  case (lookup low high mode req)
  then obtain ps b where "r' = r\<lparr>protections := ps, exceptionDetail_PMP := b\<rparr>" using mapPMP_only by blast
  then show ?thesis using assms(2) by simp
next
  case (unmap j)
  then show ?thesis using assms(2) by (simp add: riscvVMUnmapPMPRegion_def invalidatePMPEntry_calls)
qed

end
