(* ===== verification/RV_PMP_Registers.thy ===== *)
theory RV_PMP_Registers
  imports RV_PMP_Steps
begin

text \<open>
  The theorems on the PMP registers: what a write stores and returns, the invariants of every
  sequence of steps, and the sequence of steps after which Machine mode keeps a mapping that
  the registers do not grant.
\<close>

section \<open>Register contents after a write\<close>

lemma writePMPCFGEntry_fields:
  "newPMPCFG (writePMPCFGEntry src index i r) = newPMPCFG r" "romask_pmpcfg (writePMPCFGEntry src index i r) = romask_pmpcfg r"
  "PMP_registers (writePMPCFGEntry src index i r) = PMP_registers r" "xlen64M (writePMPCFGEntry src index i r) = xlen64M r"
  "length (pmpcfg (writePMPCFGEntry src index i r)) = length (pmpcfg r)"
  by (simp_all add: writePMPCFGEntry_cases set_cfg_def Let_def newPMPCFG_def fun_eq_iff)

lemma writePMPCFGEntry_other:
  "k \<noteq> index * 4 + i \<Longrightarrow> pmpcfg (writePMPCFGEntry src index i r) ! k = pmpcfg r ! k"
  "k \<noteq> index * 4 + i \<Longrightarrow> pmpLocked (writePMPCFGEntry src index i r) k = pmpLocked r k"
  by (simp_all add: writePMPCFGEntry_cases set_cfg_def Let_def pmpLocked_def getPMPCFGElem_def)

lemma writePMPCFGEntry_byte:
  "index * 4 + i < length (pmpcfg r) \<Longrightarrow>
    pmpcfg (writePMPCFGEntry src index i r) ! (index * 4 + i) =
      (if pmpLocked r (index * 4 + i) then pmpcfg r ! (index * 4 + i)
       else newPMPCFG r (romask_pmpcfg r ! (index * 4 + i)) (u8 src i) (pmpcfg r ! (index * 4 + i)))"
  by (simp add: writePMPCFGEntry_cases set_cfg_def Let_def)

lemma fold_writes_bytes:
  assumes "distinct is" "i \<in> set is" "index * 4 + i < length (pmpcfg r)"
  shows "pmpcfg (fold (writePMPCFGEntry src index) is r) ! (index * 4 + i) =
      (if pmpLocked r (index * 4 + i) then pmpcfg r ! (index * 4 + i)
       else newPMPCFG r (romask_pmpcfg r ! (index * 4 + i)) (u8 src i) (pmpcfg r ! (index * 4 + i)))"
  using assms
proof (induction "is" arbitrary: r)
  case (Cons j js)
  have skip: "pmpcfg (fold (writePMPCFGEntry src index) ks q) ! (index * 4 + i) = pmpcfg q ! (index * 4 + i)"
    if "i \<notin> set ks" for ks q
    using that by (induction ks arbitrary: q) (simp_all add: writePMPCFGEntry_other)
  show ?case
  proof (cases "i = j")
    case True
    then show ?thesis using Cons.prems skip [of js "writePMPCFGEntry src index j r"] writePMPCFGEntry_byte [of index j r] by simp
  next
    case False
    then show ?thesis using Cons by (simp add: writePMPCFGEntry_fields writePMPCFGEntry_other)
  qed
qed simp

lemma fold_writes_fields:
  "PMP_registers (fold (writePMPCFGEntry src index) is r) = PMP_registers r"
  "xlen64M (fold (writePMPCFGEntry src index) is r) = xlen64M r"
  by (induction "is" arbitrary: r) (simp_all add: writePMPCFGEntry_fields)

text \<open>The bytes that a write to a configuration register supplies: reserved bits and bytes beyond the
  implemented entries are zero.\<close>

definition cfgWriteBytes :: "riscvPMP \<Rightarrow> nat \<Rightarrow> Uns64 \<Rightarrow> Uns64" where
  "cfgWriteBytes r index v =
    (let numBytes = getNumPMPs r - getPMPCFGOffset r index * entriesPerCFG r
     in v AND WM64_pmpcfg AND (if numBytes \<ge> 8 then - 1 else push_bit (numBytes * 8) 1 - 1))"

section \<open>Invariants over steps\<close>

lemma step_wf: "pmp_step r r' \<Longrightarrow> pmp_wf r' = pmp_wf r"
proof (induction rule: pmp_step.induct)
  case (write_cfg r index v)
  have "extBits (snd (riscvVMWritePMPCFG r index v)) = extBits r"
    by (rule riscvVMWritePMPCFG_inv [of "\<lambda>q. extBits q = extBits r"]) (simp_all add: writePMPCFGEntry_cases set_cfg_def Let_def)
  then show ?case by (simp add: pmp_wf_def)
next
  case (lookup low high r mode req r')
  then show ?case using mapPMP_only [OF lookup(3)] by (auto simp: pmp_wf_def)
qed (simp_all add: pmp_wf_def riscvVMWritePMPAddr_cases set_addr_def mseccfgW_def unmapAll_calls Let_def
  riscvVMUnmapPMPRegion_def invalidatePMPEntry_calls)

lemma steps_coherent:
  assumes "(\<lambda>q q'. pmp_step q q' \<and> covered_mode q m)\<^sup>*\<^sup>* r r'" "pmp_wf r" "pmp_coherent r m"
  shows "pmp_wf r' \<and> pmp_coherent r' m"
  using assms
proof (induction rule: rtranclp_induct)
  case (step q q')
  then show ?case using step_coherent [of q q' m] step_wf [of q q'] by blast
qed simp

lemma new_coherent: "pmp_wf r \<Longrightarrow> protections r = [] \<Longrightarrow> pmp_wf (riscvVMNewPMP r) \<and> pmp_coherent (riscvVMNewPMP r) m"
  by (simp add: pmp_wf_def pmp_coherent_def riscvVMNewPMP_def Let_def)

section \<open>Theorems\<close>

text \<open>C5: Whatever sequence of register writes, lookups and unmappings follows the allocation of the
  PMP structures, no mapping installed for User or Supervisor mode, virtual or not, grants more
  than the PMP registers grant at that time.\<close>

theorem pmp_user_mappings_coherent:
  assumes "pmp_wf r" and "protections r = []" and "pmp_step\<^sup>*\<^sup>* (riscvVMNewPMP r) r'"
    and "mode \<in> {RISCV_MODE_U, RISCV_MODE_S, RISCV_MODE_VU, RISCV_MODE_VS}"
  shows "priv_le (installed r' (getPMPDomainCorD r' mode isCode) x) (pmp_priv r' mode x)"
proof -
  have "pmp_coherent r' RISCV_MODE_S"
    using steps_coherent [of RISCV_MODE_S "riscvVMNewPMP r" r'] assms(3) new_coherent [OF assms(1,2)] by simp
  moreover have "getPMPDomainCorD r' mode isCode = getPMPDomainCorD r' RISCV_MODE_S isCode"
    using assms(4) by (auto simp: getPMPDomainCorD_def)
  ultimately show ?thesis using pmp_priv_mode [of mode r' x] assms(4) by (auto simp: pmp_coherent_def)
qed

theorem pmp_user_mappings_coherent_witness:
  "priv_le (installed (snd (riscvVMWritePMPCFG (riscvVMNewPMP pmp_example) 0 0x1b)) (RISCV_MODE_S, False) 5)
    (pmp_priv (snd (riscvVMWritePMPCFG (riscvVMNewPMP pmp_example) 0 0x1b)) RISCV_MODE_U 5)"
  using pmp_user_mappings_coherent [OF pmp_example_wf(1) _ r_into_rtranclp [of pmp_step, OF write_cfg], of RISCV_MODE_U 0 "0x1b" False 5]
  by (simp add: pmp_example_def getPMPDomainCorD_def)

text \<open>C10: The same holds for Machine mode as long as no step is taken with mseccfg.MMWP set and
  mseccfg.MML clear.\<close>

theorem pmp_machine_mappings_coherent:
  assumes "pmp_wf r" and "protections r = []"
    and "(\<lambda>q q'. pmp_step q q' \<and> (MMWP q \<longrightarrow> MML q))\<^sup>*\<^sup>* (riscvVMNewPMP r) r'"
  shows "priv_le (installed r' (getPMPDomainCorD r' RISCV_MODE_M isCode) x) (pmp_priv r' RISCV_MODE_M x)"
  using steps_coherent [of RISCV_MODE_M "riscvVMNewPMP r" r'] assms(3) new_coherent [OF assms(1,2)] by (simp add: pmp_coherent_def)

theorem pmp_machine_mappings_coherent_witness:
  "priv_le (installed (snd (riscvVMWritePMPCFG (riscvVMNewPMP pmp_example) 0 0x9b)) (RISCV_MODE_M, False) 5)
    (pmp_priv (snd (riscvVMWritePMPCFG (riscvVMNewPMP pmp_example) 0 0x9b)) RISCV_MODE_M 5)"
proof -
  have "(\<lambda>q q'. pmp_step q q' \<and> (MMWP q \<longrightarrow> MML q))\<^sup>*\<^sup>* (riscvVMNewPMP pmp_example)
    (snd (riscvVMWritePMPCFG (riscvVMNewPMP pmp_example) 0 0x9b))"
    by (rule r_into_rtranclp) (simp add: pmp_step.intros, simp add: pmp_example_def riscvVMNewPMP_def getNumPMPs_def)
  from pmp_machine_mappings_coherent [OF pmp_example_wf(1) _ this, of False 5]
  show ?thesis by (simp add: pmp_example_def getPMPDomainCorD_def)
qed

text \<open>C12: An entry that is locked stays locked with the same configuration, effective address and
  matching addresses, whatever sequence of register writes, lookups and unmappings follows; in
  particular mseccfg.RLB cannot be set any more.\<close>

theorem pmp_locked_forever:
  assumes "pmp_step\<^sup>*\<^sup>* r r'" and "i < getNumPMPs r" and "pmpLocked r i"
  shows "pmpLocked r' i \<and> getPMPCFGElem r' i = getPMPCFGElem r i \<and> getEffectivePMPAddr r' i = getEffectivePMPAddr r i \<and>
    (\<forall>x. pmp_matches r' i x = pmp_matches r i x)"
proof -
  have "stays_locked i r r'"
    using assms(1)
  proof (induction rule: rtranclp_induct)
    case base
    show ?case using assms(2,3) by (simp add: stays_locked_def pmpLocked_def getNumPMPs_def getPMPCFGElem_def same_entry_def)
  next
    case (step q q')
    then show ?case using step_locked by blast
  qed
  then have "PMP_grain r = PMP_grain r'" "same_entry i r r'" by (simp_all add: stays_locked_def)
  then show ?thesis
    using stays_locked_pmpLocked [OF \<open>stays_locked i r r'\<close>] same_entry_effective [of r r' i] same_entry_matches_grain [of r r' i]
    by (simp add: same_entry_def getPMPCFGElem_def)
qed

definition pmp_locked_example :: riscvPMP where
  "pmp_locked_example = pmp_example\<lparr>pmpcfg := [0x9b, 0, 0, 0, 0, 0, 0, 0]\<rparr>"

theorem pmp_locked_forever_witness:
  "getPMPCFGElem (snd (riscvVMWritePMPCFG pmp_locked_example 0 0)) 0 = 0x9b \<and>
   getEffectivePMPAddr (snd (riscvVMWritePMPAddr pmp_locked_example 0 1)) 0 = 0"
proof -
  have "0 < getNumPMPs pmp_locked_example" "pmpLocked pmp_locked_example 0"
    by (simp_all add: pmp_locked_example_def pmp_example_def getNumPMPs_def pmpLocked_def getPMPCFGElem_def cfg_L_def)
  note locked = pmp_locked_forever [OF r_into_rtranclp [of pmp_step] this]
  have "getPMPCFGElem pmp_locked_example 0 = 0x9b" "getEffectivePMPAddr pmp_locked_example 0 = 0"
    by (simp_all add: pmp_locked_example_def pmp_example_def getPMPCFGElem_def getEffectivePMPAddr_def)
  then show ?thesis using locked [OF write_cfg, of 0 0] locked [OF write_addr, of 0 1] by simp
qed

text \<open>The life of the registers also has resets, which store the configured reset values as they are.
  \<open>reset_config\<close> is what no step changes and \<open>reset_legal\<close> says that the bytes that a reset stores are
  legal.\<close>

inductive pmp_life_step :: "riscvPMP \<Rightarrow> riscvPMP \<Rightarrow> bool" where
  operation: "pmp_step r r' \<Longrightarrow> pmp_life_step r r'"
| reset: "pmp_life_step r (riscvVMResetPMP r)"

definition reset_legal :: "riscvPMP \<Rightarrow> bool" where
  "reset_legal r \<longleftrightarrow> (\<forall>i<(getNumPMPs r + 3) div 4. if isPMP64 r then even i \<longrightarrow> (\<forall>j<8. cfg_legal r (u8 (cfg_pmpcfg r ! i) j))
     else \<forall>j<4. cfg_legal r (u8 (cfg_pmpcfg r ! i) j))"

abbreviation reset_config :: "riscvPMP \<Rightarrow> nat \<times> nat \<times> bool \<times> bool \<times> Uns64 list" where
  "reset_config r \<equiv> (PMP_registers r, PMP_grain r, Smepmp_version r, xlen64M r, cfg_pmpcfg r)"

lemma reset_legal_config: "reset_config q = reset_config r \<Longrightarrow> reset_legal q = reset_legal r"
  by (simp add: reset_legal_def getNumPMPs_def isPMP64_def cfg_legal_def)

lemma step_reset_config: "pmp_step r r' \<Longrightarrow> reset_config r' = reset_config r"
proof (induction rule: pmp_step.induct)
  case (write_cfg r index v)
  show ?case
    by (rule riscvVMWritePMPCFG_inv [of "\<lambda>q. reset_config q = reset_config r"]) (simp_all add: writePMPCFGEntry_cases set_cfg_def Let_def)
next
  case (lookup low high r mode req r')
  then show ?case using mapPMP_only [OF lookup(3)] by auto
qed (simp_all add: riscvVMWritePMPAddr_cases set_addr_def mseccfgW_def unmapAll_calls Let_def
  riscvVMUnmapPMPRegion_def invalidatePMPEntry_calls)

lemma fold_pres: "P s \<Longrightarrow> (\<And>i s. i \<in> set is \<Longrightarrow> P s \<Longrightarrow> P (f i s)) \<Longrightarrow> P (fold f is s)"
  by (induction "is" arbitrary: s) auto

lemma storeBytes_all: "list_all P bs \<Longrightarrow> \<forall>j<n. P (u8 v j) \<Longrightarrow> list_all P (storeBytes off n v bs)"
  unfolding storeBytes_def
  by (rule fold_pres [of "list_all P"]) (auto simp: list_all_iff dest: set_update_subset_insert [THEN subsetD])

lemma reset_step_legal:
  assumes "pmp_legal r" "reset_legal r"
  shows "pmp_legal (riscvVMResetPMP r) \<and> reset_config (riscvVMResetPMP r) = reset_config r"
proof -
  define ok where "ok = (\<lambda>q. pmp_legal q \<and> reset_config q = reset_config r)"
  define addr where "addr = (\<lambda>i (q :: riscvPMP). let q = (if pmpaddr q ! i \<noteq> 0 \<or> pmpcfg q ! i \<noteq> 0 then invalidatePMPEntry q i else q)
    in q\<lparr>pmpaddr := (pmpaddr q)[i := cfg_pmpaddr q ! i]\<rparr>)"
  define store where "store = (\<lambda>n off i (q :: riscvPMP). q\<lparr>pmpcfg := storeBytes (off i) n (cfg_pmpcfg q ! i) (pmpcfg q),
    romask_pmpcfg := storeBytes (off i) n (cfg_romask_pmpcfg q ! i) (romask_pmpcfg q)\<rparr>)"
  have a: "ok (fold addr is q)" if "ok q" for "is" q
    by (rule fold_pres [of ok, OF that]) (simp add: ok_def addr_def Let_def invalidatePMPEntry_calls)
  have s: "ok (fold (store n off) is q)" if "ok q" "\<forall>i\<in>set is. \<forall>j<n. cfg_legal r (u8 (cfg_pmpcfg r ! i) j)" for n off "is" q
  proof (rule fold_pres [of ok, OF that(1)])
    fix i q
    assume i: "i \<in> set is" and q: "ok q"
    then have "cfg_legal q = cfg_legal r" by (auto simp: ok_def cfg_legal_def fun_eq_iff)
    moreover have "pmp_legal (q\<lparr>pmpcfg := c, romask_pmpcfg := m\<rparr>) = list_all (cfg_legal q) c" for c m
      by (simp add: pmp_legal_def cfg_legal_def list_all_iff)
    ultimately show "ok (store n off i q)"
      using that(2) i q storeBytes_all [of "cfg_legal r" "pmpcfg q" n "cfg_pmpcfg r ! i" "off i"]
      by (simp add: ok_def store_def pmp_legal_def)
  qed
  define q where "q = fold addr [0..<getNumPMPs r] r"
  define q' where "q' = (if isPMP64 q then fold (store 8 (\<lambda>i. i div 2 * 8)) (filter even [0..<(getNumPMPs r + 3) div 4]) q
     else fold (store 4 (\<lambda>i. i * 4)) [0..<(getNumPMPs r + 3) div 4] q)"
  have "ok q" unfolding q_def by (rule a) (simp add: ok_def assms)
  moreover from this have "isPMP64 q = isPMP64 r" by (simp add: ok_def isPMP64_def)
  ultimately have "ok q'"
    unfolding q'_def using assms(2) by (auto simp: reset_legal_def intro!: s)
  moreover have "riscvVMResetPMP r = q'\<lparr>mseccfg := cfg_mseccfg q'\<rparr>"
    unfolding riscvVMResetPMP_def Let_def q'_def q_def addr_def store_def ..
  ultimately show ?thesis by (simp add: ok_def)
qed

text \<open>C13: Whatever sequence of register writes, lookups, unmappings and resets follows the
  allocation, every configuration byte is legal if the configured reset values are: its reserved
  bits are clear, it does not select a four-byte region if there is a grain, and without the
  enhanced rules it is not writable without being readable.\<close>

theorem pmp_configuration_legal:
  assumes "pmp_life_step\<^sup>*\<^sup>* (riscvVMNewPMP r) r'" and "getNumPMPs r \<noteq> 0" and "reset_legal r"
  shows "pmp_legal r'"
proof -
  have "pmp_legal r' \<and> reset_legal r'"
    using assms(1)
  proof (induction rule: rtranclp_induct)
    case base
    have "reset_config (riscvVMNewPMP r) = reset_config r" using assms(2) by (simp add: riscvVMNewPMP_def Let_def)
    then have "reset_legal (riscvVMNewPMP r)" using assms(3) reset_legal_config by blast
    then show ?case using assms(2) by (simp add: pmp_legal_def riscvVMNewPMP_def Let_def cfg_legal_def cfg_mode_def list_all_iff)
  next
    case (step q q')
    from step(2) show ?case
      using step.IH step_legal [of q q'] step_reset_config [of q q'] reset_step_legal [of q] reset_legal_config [of q' q]
      by cases auto
  qed
  then show ?thesis ..
qed

theorem pmp_configuration_legal_witness:
  "pmp_legal (riscvVMResetPMP (snd (riscvVMWritePMPCFG (riscvVMNewPMP pmp_example) 0 0x72)))"
proof -
  have "pmp_life_step\<^sup>*\<^sup>* (riscvVMNewPMP pmp_example) (riscvVMResetPMP (snd (riscvVMWritePMPCFG (riscvVMNewPMP pmp_example) 0 0x72)))"
    by (rule rtranclp.rtrancl_into_rtrancl [OF r_into_rtranclp]) (rule pmp_life_step.intros pmp_step.intros)+
  moreover have "reset_legal pmp_example"
    by (simp add: reset_legal_def pmp_example_def isPMP64_def getNumPMPs_def cfg_legal_def cfg_mode_def elem_def)
  ultimately show ?thesis by (intro pmp_configuration_legal [of pmp_example]) (simp_all add: pmp_example_wf)
qed

text \<open>The rule for bit \<open>n\<close> of a configuration byte that is written, for the old byte \<open>d\<close>, the source byte with
  the bits \<open>src\<close> and the read-only bits \<open>ro\<close>, in terms of the bits alone (0 to 2 are read, write and
  execute, 3 and 4 the mode, 7 the lock). Under \<^verbatim>\<open>mseccfg.MML\<close> and without \<^verbatim>\<open>mseccfg.RLB\<close> a write that
  would lock a rule which makes a region executable is ignored; the rules of that mode give
  execute permission for X alone, W alone, W and X, and R and X. Without the enhanced rules, or
  with \<^verbatim>\<open>MML\<close> clear, write permission without read permission is reserved and W is cleared; with a
  grain the mode of a four-byte region is not selectable and the mode bits stay.\<close>

definition locks_executable :: "(nat \<Rightarrow> bool) \<Rightarrow> bool" where
  "locks_executable b \<longleftrightarrow> b 7 \<and> (\<not> b 0 \<and> b 1 \<or> b 2 \<and> \<not> (b 0 \<and> b 1))"

definition cfg_rule :: "riscvPMP \<Rightarrow> Uns8 \<Rightarrow> (nat \<Rightarrow> bool) \<Rightarrow> pmpcfgElem \<Rightarrow> nat \<Rightarrow> bool" where
  "cfg_rule r ro src d n =
    (let b = (\<lambda>n. if bit ro n then bit d n else src n);
         enhanced = (Smepmp_version r \<and> (artifactAccess r \<or> MML r))
     in if Smepmp_version r \<and> \<not> artifactAccess r \<and> MML r \<and> \<not> RLB r \<and> locks_executable b then bit d n
        else if n = 1 \<and> \<not> enhanced then b 0 \<and> b 1
        else if (n = 3 \<or> n = 4) \<and> PMP_grain r \<noteq> 0 \<and> b 4 \<and> \<not> b 3 then bit d n
        else b n)"

text \<open>The bits of the source byte \<open>i\<close>: the reserved bits 5 and 6 and the bytes of entries that are not
  implemented are zero.\<close>

definition cfg_source :: "riscvPMP \<Rightarrow> nat \<Rightarrow> Uns64 \<Rightarrow> nat \<Rightarrow> nat \<Rightarrow> bool" where
  "cfg_source r index v i n \<longleftrightarrow> n < 8 \<and> n \<noteq> 5 \<and> n \<noteq> 6 \<and> bit v (8 * i + n) \<and>
    getPMPCFGOffset r index * entriesPerCFG r + i < getNumPMPs r"

lemma map_executable: "mapMML1ML1 ! unat (cfg_priv e) AND MEM_PRIV_X \<noteq> 0 \<longleftrightarrow> \<not> bit e 0 \<and> bit e 1 \<or> bit e 2 \<and> \<not> (bit e 0 \<and> bit e 1)"
proof -
  have "\<forall>n<8. bit (cfg_priv e) n = bit ((if bit e 0 then 1 else 0) OR (if bit e 1 then 2 else 0) OR (if bit e 2 then 4 else 0) :: Uns8) n"
    unfolding all_less_upt upt_8 list.pred_inject cfg_priv_def by (intro conjI; simp add: bit_and_iff bit_or_iff)
  then have "cfg_priv e = (if bit e 0 then 1 else 0) OR (if bit e 1 then 2 else 0) OR (if bit e 2 then 4 else 0)"
    by (intro bit_word_eqI) simp
  then show ?thesis by (auto simp: mapMML1ML1_def)
qed

lemma cfg_rule_cong: "(\<And>k. k < 8 \<Longrightarrow> f k = g k) \<Longrightarrow> n < 8 \<Longrightarrow> cfg_rule r ro f d n = cfg_rule r ro g d n"
proof -
  assume eq: "\<And>k. k < 8 \<Longrightarrow> f k = g k" and n: "n < 8"
  have k: "f 0 = g 0" "f 1 = g 1" "f 2 = g 2" "f 3 = g 3" "f 4 = g 4" "f 7 = g 7" "f n = g n" by (simp_all add: eq n)
  show ?thesis unfolding cfg_rule_def locks_executable_def Let_def k ..
qed

lemma cfg_rule_state:
  "Smepmp_version q = Smepmp_version r \<Longrightarrow> artifactAccess q = artifactAccess r \<Longrightarrow> mseccfg q = mseccfg r \<Longrightarrow>
    PMP_grain q = PMP_grain r \<Longrightarrow> cfg_rule q = cfg_rule r \<and> newPMPCFG q = newPMPCFG r"
  by (intro conjI ext) (simp_all only: cfg_rule_def newPMPCFG_def)

lemma bit_newPMPCFG:
  assumes "n < 8"
  shows "bit (newPMPCFG r ro s d) n = cfg_rule r ro (bit s) d n"
proof -
  define s1 where "s1 = (s AND NOT ro) OR (d AND ro)"
  define B where "B = (\<lambda>n. if bit ro n then bit d n else bit s n)"
  have b: "bit s1 k = B k" if "k < 8" for k
    using that by (simp add: s1_def B_def bit_simps)
  define LE where "LE \<longleftrightarrow> locks_executable B"
  have exec: "cfg_L s1 \<and> mapMML1ML1 ! unat (cfg_priv s1) AND MEM_PRIV_X \<noteq> 0 \<longleftrightarrow> LE"
    unfolding map_executable by (simp add: cfg_L_def LE_def locks_executable_def b)
  define keep where "keep \<longleftrightarrow> Smepmp_version r \<and> \<not> artifactAccess r \<and> MML r \<and> \<not> RLB r \<and> LE"
  define enhanced where "enhanced \<longleftrightarrow> Smepmp_version r \<and> (artifactAccess r \<or> MML r)"
  define s2 where "s2 = (if keep then d else s1)"
  define s3 where "s3 = (if \<not> enhanced \<and> \<not> bit s2 0 then s2 AND NOT MEM_PRIV_W else s2)"
  have p: "(if \<not> Smepmp_version r then (s1, True) else if artifactAccess r then (s1, False)
      else if \<not> MML r then (s1, True)
      else if cfg_L s1 \<and> \<not> RLB r
      then (if mapMML1ML1 ! unat (cfg_priv s1) AND MEM_PRIV_X \<noteq> 0 then (d, False) else (s1, False))
      else (s1, False)) = (s2, \<not> enhanced)"
    using exec by (cases "Smepmp_version r"; cases "artifactAccess r"; cases "MML r"; cases "RLB r"; cases "cfg_L s1")
      (simp_all add: s2_def keep_def enhanced_def)
  have new: "newPMPCFG r ro s d = (if PMP_grain r \<noteq> 0 \<and> cfg_mode s3 = PMPM_NA4 then (s3 AND NOT 0x18) OR (d AND 0x18) else s3)"
    unfolding newPMPCFG_def Let_def s1_def [symmetric] p prod.case cfg_priv_R s3_def ..
  have rule: "cfg_rule r ro (bit s) d n = (if keep then bit d n else if n = 1 \<and> \<not> enhanced then B 0 \<and> B 1
      else if (n = 3 \<or> n = 4) \<and> PMP_grain r \<noteq> 0 \<and> B 4 \<and> \<not> B 3 then bit d n else B n)"
    unfolding cfg_rule_def Let_def keep_def enhanced_def LE_def B_def by (simp only: conj_assoc)
  show ?thesis
  proof (cases keep)
    case True
    moreover from this have "s3 = d" by (simp add: s3_def s2_def keep_def enhanced_def)
    ultimately show ?thesis unfolding new rule using assms by (auto simp: bit_simps)
  next
    case False
    have b3: "bit s3 k = (B k \<and> (k = 1 \<and> \<not> enhanced \<longrightarrow> B 0))" if "k < 8" for k
      using that False by (auto simp: s3_def s2_def b bit_simps low_bits)
    have mode: "bit ((s3 AND NOT 0x18) OR (d AND 0x18)) n = (if n = 3 \<or> n = 4 then bit d n else bit s3 n)"
      unfolding bit_or_iff bit_and_iff bit_not_iff mode_bits using assms by simp
    have "bit (newPMPCFG r ro s d) n \<longleftrightarrow>
        (if (n = 3 \<or> n = 4) \<and> PMP_grain r \<noteq> 0 \<and> bit s3 4 \<and> \<not> bit s3 3 then bit d n else bit s3 n)"
      unfolding new cfg_mode_NA4 using mode by auto
    then show ?thesis unfolding rule using False assms by (simp add: b3) blast
  qed
qed

lemma bit_source:
  assumes "i < 8" "n < 8"
  shows "bit (u8 (cfgWriteBytes r index v) i) n = cfg_source r index v i n"
proof -
  have "\<forall>i<8. \<forall>n<8. bit WM64_pmpcfg (8 * i + n) \<longleftrightarrow> n \<noteq> 5 \<and> n \<noteq> 6"
    unfolding all_less_upt upt_8 list.pred_inject by (intro conjI; simp add: WM64_pmpcfg_def)
  then have m: "bit WM64_pmpcfg (8 * i + n) \<longleftrightarrow> n \<noteq> 5 \<and> n \<noteq> 6" using assms by blast
  have low: "bit (push_bit (k * 8) 1 - 1 :: Uns64) (8 * i + n) \<longleftrightarrow> i < k" if "k < 8" for k
    using that assms by (simp add: push_bit_of_1 mask_eq_exp_minus_1 [symmetric] bit_mask_iff) linarith
  have e: "bit (u8 w i) n = bit w (8 * i + n)" for w :: Uns64
    using assms by (simp add: bit_elem mult.commute)
  let ?k = "getNumPMPs r - getPMPCFGOffset r index * entriesPerCFG r"
  have "bit (if ?k \<ge> 8 then - 1 else push_bit (?k * 8) 1 - 1 :: Uns64) (8 * i + n) \<longleftrightarrow>
      getPMPCFGOffset r index * entriesPerCFG r + i < getNumPMPs r"
  proof (cases "?k \<ge> 8")
    case True
    have "8 * i + n < 64" using assms by linarith
    with True assms show ?thesis by simp
  next
    case False
    then show ?thesis using low [of ?k] by auto
  qed
  then show ?thesis
    unfolding e cfgWriteBytes_def Let_def cfg_source_def bit_and_iff m using assms by blast
qed

text \<open>C26: A write to a configuration register returns the value that a read then gives, leaves the
  byte of a locked entry unchanged and sets each bit of every other byte from the written value
  by the bit rules of the read-only mask, the locked executable regions under mseccfg.MML, the
  reserved combination and the grain.\<close>

theorem pmpcfg_write_bytes:
  assumes "validPMPCFG r index" and "i < entriesPerCFG r" and "index * 4 + i < length (pmpcfg r)" and "n < 8"
  shows "fst (riscvVMWritePMPCFG r index v) = riscvVMReadPMPCFG (snd (riscvVMWritePMPCFG r index v)) index \<and>
    bit (getPMPCFGElem (snd (riscvVMWritePMPCFG r index v)) (index * 4 + i)) n =
      (if pmpLocked r (index * 4 + i) then bit (getPMPCFGElem r (index * 4 + i)) n
       else cfg_rule r (romask_pmpcfg r ! (index * 4 + i)) (cfg_source r index v i) (getPMPCFGElem r (index * 4 + i)) n)"
proof -
  have warn: "newPMPCFG (r\<lparr>warnNoPMPUS := b\<rparr>) = newPMPCFG r" "pmpLocked (r\<lparr>warnNoPMPUS := b\<rparr>) = pmpLocked r"
    "entriesPerCFG (r\<lparr>warnNoPMPUS := b\<rparr>) = entriesPerCFG r" "cfg_rule (r\<lparr>warnNoPMPUS := b\<rparr>) = cfg_rule r" for b
    by (simp_all add: cfg_rule_state [of "r\<lparr>warnNoPMPUS := b\<rparr>" r])
      (simp_all add: pmpLocked_def getPMPCFGElem_def entriesPerCFG_def isPMP64_def fun_eq_iff)
  define q where "q = (if v \<noteq> 0 then r\<lparr>warnNoPMPUS := False\<rparr> else r)"
  define r' where "r' = fold (writePMPCFGEntry (cfgWriteBytes r index v) index) (rev [0..<entriesPerCFG r]) q"
  have run: "riscvVMWritePMPCFG r index v = (readPMPCFGInt r' index, r')"
    using assms(1) warn(3) by (simp add: riscvVMWritePMPCFG_def cfgWriteBytes_def Let_def r'_def q_def)
  have q: "newPMPCFG q = newPMPCFG r" "pmpLocked q = pmpLocked r" "pmpcfg q = pmpcfg r" "romask_pmpcfg q = romask_pmpcfg r"
    by (simp_all add: q_def warn)
  have "validPMPCFG r' index"
    using assms(1) by (cases "xlen64M r") (simp_all add: r'_def q_def validPMPCFG_def getPMPCFGOffset_def getNumPMPs_def entriesPerCFG_def isPMP64_def fold_writes_fields)
  moreover have i: "i < 8" using assms(2) by (simp add: entriesPerCFG_def split: if_splits)
  moreover have "cfg_rule r ro (bit (u8 (cfgWriteBytes r index v) i)) d n = cfg_rule r ro (cfg_source r index v i) d n" for ro d
    by (rule cfg_rule_cong) (use i assms(4) bit_source in auto)
  ultimately show ?thesis
    using fold_writes_bytes [of "rev [0..<entriesPerCFG r]" i index q "cfgWriteBytes r index v", folded r'_def, unfolded q] assms
    unfolding run by (simp add: riscvVMReadPMPCFG_def getPMPCFGElem_def bit_newPMPCFG)
qed

theorem pmpcfg_write_bytes_witness:
  "\<not> bit (getPMPCFGElem (snd (riscvVMWritePMPCFG pmp_example 0 0xffffff9e)) 0) 1 \<and>
   bit (getPMPCFGElem (snd (riscvVMWritePMPCFG pmp_example 0 0xffffff9e)) 0) 2"
proof -
  have "validPMPCFG pmp_example 0" "0 < entriesPerCFG pmp_example" "0 * 4 + 0 < length (pmpcfg pmp_example)"
    by (simp_all add: validPMPCFG_def pmp_example_def getPMPCFGOffset_def entriesPerCFG_def isPMP64_def getNumPMPs_def)
  note run = pmpcfg_write_bytes [OF this, of _ "0xffffff9e"]
  show ?thesis
    using run [of 1] run [of 2]
    by (simp add: pmp_example_def cfg_rule_def cfg_source_def locks_executable_def getPMPCFGElem_def pmpLocked_def cfg_L_def
      getNumPMPs_def getPMPCFGOffset_def entriesPerCFG_def isPMP64_def)
qed

text \<open>C27: After a write to an address register that is not locked, directly or as the base of a
  locked range, a read gives the written value under the address mask, the read-only mask and
  the grain rules of the region mode, and other registers are unchanged; the write itself
  returns that value if the stored value changes and zero if it does not.\<close>

theorem pmpaddr_write_read:
  assumes "k < getNumPMPs r" and "k < length (pmpaddr r)" and "\<not> pmpLocked r k" and "\<not> pmpLockedTOR r (k + 1)"
  shows "riscvVMReadPMPAddr (snd (riscvVMWritePMPAddr r k v)) k =
      (if cfg_mode (getPMPCFGElem r k) \<noteq> PMPM_NAPOT then newPMPAddr r k v AND push_bit (PMP_grain r) (- 1)
       else if PMP_grain r \<ge> 2 then newPMPAddr r k v OR (push_bit (PMP_grain r - 1) 1 - 1)
       else newPMPAddr r k v) \<and>
    (\<forall>j. j \<noteq> k \<longrightarrow> pmpaddr (snd (riscvVMWritePMPAddr r k v)) ! j = pmpaddr r ! j) \<and>
    fst (riscvVMWritePMPAddr r k v) =
      (if newPMPAddr r k v = pmpaddr r ! k then 0 else riscvVMReadPMPAddr (snd (riscvVMWritePMPAddr r k v)) k)"
proof -
  let ?v = "newPMPAddr r k v"
  define r' where "r' = snd (riscvVMWritePMPAddr r k v)"
  have addr: "pmpaddr r' = (pmpaddr r)[k := ?v]"
    by (cases "?v = pmpaddr r ! k") (use assms in \<open>auto simp: r'_def riscvVMWritePMPAddr_cases validPMPAddr_def set_addr_def\<close>)
  have rest: "pmpcfg r' = pmpcfg r" "PMP_grain r' = PMP_grain r" "PMP_registers r' = PMP_registers r"
    by (simp_all add: r'_def riscvVMWritePMPAddr_cases set_addr_def)
  have "riscvVMReadPMPAddr r' k = getEffectivePMPAddr r' k"
    using assms(1) rest by (simp add: riscvVMReadPMPAddr_def validPMPAddr_def getNumPMPs_def)
  moreover have "fst (riscvVMWritePMPAddr r k v) = (if ?v = pmpaddr r ! k then 0 else getEffectivePMPAddr r' k)"
    using assms(1) by (simp add: r'_def riscvVMWritePMPAddr_def newPMPAddr_def validPMPAddr_def Let_def)
  ultimately show ?thesis
    using assms addr rest unfolding r'_def [symmetric] by (auto simp: getEffectivePMPAddr_def getPMPCFGElem_def Let_def)
qed

theorem pmpaddr_write_read_witness:
  "riscvVMReadPMPAddr (snd (riscvVMWritePMPAddr pmp_example 0 0x123)) 0 = 0x123 \<and>
   fst (riscvVMWritePMPAddr pmp_example 0 0x123) = 0x123"
proof -
  have "0 < getNumPMPs pmp_example" "0 < length (pmpaddr pmp_example)" "\<not> pmpLocked pmp_example 0" "\<not> pmpLockedTOR pmp_example (0 + 1)"
    by (simp_all add: pmp_example_def getNumPMPs_def pmpLocked_def getPMPCFGElem_def cfg_L_def pmpLockedTOR_def)
  note run = pmpaddr_write_read [OF this, of "0x123"]
  have "newPMPAddr pmp_example 0 0x123 = 0x123" "pmpaddr pmp_example ! 0 = 0" "PMP_grain pmp_example = 0"
    by (simp_all add: newPMPAddr_def pmp_example_def getPMPAddrROMask_def getAddressMask_def)
  then show ?thesis using run by (auto split: if_splits)
qed

text \<open>With \<^verbatim>\<open>mseccfg.MMWP\<close> set and \<^verbatim>\<open>mseccfg.MML\<close> clear, an unlocked entry gives Machine mode access that
  it does not have without the entry.\<close>

definition pmp_mmwp_example :: riscvPMP where
  "pmp_mmwp_example = pmp_example\<lparr>Smepmp_version := True, mseccfg := 2\<rparr>"

lemma pmp_mmwp_entry:
  "pmp_wf pmp_mmwp_example" "getNumPMPs pmp_mmwp_example = 1" "getPMPCFGElem pmp_mmwp_example 0 = 0x1b"
  "getPMPEntryBounds pmp_mmwp_example 0 = (0, 7)" "pmp_active pmp_mmwp_example 0" "mquiet pmp_mmwp_example 0"
  by (simp_all add: pmp_mmwp_example_def pmp_example_def pmp_wf_def getNumPMPs_def getPMPCFGElem_def getPMPEntryBounds_def
    getEffectivePMPAddr_def cfg_mode_def Let_def pmp_active_def getPMPRegionActive_def mquiet_def usePMPEntryMMode_def cfg_L_def
    useLowerPriorityPMPEntryMMode_def hasPMPPrivCB_def)

lemma pmp_mmwp_write:
  "snd (riscvVMWritePMPCFG (pmp_mmwp_example\<lparr>protections := ps\<rparr>) 0 0) = set_cfg 0 0 (pmp_mmwp_example\<lparr>protections := ps\<rparr>)"
proof -
  let ?r = "pmp_mmwp_example\<lparr>protections := ps\<rparr>"
  have "writePMPCFGEntry 0 0 i ?r = ?r" if "i \<in> {1, 2, 3}" for i
    using that by (auto simp: writePMPCFGEntry_cases Let_def pmp_mmwp_example_def pmp_example_def newPMPCFG_def elem_def cfg_priv_def)
  moreover have "writePMPCFGEntry 0 0 0 ?r = set_cfg 0 0 ?r"
    by (simp add: writePMPCFGEntry_cases Let_def pmpLocked_def pmp_mmwp_entry)
      (simp add: pmp_mmwp_example_def pmp_example_def newPMPCFG_def elem_def cfg_priv_def cfg_L_def)
  moreover have "validPMPCFG ?r 0" "entriesPerCFG ?r = 4"
    by (simp_all add: validPMPCFG_def getPMPCFGOffset_def entriesPerCFG_def isPMP64_def pmp_mmwp_entry)
      (simp_all add: pmp_mmwp_example_def pmp_example_def)
  ultimately show ?thesis by (simp add: riscvVMWritePMPCFG_def Let_def upt_4)
qed

lemma pmp_mmwp_installed:
  "installed (set_cfg 0 0 (pmp_mmwp_example\<lparr>protections := ps\<rparr>)) (RISCV_MODE_M, False) 5 = installed_by ps (RISCV_MODE_M, False) 5"
proof -
  let ?r = "pmp_mmwp_example\<lparr>protections := ps\<rparr>"
  have off: "\<not> pmp_active (with_cfg 0 0 ?r) 0"
    by (simp add: pmp_active_def getPMPRegionActive_def getPMPCFGElem_def pmp_mmwp_example_def pmp_example_def cfg_mode_def)
  have "installed_by (inval_calls pmp_mmwp_example 0 @ ps) (RISCV_MODE_M, False) 5 = installed_by ps (RISCV_MODE_M, False) 5"
    by (simp add: inval_calls_def pmp_mmwp_entry)
      (simp add: set_calls_def protect_calls_def getPMPDomainCorD_def pmp_mmwp_example_def pmp_example_def getAddressMask_def)
  moreover have "inval_calls (with_cfg 0 0 ?r) 0 = []" using off by (simp only: inval_calls_def if_False)
  ultimately show ?thesis by (simp add: set_cfg_def)
qed

lemma pmp_mmwp_priv:
  "pmp_priv (set_cfg 0 0 (pmp_mmwp_example\<lparr>protections := ps\<rparr>)) RISCV_MODE_M x = MEM_PRIV_NONE"
  "x \<le> 7 \<Longrightarrow> pmp_priv pmp_mmwp_example RISCV_MODE_M x = MEM_PRIV_RWX" "x \<le> 7 \<Longrightarrow> pmp_first pmp_mmwp_example x = Some 0"
proof -
  have "getNumPMPs (set_cfg 0 0 (pmp_mmwp_example\<lparr>protections := ps\<rparr>)) = 1"
    "\<not> pmp_matches (set_cfg 0 0 (pmp_mmwp_example\<lparr>protections := ps\<rparr>)) 0 x" for ps
    by (simp_all add: set_cfg_def getNumPMPs_def pmp_matches_def getPMPRegionActive_def getPMPCFGElem_def pmp_mmwp_example_def
      pmp_example_def cfg_mode_def)
  then have "pmp_first (set_cfg 0 0 (pmp_mmwp_example\<lparr>protections := ps\<rparr>)) x = None" by (simp add: pmp_first_def)
  then show "pmp_priv (set_cfg 0 0 (pmp_mmwp_example\<lparr>protections := ps\<rparr>)) RISCV_MODE_M x = MEM_PRIV_NONE"
    by (simp add: pmp_priv_def getPMPUnmatchedMode_def set_cfg_def) (simp add: pmp_mmwp_example_def)
  assume "x \<le> 7"
  then show first: "pmp_first pmp_mmwp_example x = Some 0"
    using pmp_mmwp_entry(5) by (simp add: pmp_first_def pmp_mmwp_entry pmp_matches_def pmp_active_def)
  then show "pmp_priv pmp_mmwp_example RISCV_MODE_M x = MEM_PRIV_RWX"
    by (simp add: pmp_priv_def pmp_entry_priv_def getPMPEntryPriv_def pmp_mmwp_entry)
      (simp add: pmp_mmwp_example_def pmp_example_def cfg_L_def)
qed

text \<open>C11: With mseccfg.MMWP set and mseccfg.MML clear the invalidation is incomplete: after a lookup
  and the disabling of an unlocked entry, Machine mode keeps a readable mapping of an address
  that it has no access to.\<close>

theorem pmp_machine_stale_mapping:
  "\<exists>r1 r2. mapPMP pmp_mmwp_example RISCV_MODE_M MEM_PRIV_R 4 7 = Some r1 \<and> r2 = snd (riscvVMWritePMPCFG r1 0 0) \<and>
     priv_le MEM_PRIV_R (installed r2 (getPMPDomainCorD r2 RISCV_MODE_M False) 5) \<and> pmp_priv r2 RISCV_MODE_M 5 = MEM_PRIV_NONE"
proof -
  have x: "x \<le> 7" if "4 \<le> x \<and> x \<le> 7" for x :: Uns64 using that by simp
  have "pmp_permits pmp_mmwp_example RISCV_MODE_M MEM_PRIV_R 4 7"
    by (auto simp: pmp_permits_def pmp_allows_def pmp_reached_def pmp_mmwp_priv)
  then obtain ms where chain: "pmp_chain pmp_mmwp_example RISCV_MODE_M 4 7 ms" and
    run: "mapPMP pmp_mmwp_example RISCV_MODE_M MEM_PRIV_R 4 7 = Some (pmp_mmwp_example\<lparr>protections :=
      lookup_calls pmp_mmwp_example RISCV_MODE_M 4 7 ms @ protections pmp_mmwp_example\<rparr>)"
    using mapPMP_cases [of pmp_mmwp_example 4 7 RISCV_MODE_M MEM_PRIV_R] by (auto simp: pmp_mmwp_entry)
  let ?ps = "lookup_calls pmp_mmwp_example RISCV_MODE_M 4 7 ms @ protections pmp_mmwp_example"
  have d: "getPMPDomainCorD r RISCV_MODE_M False = (RISCV_MODE_M, False)" for r by (simp add: getPMPDomainCorD_def)
  have "priv_le MEM_PRIV_R (installed_by ?ps (RISCV_MODE_M, False) 5)"
    using lookup_calls_grant [OF pmp_mmwp_entry(1) _ _ _ chain, of MEM_PRIV_R 5 "protections pmp_mmwp_example"]
    by (simp add: pmp_mmwp_priv d)
  then show ?thesis using run by (simp add: pmp_mmwp_write pmp_mmwp_installed pmp_mmwp_priv(1) d)
qed

end
