(* ===== verification/RV_VM.thy ===== *)
theory RV_VM
  imports RV_Views RV_Mode
begin

text \<open>
  Address translation, \<^verbatim>\<open>riscvVM.c\<close>: page table entries, the walk of a page table for stage 1
  and for stage 2, the permissions of a TLB entry and the exceptions of a failed walk. Reads and
  writes of memory in a domain belong to the simulator and are fields of the state: a read gives
  no value if the address is bad, in which case the abort handler sets \<^verbatim>\<open>PTWBadAddr\<close>; writes are
  recorded, most recent first. Callbacks of derived models are fields too. A C conversion to
  \<^verbatim>\<open>Bool\<close> is a comparison with zero, an aborting assertion is \<open>None\<close>, and messages and coverage
  points are left out.
\<close>

section \<open>Data\<close>

text \<open>A field of a register, from its low bit and its width.\<close>

definition reg_field :: "nat \<Rightarrow> nat \<Rightarrow> Uns64 \<Rightarrow> Uns64" where
  "reg_field lo w r = take_bit w (drop_bit lo r)"

type_synonym vmPriv = Uns8

abbreviation VM_PRIV_NONE :: vmPriv where "VM_PRIV_NONE \<equiv> 0"
abbreviation VM_PRIV_R :: vmPriv where "VM_PRIV_R \<equiv> 1"
abbreviation VM_PRIV_W :: vmPriv where "VM_PRIV_W \<equiv> 2"
abbreviation VM_PRIV_RW :: vmPriv where "VM_PRIV_RW \<equiv> 3"
abbreviation VM_PRIV_X :: vmPriv where "VM_PRIV_X \<equiv> 4"

datatype riscvTLBId = RISCV_TLB_HS | RISCV_TLB_VS1 | RISCV_TLB_VS2 | RISCV_TLB_LAST

text \<open>Translation modes are numbers of four bits.\<close>

type_synonym riscvVAMode = Uns64

abbreviation VAM_Bare :: riscvVAMode where "VAM_Bare \<equiv> 0"
abbreviation VAM_Sv32 :: riscvVAMode where "VAM_Sv32 \<equiv> 1"
abbreviation VAM_Sv39 :: riscvVAMode where "VAM_Sv39 \<equiv> 8"
abbreviation VAM_Sv48 :: riscvVAMode where "VAM_Sv48 \<equiv> 9"
abbreviation VAM_Sv57 :: riscvVAMode where "VAM_Sv57 \<equiv> 10"
abbreviation VAM_Sv64 :: riscvVAMode where "VAM_Sv64 \<equiv> 11"

text \<open>Exceptions are their codes; the walk returns zero if there is none.\<close>

type_synonym riscvException = Uns32

abbreviation riscv_E_InstructionAccessFault :: riscvException where "riscv_E_InstructionAccessFault \<equiv> 1"
abbreviation riscv_E_LoadAccessFault :: riscvException where "riscv_E_LoadAccessFault \<equiv> 5"
abbreviation riscv_E_StoreAMOAccessFault :: riscvException where "riscv_E_StoreAMOAccessFault \<equiv> 7"
abbreviation riscv_E_InstructionPageFault :: riscvException where "riscv_E_InstructionPageFault \<equiv> 12"
abbreviation riscv_E_LoadPageFault :: riscvException where "riscv_E_LoadPageFault \<equiv> 13"
abbreviation riscv_E_StoreAMOPageFault :: riscvException where "riscv_E_StoreAMOPageFault \<equiv> 15"
abbreviation riscv_E_InstructionGuestPageFault :: riscvException where "riscv_E_InstructionGuestPageFault \<equiv> 20"
abbreviation riscv_E_LoadGuestPageFault :: riscvException where "riscv_E_LoadGuestPageFault \<equiv> 21"
abbreviation riscv_E_StoreAMOGuestPageFault :: riscvException where "riscv_E_StoreAMOGuestPageFault \<equiv> 23"

text \<open>The domains of page table accesses: the guest domain, or the PMP domain of a mode.\<close>

datatype ptwDomain = guestPTWDomain | pmpDomain riscvMode bool

text \<open>The full simulated ASID as its 64-bit view, with the layout of the union.\<close>

type_synonym riscvSimASID = Uns64

record tlbEntry =
  lowVA :: Uns64
  highVA :: Uns64
  entryPA :: Uns64
  simASID :: riscvSimASID
  entryTLB :: riscvTLBId
  mapped :: Uns8
  entryPriv :: vmPriv
  entryV :: bool
  entryU :: bool
  entryG :: bool
  entryA :: bool
  entryD :: bool
  artifact :: bool
  custom :: bool
  entryId :: Uns16

record riscvVM =
  ASID_bits :: nat
  VMID_bits :: nat
  Svnapot_page_mask :: Uns64
  Svpbmt :: bool
  ignore_non_leaf_DAU :: bool
  cfg_updatePTEA :: bool
  cfg_updatePTED :: bool
  privVersion_1_11 :: bool
  privVersion_1_12 :: bool
  archXLEN :: nat
  validPTECBs :: "(riscvTLBId \<Rightarrow> riscvVAMode \<Rightarrow> Uns64 \<Rightarrow> bool) list"
  VMTrapCBs :: "(riscvTLBId \<Rightarrow> vmPriv \<Rightarrow> Uns64 \<Rightarrow> riscvException) list"
  readDomain :: "ptwDomain \<Rightarrow> bool \<Rightarrow> Uns64 \<Rightarrow> Uns32 \<Rightarrow> Uns64 option"
  writeDomain :: "ptwDomain \<Rightarrow> Uns64 \<Rightarrow> Uns32 \<Rightarrow> bool"
  xlenMask :: Uns32
  satp :: Uns64
  vsatp :: Uns64
  hgatp :: Uns64
  mstatus :: Uns64
  vsstatus :: Uns64
  hstatus :: Uns64
  menvcfg :: Uns64
  henvcfg :: Uns64
  dendian :: bool
  artifactWalk :: bool
  activeTLB :: riscvTLBId
  PTWActive :: bool
  PTWLevel :: nat
  PTWBadAddr :: bool
  tinst :: Uns64
  origPriv :: vmPriv
  hlvxActive :: bool
  s2Offset :: Uns64
  tlbVCxt :: bool
  ptwSet :: "bool \<Rightarrow> (Uns64 \<times> Uns32) list"
  domainWrites :: "(ptwDomain \<times> bool \<times> Uns64 \<times> Uns32 \<times> Uns64) list"

section \<open>Register fields\<close>

text \<open>The views of a register at the width of Supervisor and of virtual Supervisor mode.\<close>

definition xlenIs32 :: "riscvVM \<Rightarrow> riscvMode \<Rightarrow> bool" where
  "xlenIs32 riscv mode \<longleftrightarrow> \<not> bit (xlenMask riscv) (unat (riscvMode_code mode))"

definition atp_PPN :: "bool \<Rightarrow> Uns64 \<Rightarrow> Uns64" where
  "atp_PPN is32 r = (if is32 then reg_field 0 22 r else reg_field 0 44 r)"

definition atp_ASID :: "bool \<Rightarrow> Uns64 \<Rightarrow> Uns64" where
  "atp_ASID is32 r = (if is32 then reg_field 22 9 r else reg_field 44 16 r)"

definition atp_MODE :: "bool \<Rightarrow> Uns64 \<Rightarrow> Uns64" where
  "atp_MODE is32 r = (if is32 then reg_field 31 1 r else reg_field 60 4 r)"

definition hgatp_VMID :: "bool \<Rightarrow> Uns64 \<Rightarrow> Uns64" where
  "hgatp_VMID is32 r = (if is32 then reg_field 22 7 r else reg_field 44 14 r)"

abbreviation satp_PPN :: "riscvVM \<Rightarrow> Uns64" where
  "satp_PPN riscv \<equiv> atp_PPN (xlenIs32 riscv RISCV_MODE_S) (satp riscv)"
abbreviation satp_ASID :: "riscvVM \<Rightarrow> Uns64" where
  "satp_ASID riscv \<equiv> atp_ASID (xlenIs32 riscv RISCV_MODE_S) (satp riscv)"
abbreviation satp_MODE :: "riscvVM \<Rightarrow> Uns64" where
  "satp_MODE riscv \<equiv> atp_MODE (xlenIs32 riscv RISCV_MODE_S) (satp riscv)"
abbreviation vsatp_PPN :: "riscvVM \<Rightarrow> Uns64" where
  "vsatp_PPN riscv \<equiv> atp_PPN (xlenIs32 riscv RISCV_MODE_VS) (vsatp riscv)"
abbreviation vsatp_ASID :: "riscvVM \<Rightarrow> Uns64" where
  "vsatp_ASID riscv \<equiv> atp_ASID (xlenIs32 riscv RISCV_MODE_VS) (vsatp riscv)"
abbreviation vsatp_MODE :: "riscvVM \<Rightarrow> Uns64" where
  "vsatp_MODE riscv \<equiv> atp_MODE (xlenIs32 riscv RISCV_MODE_VS) (vsatp riscv)"
abbreviation hgatp_PPN :: "riscvVM \<Rightarrow> Uns64" where
  "hgatp_PPN riscv \<equiv> atp_PPN (xlenIs32 riscv RISCV_MODE_S) (hgatp riscv)"
abbreviation hgatp_MODE :: "riscvVM \<Rightarrow> Uns64" where
  "hgatp_MODE riscv \<equiv> atp_MODE (xlenIs32 riscv RISCV_MODE_S) (hgatp riscv)"

abbreviation mstatus_SUM :: "riscvVM \<Rightarrow> bool" where "mstatus_SUM riscv \<equiv> bit (mstatus riscv) 18"
abbreviation mstatus_MXR :: "riscvVM \<Rightarrow> bool" where "mstatus_MXR riscv \<equiv> bit (mstatus riscv) 19"
abbreviation vsstatus_SUM :: "riscvVM \<Rightarrow> bool" where "vsstatus_SUM riscv \<equiv> bit (vsstatus riscv) 18"
abbreviation vsstatus_MXR :: "riscvVM \<Rightarrow> bool" where "vsstatus_MXR riscv \<equiv> bit (vsstatus riscv) 19"

definition getASIDMask :: "riscvVM \<Rightarrow> Uns32" where
  "getASIDMask riscv = push_bit (ASID_bits riscv) 1 - 1"

definition getVMIDMask :: "riscvVM \<Rightarrow> Uns32" where
  "getVMIDMask riscv = push_bit (VMID_bits riscv) 1 - 1"

section \<open>The active translation\<close>

definition activeTLBIsVirtual :: "riscvVM \<Rightarrow> bool" where
  "activeTLBIsVirtual riscv \<longleftrightarrow> activeTLB riscv \<noteq> RISCV_TLB_HS"

definition activeTLBIsVS1 :: "riscvVM \<Rightarrow> bool" where
  "activeTLBIsVS1 riscv \<longleftrightarrow> activeTLB riscv = RISCV_TLB_VS1"

definition activeTLBIsVS2 :: "riscvVM \<Rightarrow> bool" where
  "activeTLBIsVS2 riscv \<longleftrightarrow> activeTLB riscv = RISCV_TLB_VS2"

definition getG :: "riscvVM \<Rightarrow> bool \<Rightarrow> bool" where
  "getG riscv G \<longleftrightarrow> G \<or> activeTLBIsVS2 riscv \<or> getASIDMask riscv = 0"

definition updatePTEA :: "riscvVM \<Rightarrow> bool" where
  "updatePTEA riscv = cfg_updatePTEA riscv"

definition updatePTED :: "riscvVM \<Rightarrow> bool" where
  "updatePTED riscv = cfg_updatePTED riscv"

definition doStage2 :: "riscvVM \<Rightarrow> riscvTLBId \<Rightarrow> bool" where
  "doStage2 riscv tlbId \<longleftrightarrow> tlbId = RISCV_TLB_VS1 \<and> hgatp_MODE riscv \<noteq> 0"

definition getPTWDomain :: "riscvVM \<Rightarrow> ptwDomain" where
  "getPTWDomain riscv =
    (if doStage2 riscv (activeTLB riscv) then guestPTWDomain else pmpDomain RISCV_MODE_S (VM_PRIV_RW AND VM_PRIV_X \<noteq> 0))"

section \<open>Page table accesses\<close>

text \<open>The data endianness in a mode, true for big-endian.\<close>

definition riscvGetDataEndian :: "riscvVM \<Rightarrow> riscvMode \<Rightarrow> bool option" where
  "riscvGetDataEndian riscv mode =
    (if \<not> privVersion_1_12 riscv then Some (dendian riscv)
     else if mode = RISCV_MODE_U then Some (bit (mstatus riscv) 6)
     else if mode = RISCV_MODE_S then Some (bit (mstatus riscv) 36)
     else if mode = RISCV_MODE_M then Some (bit (mstatus riscv) 37)
     else if mode = RISCV_MODE_VU then Some (bit (vsstatus riscv) 6)
     else if mode = RISCV_MODE_VS then Some (bit (hstatus riscv) 5)
     else None)"

record ptwCxt =
  cxtPTWActive :: bool
  cxtPTWLevel :: nat
  cxtTinst :: Uns64

definition enterPTWContext :: "riscvVM \<Rightarrow> Uns32 \<Rightarrow> vmPriv \<Rightarrow> nat \<Rightarrow> ptwCxt \<times> riscvVM" where
  "enterPTWContext riscv bytes priv level =
    (let result = \<lparr>cxtPTWActive = PTWActive riscv, cxtPTWLevel = PTWLevel riscv, cxtTinst = tinst riscv\<rparr>;
         riscv = riscv\<lparr>PTWActive := True, PTWLevel := level, PTWBadAddr := False\<rparr>;
         riscv = (if doStage2 riscv (activeTLB riscv)
                  then riscv\<lparr>tinst := (if bytes = 4 then 0x2000 else 0x3000) + (if priv = VM_PRIV_W then 0x0020 else 0x0000)\<rparr>
                  else riscv)
     in (result, riscv))"

definition leavePTWContext :: "riscvVM \<Rightarrow> ptwCxt \<Rightarrow> riscvVM" where
  "leavePTWContext riscv oldCxt =
    riscv\<lparr>PTWActive := cxtPTWActive oldCxt, PTWLevel := cxtPTWLevel oldCxt, tinst := cxtTinst oldCxt\<rparr>"

text \<open>A read of memory by the simulator, with the effect of the abort handler
  \<^verbatim>\<open>riscvRdAbortExcept\<close> during a walk; likewise for a write. An access in the guest domain, which a
  virtual machine's own walk makes when a second stage is active (\<open>doStage2\<close>), is translated by the
  simulator with a lookup of that stage: the field gives the result of the access, but what
  that lookup does to the state (addresses recorded for stage 2, writes of its own entries) is not
  part of it, so that theorems on the state after a lookup exclude this case.\<close>

definition vmirtReadDomain :: "riscvVM \<Rightarrow> ptwDomain \<Rightarrow> bool \<Rightarrow> Uns64 \<Rightarrow> Uns32 \<Rightarrow> Uns64 \<times> riscvVM" where
  "vmirtReadDomain riscv domain endian addr bytes = (case readDomain riscv domain endian addr bytes of
     Some v \<Rightarrow> (if bytes = 4 then take_bit 32 v else v, riscv)
   | None \<Rightarrow> (0, if PTWActive riscv then riscv\<lparr>PTWBadAddr := True\<rparr> else riscv))"

definition vmirtWriteDomain :: "riscvVM \<Rightarrow> ptwDomain \<Rightarrow> bool \<Rightarrow> Uns64 \<Rightarrow> Uns32 \<Rightarrow> Uns64 \<Rightarrow> riscvVM" where
  "vmirtWriteDomain riscv domain endian addr bytes v =
    (if writeDomain riscv domain addr bytes
     then riscv\<lparr>domainWrites := (domain, endian, addr, bytes, if bytes = 4 then take_bit 32 v else v) # domainWrites riscv\<rparr>
     else if PTWActive riscv then riscv\<lparr>PTWBadAddr := True\<rparr> else riscv)"

text \<open>The modes that \<^verbatim>\<open>getSMode\<close> returns always have a data endianness.\<close>

definition readPageTableEntry :: "riscvVM \<Rightarrow> riscvMode \<Rightarrow> Uns64 \<Rightarrow> Uns32 \<Rightarrow> nat \<Rightarrow> Uns64 \<times> riscvVM" where
  "readPageTableEntry riscv mode PTEAddr bytes level =
    (let domain = getPTWDomain riscv;
         endian = (riscvGetDataEndian riscv (getSMode mode) = Some True);
         (oldCxt, riscv) = enterPTWContext riscv bytes VM_PRIV_R level;
         riscv = (if tlbVCxt riscv
                  then let isVS2 = activeTLBIsVS2 riscv
                       in riscv\<lparr>ptwSet := (ptwSet riscv)(isVS2 := ptwSet riscv isVS2 @ [(PTEAddr, bytes)])\<rparr>
                  else riscv);
         (result, riscv) = vmirtReadDomain riscv domain endian PTEAddr bytes
     in (result, leavePTWContext riscv oldCxt))"

definition writePageTableEntry :: "riscvVM \<Rightarrow> riscvMode \<Rightarrow> Uns64 \<Rightarrow> Uns32 \<Rightarrow> Uns64 \<Rightarrow> nat \<Rightarrow> riscvVM" where
  "writePageTableEntry riscv mode PTEAddr bytes value level =
    (let domain = getPTWDomain riscv;
         endian = (riscvGetDataEndian riscv (getSMode mode) = Some True);
         (oldCxt, riscv) = enterPTWContext riscv bytes VM_PRIV_W level;
         riscv = (if artifactWalk riscv then riscv else vmirtWriteDomain riscv domain endian PTEAddr bytes value)
     in leavePTWContext riscv oldCxt)"

section \<open>Page table entries\<close>

datatype pteError =
  PTEE_DONE | PTEE_VAEXTEND | PTEE_GPAEXTEND | PTEE_READ | PTEE_WRITE | PTEE_V0 | PTEE_R0W1 | PTEE_LEAF |
  PTEE_ALIGN | PTEE_PRIV | PTEE_A0 | PTEE_D0 | PTEE_RES0 | PTEE_D_NL | PTEE_A_NL | PTEE_U_NL |
  PTEE_SVNAPOT | PTEE_SVPBMT | PTEE_CUSTOM

text \<open>The union \<^verbatim>\<open>SvPTE\<close> is its raw value; these are its fields.\<close>

type_synonym SvPTE = Uns64

abbreviation pte_V :: "SvPTE \<Rightarrow> bool" where "pte_V p \<equiv> bit p 0"
definition pte_priv :: "SvPTE \<Rightarrow> vmPriv" where "pte_priv p = ucast (reg_field 1 3 p)"
abbreviation pte_U :: "SvPTE \<Rightarrow> bool" where "pte_U p \<equiv> bit p 4"
abbreviation pte_G :: "SvPTE \<Rightarrow> bool" where "pte_G p \<equiv> bit p 5"
abbreviation pte_A :: "SvPTE \<Rightarrow> bool" where "pte_A p \<equiv> bit p 6"
abbreviation pte_D :: "SvPTE \<Rightarrow> bool" where "pte_D p \<equiv> bit p 7"
definition pte_PPN :: "SvPTE \<Rightarrow> Uns64" where "pte_PPN p = reg_field 10 44 p"
definition pte_res0 :: "SvPTE \<Rightarrow> Uns64" where "pte_res0 p = reg_field 54 7 p"
definition pte_PBMT :: "SvPTE \<Rightarrow> Uns64" where "pte_PBMT p = reg_field 61 2 p"
abbreviation pte_N :: "SvPTE \<Rightarrow> bool" where "pte_N p \<equiv> bit p 63"

definition getVABits :: "riscvVAMode \<Rightarrow> nat option" where
  "getVABits vaMode =
    (if vaMode = VAM_Sv32 then Some 32 else if vaMode = VAM_Sv39 then Some 39 else if vaMode = VAM_Sv48 then Some 48
     else if vaMode = VAM_Sv57 then Some 57 else if vaMode = VAM_Sv64 then Some 64 else None)"

definition getVAlevels :: "riscvVAMode \<Rightarrow> nat option" where
  "getVAlevels vaMode =
    (if vaMode = VAM_Sv32 then Some 2 else if vaMode = VAM_Sv39 then Some 3 else if vaMode = VAM_Sv48 then Some 4
     else if vaMode = VAM_Sv57 then Some 5 else if vaMode = VAM_Sv64 then Some 6 else None)"

definition getSvnapotEntrySize :: "SvPTE \<Rightarrow> Uns64" where
  "getSvnapotEntrySize PTE = (let PPN = pte_PPN PTE; PPNlsb = PPN AND - PPN in push_bit 13 PPNlsb)"

definition validSvnapotEntry :: "riscvVM \<Rightarrow> SvPTE \<Rightarrow> bool" where
  "validSvnapotEntry riscv PTE \<longleftrightarrow>
    (if pte_priv PTE \<noteq> 0 then Svnapot_page_mask riscv AND getSvnapotEntrySize PTE \<noteq> 0 else False)"

definition validSvpbmtEntry :: "riscvVM \<Rightarrow> SvPTE \<Rightarrow> bool" where
  "validSvpbmtEntry riscv PTE \<longleftrightarrow>
    (if \<not> Svpbmt riscv then False
     else if pte_PBMT PTE = 3 then False
     else if \<not> bit (menvcfg riscv) 62 then False
     else if \<not> activeTLBIsVS1 riscv then True
     else bit (henvcfg riscv) 62)"

definition checkTableEntry :: "riscvVM \<Rightarrow> SvPTE \<Rightarrow> pteError" where
  "checkTableEntry riscv PTE =
    (if PTWBadAddr riscv then PTEE_READ
     else if pte_res0 PTE \<noteq> 0 then PTEE_RES0
     else if pte_N PTE \<and> \<not> validSvnapotEntry riscv PTE then PTEE_SVNAPOT
     else if pte_PBMT PTE \<noteq> 0 \<and> \<not> validSvpbmtEntry riscv PTE then PTEE_SVPBMT
     else if \<not> pte_V PTE then PTEE_V0
     else if pte_priv PTE AND VM_PRIV_RW = VM_PRIV_W then PTEE_R0W1
     else if pte_priv PTE \<noteq> 0 then PTEE_DONE
     else if ignore_non_leaf_DAU riscv then PTEE_LEAF
     else if pte_D PTE then PTEE_D_NL
     else if pte_A PTE then PTEE_A_NL
     else if pte_U PTE then PTEE_U_NL
     else PTEE_LEAF)"

definition checkEntryCustom :: "riscvVM \<Rightarrow> SvPTE \<Rightarrow> riscvVAMode \<Rightarrow> pteError" where
  "checkEntryCustom riscv PTE vaMode =
    (if list_all (\<lambda>validPTE. validPTE (activeTLB riscv) vaMode PTE) (validPTECBs riscv) then PTEE_DONE else PTEE_CUSTOM)"

section \<open>Permissions\<close>

definition getEntryPriv :: "riscvVM \<Rightarrow> riscvMode \<Rightarrow> tlbEntry \<Rightarrow> vmPriv" where
  "getEntryPriv riscv mode entry =
    (let priv = entryPriv entry;
         mxrBit = mstatus_MXR riscv;
         sumBit = mstatus_SUM riscv;
         (mxrBit, sumBit, mode) =
           (if activeTLB riscv = RISCV_TLB_VS1 then (mxrBit \<or> vsstatus_MXR riscv, vsstatus_SUM riscv, mode)
            else if activeTLB riscv = RISCV_TLB_VS2 then (mxrBit, sumBit, RISCV_MODE_U)
            else (mxrBit, sumBit, mode));
         priv = (if priv AND VM_PRIV_X \<noteq> 0 \<and> mxrBit then priv OR VM_PRIV_R else priv)
     in if getBaseMode mode = RISCV_MODE_U then (if \<not> entryU entry then VM_PRIV_NONE else priv)
        else if entryU entry
        then (if \<not> sumBit then VM_PRIV_NONE else if privVersion_1_11 riscv then priv AND NOT VM_PRIV_X else priv)
        else priv)"

definition checkEntryPriv :: "riscvVM \<Rightarrow> riscvMode \<Rightarrow> tlbEntry \<Rightarrow> vmPriv \<Rightarrow> vmPriv" where
  "checkEntryPriv riscv mode entry requiredPriv =
    (let priv = getEntryPriv riscv mode entry
     in if priv AND requiredPriv \<noteq> requiredPriv then VM_PRIV_NONE else priv)"

section \<open>Exceptions of a walk\<close>

definition loadPageFault :: "riscvVM \<Rightarrow> riscvException" where
  "loadPageFault riscv =
    (if activeTLB riscv = RISCV_TLB_VS2 then riscv_E_LoadGuestPageFault else riscv_E_LoadPageFault)"

definition storeAMOPageFault :: "riscvVM \<Rightarrow> riscvException" where
  "storeAMOPageFault riscv =
    (if activeTLB riscv = RISCV_TLB_VS2 then riscv_E_StoreAMOGuestPageFault else riscv_E_StoreAMOPageFault)"

definition instructionPageFault :: "riscvVM \<Rightarrow> riscvException" where
  "instructionPageFault riscv =
    (if activeTLB riscv = RISCV_TLB_VS2 then riscv_E_InstructionGuestPageFault else riscv_E_InstructionPageFault)"

definition originalAccessFault :: "riscvVM \<Rightarrow> riscvException option" where
  "originalAccessFault riscv =
    (if origPriv riscv = VM_PRIV_R then Some riscv_E_LoadAccessFault
     else if origPriv riscv = VM_PRIV_W then Some riscv_E_StoreAMOAccessFault
     else if origPriv riscv = VM_PRIV_X then Some riscv_E_InstructionAccessFault
     else None)"

datatype pteException = PTX_LOAD_ACCESS | PTX_STORE_ACCESS | PTX_PAGE

text \<open>The exception column of the table of errors.\<close>

fun pteErrorException :: "pteError \<Rightarrow> pteException" where
  "pteErrorException PTEE_READ = PTX_LOAD_ACCESS"
| "pteErrorException PTEE_WRITE = PTX_STORE_ACCESS"
| "pteErrorException _ = PTX_PAGE"

definition getPTWException :: "riscvVM \<Rightarrow> pteError \<Rightarrow> riscvException option" where
  "getPTWException riscv error =
    (if pteErrorException error = PTX_LOAD_ACCESS then originalAccessFault riscv
     else if pteErrorException error = PTX_STORE_ACCESS then originalAccessFault riscv
     else if origPriv riscv = VM_PRIV_W then Some (storeAMOPageFault riscv)
     else if hlvxActive riscv \<or> origPriv riscv = VM_PRIV_R then Some (loadPageFault riscv)
     else Some (instructionPageFault riscv))"

section \<open>The walk\<close>

definition fillTLBEntry ::
  "riscvVM \<Rightarrow> riscvMode \<Rightarrow> tlbEntry \<Rightarrow> vmPriv \<Rightarrow> SvPTE \<Rightarrow> nat \<Rightarrow> nat \<Rightarrow> pteError \<times> tlbEntry" where
  "fillTLBEntry riscv mode entry requiredPriv PTE i vpnShift =
    (let size = (if pte_N PTE then getSvnapotEntrySize PTE else push_bit (i * vpnShift + 12) 1);
         entry = (if pte_N PTE then entry\<lparr>entryPA := entryPA entry AND - size\<rparr> else entry)
     in if \<not> pte_N PTE \<and> entryPA entry AND (size - 1) \<noteq> 0 then (PTEE_ALIGN, entry)
        else let entry = entry\<lparr>lowVA := lowVA entry AND - size\<rparr>;
                 entry = entry\<lparr>highVA := lowVA entry + size - 1, entryTLB := activeTLB riscv, entryPriv := pte_priv PTE,
                   entryV := pte_V PTE, entryU := pte_U PTE, entryG := getG riscv (pte_G PTE), entryA := pte_A PTE,
                   entryD := pte_D PTE\<rparr>
             in if checkEntryPriv riscv mode entry requiredPriv = 0 then (PTEE_PRIV, entry)
                else if \<not> entryA entry \<and> \<not> updatePTEA riscv then (PTEE_A0, entry)
                else let entry = entry\<lparr>entryA := True\<rparr>
                     in if entryD entry \<or> requiredPriv AND VM_PRIV_W = 0 then (PTEE_DONE, entry)
                        else if \<not> updatePTED riscv then (PTEE_D0, entry)
                        else (PTEE_DONE, entry\<lparr>entryD := True\<rparr>))"

definition getPTETableAddress :: "Uns64 \<Rightarrow> Uns64" where
  "getPTETableAddress PPN = push_bit 12 PPN"

definition getRootTableAddress :: "riscvVM \<Rightarrow> Uns64 option" where
  "getRootTableAddress riscv =
    (case activeTLB riscv of
       RISCV_TLB_HS \<Rightarrow> Some (getPTETableAddress (satp_PPN riscv))
     | RISCV_TLB_VS1 \<Rightarrow> Some (getPTETableAddress (vsatp_PPN riscv))
     | RISCV_TLB_VS2 \<Rightarrow> Some (getPTETableAddress (hgatp_PPN riscv) + s2Offset riscv * 4096)
     | RISCV_TLB_LAST \<Rightarrow> None)"

text \<open>The loop over the levels, from level \<open>n - 1\<close> down to 0, with the table address \<open>a\<close>. It gives the
  final entry, its address and its level.\<close>

fun walkLevels ::
  "nat \<Rightarrow> riscvVM \<Rightarrow> riscvMode \<Rightarrow> riscvVAMode \<Rightarrow> Uns64 \<Rightarrow> Uns64 \<Rightarrow> SvPTE \<Rightarrow> Uns64 \<Rightarrow> pteError \<times> SvPTE \<times> Uns64 \<times> nat \<times> riscvVM" where
  "walkLevels 0 riscv mode vaMode VPN a PTE PTEAddr = (PTEE_LEAF, PTE, PTEAddr, 0, riscv)"
| "walkLevels (Suc i) riscv mode vaMode VPN a PTE PTEAddr =
    (let entryBytes = (if vaMode = VAM_Sv32 then 4 else 8);
         vpnShift = (if vaMode = VAM_Sv32 then 10 else 9);
         vpnMask = push_bit vpnShift 1 - 1;
         offset = drop_bit (i * vpnShift) VPN AND vpnMask;
         PTEAddr = a + offset * ucast entryBytes;
         (PTE, riscv) = readPageTableEntry riscv mode PTEAddr entryBytes i;
         error = checkTableEntry riscv PTE
     in if error \<noteq> PTEE_LEAF then (error, PTE, PTEAddr, i, riscv)
        else walkLevels i riscv mode vaMode VPN (getPTETableAddress (pte_PPN PTE)) PTE PTEAddr)"

definition setPTEAD :: "SvPTE \<Rightarrow> bool \<Rightarrow> bool \<Rightarrow> SvPTE" where
  "setPTEAD PTE A D =
    (let PTE = (if A then set_bit 6 PTE else unset_bit 6 PTE) in if D then set_bit 7 PTE else unset_bit 7 PTE)"

definition doPageTableWalkVA ::
  "riscvVM \<Rightarrow> riscvMode \<Rightarrow> tlbEntry \<Rightarrow> vmPriv \<Rightarrow> riscvVAMode \<Rightarrow> (riscvException \<times> tlbEntry \<times> riscvVM) option" where
  "doPageTableWalkVA riscv mode entry requiredPriv vaMode =
    Option.bind (getVAlevels vaMode) (\<lambda>levels.
    Option.bind (getRootTableAddress riscv) (\<lambda>a.
      let entryBytes = (if vaMode = VAM_Sv32 then 4 else 8);
          vpnShift = (if vaMode = VAM_Sv32 then 10 else 9);
          VPN = drop_bit 12 (lowVA entry);
          (error, PTE, PTEAddr, i, riscv) = walkLevels levels riscv mode vaMode VPN a 0 0;
          (error, entry) =
            (if error = PTEE_DONE
             then fillTLBEntry riscv mode (entry\<lparr>entryPA := push_bit 12 (pte_PPN PTE)\<rparr>) requiredPriv PTE i vpnShift
             else (error, entry));
          error = (if error \<noteq> PTEE_DONE then error else checkEntryCustom riscv PTE vaMode);
          (error, riscv) =
            (if error \<noteq> PTEE_DONE then (error, riscv)
             else if pte_A PTE \<noteq> entryA entry \<or> pte_D PTE \<noteq> entryD entry
             then let riscv = writePageTableEntry riscv mode PTEAddr entryBytes (setPTEAD PTE (entryA entry) (entryD entry)) i
                  in (if PTWBadAddr riscv then PTEE_WRITE else error, riscv)
             else (error, riscv))
      in if error \<noteq> PTEE_DONE
         then map_option (\<lambda>exception. (exception, entry, riscv)) (getPTWException riscv error)
         else Some (0, entry, riscv)))"

text \<open>Stage 2: the bits of the guest physical address above the virtual address width select one of
  four root pages; the walk uses the remaining bits.\<close>

definition doPageTableWalkGPA ::
  "riscvVM \<Rightarrow> riscvMode \<Rightarrow> tlbEntry \<Rightarrow> vmPriv \<Rightarrow> riscvVAMode \<Rightarrow> (riscvException \<times> tlbEntry \<times> riscvVM) option" where
  "doPageTableWalkGPA riscv mode entry requiredPriv vaMode =
    Option.bind (getVABits vaMode) (\<lambda>vaBits.
      let extraBits = drop_bit vaBits (lowVA entry);
          shiftUp = (if vaMode = VAM_Sv32 then 0 else 64 - vaBits);
          riscv = riscv\<lparr>s2Offset := take_bit 2 extraBits\<rparr>;
          extraBits = push_bit vaBits extraBits;
          entry = entry\<lparr>lowVA := signed_drop_bit shiftUp (push_bit shiftUp (lowVA entry))\<rparr>
      in Option.bind (doPageTableWalkVA riscv mode entry requiredPriv vaMode) (\<lambda>(exception, entry, riscv).
         if exception = 0
         then Some (exception,
           entry\<lparr>lowVA := drop_bit shiftUp (push_bit shiftUp (lowVA entry)) + extraBits,
             highVA := drop_bit shiftUp (push_bit shiftUp (highVA entry)) + extraBits\<rparr>, riscv)
         else Some (exception, entry, riscv)))"

section \<open>The lookup\<close>

definition trapDerived :: "riscvVM \<Rightarrow> tlbEntry \<Rightarrow> vmPriv \<Rightarrow> riscvTLBId \<Rightarrow> riscvException" where
  "trapDerived riscv entry requiredPriv tlbId =
    fold (\<lambda>VMTrap result. if result = 0 then VMTrap tlbId requiredPriv (lowVA entry) else result) (VMTrapCBs riscv) 0"

definition validS1VA :: "Uns64 \<Rightarrow> riscvVAMode \<Rightarrow> bool option" where
  "validS1VA VA vaMode =
    map_option (\<lambda>vaBits. let topBits = 64 - vaBits
      in vaMode = VAM_Sv32 \<or> signed_drop_bit topBits (push_bit topBits VA) = VA) (getVABits vaMode)"

definition validS2GPA :: "Uns64 \<Rightarrow> riscvVAMode \<Rightarrow> bool option" where
  "validS2GPA GPA vaMode = map_option (\<lambda>vaBits. let GPABits = vaBits + 2 in drop_bit GPABits GPA = 0) (getVABits vaMode)"

definition getPageFault :: "riscvVM \<Rightarrow> pteError \<Rightarrow> riscvException option" where
  "getPageFault riscv error = getPTWException riscv error"

definition doPageTableLookupVA ::
  "riscvVM \<Rightarrow> riscvMode \<Rightarrow> tlbEntry \<Rightarrow> vmPriv \<Rightarrow> (riscvException \<times> tlbEntry \<times> riscvVM) option" where
  "doPageTableLookupVA riscv mode entry requiredPriv =
    (let tlbId = activeTLB riscv;
         V = (tlbId = RISCV_TLB_VS1);
         vaMode = (if V then vsatp_MODE riscv else satp_MODE riscv)
     in Option.bind (validS1VA (lowVA entry) vaMode) (\<lambda>valid.
        if \<not> valid then map_option (\<lambda>result. (result, entry, riscv)) (getPageFault riscv PTEE_VAEXTEND)
        else let result = trapDerived riscv entry requiredPriv tlbId
             in if result \<noteq> 0 then Some (result, entry, riscv)
                else doPageTableWalkVA riscv mode entry requiredPriv vaMode))"

definition doPageTableLookupGPA ::
  "riscvVM \<Rightarrow> riscvMode \<Rightarrow> tlbEntry \<Rightarrow> vmPriv \<Rightarrow> (riscvException \<times> tlbEntry \<times> riscvVM) option" where
  "doPageTableLookupGPA riscv mode entry requiredPriv =
    (let tlbId = RISCV_TLB_VS2;
         vaMode = hgatp_MODE riscv
     in Option.bind (validS2GPA (lowVA entry) vaMode) (\<lambda>valid.
        if \<not> valid then map_option (\<lambda>result. (result, entry, riscv)) (getPageFault riscv PTEE_GPAEXTEND)
        else let result = trapDerived riscv entry requiredPriv tlbId
             in if result \<noteq> 0 then Some (result, entry, riscv)
                else doPageTableWalkGPA riscv mode entry requiredPriv vaMode))"

definition doPageTableLookup ::
  "riscvVM \<Rightarrow> riscvMode \<Rightarrow> tlbEntry \<Rightarrow> vmPriv \<Rightarrow> (riscvException \<times> tlbEntry \<times> riscvVM) option" where
  "doPageTableLookup riscv mode entry requiredPriv =
    (let stage2 = activeTLBIsVS2 riscv;
         riscv = (if tlbVCxt riscv then riscv\<lparr>ptwSet := (ptwSet riscv)(stage2 := [])\<rparr> else riscv)
     in if stage2 then doPageTableLookupGPA riscv mode entry requiredPriv
        else doPageTableLookupVA riscv mode entry requiredPriv)"

end
