(* ===== verification/RV_VM_Walk.thy ===== *)
theory RV_VM_Walk
  imports RV_VM
begin

text \<open>
  The walk of a page table against the algorithm of the privileged architecture: \<open>sv_walk\<close> reads
  the entries, \<open>sv_accepts\<close> says which leaves permit an access, \<open>sv_entry\<close> is the resulting entry
  of the TLB and \<open>sv_pa\<close> the physical address; \<open>doPageTableWalkVA\<close> computes these and nothing else.
  The walk accepts two encodings of entries that the architecture reserves; \<open>arch_walk\<close> faults for them.
\<close>

section \<open>The specification of a walk\<close>

text \<open>The algorithm of the privileged architecture, over a function that reads an entry: index the
  table with the part of the virtual address for the level; stop at an entry that cannot be
  read, an illegal entry or a leaf, and otherwise go to the table the entry points to.\<close>

datatype sv_outcome = AccessFault | PageFault | Leaf SvPTE Uns64 nat

definition sv_width :: "riscvVAMode \<Rightarrow> nat" where
  "sv_width vaMode = (if vaMode = VAM_Sv32 then 10 else 9)"

definition sv_bytes :: "riscvVAMode \<Rightarrow> Uns32" where
  "sv_bytes vaMode = (if vaMode = VAM_Sv32 then 4 else 8)"

definition sv_vpn :: "riscvVAMode \<Rightarrow> nat \<Rightarrow> Uns64 \<Rightarrow> Uns64" where
  "sv_vpn vaMode i va = take_bit (sv_width vaMode) (drop_bit (12 + i * sv_width vaMode) va)"

fun sv_walk :: "(Uns64 \<Rightarrow> Uns64 option) \<Rightarrow> (SvPTE \<Rightarrow> bool) \<Rightarrow> riscvVAMode \<Rightarrow> nat \<Rightarrow> Uns64 \<Rightarrow> Uns64 \<Rightarrow> sv_outcome" where
  "sv_walk rd legal vaMode 0 a va = PageFault"
| "sv_walk rd legal vaMode (Suc i) a va =
    (let addr = a + sv_vpn vaMode i va * ucast (sv_bytes vaMode)
     in case rd addr of
          None \<Rightarrow> AccessFault
        | Some p \<Rightarrow> if \<not> legal p then PageFault
                   else if pte_priv p \<noteq> 0 then Leaf p addr i
                   else sv_walk rd legal vaMode i (pte_PPN p * 4096) va)"

text \<open>The lowest set bit of the page number, bits 10 to 53 of an entry, gives the size of a contiguous
  group of pages; there is none if it is 44.\<close>

definition ppn_lsb :: "SvPTE \<Rightarrow> nat" where
  "ppn_lsb p = length (takeWhile (\<lambda>k. \<not> bit p (10 + k)) [0..<44])"

text \<open>A group is allowed in a leaf if its size is configured, and the memory type bits 61 and 62 are
  if the extension is implemented, they are not both set, and \<^verbatim>\<open>menvcfg.PBMTE\<close> and for a
  virtual machine's own tables \<^verbatim>\<open>henvcfg.PBMTE\<close>, bit 62, enable them.\<close>

definition group_allowed :: "riscvVM \<Rightarrow> SvPTE \<Rightarrow> bool" where
  "group_allowed r p \<longleftrightarrow> pte_priv p \<noteq> 0 \<and> ppn_lsb p < 44 \<and> bit (Svnapot_page_mask r) (13 + ppn_lsb p)"

definition type_allowed :: "riscvVM \<Rightarrow> SvPTE \<Rightarrow> bool" where
  "type_allowed r p \<longleftrightarrow> Svpbmt r \<and> \<not> (bit p 61 \<and> bit p 62) \<and> bit (menvcfg r) 62 \<and>
    (activeTLB r = RISCV_TLB_VS1 \<longrightarrow> bit (henvcfg r) 62)"

text \<open>An entry is legal if its reserved bits are clear, the extensions it uses are enabled, it is valid
  and readable if writable, and a pointer has no attributes of a leaf.\<close>

definition pte_legal :: "riscvVM \<Rightarrow> SvPTE \<Rightarrow> bool" where
  "pte_legal r p \<longleftrightarrow> pte_res0 p = 0 \<and> (pte_N p \<longrightarrow> group_allowed r p) \<and> (bit p 61 \<or> bit p 62 \<longrightarrow> type_allowed r p) \<and>
    pte_V p \<and> (bit (pte_priv p) 1 \<longrightarrow> bit (pte_priv p) 0) \<and>
    (pte_priv p = 0 \<longrightarrow> ignore_non_leaf_DAU r \<or> \<not> pte_D p \<and> \<not> pte_A p \<and> \<not> pte_U p)"

text \<open>The architecture also reserves a group above the lowest level and a memory type in a pointer. These
  encodings, which the code accepts, are kept apart: \<open>arch_walk\<close> is the walk that faults for them and
  \<open>walk_reserved\<close> says that a walk meets one.\<close>

definition reserved_use :: "SvPTE \<Rightarrow> nat \<Rightarrow> bool" where
  "reserved_use p i \<longleftrightarrow> pte_N p \<and> i \<noteq> 0 \<or> pte_priv p = 0 \<and> (bit p 61 \<or> bit p 62)"

fun arch_walk :: "(Uns64 \<Rightarrow> Uns64 option) \<Rightarrow> (SvPTE \<Rightarrow> bool) \<Rightarrow> riscvVAMode \<Rightarrow> nat \<Rightarrow> Uns64 \<Rightarrow> Uns64 \<Rightarrow> sv_outcome" where
  "arch_walk rd legal vaMode 0 a va = PageFault"
| "arch_walk rd legal vaMode (Suc i) a va =
    (let addr = a + sv_vpn vaMode i va * ucast (sv_bytes vaMode)
     in case rd addr of
          None \<Rightarrow> AccessFault
        | Some p \<Rightarrow> if \<not> legal p \<or> reserved_use p i then PageFault
                   else if pte_priv p \<noteq> 0 then Leaf p addr i
                   else arch_walk rd legal vaMode i (pte_PPN p * 4096) va)"

fun walk_reserved :: "(Uns64 \<Rightarrow> Uns64 option) \<Rightarrow> (SvPTE \<Rightarrow> bool) \<Rightarrow> riscvVAMode \<Rightarrow> nat \<Rightarrow> Uns64 \<Rightarrow> Uns64 \<Rightarrow> bool" where
  "walk_reserved rd legal vaMode 0 a va \<longleftrightarrow> False"
| "walk_reserved rd legal vaMode (Suc i) a va \<longleftrightarrow>
    (case rd (a + sv_vpn vaMode i va * ucast (sv_bytes vaMode)) of
       None \<Rightarrow> False
     | Some p \<Rightarrow> legal p \<and> (reserved_use p i \<or>
         pte_priv p = 0 \<and> walk_reserved rd legal vaMode i (pte_PPN p * 4096) va))"

lemma arch_walk_reserved:
  "arch_walk rd legal vaMode n a va =
    (if walk_reserved rd legal vaMode n a va then PageFault else sv_walk rd legal vaMode n a va)"
  by (induction n arbitrary: a) (auto simp: Let_def split: option.splits)

lemma sv_walk_legal: "sv_walk rd legal vaMode n a va = Leaf p addr i \<Longrightarrow> legal p"
  by (induction n arbitrary: a) (auto simp: Let_def split: option.splits if_splits)

section \<open>Sizes of groups\<close>

text \<open>\<open>PPN AND - PPN\<close> is the lowest set bit of the page number.\<close>

lemma lowest_bit:
  fixes x :: "'a::len word"
  assumes "bit x k" "\<And>j. j < k \<Longrightarrow> \<not> bit x j"
  shows "x AND - x = push_bit k 1"
proof -
  define z where "z = drop_bit k x"
  have x: "x = push_bit k z"
  proof -
    have "k \<le> n" if "bit x n" for n using assms(2) [of n] that by (meson not_less)
    then show ?thesis unfolding z_def by (intro bit_word_eqI) (auto simp: bit_simps)
  qed
  have odd: "bit z 0" using assms(1) by (simp add: z_def bit_simps)
  have "- z = NOT z + 1" by (simp add: not_eq_complement)
  also have "\<dots> = NOT z OR 1" by (rule disjunctive_add) (use odd in \<open>auto simp: bit_simps\<close>)
  finally have "z AND - z = 1"
    using odd by (intro bit_word_eqI) (auto simp: bit_simps)
  moreover have "x AND - x = push_bit k (z AND - z)"
    unfolding x by (simp add: push_bit_and push_bit_minus)
  ultimately show ?thesis by simp
qed

lemma takeWhile_upt:
  "length (takeWhile P [0..<n]) < n \<Longrightarrow> \<not> P (length (takeWhile P [0..<n]))"
  "j < length (takeWhile P [0..<n]) \<Longrightarrow> P j"
  "length (takeWhile P [0..<n]) \<le> n"
proof -
  show "length (takeWhile P [0..<n]) \<le> n" by (metis length_takeWhile_le length_upt diff_zero)
  show "\<not> P (length (takeWhile P [0..<n]))" if "length (takeWhile P [0..<n]) < n"
    using nth_length_takeWhile [of P "[0..<n]"] that by simp
  show "P j" if "j < length (takeWhile P [0..<n])"
    using nth_mem [OF that] set_takeWhileD [of _ P "[0..<n]"] takeWhile_nth [OF that] that
      length_takeWhile_le [of P "[0..<n]"] by fastforce
qed

lemma bit_PPN: "bit (pte_PPN p) k \<longleftrightarrow> k < 44 \<and> bit p (10 + k)"
  by (auto simp: pte_PPN_def reg_field_def bit_simps)

lemma group_size:
  "getSvnapotEntrySize p = (if ppn_lsb p < 44 then push_bit (13 + ppn_lsb p) 1 else 0)"
proof (cases "ppn_lsb p < 44")
  case True
  then have "bit (pte_PPN p) (ppn_lsb p)" using takeWhile_upt(1) [of "\<lambda>k. \<not> bit p (10 + k)" 44] by (simp add: bit_PPN ppn_lsb_def)
  moreover have "\<not> bit (pte_PPN p) j" if "j < ppn_lsb p" for j
    using takeWhile_upt(2) [of j "\<lambda>k. \<not> bit p (10 + k)" 44] that by (simp add: bit_PPN ppn_lsb_def)
  ultimately have "pte_PPN p AND - pte_PPN p = push_bit (ppn_lsb p) 1" by (rule lowest_bit)
  then show ?thesis using True unfolding getSvnapotEntrySize_def Let_def by (simp only: push_bit_push_bit if_True)
next
  case False
  then have "\<not> bit p (10 + k)" if "k < 44" for k
    using takeWhile_upt(2) [of k "\<lambda>k. \<not> bit p (10 + k)" 44] that by (simp add: ppn_lsb_def)
  then have "pte_PPN p = 0" by (intro bit_word_eqI) (simp add: bit_PPN)
  then show ?thesis using False by (simp add: getSvnapotEntrySize_def)
qed

lemma validSvnapotEntry_allowed: "validSvnapotEntry r p \<longleftrightarrow> group_allowed r p"
proof -
  have "w AND push_bit k 1 \<noteq> 0 \<longleftrightarrow> bit w k" if "k < 64" for w :: Uns64 and k
    using and_exp_eq_0_iff_not_bit [of w k] by (simp add: push_bit_of_1)
  then show ?thesis by (auto simp: validSvnapotEntry_def group_allowed_def group_size)
qed

lemma validSvpbmtEntry_allowed: "validSvpbmtEntry r p \<longleftrightarrow> type_allowed r p" "pte_PBMT p \<noteq> 0 \<longleftrightarrow> bit p 61 \<or> bit p 62"
proof -
  have e: "pte_PBMT p = (if bit p 61 then 1 else 0) OR (if bit p 62 then 2 else 0)"
    by (rule bit_word_eqI) (auto simp: pte_PBMT_def reg_field_def bit_simps less_Suc_eq numeral_2_eq_2 bit_1_iff)
  then show "pte_PBMT p \<noteq> 0 \<longleftrightarrow> bit p 61 \<or> bit p 62" by auto
  from e have "pte_PBMT p = 3 \<longleftrightarrow> bit p 61 \<and> bit p 62" by auto
  then show "validSvpbmtEntry r p \<longleftrightarrow> type_allowed r p"
    by (auto simp: validSvpbmtEntry_def type_allowed_def activeTLBIsVS1_def)
qed

section \<open>Permissions of a leaf\<close>

text \<open>A leaf permits an access if its user bit fits the mode and its permission bits cover the access,
  where an executable page is readable under \<^verbatim>\<open>MXR\<close>.\<close>

definition sv_user :: "riscvVM \<Rightarrow> riscvMode \<Rightarrow> bool" where
  "sv_user r mode \<longleftrightarrow> getBaseMode mode = RISCV_MODE_U \<or> activeTLB r = RISCV_TLB_VS2"

definition sv_SUM :: "riscvVM \<Rightarrow> bool" where
  "sv_SUM r = (if activeTLB r = RISCV_TLB_VS1 then vsstatus_SUM r else mstatus_SUM r)"

definition sv_MXR :: "riscvVM \<Rightarrow> bool" where
  "sv_MXR r \<longleftrightarrow> mstatus_MXR r \<or> activeTLB r = RISCV_TLB_VS1 \<and> vsstatus_MXR r"

definition sv_permits :: "riscvVM \<Rightarrow> riscvMode \<Rightarrow> vmPriv \<Rightarrow> bool \<Rightarrow> vmPriv \<Rightarrow> bool" where
  "sv_permits r mode req U priv \<longleftrightarrow>
    (if sv_user r mode then U else U \<longrightarrow> sv_SUM r \<and> (privVersion_1_11 r \<longrightarrow> \<not> bit req 2)) \<and>
    (bit req 0 \<longrightarrow> bit priv 0 \<or> bit priv 2 \<and> sv_MXR r) \<and> (bit req 1 \<longrightarrow> bit priv 1) \<and> (bit req 2 \<longrightarrow> bit priv 2)"

lemma bits3: "bit (1::vmPriv) n \<longleftrightarrow> n = 0" "bit (2::vmPriv) n \<longleftrightarrow> n = 1" "bit (4::vmPriv) n \<longleftrightarrow> n = 2"
  using bit_exp_iff [of 1 n, where 'a = vmPriv] bit_exp_iff [of 2 n, where 'a = vmPriv] by (auto simp: bit_1_iff)

lemma seven_mask: "(7::vmPriv) = mask 3"
  by (simp add: mask_eq_exp_minus_1)

lemma inj_unat: "inj (unat :: 'a::len word \<Rightarrow> nat)"
  by (rule injI) (simp add: word_unat_eq_iff)

lemma priv_cases: "(req :: vmPriv) AND 7 = req \<Longrightarrow> req \<in> {0, 1, 2, 3, 4, 5, 6, 7}"
proof -
  assume "req AND 7 = req"
  then have "take_bit 3 req = req" by (simp add: take_bit_eq_mask seven_mask)
  then have "unat req = take_bit 3 (unat req)" by (metis unsigned_take_bit_eq)
  then have "unat req < 8" using take_bit_nat_less_exp [of 3 "unat req"] by simp
  then have "unat req \<in> {0, 1, 2, 3, 4, 5, 6, 7}" by auto
  then have "unat req \<in> unat ` {0, 1, 2, 3, 4, 5, 6, 7 :: vmPriv}" by auto
  then show ?thesis unfolding inj_image_mem_iff [OF inj_unat] .
qed

lemma pte_priv_masked: "pte_priv p AND 7 = pte_priv p"
  unfolding seven_mask by (intro bit_word_eqI) (auto simp: pte_priv_def reg_field_def bit_simps)

lemma priv_subset:
  fixes x req :: vmPriv
  assumes "req AND 7 = req"
  shows "x AND req = req \<longleftrightarrow> (bit req 0 \<longrightarrow> bit x 0) \<and> (bit req 1 \<longrightarrow> bit x 1) \<and> (bit req 2 \<longrightarrow> bit x 2)"
proof -
  have "n < 3" if "bit req n" for n using that assms unfolding seven_mask by (metis bit_and_iff bit_mask_iff)
  moreover have "x AND req = req \<longleftrightarrow> (\<forall>n. bit req n \<longrightarrow> bit x n)"
    using bit_imp_le_length [of req] by (auto simp: bit_eq_iff bit_and_iff)
  ultimately have "x AND req = req \<longleftrightarrow> (\<forall>n<3. bit req n \<longrightarrow> bit x n)" by blast
  also have "\<dots> \<longleftrightarrow> (\<forall>n\<in>{0, 1, 2}. bit req n \<longrightarrow> bit x n)" by (auto simp: less_Suc_eq numeral_3_eq_3 numeral_2_eq_2)
  finally show ?thesis by simp
qed

lemma checkEntryPriv_permits:
  assumes "req \<noteq> 0" "req AND 7 = req" "entryPriv e AND 7 = entryPriv e"
  shows "checkEntryPriv r mode e req \<noteq> 0 \<longleftrightarrow> sv_permits r mode req (entryU e) (entryPriv e)"
proof -
  define x where "x = (if bit (entryPriv e) 2 \<and> sv_MXR r then entryPriv e OR 1 else entryPriv e)"
  have bit2: "entryPriv e AND 4 \<noteq> 0 \<longleftrightarrow> bit (entryPriv e) 2" using and_exp_eq_0_iff_not_bit [of "entryPriv e" 2] by simp
  have g: "getEntryPriv r mode e = (if sv_user r mode then (if entryU e then x else 0)
      else if entryU e then (if \<not> sv_SUM r then 0 else if privVersion_1_11 r then x AND NOT 4 else x) else x)"
    by (cases "activeTLB r") (simp_all add: getEntryPriv_def sv_user_def sv_SUM_def sv_MXR_def x_def bit2 Let_def)
  have none: "0 AND req \<noteq> req" using assms(1) by simp
  have noX: "(x AND NOT 4) AND req = req \<longleftrightarrow> \<not> bit req 2 \<and> x AND req = req"
    unfolding priv_subset [OF assms(2)] by (auto simp: bit_and_iff bit_not_iff bits3)
  have "checkEntryPriv r mode e req \<noteq> 0 \<longleftrightarrow> getEntryPriv r mode e AND req = req"
    using none by (auto simp: checkEntryPriv_def Let_def)
  also have "\<dots> \<longleftrightarrow> (if sv_user r mode then entryU e else entryU e \<longrightarrow> sv_SUM r \<and> (privVersion_1_11 r \<longrightarrow> \<not> bit req 2)) \<and>
    x AND req = req"
    unfolding g using none noX by (simp del: and_zero_eq zero_and_eq)
  finally have "checkEntryPriv r mode e req \<noteq> 0 \<longleftrightarrow>
    (if sv_user r mode then entryU e else entryU e \<longrightarrow> sv_SUM r \<and> (privVersion_1_11 r \<longrightarrow> \<not> bit req 2)) \<and> x AND req = req" .
  then show ?thesis
    unfolding priv_subset [OF assms(2)] by (auto simp: sv_permits_def x_def bit_or_iff bits3)
qed

section \<open>Reads of entries\<close>

abbreviation sv_endian :: "riscvVM \<Rightarrow> riscvMode \<Rightarrow> bool" where
  "sv_endian r mode \<equiv> riscvGetDataEndian r (getSMode mode) = Some True"

text \<open>The memory as a walk sees it.\<close>

definition sv_read :: "riscvVM \<Rightarrow> riscvMode \<Rightarrow> riscvVAMode \<Rightarrow> Uns64 \<Rightarrow> Uns64 option" where
  "sv_read r mode vaMode addr =
    map_option (\<lambda>v. if vaMode = VAM_Sv32 then take_bit 32 v else v)
      (readDomain r (getPTWDomain r) (sv_endian r mode) addr (sv_bytes vaMode))"

text \<open>A walk changes only the flag for bad addresses and the recorded addresses.\<close>

definition walked :: "bool \<Rightarrow> (bool \<Rightarrow> (Uns64 \<times> Uns32) list) \<Rightarrow> riscvVM \<Rightarrow> riscvVM" where
  "walked bad addrs r = r\<lparr>PTWBadAddr := bad, ptwSet := addrs\<rparr>"

lemma walked_walked [simp]: "walked b s (walked b' s' r) = walked b s r"
  by (simp add: walked_def)

lemma walked_fields [simp]:
  "activeTLB (walked b s r) = activeTLB r" "PTWBadAddr (walked b s r) = b" "tlbVCxt (walked b s r) = tlbVCxt r"
  "ptwSet (walked b s r) = s" "domainWrites (walked b s r) = domainWrites r" "origPriv (walked b s r) = origPriv r"
  "artifactWalk (walked b s r) = artifactWalk r"
  by (simp_all add: walked_def)

lemma walked_functions [simp]:
  "getPTWDomain (walked b s r) = getPTWDomain r" "riscvGetDataEndian (walked b s r) mode = riscvGetDataEndian r mode"
  "sv_read (walked b s r) mode vaMode = sv_read r mode vaMode" "pte_legal (walked b s r) = pte_legal r"
  "sv_permits (walked b s r) mode req = sv_permits r mode req" "checkEntryCustom (walked b s r) = checkEntryCustom r"
  "getPTWException (walked b s r) = getPTWException r" "updatePTEA (walked b s r) = updatePTEA r" "updatePTED (walked b s r) = updatePTED r"
  by (simp_all add: walked_def fun_eq_iff getPTWDomain_def doStage2_def xlenIs32_def riscvGetDataEndian_def sv_read_def pte_legal_def
    group_allowed_def type_allowed_def sv_permits_def sv_user_def sv_SUM_def sv_MXR_def checkEntryCustom_def
    getPTWException_def originalAccessFault_def loadPageFault_def storeAMOPageFault_def instructionPageFault_def updatePTEA_def updatePTED_def)

text \<open>The recorded addresses after one more read.\<close>

definition ptw_record :: "riscvVM \<Rightarrow> Uns64 \<Rightarrow> Uns32 \<Rightarrow> bool \<Rightarrow> (Uns64 \<times> Uns32) list" where
  "ptw_record r addr bytes =
    (if tlbVCxt r then (ptwSet r)(activeTLBIsVS2 r := ptwSet r (activeTLBIsVS2 r) @ [(addr, bytes)]) else ptwSet r)"

lemma readPageTableEntry_eq:
  "readPageTableEntry r mode addr (sv_bytes vaMode) level =
    (case sv_read r mode vaMode addr of
       Some v \<Rightarrow> (v, walked False (ptw_record r addr (sv_bytes vaMode)) r)
     | None \<Rightarrow> (0, walked True (ptw_record r addr (sv_bytes vaMode)) r))"
proof -
  define bytes where "bytes = sv_bytes vaMode"
  have four: "bytes = 4 \<longleftrightarrow> vaMode = VAM_Sv32" by (simp add: bytes_def sv_bytes_def)
  define t where "t = (if doStage2 r (activeTLB r) then (if bytes = 4 then 0x2000 else 0x3000) else tinst r)"
  have enter: "enterPTWContext r bytes VM_PRIV_R level =
    (\<lparr>cxtPTWActive = PTWActive r, cxtPTWLevel = PTWLevel r, cxtTinst = tinst r\<rparr>,
     r\<lparr>PTWActive := True, PTWLevel := level, PTWBadAddr := False, tinst := t\<rparr>)"
    by (simp add: enterPTWContext_def t_def doStage2_def xlenIs32_def Let_def)
  have sv: "sv_read r mode vaMode addr =
      map_option (\<lambda>v. if bytes = 4 then take_bit 32 v else v) (readDomain r (getPTWDomain r) (sv_endian r mode) addr bytes)"
    unfolding four by (simp add: sv_read_def bytes_def)
  show ?thesis
    unfolding bytes_def [symmetric] sv readPageTableEntry_def enter Let_def prod.case
    by (cases "tlbVCxt r"; cases "readDomain r (getPTWDomain r) (sv_endian r mode) addr bytes")
      (simp_all add: vmirtReadDomain_def leavePTWContext_def walked_def ptw_record_def activeTLBIsVS2_def)
qed

lemma checkTableEntry_walked:
  "checkTableEntry (walked b s r) p = PTEE_READ \<longleftrightarrow> b"
  "checkTableEntry (walked False s r) p = PTEE_DONE \<longleftrightarrow> pte_legal r p \<and> pte_priv p \<noteq> 0"
  "checkTableEntry (walked False s r) p = PTEE_LEAF \<longleftrightarrow> pte_legal r p \<and> pte_priv p = 0"
  "checkTableEntry (walked b s r) p \<noteq> PTEE_WRITE"
proof -
  have rw: "pte_priv p AND 3 = 2 \<longleftrightarrow> bit (pte_priv p) 1 \<and> \<not> bit (pte_priv p) 0"
    using priv_cases [OF pte_priv_masked, of p] by (auto simp: bits3)
  have w: "validSvnapotEntry (walked b s r) = validSvnapotEntry r" "validSvpbmtEntry (walked b s r) = validSvpbmtEntry r"
    "ignore_non_leaf_DAU (walked b s r) = ignore_non_leaf_DAU r" for b s
    by (simp_all add: walked_def fun_eq_iff validSvnapotEntry_def validSvpbmtEntry_def activeTLBIsVS1_def)
  show "checkTableEntry (walked b s r) p = PTEE_READ \<longleftrightarrow> b" "checkTableEntry (walked b s r) p \<noteq> PTEE_WRITE"
    by (simp_all add: checkTableEntry_def)
  show "checkTableEntry (walked False s r) p = PTEE_DONE \<longleftrightarrow> pte_legal r p \<and> pte_priv p \<noteq> 0"
    "checkTableEntry (walked False s r) p = PTEE_LEAF \<longleftrightarrow> pte_legal r p \<and> pte_priv p = 0"
    unfolding checkTableEntry_def walked_fields w rw validSvnapotEntry_allowed validSvpbmtEntry_allowed by (auto simp: pte_legal_def)
qed

section \<open>The loop over the levels\<close>

lemma vpn_offset: "drop_bit (i * sv_width vaMode) (drop_bit 12 va) AND (push_bit (sv_width vaMode) 1 - 1) = sv_vpn vaMode i va"
proof -
  have "push_bit w 1 - 1 = (mask w :: Uns64)" for w by (simp add: mask_eq_exp_minus_1)
  then show ?thesis by (simp add: sv_vpn_def take_bit_eq_mask add.commute)
qed

lemma walkLevels_step:
  "walkLevels (Suc i) r mode vaMode (drop_bit 12 va) a PTE PTEAddr =
    (let addr = a + sv_vpn vaMode i va * ucast (sv_bytes vaMode)
     in case sv_read r mode vaMode addr of
          None \<Rightarrow> (PTEE_READ, 0, addr, i, walked True (ptw_record r addr (sv_bytes vaMode)) r)
        | Some p \<Rightarrow>
            (let r' = walked False (ptw_record r addr (sv_bytes vaMode)) r; error = checkTableEntry r' p
             in if error \<noteq> PTEE_LEAF then (error, p, addr, i, r')
                else walkLevels i r' mode vaMode (drop_bit 12 va) (pte_PPN p * 4096) p addr))"
proof -
  have s: "(if vaMode = VAM_Sv32 then 4 else 8 :: Uns32) = sv_bytes vaMode" "(if vaMode = VAM_Sv32 then 10 else 9 :: nat) = sv_width vaMode"
    by (simp_all add: sv_bytes_def sv_width_def)
  have p: "getPTETableAddress x = x * 4096" for x by (simp add: getPTETableAddress_def push_bit_eq_mult)
  show ?thesis
    unfolding walkLevels.simps Let_def s vpn_offset readPageTableEntry_eq p
    by (cases "sv_read r mode vaMode (a + sv_vpn vaMode i va * ucast (sv_bytes vaMode))")
      (simp_all add: checkTableEntry_walked(1) [THEN iffD2])
qed

definition walk_result :: "sv_outcome \<Rightarrow> pteError \<Rightarrow> SvPTE \<Rightarrow> Uns64 \<Rightarrow> nat \<Rightarrow> bool" where
  "walk_result out error p addr i = (case out of
     AccessFault \<Rightarrow> error = PTEE_READ
   | PageFault \<Rightarrow> error \<notin> {PTEE_DONE, PTEE_READ, PTEE_WRITE}
   | Leaf p' addr' i' \<Rightarrow> error = PTEE_DONE \<and> p = p' \<and> addr = addr' \<and> i = i')"

declare walkLevels.simps(2) [simp del]

lemma walkLevels_spec:
  "\<exists>error p addr i bad set. walkLevels n r mode vaMode (drop_bit 12 va) a PTE PTEAddr = (error, p, addr, i, walked bad set r) \<and>
    (n = 0 \<or> bad = (error = PTEE_READ)) \<and>
    walk_result (sv_walk (sv_read r mode vaMode) (pte_legal r) vaMode n a va) error p addr i \<and>
    length (set (activeTLBIsVS2 r)) \<le> length (ptwSet r (activeTLBIsVS2 r)) + n \<and>
    set (\<not> activeTLBIsVS2 r) = ptwSet r (\<not> activeTLBIsVS2 r)"
proof (induction n arbitrary: r a PTE PTEAddr)
  case 0
  show ?case
    by (rule exI [of _ PTEE_LEAF], rule exI [of _ PTE], rule exI [of _ PTEAddr], rule exI [of _ 0], rule exI [of _ "PTWBadAddr r"], rule exI [of _ "ptwSet r"])
      (simp add: walk_result_def walked_def)
next
  case (Suc n)
  let ?addr = "a + sv_vpn vaMode n va * ucast (sv_bytes vaMode)"
  let ?set = "ptw_record r ?addr (sv_bytes vaMode)"
  have len: "length (?set (activeTLBIsVS2 r)) \<le> Suc (length (ptwSet r (activeTLBIsVS2 r)))"
    "?set (\<not> activeTLBIsVS2 r) = ptwSet r (\<not> activeTLBIsVS2 r)" by (simp_all add: ptw_record_def)
  show ?case
  proof (cases "sv_read r mode vaMode ?addr")
    case None
    show ?thesis
      by (rule exI [of _ PTEE_READ], rule exI [of _ 0], rule exI [of _ ?addr], rule exI [of _ n], rule exI [of _ True], rule exI [of _ ?set])
        (use len None in \<open>simp add: walkLevels_step Let_def walk_result_def\<close>)
  next
    case (Some p)
    let ?r = "walked False ?set r"
    show ?thesis
    proof (cases "checkTableEntry ?r p = PTEE_LEAF")
      case True
      then have p: "pte_legal r p" "pte_priv p = 0" by (simp_all add: checkTableEntry_walked)
      obtain error q addr i bad set where
        w: "walkLevels n ?r mode vaMode (drop_bit 12 va) (pte_PPN p * 4096) p ?addr = (error, q, addr, i, walked bad set ?r)"
        "n = 0 \<or> bad = (error = PTEE_READ)"
        "walk_result (sv_walk (sv_read r mode vaMode) (pte_legal r) vaMode n (pte_PPN p * 4096) va) error q addr i"
        "length (set (activeTLBIsVS2 r)) \<le> length (?set (activeTLBIsVS2 r)) + n"
        "set (\<not> activeTLBIsVS2 r) = ptwSet r (\<not> activeTLBIsVS2 r)"
        using Suc [of ?r "pte_PPN p * 4096" p ?addr] len(2) by (auto simp: activeTLBIsVS2_def)
      have b: "bad = (error = PTEE_READ)"
      proof (cases n)
        case 0
        then show ?thesis using w(1) by (auto simp: walked_def dest: arg_cong [of _ _ PTWBadAddr])
      qed (use w(2) in simp)
      show ?thesis
        by (rule exI [of _ error], rule exI [of _ q], rule exI [of _ addr], rule exI [of _ i], rule exI [of _ bad], rule exI [of _ set])
          (use b w(1,3-5) len True Some p in \<open>simp add: walkLevels_step Let_def\<close>)
    next
      case False
      show ?thesis
        by (rule exI [of _ "checkTableEntry ?r p"], rule exI [of _ p], rule exI [of _ ?addr], rule exI [of _ n], rule exI [of _ False], rule exI [of _ ?set])
          (use False Some len checkTableEntry_walked(1,4) [of False ?set r p] checkTableEntry_walked(2,3) [of ?set r p] in \<open>auto simp: walkLevels_step Let_def walk_result_def\<close>)
    qed
  qed
qed

section \<open>The TLB entry of a leaf\<close>

definition sv_size :: "riscvVAMode \<Rightarrow> SvPTE \<Rightarrow> nat \<Rightarrow> Uns64" where
  "sv_size vaMode p i = (if pte_N p then push_bit (13 + ppn_lsb p) 1 else push_bit (i * sv_width vaMode + 12) 1)"

text \<open>The physical address: the page number of the leaf, with its low bits from the virtual address.\<close>

definition sv_pa :: "riscvVAMode \<Rightarrow> SvPTE \<Rightarrow> nat \<Rightarrow> Uns64 \<Rightarrow> Uns64" where
  "sv_pa vaMode p i va = (pte_PPN p * 4096 AND NOT (sv_size vaMode p i - 1)) + (va AND (sv_size vaMode p i - 1))"

definition sv_aligned :: "riscvVAMode \<Rightarrow> SvPTE \<Rightarrow> nat \<Rightarrow> bool" where
  "sv_aligned vaMode p i \<longleftrightarrow> pte_N p \<or> pte_PPN p * 4096 AND (sv_size vaMode p i - 1) = 0"

definition sv_updates :: "riscvVM \<Rightarrow> vmPriv \<Rightarrow> SvPTE \<Rightarrow> bool" where
  "sv_updates r req p \<longleftrightarrow> (pte_A p \<or> updatePTEA r) \<and> (bit req 1 \<longrightarrow> pte_D p \<or> updatePTED r)"

definition sv_accepts :: "riscvVM \<Rightarrow> riscvMode \<Rightarrow> vmPriv \<Rightarrow> riscvVAMode \<Rightarrow> SvPTE \<Rightarrow> nat \<Rightarrow> bool" where
  "sv_accepts r mode req vaMode p i \<longleftrightarrow>
    sv_aligned vaMode p i \<and> sv_permits r mode req (pte_U p) (pte_priv p) \<and> sv_updates r req p"

text \<open>The entry that an accepted leaf gives for an address.\<close>

definition sv_entry :: "riscvVM \<Rightarrow> vmPriv \<Rightarrow> riscvVAMode \<Rightarrow> SvPTE \<Rightarrow> nat \<Rightarrow> tlbEntry \<Rightarrow> tlbEntry" where
  "sv_entry r req vaMode p i e = e\<lparr>
    lowVA := lowVA e AND NOT (sv_size vaMode p i - 1), highVA := lowVA e OR (sv_size vaMode p i - 1),
    entryPA := pte_PPN p * 4096 AND NOT (sv_size vaMode p i - 1), entryTLB := activeTLB r, entryPriv := pte_priv p,
    entryV := pte_V p, entryU := pte_U p, entryG := getG r (pte_G p), entryA := True, entryD := pte_D p \<or> bit req 1\<rparr>"

lemma and_not_plus: "(h AND NOT c) + c = h OR c" for h c :: "'a::len word"
proof -
  have "(h AND NOT c) + c = (h AND NOT c) OR c" by (rule disjunctive_add) (simp add: bit_and_iff bit_not_iff)
  also have "\<dots> = h OR c" by (rule bit_word_eqI) (auto simp: bit_and_iff bit_or_iff bit_not_iff)
  finally show ?thesis .
qed

lemma minus_eq_not_pred: "- S = NOT (S - 1)" for S :: "'a::len word"
  by (simp add: not_eq_complement)

lemma and_not_self: "x AND m = 0 \<Longrightarrow> x AND NOT m = x" for x m :: "'a::len word"
  by (metis and.assoc and.right_neutral bit.conj_disj_distrib bit.disj_cancel_right or.left_neutral)

lemma write_bit: "req AND VM_PRIV_W = 0 \<longleftrightarrow> \<not> bit req 1" for req :: vmPriv
  using and_exp_eq_0_iff_not_bit [of req 1] by simp

lemma fillTLBEntry_spec:
  assumes req: "req \<noteq> 0" "req AND 7 = req" and group: "pte_N p \<Longrightarrow> ppn_lsb p < 44"
  shows "\<exists>error e'. fillTLBEntry r mode (e\<lparr>entryPA := push_bit 12 (pte_PPN p)\<rparr>) req p i (sv_width vaMode) = (error, e') \<and>
    error \<notin> {PTEE_READ, PTEE_WRITE} \<and> (error = PTEE_DONE \<longleftrightarrow> sv_accepts r mode req vaMode p i) \<and>
    (error = PTEE_DONE \<longrightarrow> e' = sv_entry r req vaMode p i e)"
proof -
  define S where "S = sv_size vaMode p i"
  define M where "M = S - 1"
  define PA where "PA = pte_PPN p * 4096"
  have PA: "push_bit 12 (pte_PPN p) = PA" by (simp add: PA_def push_bit_eq_mult)
  have size: "(if pte_N p then getSvnapotEntrySize p else push_bit (i * sv_width vaMode + 12) 1) = S"
    using group by (simp add: S_def sv_size_def group_size)
  have high: "(x AND NOT M) + S - 1 = x OR M" for x using and_not_plus [of x M] by (simp add: M_def algebra_simps)
  have neg: "- S = NOT M" unfolding M_def by (rule minus_eq_not_pred)
  have permit: "checkEntryPriv r mode e1 req = 0 \<longleftrightarrow> \<not> sv_permits r mode req (pte_U p) (pte_priv p)"
    if "entryU e1 = pte_U p" "entryPriv e1 = pte_priv p" for e1
    using checkEntryPriv_permits [OF req, of e1 r mode] that by (auto simp: pte_priv_masked)
  have aligned: "sv_aligned vaMode p i \<longleftrightarrow> pte_N p \<or> PA AND M = 0" by (simp add: sv_aligned_def PA_def S_def M_def)
  have entry: "sv_entry r req vaMode p i e = e\<lparr>lowVA := lowVA e AND NOT M, highVA := lowVA e OR M,
    entryPA := PA AND NOT M, entryTLB := activeTLB r, entryPriv := pte_priv p, entryV := pte_V p, entryU := pte_U p,
    entryG := getG r (pte_G p), entryA := True, entryD := pte_D p \<or> bit req 1\<rparr>"
    by (simp add: sv_entry_def M_def S_def PA_def)
  show ?thesis
  proof (cases "sv_aligned vaMode p i \<and> sv_permits r mode req (pte_U p) (pte_priv p)")
    case False
    then show ?thesis
      unfolding fillTLBEntry_def size PA Let_def write_bit neg sv_accepts_def M_def [symmetric]
      by (cases "pte_N p") (auto simp: aligned permit)
  next
    case True
    have masked: "PA AND M = 0 \<Longrightarrow> PA AND NOT M = PA" by (rule and_not_self)
    have "\<exists>error e1. fillTLBEntry r mode (e\<lparr>entryPA := PA\<rparr>) req p i (sv_width vaMode) = (error, e1) \<and>
      (error, e1) = (if \<not> pte_A p \<and> \<not> updatePTEA r then (PTEE_A0, e1)
        else if \<not> pte_D p \<and> bit req 1 \<and> \<not> updatePTED r then (PTEE_D0, e1)
        else (PTEE_DONE, sv_entry r req vaMode p i e))"
      using True unfolding fillTLBEntry_def size Let_def write_bit neg M_def [symmetric] aligned entry
      by (cases "pte_N p"; cases "pte_A p"; cases "pte_D p"; cases "bit req 1") (simp_all add: permit high masked)
    then show ?thesis using True unfolding PA sv_accepts_def sv_updates_def by (auto split: if_splits)
  qed
qed

section \<open>The walk\<close>

text \<open>The exceptions of a failed access, by the access that started the walk.\<close>

definition sv_access_fault :: "riscvVM \<Rightarrow> riscvException" where
  "sv_access_fault r =
    (if origPriv r = VM_PRIV_R then riscv_E_LoadAccessFault
     else if origPriv r = VM_PRIV_W then riscv_E_StoreAMOAccessFault else riscv_E_InstructionAccessFault)"

definition sv_page_fault :: "riscvVM \<Rightarrow> riscvException" where
  "sv_page_fault r =
    (if origPriv r = VM_PRIV_W then (if activeTLB r = RISCV_TLB_VS2 then riscv_E_StoreAMOGuestPageFault else riscv_E_StoreAMOPageFault)
     else if hlvxActive r \<or> origPriv r = VM_PRIV_R
     then (if activeTLB r = RISCV_TLB_VS2 then riscv_E_LoadGuestPageFault else riscv_E_LoadPageFault)
     else (if activeTLB r = RISCV_TLB_VS2 then riscv_E_InstructionGuestPageFault else riscv_E_InstructionPageFault))"

abbreviation access_privs :: "vmPriv set" where
  "access_privs \<equiv> {VM_PRIV_R, VM_PRIV_W, VM_PRIV_X}"

lemma getPTWException_spec:
  assumes "origPriv r \<in> access_privs" "error \<noteq> PTEE_DONE"
  shows "getPTWException r error =
    Some (if error \<in> {PTEE_READ, PTEE_WRITE} then sv_access_fault r else sv_page_fault r)"
proof -
  have "pteErrorException error = (if error = PTEE_READ then PTX_LOAD_ACCESS else if error = PTEE_WRITE then PTX_STORE_ACCESS else PTX_PAGE)"
    by (cases error) simp_all
  then show ?thesis
    using assms(1) by (auto simp: getPTWException_def originalAccessFault_def sv_access_fault_def sv_page_fault_def
      loadPageFault_def storeAMOPageFault_def instructionPageFault_def)
qed

lemma sv_faults_nonzero [simp]: "sv_access_fault r \<noteq> 0" "sv_page_fault r \<noteq> 0"
  by (simp_all add: sv_access_fault_def sv_page_fault_def)

lemma walked_registers [simp]:
  "hlvxActive (walked b s r) = hlvxActive r" "getG (walked b s r) = getG r"
  by (simp_all add: fun_eq_iff walked_def getG_def activeTLBIsVS2_def getASIDMask_def)

lemma walked_accepts [simp]: "sv_accepts (walked b s r) mode req vaMode p i = sv_accepts r mode req vaMode p i"
  unfolding sv_accepts_def sv_updates_def walked_functions ..

lemma walked_entry [simp]: "sv_entry (walked b s r) req vaMode p i e = sv_entry r req vaMode p i e"
  unfolding sv_entry_def walked_fields walked_registers ..

lemma walked_page_fault [simp]: "sv_page_fault (walked b s r) = sv_page_fault r"
  unfolding sv_page_fault_def walked_fields walked_registers ..

lemma walked_access_fault [simp]: "sv_access_fault (walked b s r) = sv_access_fault r"
  unfolding sv_access_fault_def walked_fields ..

text \<open>The outcome of a walk from its specification: the address of the entry, whether the entry has to
  be written, and whether that write succeeds.\<close>

abbreviation sv_stale :: "vmPriv \<Rightarrow> SvPTE \<Rightarrow> bool" where
  "sv_stale req p \<equiv> \<not> pte_A p \<or> \<not> pte_D p \<and> bit req 1"

definition sv_write_fails :: "riscvVM \<Rightarrow> riscvVAMode \<Rightarrow> Uns64 \<Rightarrow> bool" where
  "sv_write_fails r vaMode addr \<longleftrightarrow> \<not> artifactWalk r \<and> \<not> writeDomain r (getPTWDomain r) addr (sv_bytes vaMode)"

definition sv_write :: "riscvVM \<Rightarrow> riscvMode \<Rightarrow> riscvVAMode \<Rightarrow> Uns64 \<Rightarrow> Uns64 \<Rightarrow> ptwDomain \<times> bool \<times> Uns64 \<times> Uns32 \<times> Uns64" where
  "sv_write r mode vaMode addr v =
    (getPTWDomain r, sv_endian r mode, addr, sv_bytes vaMode, if vaMode = VAM_Sv32 then take_bit 32 v else v)"

lemma writePageTableEntry_eq:
  "writePageTableEntry r mode addr (sv_bytes vaMode) v level =
    (walked (sv_write_fails r vaMode addr) (ptwSet r) r)
      \<lparr>domainWrites := (if artifactWalk r \<or> sv_write_fails r vaMode addr then [] else [sv_write r mode vaMode addr v]) @ domainWrites r\<rparr>"
proof -
  define bytes where "bytes = sv_bytes vaMode"
  have four: "vaMode = VAM_Sv32 \<longleftrightarrow> bytes = 4" by (simp add: bytes_def sv_bytes_def)
  define t where "t = (if doStage2 r (activeTLB r) then (if bytes = 4 then 0x2020 else 0x3020) else tinst r)"
  have enter: "enterPTWContext r bytes VM_PRIV_W level =
    (\<lparr>cxtPTWActive = PTWActive r, cxtPTWLevel = PTWLevel r, cxtTinst = tinst r\<rparr>,
     r\<lparr>PTWActive := True, PTWLevel := level, PTWBadAddr := False, tinst := t\<rparr>)"
    by (simp add: enterPTWContext_def t_def doStage2_def xlenIs32_def Let_def)
  show ?thesis
    unfolding sv_write_def sv_write_fails_def four bytes_def [symmetric] writePageTableEntry_def enter Let_def prod.case
    by (cases "artifactWalk r"; cases "writeDomain r (getPTWDomain r) addr bytes")
      (simp_all add: vmirtWriteDomain_def leavePTWContext_def walked_def)
qed

text \<open>The result of a walk: an exception, or an entry with the write of the page table entry, if any.\<close>

definition sv_translate ::
  "riscvVM \<Rightarrow> riscvMode \<Rightarrow> vmPriv \<Rightarrow> riscvVAMode \<Rightarrow> nat \<Rightarrow> Uns64 \<Rightarrow> tlbEntry \<Rightarrow>
    riscvException + tlbEntry \<times> (ptwDomain \<times> bool \<times> Uns64 \<times> Uns32 \<times> Uns64) list" where
  "sv_translate r mode req vaMode n a e =
    (case sv_walk (sv_read r mode vaMode) (pte_legal r) vaMode n a (lowVA e) of
       AccessFault \<Rightarrow> Inl (sv_access_fault r)
     | PageFault \<Rightarrow> Inl (sv_page_fault r)
     | Leaf p addr i \<Rightarrow>
         if \<not> sv_accepts r mode req vaMode p i \<or> checkEntryCustom r p vaMode \<noteq> PTEE_DONE then Inl (sv_page_fault r)
         else if sv_stale req p \<and> sv_write_fails r vaMode addr then Inl (sv_access_fault r)
         else Inr (sv_entry r req vaMode p i e,
           if sv_stale req p \<and> \<not> artifactWalk r then [sv_write r mode vaMode addr (setPTEAD p True (pte_D p \<or> bit req 1))] else []))"

lemma checkEntryCustom_errors: "checkEntryCustom r p vaMode \<in> {PTEE_DONE, PTEE_CUSTOM}"
  by (simp add: checkEntryCustom_def)

lemma walked_write [simp]:
  "sv_write_fails (walked b s r) vaMode addr = sv_write_fails r vaMode addr"
  "sv_write (walked b s r) mode vaMode addr v = sv_write r mode vaMode addr v"
proof -
  have "writeDomain (walked b s r) = writeDomain r" by (simp add: walked_def)
  then show "sv_write_fails (walked b s r) vaMode addr = sv_write_fails r vaMode addr"
    unfolding sv_write_fails_def by simp
qed (simp add: sv_write_def)

lemma doPageTableWalkVA_result:
  assumes "getVAlevels vaMode = Some n" "getRootTableAddress r = Some a" "origPriv r \<in> access_privs" "req \<noteq> 0" "req AND 7 = req"
  shows "\<exists>exc e' bad set ws. doPageTableWalkVA r mode e req vaMode =
      Some (exc, e', (walked bad set r)\<lparr>domainWrites := ws @ domainWrites r\<rparr>) \<and>
    (case sv_translate r mode req vaMode n a e of Inl x \<Rightarrow> exc = x \<and> ws = [] | Inr (t, w) \<Rightarrow> exc = 0 \<and> e' = t \<and> ws = w) \<and>
    length (set (activeTLBIsVS2 r)) \<le> length (ptwSet r (activeTLBIsVS2 r)) + n \<and>
    set (\<not> activeTLBIsVS2 r) = ptwSet r (\<not> activeTLBIsVS2 r)"
proof -
  have s: "(if vaMode = VAM_Sv32 then 4 else 8 :: Uns32) = sv_bytes vaMode" "(if vaMode = VAM_Sv32 then 10 else 9 :: nat) = sv_width vaMode"
    by (simp_all add: sv_bytes_def sv_width_def)
  have n: "n \<noteq> 0" using assms(1) by (auto simp: getVAlevels_def split: if_splits)
  obtain error p addr i bad set where w: "walkLevels n r mode vaMode (drop_bit 12 (lowVA e)) a 0 0 = (error, p, addr, i, walked bad set r)"
    and res: "walk_result (sv_walk (sv_read r mode vaMode) (pte_legal r) vaMode n a (lowVA e)) error p addr i"
    and len: "length (set (activeTLBIsVS2 r)) \<le> length (ptwSet r (activeTLBIsVS2 r)) + n"
      "set (\<not> activeTLBIsVS2 r) = ptwSet r (\<not> activeTLBIsVS2 r)"
    using walkLevels_spec [of n r mode vaMode "lowVA e" a 0 0] by blast
  have same: "(walked b' s' r)\<lparr>domainWrites := domainWrites r\<rparr> = walked b' s' r" for b' s' by (simp add: walked_def)
  note unf = same doPageTableWalkVA_def assms(1,2) Option.bind.bind_lunit Let_def s w prod.case
  have stop: ?thesis
    if "doPageTableWalkVA r mode e req vaMode = Some (exc, e', (walked bad' set r)\<lparr>domainWrites := ws @ domainWrites r\<rparr>)"
      "case sv_translate r mode req vaMode n a e of Inl x \<Rightarrow> exc = x \<and> ws = [] | Inr (t, w) \<Rightarrow> exc = 0 \<and> e' = t \<and> ws = w" for exc e' bad' ws
    using that len by blast
  show ?thesis
  proof (cases "sv_walk (sv_read r mode vaMode) (pte_legal r) vaMode n a (lowVA e)")
    case AccessFault
    then have "error = PTEE_READ" using res by (simp add: walk_result_def)
    then show ?thesis
      by (intro stop [of "sv_access_fault r" e "[]" bad])
        (simp_all add: unf getPTWException_spec [OF assms(3)] sv_translate_def AccessFault)
  next
    case PageFault
    then have "error \<notin> {PTEE_DONE, PTEE_READ, PTEE_WRITE}" using res by (simp add: walk_result_def)
    then show ?thesis
      by (intro stop [of "sv_page_fault r" e "[]" bad])
        (simp_all add: unf getPTWException_spec [OF assms(3)] sv_translate_def PageFault)
  next
    case (Leaf p' addr' i')
    then have leaf: "error = PTEE_DONE" "p' = p" "addr' = addr" "i' = i" using res by (simp_all add: walk_result_def)
    have group: "pte_N p \<Longrightarrow> ppn_lsb p < 44"
      using sv_walk_legal [OF Leaf] leaf(2) by (auto simp: pte_legal_def group_allowed_def)
    obtain error' e' where f: "fillTLBEntry (walked bad set r) mode (e\<lparr>entryPA := push_bit 12 (pte_PPN p)\<rparr>) req p i (sv_width vaMode) = (error', e')"
      "error' \<notin> {PTEE_READ, PTEE_WRITE}" "error' = PTEE_DONE \<longleftrightarrow> sv_accepts r mode req vaMode p i"
      "error' = PTEE_DONE \<longrightarrow> e' = sv_entry r req vaMode p i e"
      using fillTLBEntry_spec [OF assms(4,5) group, where r = "walked bad set r" and mode = mode and e = e and i = i and vaMode = vaMode] unfolding walked_accepts walked_entry by blast
    define error2 where "error2 = (if error' \<noteq> PTEE_DONE then error' else checkEntryCustom r p vaMode)"
    show ?thesis
    proof (cases "error2 = PTEE_DONE")
      case False
      have "\<exists>error2. error2 \<notin> {PTEE_DONE, PTEE_READ, PTEE_WRITE} \<and>
        (if error' \<noteq> PTEE_DONE then error' else checkEntryCustom r p vaMode) = error2"
        using False f(2) checkEntryCustom_errors [of r p vaMode] by (auto simp: error2_def)
      then show ?thesis
        using False f(3) by (intro stop [of "sv_page_fault r" e' "[]" bad])
          (auto simp: unf f(1) leaf error2_def getPTWException_spec [OF assms(3)] sv_translate_def Leaf split: if_splits)
    next
      case True
      then have ok: "sv_accepts r mode req vaMode p i" "checkEntryCustom r p vaMode = PTEE_DONE" "error' = PTEE_DONE"
          "e' = sv_entry r req vaMode p i e"
        using f by (auto simp: error2_def split: if_splits)
      have ad: "entryA e'" "entryD e' = (pte_D p \<or> bit req 1)" by (simp_all add: ok(4) sv_entry_def)
      have stale: "pte_A p \<noteq> entryA e' \<or> pte_D p \<noteq> entryD e' \<longleftrightarrow> sv_stale req p" using ad by auto
      show ?thesis
      proof (cases "sv_stale req p")
        case False
        then show ?thesis
          by (intro stop [of 0 e' "[]" bad])
            (auto simp: unf f(1) leaf stale ad sv_translate_def Leaf ok(1-3) ok(4) [symmetric])
      next
        case st: True
        let ?v = "setPTEAD p True (pte_D p \<or> bit req 1)"
        let ?f = "sv_write_fails r vaMode addr"
        let ?ws = "if artifactWalk r \<or> ?f then [] else [sv_write r mode vaMode addr ?v]"
        have wr: "writePageTableEntry (walked bad set r) mode addr (sv_bytes vaMode) v i = (walked ?f set r)
            \<lparr>domainWrites := (if artifactWalk r \<or> ?f then [] else [sv_write r mode vaMode addr v]) @ domainWrites r\<rparr>" for v
          by (simp add: writePageTableEntry_eq)
        have bad: "PTWBadAddr ((walked ?f set r)\<lparr>domainWrites := ws\<rparr>) = ?f" for ws by (simp add: walked_def)
        show ?thesis
          by (intro stop [of "if ?f then sv_access_fault r else 0" e' ?ws ?f])
            (use st in \<open>auto simp: unf f(1) leaf stale ad wr bad getPTWException_spec [OF assms(3)] sv_translate_def Leaf ok(1-3) ok(4) [symmetric]\<close>)
      qed
    qed
  qed
qed

end
