(* ===== verification/RV_VM_Pages.thy ===== *)
theory RV_VM_Pages
  imports RV_VM_Walk
begin

text \<open>
  The entries of the TLB that a lookup makes: they cover the address that was looked up, every address
  that they cover walks to the same leaf, and they translate it as the leaf says. For stage 2 this holds
  for the translation modes of 64-bit systems only.
\<close>

section \<open>Pages\<close>

lemma page_range:
  fixes x va :: "64 word"
  assumes "k < 64" "x AND NOT (push_bit k 1 - 1) \<le> va" "va \<le> x OR (push_bit k 1 - 1)"
  shows "drop_bit k va = drop_bit k x" "va - (x AND NOT (push_bit k 1 - 1)) = take_bit k va"
proof -
  have m: "push_bit k 1 - 1 = (mask k :: 64 word)" by (simp add: mask_eq_exp_minus_1)
  have low: "x AND NOT (mask k) = push_bit k (drop_bit k x)"
    by (rule bit_word_eqI) (auto simp: bit_simps)
  have d: "drop_bit k (x AND NOT (mask k)) = drop_bit k x" "drop_bit k (x OR mask k) = drop_bit k x"
    by (rule bit_word_eqI; auto simp: bit_simps dest: bit_imp_le_length)+
  have u: "take_bit 64 (unat (a :: 64 word)) = unat a" for a
    by (rule take_bit_nat_eq_self) (use unsigned_less [of a, where ?'a = nat] in simp)
  have mono: "drop_bit k a \<le> drop_bit k b" if "a \<le> b" for a b :: "64 word"
    using that unfolding word_le_nat_alt unsigned_drop_bit_eq by (simp add: u drop_bit_eq_div div_le_mono)
  show eq: "drop_bit k va = drop_bit k x"
    using mono [OF assms(2)] mono [OF assms(3)] unfolding m d by (rule order.antisym [rotated])
  have "va = push_bit k (drop_bit k va) + take_bit k va"
    by (metis bits_ident)
  then show "va - (x AND NOT (push_bit k 1 - 1)) = take_bit k va"
    unfolding m low eq [symmetric] by (metis add_diff_cancel_left')
qed

lemma page_contains:
  fixes x :: "64 word"
  shows "x AND NOT (push_bit k 1 - 1) \<le> x" "x \<le> x OR (push_bit k 1 - 1)"
  by (simp_all add: word_and_le2 le_word_or2 word_and_le1)

lemma sv_vpn_page:
  assumes "drop_bit (12 + i * sv_width vaMode) va' = drop_bit (12 + i * sv_width vaMode) va" "i \<le> j"
  shows "sv_vpn vaMode j va' = sv_vpn vaMode j va"
proof -
  have split: "12 + j * sv_width vaMode = (j - i) * sv_width vaMode + (12 + i * sv_width vaMode)"
    using add_mult_distrib [of "j - i" i "sv_width vaMode"] assms(2) by simp
  have "drop_bit (12 + j * sv_width vaMode) va' = drop_bit (12 + j * sv_width vaMode) va"
    using arg_cong [OF assms(1), of "drop_bit ((j - i) * sv_width vaMode)"] unfolding drop_bit_drop_bit split .
  then show ?thesis by (simp add: sv_vpn_def)
qed

lemma sv_walk_level: "sv_walk rd legal vaMode n a va = Leaf p addr i \<Longrightarrow> i < n"
  by (induction n arbitrary: a) (auto simp: Let_def less_Suc_eq split: option.splits if_splits)

lemma sv_walk_page:
  assumes "sv_walk rd legal vaMode n a va = Leaf p addr i"
    "drop_bit (12 + i * sv_width vaMode) va' = drop_bit (12 + i * sv_width vaMode) va"
  shows "sv_walk rd legal vaMode n a va' = Leaf p addr i"
  using assms(1)
proof (induction n arbitrary: a)
  case (Suc n)
  have "i \<le> n" using sv_walk_level [OF Suc.prems] by simp
  then have "sv_vpn vaMode n va' = sv_vpn vaMode n va" by (rule sv_vpn_page [OF assms(2)])
  then show ?case using Suc by (auto simp: Let_def split: option.splits if_splits)
qed simp

lemma sv_size_napot:
  assumes "pte_legal r p" "pte_N p"
  shows "\<exists>k < 64. sv_size vaMode p i = push_bit k 1"
  using assms by (intro exI [of _ "13 + ppn_lsb p"]) (simp add: pte_legal_def group_allowed_def sv_size_def)

lemma sv_entry_sound:
  assumes leaf: "sv_walk rd (pte_legal r) vaMode n a (lowVA e) = Leaf p addr i" "n \<le> 6" and sv32: "vaMode = VAM_Sv32 \<Longrightarrow> n \<le> 2"
    and e': "e' = sv_entry r req vaMode p i e"
  shows "lowVA e' \<le> lowVA e" "lowVA e \<le> highVA e'"
    and "lowVA e' \<le> va \<Longrightarrow> va \<le> highVA e' \<Longrightarrow> entryPA e' + (va - lowVA e') = sv_pa vaMode p i va"
    and "lowVA e' \<le> va \<Longrightarrow> va \<le> highVA e' \<Longrightarrow> \<not> pte_N p \<Longrightarrow> sv_walk rd (pte_legal r) vaMode n a va = Leaf p addr i"
proof -
  define l where "l = 12 + i * sv_width vaMode"
  have "i < n" using sv_walk_level [OF leaf(1)] .
  then have "i \<le> 5" "vaMode = VAM_Sv32 \<Longrightarrow> i \<le> 1" using leaf(2) sv32 by simp_all
  then have l: "l < 64" by (cases "vaMode = VAM_Sv32") (simp_all add: l_def sv_width_def)
  have "\<exists>k < 64. sv_size vaMode p i = push_bit k 1 \<and> (\<not> pte_N p \<longrightarrow> k = l)"
  proof (cases "pte_N p")
    case True
    then show ?thesis using sv_size_napot [OF sv_walk_legal [OF leaf(1)] True, of vaMode i] by blast
  next
    case False
    then show ?thesis using l by (intro exI [of _ l]) (simp add: sv_size_def l_def add.commute)
  qed
  then obtain k where k: "k < 64" "sv_size vaMode p i = push_bit k 1" "\<not> pte_N p \<longrightarrow> k = l" by blast
  have f: "lowVA e' = lowVA e AND NOT (push_bit k 1 - 1)" "highVA e' = lowVA e OR (push_bit k 1 - 1)"
    "entryPA e' = pte_PPN p * 4096 AND NOT (push_bit k 1 - 1)"
    unfolding e' k(2) [symmetric] by (simp_all add: sv_entry_def)
  show "lowVA e' \<le> lowVA e" "lowVA e \<le> highVA e'" unfolding f by (rule page_contains)+
  assume va: "lowVA e' \<le> va" "va \<le> highVA e'"
  note page = page_range [OF k(1) va [unfolded f]]
  have m: "va AND (push_bit k 1 - 1) = take_bit k va" by (simp add: take_bit_eq_mask mask_eq_exp_minus_1)
  show "entryPA e' + (va - lowVA e') = sv_pa vaMode p i va"
    unfolding f page(2) sv_pa_def k(2) m ..
  assume "\<not> pte_N p"
  then show "sv_walk rd (pte_legal r) vaMode n a va = Leaf p addr i"
    using sv_walk_page [OF leaf(1)] page(1) k(3) unfolding l_def by blast
qed

section \<open>Stage 1\<close>

lemma walked_root [simp]: "getRootTableAddress (walked b s r) = getRootTableAddress r"
  by (cases "activeTLB r") (simp_all add: walked_def getRootTableAddress_def xlenIs32_def)

lemma walked_translate [simp]: "sv_translate (walked b s r) mode req vaMode n a e = sv_translate r mode req vaMode n a e"
  unfolding sv_translate_def walked_functions walked_page_fault walked_access_fault walked_accepts walked_entry walked_write
    walked_fields ..

text \<open>A virtual address of 64 bits is canonical for \<open>n\<close> levels if its upper bits all equal the top bit
  of the translated part, which has nine bits for each level above the twelve of the page offset.\<close>

definition sv_canonical :: "riscvVAMode \<Rightarrow> nat \<Rightarrow> Uns64 \<Rightarrow> bool" where
  "sv_canonical vaMode n va \<longleftrightarrow> vaMode = VAM_Sv32 \<or> (\<forall>k < 64. 11 + 9 * n \<le> k \<longrightarrow> bit va k = bit va (11 + 9 * n))"

lemma sign_extend:
  fixes va :: Uns64
  assumes "t < 64"
  shows "signed_drop_bit t (push_bit t va) = signed_take_bit (63 - t) va"
proof (rule bit_word_eqI)
  fix n assume "n < LENGTH(64)"
  then show "bit (signed_drop_bit t (push_bit t va)) n = bit (signed_take_bit (63 - t) va) n"
    using assms by (cases "n < 63 - t"; cases "n = 63 - t") (auto simp: bit_simps min_def)
qed

lemma sign_extend_full [simp]: "signed_take_bit 63 va = va" for va :: Uns64
  using sign_extend [of 0 va] by simp

lemma getVABits_levels: "getVAlevels vaMode = Some n \<Longrightarrow> \<exists>m. getVABits vaMode = Some m \<and> m \<in> {32, 39, 48, 57, 64}"
  by (auto simp: getVAlevels_def getVABits_def split: if_splits)



lemma sv_levels: "getVAlevels vaMode = Some n \<Longrightarrow> n \<le> 6" "getVAlevels vaMode = Some n \<Longrightarrow> vaMode = VAM_Sv32 \<Longrightarrow> n \<le> 2"
  by (auto simp: getVAlevels_def split: if_splits)

lemma sv_translate_nonzero: "sv_translate r mode req vaMode n a e = Inl x \<Longrightarrow> x \<noteq> 0"
  by (auto simp: sv_translate_def split: sv_outcome.splits if_splits)

lemma sv_translate_leaf:
  assumes "sv_translate r mode req vaMode n a e = Inr (e', ws)"
  shows "\<exists>p addr i. sv_walk (sv_read r mode vaMode) (pte_legal r) vaMode n a (lowVA e) = Leaf p addr i \<and>
    sv_accepts r mode req vaMode p i \<and> e' = sv_entry r req vaMode p i e"
  using assms by (auto simp: sv_translate_def split: sv_outcome.splits if_splits)

text \<open>The specification of a stage 1 lookup.\<close>

definition sv_lookup ::
  "riscvVM \<Rightarrow> riscvMode \<Rightarrow> vmPriv \<Rightarrow> riscvVAMode \<Rightarrow> nat \<Rightarrow> Uns64 \<Rightarrow> tlbEntry \<Rightarrow>
    riscvException + tlbEntry \<times> (ptwDomain \<times> bool \<times> Uns64 \<times> Uns32 \<times> Uns64) list" where
  "sv_lookup r mode req vaMode n a e =
    (if \<not> sv_canonical vaMode n (lowVA e) then Inl (sv_page_fault r)
     else if trapDerived r e req (activeTLB r) \<noteq> 0 then Inl (trapDerived r e req (activeTLB r))
     else sv_translate r mode req vaMode n a e)"

abbreviation ptw_state :: "riscvVM \<Rightarrow> bool \<times> nat \<times> Uns64 \<times> riscvTLBId" where
  "ptw_state r \<equiv> (PTWActive r, PTWLevel r, tinst r, activeTLB r)"


lemma ptw_state_walked' [simp]: "ptw_state (walked b s r) = ptw_state r" "trapDerived (walked b s r) = trapDerived r"
  by (simp_all add: walked_def trapDerived_def fun_eq_iff)


text \<open>The lookup starts by clearing the recorded addresses of its stage.\<close>

definition ptw_cleared :: "riscvVM \<Rightarrow> bool \<Rightarrow> (Uns64 \<times> Uns32) list" where
  "ptw_cleared r = (if tlbVCxt r then (ptwSet r)(activeTLBIsVS2 r := []) else ptwSet r)"

lemma doPageTableLookup_eq:
  "doPageTableLookup r mode e req =
    (if activeTLBIsVS2 r then doPageTableLookupGPA (walked (PTWBadAddr r) (ptw_cleared r) r) mode e req
     else doPageTableLookupVA (walked (PTWBadAddr r) (ptw_cleared r) r) mode e req)"
proof -
  have "(if tlbVCxt r then r\<lparr>ptwSet := (ptwSet r)(activeTLBIsVS2 r := [])\<rparr> else r) = walked (PTWBadAddr r) (ptw_cleared r) r"
    by (simp add: walked_def ptw_cleared_def)
  then show ?thesis unfolding doPageTableLookup_def Let_def by simp
qed

lemma walked_modes [simp]:
  "satp_MODE (walked b s r) = satp_MODE r" "vsatp_MODE (walked b s r) = vsatp_MODE r" "hgatp_MODE (walked b s r) = hgatp_MODE r"
  "activeTLBIsVS2 (walked b s r) = activeTLBIsVS2 r"
  by (simp_all add: walked_def xlenIs32_def activeTLBIsVS2_def)


lemma walked_lookup [simp]: "sv_lookup (walked b s r) mode req vaMode n a e = sv_lookup r mode req vaMode n a e"
  unfolding sv_lookup_def ptw_state_walked' walked_page_fault walked_translate walked_fields ..

lemma walked_PPN [simp]: "satp_PPN (walked b s r) = satp_PPN r" "vsatp_PPN (walked b s r) = vsatp_PPN r" "hgatp_PPN (walked b s r) = hgatp_PPN r"
  by (simp_all add: walked_def xlenIs32_def)


section \<open>Entries\<close>

lemma doPageTableWalkVA_success:
  assumes "getVAlevels vaMode = Some n" "getRootTableAddress r = Some a" "origPriv r \<in> access_privs" "req \<noteq> 0" "req AND 7 = req"
    and "doPageTableWalkVA r mode e req vaMode = Some (0, e', r')"
  shows "\<exists>p addr i. sv_walk (sv_read r mode vaMode) (pte_legal r) vaMode n a (lowVA e) = Leaf p addr i \<and>
    sv_accepts r mode req vaMode p i \<and> e' = sv_entry r req vaMode p i e"
  using doPageTableWalkVA_result [OF assms(1-5), of mode e] assms(6) sv_translate_nonzero [of r mode req vaMode n a e]
    sv_translate_leaf [of r mode req vaMode n a e]
  by (cases "sv_translate r mode req vaMode n a e") auto

text \<open>C15: The entry of a successful walk covers the address, its leaf permits the access, and every
  address it covers is translated to the physical address that the leaf gives for it and, unless
  the leaf is a contiguous group, walks to the same leaf.\<close>

theorem page_walk_entry_sound:
  assumes "getVAlevels vaMode = Some n" "getRootTableAddress r = Some a" "origPriv r \<in> access_privs" "req \<noteq> 0" "req AND 7 = req"
    and "doPageTableWalkVA r mode e req vaMode = Some (0, e', r')"
  shows "\<exists>p addr i. sv_walk (sv_read r mode vaMode) (pte_legal r) vaMode n a (lowVA e) = Leaf p addr i \<and>
    sv_permits r mode req (pte_U p) (pte_priv p) \<and> lowVA e' \<le> lowVA e \<and> lowVA e \<le> highVA e' \<and>
    (\<forall>va. lowVA e' \<le> va \<and> va \<le> highVA e' \<longrightarrow>
      entryPA e' + (va - lowVA e') = sv_pa vaMode p i va \<and>
      (\<not> pte_N p \<longrightarrow> sv_walk (sv_read r mode vaMode) (pte_legal r) vaMode n a va = Leaf p addr i))"
proof -
  obtain p addr i where leaf: "sv_walk (sv_read r mode vaMode) (pte_legal r) vaMode n a (lowVA e) = Leaf p addr i"
    "sv_accepts r mode req vaMode p i" "e' = sv_entry r req vaMode p i e"
    using doPageTableWalkVA_success [OF assms] by blast
  note sound = sv_entry_sound [OF leaf(1) sv_levels [OF assms(1)] leaf(3)]
  show ?thesis
    using leaf(1,2) sound(1,2) sound(3,4) by (intro exI [of _ p] exI [of _ addr] exI [of _ i]) (auto simp: sv_accepts_def)
qed

section \<open>Stage 2\<close>

lemma sv_vpn_low:
  assumes "take_bit m va' = take_bit m va" "12 + Suc j * sv_width vaMode \<le> m"
  shows "sv_vpn vaMode j va' = sv_vpn vaMode j va"
proof (rule bit_word_eqI)
  fix k assume "k < LENGTH(64)"
  have "bit va' l = bit va l" if "l < m" for l using that assms(1) by (metis bit_take_bit_iff)
  then show "bit (sv_vpn vaMode j va') k = bit (sv_vpn vaMode j va) k"
    using assms(2) by (auto simp: sv_vpn_def bit_simps)
qed

lemma sv_walk_low:
  assumes "take_bit m va' = take_bit m va" "12 + n * sv_width vaMode \<le> m"
  shows "sv_walk rd legal vaMode n a va' = sv_walk rd legal vaMode n a va"
  using assms(2)
proof (induction n arbitrary: a)
  case (Suc n)
  then have "sv_vpn vaMode n va' = sv_vpn vaMode n va" by (intro sv_vpn_low [OF assms(1)]) simp
  moreover have "sv_walk rd legal vaMode n b va' = sv_walk rd legal vaMode n b va" for b using Suc by simp
  ultimately show ?case by (simp add: Let_def split: option.split)
qed simp

definition s2_offset :: "Uns64 \<Rightarrow> riscvVM \<Rightarrow> riscvVM" where
  "s2_offset off r = r\<lparr>s2Offset := off\<rparr>"

lemma s2_offset_functions [simp]:
  "sv_read (s2_offset off r) = sv_read r" "pte_legal (s2_offset off r) = pte_legal r"
  "sv_permits (s2_offset off r) = sv_permits r" "sv_updates (s2_offset off r) = sv_updates r"
  "activeTLB (s2_offset off r) = activeTLB r" "origPriv (s2_offset off r) = origPriv r"
  by (simp_all add: s2_offset_def fun_eq_iff sv_read_def getPTWDomain_def doStage2_def xlenIs32_def riscvGetDataEndian_def pte_legal_def
    group_allowed_def type_allowed_def sv_permits_def sv_user_def sv_SUM_def sv_MXR_def sv_updates_def
    updatePTEA_def updatePTED_def)

lemma s2_offset_entry [simp]: "sv_entry (s2_offset off r) req vaMode p i e = sv_entry r req vaMode p i e"
proof -
  have "getG (s2_offset off r) = getG r" by (simp add: s2_offset_def fun_eq_iff getG_def activeTLBIsVS2_def getASIDMask_def)
  then show ?thesis unfolding sv_entry_def s2_offset_functions by simp
qed

lemma s2_root:
  "activeTLB r = RISCV_TLB_VS2 \<Longrightarrow> getRootTableAddress (s2_offset off r) = Some ((hgatp_PPN r + off) * 4096)"
  by (simp add: getRootTableAddress_def s2_offset_def getPTETableAddress_def push_bit_eq_mult xlenIs32_def ring_distribs)

text \<open>The bits that the walk of a guest physical address ignores.\<close>

lemma shift_up_down: "m \<le> 64 \<Longrightarrow> drop_bit (64 - m) (push_bit (64 - m) z) = take_bit m z" for z :: Uns64
  by (rule bit_word_eqI) (auto simp: bit_simps)

lemma guest_page:
  fixes gpa x :: Uns64
  assumes "take_bit m x = take_bit m gpa" "k \<le> m"
  shows "take_bit m (x AND NOT (mask k)) + push_bit m (drop_bit m gpa) = gpa AND NOT (mask k)"
    and "take_bit m (x OR mask k) + push_bit m (drop_bit m gpa) = gpa OR mask k"
proof -
  have b: "bit x l = bit gpa l" if "l < m" for l using that assms(1) by (metis bit_take_bit_iff)
  have "take_bit m y + push_bit m z = take_bit m y OR push_bit m z" for y z :: Uns64
    by (rule disjunctive_add) (auto simp: bit_simps)
  moreover have "take_bit m (x AND NOT (mask k)) OR push_bit m (drop_bit m gpa) = gpa AND NOT (mask k)"
    "take_bit m (x OR mask k) OR push_bit m (drop_bit m gpa) = gpa OR mask k"
    using assms(2) by - (rule bit_word_eqI, rename_tac n, case_tac "n < m"; auto simp: bit_simps b)+
  ultimately show "take_bit m (x AND NOT (mask k)) + push_bit m (drop_bit m gpa) = gpa AND NOT (mask k)"
    "take_bit m (x OR mask k) + push_bit m (drop_bit m gpa) = gpa OR mask k" by (simp_all only:)
qed

text \<open>What a successful stage 2 walk leaves: \<open>k\<close> is the logarithm of the page size.\<close>

lemma doPageTableWalkGPA_success:
  assumes "activeTLB r = RISCV_TLB_VS2" "getVAlevels vaMode = Some n" "getVABits vaMode = Some m"
    and acc: "origPriv r \<in> access_privs" "req \<noteq> 0" "req AND 7 = req"
    and walk: "doPageTableWalkGPA r mode e req vaMode = Some (0, e', r')"
    and root: "root = (hgatp_PPN r + take_bit 2 (drop_bit m (lowVA e))) * 4096"
    and x: "x = (if vaMode = VAM_Sv32 then lowVA e else signed_take_bit (m - 1) (lowVA e))"
  shows "\<exists>p addr i. sv_walk (sv_read r mode vaMode) (pte_legal r) vaMode n root x = Leaf p addr i \<and>
    sv_permits r mode req (pte_U p) (pte_priv p) \<and> entryPA e' = pte_PPN p * 4096 AND NOT (sv_size vaMode p i - 1) \<and>
    lowVA e' = (if vaMode = VAM_Sv32 then x AND NOT (sv_size vaMode p i - 1) else take_bit m (x AND NOT (sv_size vaMode p i - 1))) + push_bit m (drop_bit m (lowVA e)) \<and>
    highVA e' = (if vaMode = VAM_Sv32 then x OR (sv_size vaMode p i - 1) else take_bit m (x OR (sv_size vaMode p i - 1))) + push_bit m (drop_bit m (lowVA e))"
proof -
  let ?off = "take_bit 2 (drop_bit m (lowVA e))"
  have m: "m \<in> {32, 39, 48, 57, 64}" using getVABits_levels [OF assms(2)] assms(3) by auto
  define sh where "sh = (if vaMode = VAM_Sv32 then 0 else 64 - m)"
  have xe: "signed_drop_bit sh (push_bit sh (lowVA e)) = x" using m by (auto simp: sh_def x sign_extend)
  have down: "drop_bit sh (push_bit sh z) = (if vaMode = VAM_Sv32 then z else take_bit m z)" for z :: Uns64
    using m shift_up_down [of m z] by (cases "vaMode = VAM_Sv32") (auto simp: sh_def)
  obtain e1 r1 where w: "doPageTableWalkVA (s2_offset ?off r) mode (e\<lparr>lowVA := x\<rparr>) req vaMode = Some (0, e1, r1)"
    "e' = e1\<lparr>lowVA := drop_bit sh (push_bit sh (lowVA e1)) + push_bit m (drop_bit m (lowVA e)),
      highVA := drop_bit sh (push_bit sh (highVA e1)) + push_bit m (drop_bit m (lowVA e))\<rparr>"
    using walk unfolding doPageTableWalkGPA_def assms(3) Option.bind.bind_lunit Let_def sh_def [symmetric] xe s2_offset_def [symmetric]
    by (auto simp: bind_eq_Some_conv split: if_splits)
  have rt: "getRootTableAddress (s2_offset ?off r) = Some root" unfolding root by (rule s2_root [OF assms(1)])
  obtain p addr i where leaf: "sv_walk (sv_read r mode vaMode) (pte_legal r) vaMode n root x = Leaf p addr i"
    "sv_accepts (s2_offset ?off r) mode req vaMode p i" "e1 = sv_entry r req vaMode p i (e\<lparr>lowVA := x\<rparr>)"
    using doPageTableWalkVA_success [OF assms(2) rt _ acc(2,3) w(1)] acc(1) by auto
  then show ?thesis
    unfolding w(2) down by (intro exI [of _ p] exI [of _ addr] exI [of _ i]) (simp add: sv_accepts_def sv_entry_def)
qed

lemma doPageTableLookup_guest:
  assumes "activeTLB r = RISCV_TLB_VS2" "getVABits (hgatp_MODE r) = Some m"
    and "doPageTableLookup r mode e req = Some (0, e', r')" "origPriv r \<in> access_privs"
  shows "\<exists>s. doPageTableWalkGPA (walked (PTWBadAddr r) s r) mode e req (hgatp_MODE r) = Some (0, e', r')"
    and "drop_bit (m + 2) (lowVA e) = 0"
proof -
  have vs2: "activeTLBIsVS2 r" using assms(1) by (simp add: activeTLBIsVS2_def)
  show "\<exists>s. doPageTableWalkGPA (walked (PTWBadAddr r) s r) mode e req (hgatp_MODE r) = Some (0, e', r')"
    and "drop_bit (m + 2) (lowVA e) = 0"
    using assms(3,4) unfolding doPageTableLookup_eq if_P [OF vs2] doPageTableLookupGPA_def Let_def walked_modes validS2GPA_def assms(2)
    by (auto simp: getPageFault_def getPTWException_spec split: if_splits)
qed

lemma guest_lookup_entry:
  assumes "activeTLB r = RISCV_TLB_VS2" "hgatp_MODE r = vaMode" "vaMode \<in> {VAM_Sv39, VAM_Sv48, VAM_Sv57}"
    and "getVAlevels vaMode = Some n" "getVABits vaMode = Some m" "origPriv r \<in> access_privs" "req \<noteq> 0" "req AND 7 = req"
    and "doPageTableLookup r mode e req = Some (0, e', r')"
    and "root = (hgatp_PPN r + drop_bit m (lowVA e)) * 4096"
  shows "\<exists>p addr i. sv_walk (sv_read r mode vaMode) (pte_legal r) vaMode n root (lowVA e) = Leaf p addr i \<and>
    sv_permits r mode req (pte_U p) (pte_priv p) \<and>
    ((pte_N p \<longrightarrow> 13 + ppn_lsb p \<le> m) \<longrightarrow> lowVA e' \<le> lowVA e \<and> lowVA e \<le> highVA e' \<and>
      (\<forall>gpa. lowVA e' \<le> gpa \<and> gpa \<le> highVA e' \<longrightarrow> drop_bit m gpa = drop_bit m (lowVA e) \<and>
        entryPA e' + (gpa - lowVA e') = sv_pa vaMode p i gpa \<and>
        (\<not> pte_N p \<longrightarrow> sv_walk (sv_read r mode vaMode) (pte_legal r) vaMode n root gpa = Leaf p addr i)))"
proof -
  let ?x = "signed_take_bit (m - 1) (lowVA e)"
  have bits: "getVABits (hgatp_MODE r) = Some m" using assms(2,5) by simp
  obtain s where walk: "doPageTableWalkGPA (walked (PTWBadAddr r) s r) mode e req vaMode = Some (0, e', r')"
    using doPageTableLookup_guest(1) [OF assms(1) bits assms(9,6)] assms(2) by auto
  have m: "m = 12 + n * sv_width vaMode" "m < 64" "vaMode \<noteq> VAM_Sv32" using assms(3-5) by (auto simp: getVABits_def getVAlevels_def sv_width_def)
  have zero: "drop_bit (m + 2) (lowVA e) = 0" by (rule doPageTableLookup_guest(2) [OF assms(1) bits assms(9,6)])
  have "j < 2" if "bit (drop_bit m (lowVA e)) j" for j
  proof (rule ccontr)
    assume "\<not> j < 2"
    then have "m + 2 + (j - 2) = m + j" by simp
    then have "bit (drop_bit (m + 2) (lowVA e)) (j - 2)" using that by (simp only: bit_drop_bit_eq comp_apply)
    then show False unfolding zero by simp
  qed
  then have off: "take_bit 2 (drop_bit m (lowVA e)) = drop_bit m (lowVA e)" by (intro bit_word_eqI) (auto simp: bit_take_bit_iff)
  have low: "take_bit m ?x = take_bit m (lowVA e)" by (rule take_bit_signed_take_bit) simp
  have eq: "sv_walk rd legal vaMode n root ?x = sv_walk rd legal vaMode n root (lowVA e)" for rd legal
    by (rule sv_walk_low [OF low]) (simp add: m(1))
  obtain p addr i where leaf: "sv_walk (sv_read r mode vaMode) (pte_legal r) vaMode n root (lowVA e) = Leaf p addr i"
    "sv_permits r mode req (pte_U p) (pte_priv p)" "entryPA e' = pte_PPN p * 4096 AND NOT (sv_size vaMode p i - 1)"
    "lowVA e' = take_bit m (?x AND NOT (sv_size vaMode p i - 1)) + push_bit m (drop_bit m (lowVA e))"
    "highVA e' = take_bit m (?x OR (sv_size vaMode p i - 1)) + push_bit m (drop_bit m (lowVA e))"
    using doPageTableWalkGPA_success [of "walked (PTWBadAddr r) s r" vaMode n m req mode e e' r' root ?x] assms walk m(3)
    unfolding off walked_functions walked_PPN walked_fields eq by auto
  have page: "lowVA e' \<le> lowVA e \<and> lowVA e \<le> highVA e' \<and>
      (\<forall>gpa. lowVA e' \<le> gpa \<and> gpa \<le> highVA e' \<longrightarrow> drop_bit m gpa = drop_bit m (lowVA e) \<and>
        entryPA e' + (gpa - lowVA e') = sv_pa vaMode p i gpa \<and>
        (\<not> pte_N p \<longrightarrow> sv_walk (sv_read r mode vaMode) (pte_legal r) vaMode n root gpa = Leaf p addr i))"
    if N: "pte_N p \<longrightarrow> 13 + ppn_lsb p \<le> m"
  proof -
    define k where "k = (if pte_N p then 13 + ppn_lsb p else 12 + i * sv_width vaMode)"
    have "i < n" by (rule sv_walk_level [OF leaf(1)])
    then have k: "k \<le> m" "k < 64" using m N by (auto simp: k_def sv_width_def)
    have size: "sv_size vaMode p i = push_bit k 1" "push_bit k 1 - 1 = (mask k :: Uns64)"
      by (simp_all add: sv_size_def k_def add.commute mask_eq_exp_minus_1)
    note lh = leaf(4) [unfolded size guest_page(1) [OF low k(1)]] leaf(5) [unfolded size guest_page(2) [OF low k(1)]]
    have "drop_bit m gpa = drop_bit m (lowVA e) \<and> entryPA e' + (gpa - lowVA e') = sv_pa vaMode p i gpa \<and>
        (\<not> pte_N p \<longrightarrow> sv_walk (sv_read r mode vaMode) (pte_legal r) vaMode n root gpa = Leaf p addr i)"
      if gpa: "lowVA e' \<le> gpa" "gpa \<le> highVA e'" for gpa
    proof -
      note range = page_range [OF k(2), of "lowVA e" gpa, unfolded size(2), OF gpa [unfolded lh]]
      have "drop_bit m gpa = drop_bit m (lowVA e)" using arg_cong [OF range(1), of "drop_bit (m - k)"] k by simp
      moreover have "entryPA e' + (gpa - lowVA e') = sv_pa vaMode p i gpa"
        using range(2) unfolding lh leaf(3) sv_pa_def size by (simp add: take_bit_eq_mask)
      moreover have "sv_walk (sv_read r mode vaMode) (pte_legal r) vaMode n root gpa = Leaf p addr i" if "\<not> pte_N p"
        using range(1) sv_walk_page [OF leaf(1), of gpa] that by (simp add: k_def)
      ultimately show ?thesis by blast
    qed
    then show ?thesis using page_contains [of "lowVA e" k] unfolding lh size(2) by blast
  qed
  show ?thesis using leaf(1,2) page by blast
qed

text \<open>C16: The same for a stage 2 lookup in the translation modes of 64-bit systems, where the two
  bits above the virtual address width select one of four root pages, for single pages and for
  contiguous groups that are no larger than what one root page translates.\<close>

theorem guest_lookup_entry_sound:
  assumes "activeTLB r = RISCV_TLB_VS2" "hgatp_MODE r = vaMode" "vaMode \<in> {VAM_Sv39, VAM_Sv48, VAM_Sv57}"
    and "getVAlevels vaMode = Some n" "getVABits vaMode = Some m" "origPriv r \<in> access_privs" "req \<noteq> 0" "req AND 7 = req"
    and "doPageTableLookup r mode e req = Some (0, e', r')"
    and "root = (hgatp_PPN r + drop_bit m (lowVA e)) * 4096"
  shows "\<exists>p addr i. sv_walk (sv_read r mode vaMode) (pte_legal r) vaMode n root (lowVA e) = Leaf p addr i \<and>
    sv_permits r mode req (pte_U p) (pte_priv p) \<and>
    ((pte_N p \<longrightarrow> 13 + ppn_lsb p \<le> m) \<longrightarrow> lowVA e' \<le> lowVA e \<and> lowVA e \<le> highVA e' \<and>
      (\<forall>gpa. lowVA e' \<le> gpa \<and> gpa \<le> highVA e' \<longrightarrow> drop_bit m gpa = drop_bit m (lowVA e) \<and>
        entryPA e' + (gpa - lowVA e') = sv_pa vaMode p i gpa \<and>
        (\<not> pte_N p \<longrightarrow> sv_walk (sv_read r mode vaMode) (pte_legal r) vaMode n root gpa = Leaf p addr i)))"
  using assms by (rule guest_lookup_entry)

text \<open>In the translation mode of 32-bit systems the bits above the virtual address width are not removed
  before the walk, but are still added afterwards, so that the entry is for another address.\<close>

lemma sv_read_sv32: "sv_read r mode VAM_Sv32 addr = Some p \<Longrightarrow> \<not> pte_N p"
  by (auto simp: sv_read_def bit_take_bit_iff)

lemma sv_walk_read: "sv_walk rd legal vaMode n a va = Leaf p addr i \<Longrightarrow> rd addr = Some p"
  by (induction n arbitrary: a) (auto simp: Let_def split: option.splits if_splits)

lemma unat_floor:
  fixes x :: Uns64
  shows "unat (push_bit k (drop_bit k x)) = unat x - unat x mod 2 ^ k"
proof -
  have "push_bit k (drop_bit k x) = x - take_bit k x" by (metis bits_ident add_diff_cancel_right')
  moreover have t: "unat (take_bit k x) = unat x mod 2 ^ k" unfolding unsigned_take_bit_eq by (simp add: take_bit_eq_mod)
  then have "take_bit k x \<le> x" by (simp add: word_le_nat_alt)
  ultimately show ?thesis by (simp add: unat_sub t)
qed

lemma doubled_offset:
  fixes x :: Uns64
  assumes "k \<le> 32" "drop_bit 34 x = 0" "drop_bit 32 x \<noteq> 0"
  shows "x < (x AND NOT (mask k)) + push_bit 32 (drop_bit 32 x)"
proof -
  have floor: "x AND NOT (mask k) = push_bit k (drop_bit k x)" by (rule bit_word_eqI) (auto simp: bit_simps)
  have z: "drop_bit l x = drop_bit l (push_bit l (drop_bit l x))" for l
    by (rule bit_word_eqI) (auto simp: bit_simps dest: bit_imp_le_length)
  have "unat x mod 2 ^ 34 = unat x"
    using unat_floor [of 34 x] unfolding assms(2) push_bit_of_0 by (simp add: eq_diff_iff order.antisym)
  then have hi: "unat x < 2 ^ 34" by (metis mod_less_divisor zero_less_numeral zero_less_power)
  have lo: "2 ^ 32 \<le> unat x"
  proof (rule ccontr)
    assume "\<not> 2 ^ 32 \<le> unat x"
    then have "push_bit 32 (drop_bit 32 x) = 0" using unat_floor [of 32 x] unfolding word_unat_eq_iff by simp
    then show False using assms(3) z [of 32] by simp
  qed
  have "unat x mod 2 ^ k < 2 ^ k" by simp
  also have "(2::nat) ^ k \<le> 2 ^ 32" using assms(1) by (rule power_increasing) simp
  also have "\<dots> \<le> unat x - unat x mod 2 ^ 32"
    using lo by (simp add: minus_mod_eq_mult_div div_greater_zero_iff)
  finally have d: "unat x mod 2 ^ k < unat x - unat x mod 2 ^ 32" .
  have "unat (push_bit k (drop_bit k x) + push_bit 32 (drop_bit 32 x)) =
    (unat x - unat x mod 2 ^ k) + (unat x - unat x mod 2 ^ 32)"
    unfolding unat_word_ariths unat_floor using hi by simp
  then show ?thesis unfolding floor word_less_nat_alt using d by linarith
qed

text \<open>C17: In the stage 2 translation mode of 32-bit systems every successful lookup of a guest
  physical address at or above 4 GiB returns an entry that lies above the address.\<close>

theorem guest_lookup_sv32_misses:
  assumes "activeTLB r = RISCV_TLB_VS2" "hgatp_MODE r = VAM_Sv32" "origPriv r \<in> access_privs" "req \<noteq> 0" "req AND 7 = req"
    and "doPageTableLookup r mode e req = Some (0, e', r')" "2 ^ 32 \<le> lowVA e"
  shows "lowVA e < lowVA e'"
proof -
  have bits: "getVABits VAM_Sv32 = Some 32" "getVAlevels VAM_Sv32 = Some 2" by (simp_all add: getVABits_def getVAlevels_def)
  have bits': "getVABits (hgatp_MODE r) = Some 32" unfolding assms(2) by (rule bits(1))
  obtain s where walk: "doPageTableWalkGPA (walked (PTWBadAddr r) s r) mode e req VAM_Sv32 = Some (0, e', r')"
    using doPageTableLookup_guest(1) [OF assms(1) bits' assms(6,3)] unfolding assms(2) by blast
  have zero: "drop_bit 34 (lowVA e) = 0" using doPageTableLookup_guest(2) [OF assms(1) bits' assms(6,3)] by simp
  have "drop_bit 32 (lowVA e) \<noteq> 0"
  proof
    assume "drop_bit 32 (lowVA e) = 0"
    then have "unat (lowVA e) mod 2 ^ 32 = unat (lowVA e)" using unat_floor [of 32 "lowVA e"] by (simp add: order.antisym)
    then have "unat (lowVA e) < 2 ^ 32" by (metis mod_less_divisor zero_less_numeral zero_less_power)
    then show False using assms(7) by (simp add: word_le_nat_alt)
  qed
  moreover obtain p addr i root where leaf: "sv_walk (sv_read r mode VAM_Sv32) (pte_legal r) VAM_Sv32 2 root (lowVA e) = Leaf p addr i"
    "lowVA e' = (lowVA e AND NOT (sv_size VAM_Sv32 p i - 1)) + push_bit 32 (drop_bit 32 (lowVA e))"
    using doPageTableWalkGPA_success [OF _ bits(2,1) _ assms(4,5) walk refl refl] assms(1,3) by auto
  have "\<not> pte_N p" by (rule sv_read_sv32 [OF sv_walk_read [OF leaf(1)]])
  then have "sv_size VAM_Sv32 p i - 1 = mask (12 + i * 10)"
    by (simp add: sv_size_def sv_width_def add.commute mask_eq_exp_minus_1)
  moreover have "12 + i * 10 \<le> 32" using sv_walk_level [OF leaf(1)] by simp
  ultimately show ?thesis unfolding leaf(2) using doubled_offset [OF _ zero] by simp
qed

section \<open>Recorded addresses\<close>

lemma doPageTableWalkVA_recorded:
  assumes "getVAlevels vaMode = Some n" "getRootTableAddress r = Some a" "origPriv r \<in> access_privs" "req \<noteq> 0" "req AND 7 = req"
    and "doPageTableWalkVA r mode e req vaMode = Some (exc, e', r')"
  shows "length (ptwSet r' (activeTLBIsVS2 r)) \<le> length (ptwSet r (activeTLBIsVS2 r)) + n"
    "ptwSet r' (\<not> activeTLBIsVS2 r) = ptwSet r (\<not> activeTLBIsVS2 r)"
  using doPageTableWalkVA_result [OF assms(1-5), of mode e] assms(6) by (auto simp: walked_def)

text \<open>A lookup is either refused at once or walks the table, in stage 2 with the page offset recorded.\<close>

lemma levels_of_bits: "getVABits vaMode = Some m \<Longrightarrow> \<exists>n. getVAlevels vaMode = Some n \<and> n \<le> 6"
  by (auto simp: getVAlevels_def getVABits_def split: if_splits)

lemma doPageTableLookup_walks:
  assumes "doPageTableLookup r mode e req = Some (exc, e', r')" "r0 = walked (PTWBadAddr r) (ptw_cleared r) r"
  shows "r' = r0 \<or> (\<exists>vaMode n r1 e1 e2. getVAlevels vaMode = Some n \<and> n \<le> 6 \<and> r1 \<in> {r0, s2_offset (s2Offset r1) r0} \<and>
    doPageTableWalkVA r1 mode e1 req vaMode = Some (exc, e2, r'))"
proof (cases "activeTLBIsVS2 r")
  case False
  then have "doPageTableLookupVA r0 mode e req = Some (exc, e', r')" using assms by (simp add: doPageTableLookup_eq)
  then obtain vaMode m where "getVABits vaMode = Some m" "r' = r0 \<or> doPageTableWalkVA r0 mode e req vaMode = Some (exc, e', r')"
    unfolding doPageTableLookupVA_def Let_def validS1VA_def by (fastforce simp: bind_eq_Some_conv split: if_splits)
  then show ?thesis using levels_of_bits by blast
next
  case True
  then have "doPageTableLookupGPA r0 mode e req = Some (exc, e', r')" using assms by (simp add: doPageTableLookup_eq)
  then obtain vaMode m where m: "getVABits vaMode = Some m" "r' = r0 \<or> doPageTableWalkGPA r0 mode e req vaMode = Some (exc, e', r')"
    unfolding doPageTableLookupGPA_def Let_def validS2GPA_def by (fastforce simp: bind_eq_Some_conv split: if_splits)
  have "\<exists>off e1 e2. doPageTableWalkVA (s2_offset off r0) mode e1 req vaMode = Some (exc, e2, r')"
    if "doPageTableWalkGPA r0 mode e req vaMode = Some (exc, e', r')"
    using that unfolding doPageTableWalkGPA_def Let_def m(1) s2_offset_def [symmetric]
    by (fastforce simp: bind_eq_Some_conv split: if_splits)
  moreover have "s2_offset off r0 = s2_offset (s2Offset (s2_offset off r0)) r0" for off by (simp add: s2_offset_def)
  ultimately show ?thesis using m levels_of_bits [OF m(1)] by (metis insertCI)
qed

text \<open>C18: A lookup whose tables are not translated by a second stage records at most six addresses
  for its stage, so that the array of eight never overflows, and leaves the addresses recorded
  for the other stage alone.\<close>

theorem ptw_addresses_bounded:
  assumes "doPageTableLookup r mode e req = Some (exc, e', r')" "tlbVCxt r" "activeTLB r \<noteq> RISCV_TLB_LAST"
    and "\<not> doStage2 r (activeTLB r)" and "origPriv r \<in> access_privs" "req \<noteq> 0" "req AND 7 = req"
  shows "length (ptwSet r' (activeTLBIsVS2 r)) \<le> 6 \<and> ptwSet r' (\<not> activeTLBIsVS2 r) = ptwSet r (\<not> activeTLBIsVS2 r)"
proof -
  define r0 where "r0 = walked (PTWBadAddr r) (ptw_cleared r) r"
  have r0: "ptwSet r0 (activeTLBIsVS2 r) = []" "ptwSet r0 (\<not> activeTLBIsVS2 r) = ptwSet r (\<not> activeTLBIsVS2 r)"
    "activeTLB r0 = activeTLB r" "origPriv r0 = origPriv r"
    using assms(2) by (simp_all add: r0_def ptw_cleared_def)
  consider "r' = r0" | vaMode n r1 e1 e2 where "getVAlevels vaMode = Some n" "n \<le> 6" "r1 \<in> {r0, s2_offset (s2Offset r1) r0}"
    "doPageTableWalkVA r1 mode e1 req vaMode = Some (exc, e2, r')"
    using doPageTableLookup_walks [OF assms(1) r0_def] by blast
  then show ?thesis
  proof cases
    case 2
    have s: "ptwSet (s2_offset off r0) = ptwSet r0" for off by (simp add: s2_offset_def)
    have r1: "ptwSet r1 = ptwSet r0" "activeTLB r1 = activeTLB r" "origPriv r1 = origPriv r" "activeTLBIsVS2 r1 = activeTLBIsVS2 r"
      using 2(3) r0 by (auto simp: activeTLBIsVS2_def s dest: arg_cong [of _ _ ptwSet] arg_cong [of _ _ activeTLB] arg_cong [of _ _ origPriv])
    obtain a where "getRootTableAddress r1 = Some a"
      using assms(3) r1(2) by (cases "activeTLB r1") (auto simp: getRootTableAddress_def)
    then show ?thesis
      using doPageTableWalkVA_recorded [OF 2(1) _ _ assms(6,7) 2(4)] r0 r1 2(2) assms(5) by fastforce
  qed (use r0 in simp)
qed

section \<open>Examples\<close>

text \<open>A table with one leaf for all indices of the root, at address \<open>0x80000000\<close>.\<close>

definition vm_example :: "riscvTLBId \<Rightarrow> Uns64 \<Rightarrow> SvPTE \<Rightarrow> riscvVM" where
  "vm_example tlb atp pte = \<lparr>ASID_bits = 16, VMID_bits = 14, Svnapot_page_mask = 0, Svpbmt = False, ignore_non_leaf_DAU = False,
    cfg_updatePTEA = True, cfg_updatePTED = True, privVersion_1_11 = True, privVersion_1_12 = True, archXLEN = 64, validPTECBs = [],
    VMTrapCBs = [], readDomain = (\<lambda>domain endian addr bytes. if addr < 0x90000000 then Some pte else None),
    writeDomain = (\<lambda>domain addr bytes. True), xlenMask = (if bit atp 31 then 0 else 0xff),
    satp = atp, vsatp = atp, hgatp = atp, mstatus = 0, vsstatus = 0, hstatus = 0, menvcfg = 0, henvcfg = 0, dendian = False,
    artifactWalk = False, activeTLB = tlb, PTWActive = False, PTWLevel = 0, PTWBadAddr = False, tinst = 0, origPriv = VM_PRIV_R,
    hlvxActive = False, s2Offset = 0, tlbVCxt = True, ptwSet = (\<lambda>stage. []), domainWrites = []\<rparr>"

definition entry_example :: "Uns64 \<Rightarrow> tlbEntry" where
  "entry_example va = \<lparr>lowVA = va, highVA = 0, entryPA = 0, simASID = 0, entryTLB = RISCV_TLB_HS, mapped = 0, entryPriv = 0,
    entryV = False, entryU = False, entryG = False, entryA = False, entryD = False, artifact = False, custom = False, entryId = 0\<rparr>"

abbreviation sv39_example :: riscvVM where
  "sv39_example \<equiv> vm_example RISCV_TLB_HS 0x8000000000080000 0x1000000f"
abbreviation sv39x4_example :: riscvVM where
  "sv39x4_example \<equiv> vm_example RISCV_TLB_VS2 0x8000000000080000 0x1000001f"
abbreviation sv32x4_example :: riscvVM where
  "sv32x4_example \<equiv> vm_example RISCV_TLB_VS2 0x80080000 0x1000001f"

lemma example_lookups:
  "map_option fst (doPageTableLookup sv39_example RISCV_MODE_S (entry_example 0x12345) VM_PRIV_R) = Some 0"
  "map_option fst (doPageTableWalkVA sv39_example RISCV_MODE_S (entry_example 0x12345) VM_PRIV_R VAM_Sv39) = Some 0"
  "map_option fst (doPageTableLookup sv39x4_example RISCV_MODE_S (entry_example 0x8000012345) VM_PRIV_R) = Some 0"
  "map_option fst (doPageTableLookup sv32x4_example RISCV_MODE_S (entry_example 0x100012345) VM_PRIV_R) = Some 0"
  by code_simp+

lemma example_lookup_results:
  "\<exists>e' r'. doPageTableLookup sv39_example RISCV_MODE_S (entry_example 0x12345) VM_PRIV_R = Some (0, e', r')"
  "\<exists>e' r'. doPageTableWalkVA sv39_example RISCV_MODE_S (entry_example 0x12345) VM_PRIV_R VAM_Sv39 = Some (0, e', r')"
  "\<exists>e' r'. doPageTableLookup sv39x4_example RISCV_MODE_S (entry_example 0x8000012345) VM_PRIV_R = Some (0, e', r')"
  "\<exists>e' r'. doPageTableLookup sv32x4_example RISCV_MODE_S (entry_example 0x100012345) VM_PRIV_R = Some (0, e', r')"
  using example_lookups by (simp_all only: map_option_eq_Some) force+

lemma example_modes:
  "satp_MODE sv39_example = VAM_Sv39" "hgatp_MODE sv39x4_example = VAM_Sv39" "hgatp_MODE sv32x4_example = VAM_Sv32"
  "getVAlevels VAM_Sv39 = Some 3" "getVABits VAM_Sv39 = Some 39" "getRootTableAddress sv39_example = Some 0x80000000"
  by code_simp+

lemma example_state [simp]:
  "activeTLB (vm_example tlb atp pte) = tlb" "origPriv (vm_example tlb atp pte) = VM_PRIV_R" "tlbVCxt (vm_example tlb atp pte)"
  "lowVA (entry_example va) = va"
  by (simp_all add: vm_example_def entry_example_def)


theorem page_walk_entry_sound_witness:
  "\<exists>e' r' p addr i. doPageTableWalkVA sv39_example RISCV_MODE_S (entry_example 0x12345) VM_PRIV_R VAM_Sv39 = Some (0, e', r') \<and>
    sv_walk (sv_read sv39_example RISCV_MODE_S VAM_Sv39) (pte_legal sv39_example) VAM_Sv39 3 0x80000000 0x12345 = Leaf p addr i \<and>
    lowVA e' \<le> 0x12345 \<and> 0x12345 \<le> highVA e'"
proof -
  obtain e' r' where l: "doPageTableWalkVA sv39_example RISCV_MODE_S (entry_example 0x12345) VM_PRIV_R VAM_Sv39 = Some (0, e', r')"
    using example_lookup_results(2) by blast
  show ?thesis using l page_walk_entry_sound [OF example_modes(4,6) _ _ _ l] by simp blast
qed

theorem guest_lookup_entry_sound_witness:
  "\<exists>e' r' p addr i. doPageTableLookup sv39x4_example RISCV_MODE_S (entry_example 0x8000012345) VM_PRIV_R = Some (0, e', r') \<and>
    sv_walk (sv_read sv39x4_example RISCV_MODE_S VAM_Sv39) (pte_legal sv39x4_example) VAM_Sv39 3
      ((hgatp_PPN sv39x4_example + drop_bit 39 0x8000012345) * 4096) 0x8000012345 = Leaf p addr i"
proof -
  obtain e' r' where l: "doPageTableLookup sv39x4_example RISCV_MODE_S (entry_example 0x8000012345) VM_PRIV_R = Some (0, e', r')"
    using example_lookup_results(3) by blast
  show ?thesis using l guest_lookup_entry_sound [OF _ example_modes(2) _ example_modes(4,5) _ _ _ l refl] by simp blast
qed

theorem guest_lookup_sv32_misses_witness:
  "\<exists>e' r'. doPageTableLookup sv32x4_example RISCV_MODE_S (entry_example 0x100012345) VM_PRIV_R = Some (0, e', r') \<and>
    0x100012345 < lowVA e'"
proof -
  obtain e' r' where l: "doPageTableLookup sv32x4_example RISCV_MODE_S (entry_example 0x100012345) VM_PRIV_R = Some (0, e', r')"
    using example_lookup_results(4) by blast
  show ?thesis using l guest_lookup_sv32_misses [OF _ example_modes(3) _ _ _ l] by auto
qed

theorem ptw_addresses_bounded_witness:
  "\<exists>e' r'. doPageTableLookup sv39_example RISCV_MODE_S (entry_example 0x12345) VM_PRIV_R = Some (0, e', r') \<and>
    length (ptwSet r' (activeTLBIsVS2 sv39_example)) \<le> 6"
proof -
  obtain e' r' where l: "doPageTableLookup sv39_example RISCV_MODE_S (entry_example 0x12345) VM_PRIV_R = Some (0, e', r')"
    using example_lookup_results(1) by blast
  show ?thesis using l ptw_addresses_bounded [OF l] by (simp add: doStage2_def)
qed

end
