(* ===== verification/RV_TLB.thy ===== *)
theory RV_TLB
  imports RV_VM
begin

text \<open>
  The translation lookaside buffers, \<^verbatim>\<open>riscvVM.c\<close>: the simulated ASID of an entry and the mask that says
  which of its fields matter, deletion and unmapping of entries, the cache of recently used ASIDs, fences,
  and the bounds of the mapping made for an entry. The simulator's range table is the list of the entries with
  the numbers that stand for their addresses, in the order in which an iteration over an address range visits
  them. Its calls that create and remove mappings in a memory domain, the lookups in the PMP and PMA components
  and the notification of derived models are recorded in the state, most recent first. An abort or an access
  outside an array sets \<^verbatim>\<open>aborted\<close>. Validation of the entries against memory is a debugging
  feature and left out, as are messages and the list of free entries.
\<close>

section \<open>Simulated ASIDs\<close>

text \<open>The fields of the union \<^verbatim>\<open>riscvSimASID\<close>, in the order of its declaration.\<close>

definition mkSimASID :: "Uns64 \<Rightarrow> Uns64 \<Rightarrow> Uns64 \<Rightarrow> bool \<Rightarrow> bool \<Rightarrow> bool \<Rightarrow> bool \<Rightarrow> bool \<Rightarrow> bool \<Rightarrow> riscvSimASID" where
  "mkSimASID ASID_HS ASID_VS VMID MXR_HS SUM_HS MXR_VS SUM_VS S1 S2 =
    take_bit 16 ASID_HS OR push_bit 16 (take_bit 16 ASID_VS) OR push_bit 32 (take_bit 16 VMID) OR
    push_bit 48 (of_bool MXR_HS) OR push_bit 49 (of_bool SUM_HS) OR push_bit 50 (of_bool MXR_VS) OR
    push_bit 51 (of_bool SUM_VS) OR push_bit 52 (of_bool S1) OR push_bit 53 (of_bool S2)"

abbreviation simASID_ASID_HS :: "riscvSimASID \<Rightarrow> Uns64" where "simASID_ASID_HS a \<equiv> reg_field 0 16 a"
abbreviation simASID_ASID_VS :: "riscvSimASID \<Rightarrow> Uns64" where "simASID_ASID_VS a \<equiv> reg_field 16 16 a"
abbreviation simASID_VMID :: "riscvSimASID \<Rightarrow> Uns64" where "simASID_VMID a \<equiv> reg_field 32 16 a"
abbreviation simASID_S2 :: "riscvSimASID \<Rightarrow> bool" where "simASID_S2 a \<equiv> bit a 53"

abbreviation hgatp_VMIDf :: "riscvVM \<Rightarrow> Uns64" where
  "hgatp_VMIDf riscv \<equiv> hgatp_VMID (xlenIs32 riscv RISCV_MODE_S) (hgatp riscv)"

definition getSimASID :: "riscvVM \<Rightarrow> riscvSimASID" where
  "getSimASID riscv = mkSimASID (satp_ASID riscv) (vsatp_ASID riscv) (hgatp_VMIDf riscv)
    (mstatus_MXR riscv) (mstatus_SUM riscv) (vsstatus_MXR riscv) (vsstatus_SUM riscv)
    (vsatp_MODE riscv \<noteq> 0) (hgatp_MODE riscv \<noteq> 0)"

definition getEntryASIDMask :: "tlbEntry \<Rightarrow> riscvMode \<Rightarrow> Uns64" where
  "getEntryASIDMask entry mode =
    (let V = modeIsVirtual mode;
         user = (entryTLB entry \<noteq> RISCV_TLB_VS2 \<and> entryU entry \<and> getBaseMode mode = RISCV_MODE_S)
     in mkSimASID (if \<not> entryG entry \<and> \<not> V then -1 else 0) (if \<not> entryG entry \<and> V then -1 else 0) (if V then -1 else 0)
          True (user \<and> \<not> V) V (user \<and> V) V V)"

section \<open>Entries\<close>

definition entryHasVMID :: "tlbEntry \<Rightarrow> bool" where
  "entryHasVMID entry \<longleftrightarrow> entryTLB entry = RISCV_TLB_VS1 \<or> entryTLB entry = RISCV_TLB_VS2"

definition getEntryASID :: "tlbEntry \<Rightarrow> Uns64" where
  "getEntryASID entry =
    (if entryTLB entry = RISCV_TLB_HS then simASID_ASID_HS (simASID entry)
     else if entryTLB entry = RISCV_TLB_VS1 then simASID_ASID_VS (simASID entry)
     else 0)"

definition getEntryVMID :: "tlbEntry \<Rightarrow> Uns64" where
  "getEntryVMID entry =
    (if entryTLB entry = RISCV_TLB_VS1 \<or> entryTLB entry = RISCV_TLB_VS2 then simASID_VMID (simASID entry) else 0)"

definition getEntrySize :: "tlbEntry \<Rightarrow> Uns64" where
  "getEntrySize entry = highVA entry - lowVA entry + 1"

definition getEntryHighPA :: "tlbEntry \<Rightarrow> Uns64" where
  "getEntryHighPA entry = entryPA entry + highVA entry - lowVA entry"

definition getEntryVAtoPA :: "tlbEntry \<Rightarrow> Uns64" where
  "getEntryVAtoPA entry = entryPA entry - lowVA entry"

definition getActiveASID :: "riscvVM \<Rightarrow> Uns64" where
  "getActiveASID riscv =
    (if activeTLB riscv = RISCV_TLB_HS then satp_ASID riscv
     else if activeTLB riscv = RISCV_TLB_VS1 then vsatp_ASID riscv
     else 0)"

definition getActiveVMID :: "riscvVM \<Rightarrow> Uns64" where
  "getActiveVMID riscv =
    (if activeTLB riscv = RISCV_TLB_VS1 \<or> activeTLB riscv = RISCV_TLB_VS2 then hgatp_VMIDf riscv else 0)"

definition matchVMID :: "Uns64 \<Rightarrow> tlbEntry \<Rightarrow> bool" where
  "matchVMID VMID entry \<longleftrightarrow> \<not> entryHasVMID entry \<or> VMID = getEntryVMID entry"

definition matchASID :: "Uns64 \<Rightarrow> tlbEntry \<Rightarrow> bool" where
  "matchASID ASID entry \<longleftrightarrow> entryG entry \<or> ASID = getEntryASID entry"

definition getModeMask :: "riscvMode \<Rightarrow> Uns8" where
  "getModeMask mode = push_bit (unat (riscvMode_code (getBaseMode mode))) 1"

definition maskVMID :: "riscvVM \<Rightarrow> Uns32 \<Rightarrow> Uns32" where
  "maskVMID riscv VMID = (if archXLEN riscv = 32 then take_bit 7 VMID else take_bit 14 VMID) AND getVMIDMask riscv"

definition maskASID :: "riscvVM \<Rightarrow> Uns32 \<Rightarrow> Uns32" where
  "maskASID riscv ASID = (if archXLEN riscv = 32 then take_bit 9 ASID else take_bit 16 ASID) AND getASIDMask riscv"

definition getCurrentTLBId :: "riscvVM \<Rightarrow> riscvMode \<Rightarrow> riscvTLBId option" where
  "getCurrentTLBId riscv mode =
    (if \<not> modeIsVirtual mode then (if satp_MODE riscv \<noteq> 0 then Some RISCV_TLB_HS else None)
     else if vsatp_MODE riscv \<noteq> 0 then Some RISCV_TLB_VS1
     else if hgatp_MODE riscv \<noteq> 0 then Some RISCV_TLB_VS2
     else None)"

section \<open>The ASID cache\<close>

record riscvASIDCache =
  cacheVMID :: Uns16
  cacheASID :: Uns16
  cacheValid :: bool

fun getASIDCacheIndex :: "riscvASIDCache list \<Rightarrow> riscvASIDCache \<Rightarrow> nat" where
  "getASIDCacheIndex [] new = 0"
| "getASIDCacheIndex (try # list) new =
    (if cacheValid try \<and> cacheASID try = cacheASID new \<and> cacheVMID try = cacheVMID new then 0
     else Suc (getASIDCacheIndex list new))"

text \<open>The loop that demotes entries, from index \<open>i\<close> down; at index 0 it would read before the array.\<close>

fun demoteEntries :: "riscvASIDCache list \<Rightarrow> nat \<Rightarrow> riscvASIDCache list option" where
  "demoteEntries list 0 = None"
| "demoteEntries list (Suc i) =
    (let list = list[Suc i := list ! i] in if i = 0 then Some list else demoteEntries list i)"

definition insertMRU :: "riscvASIDCache list \<Rightarrow> riscvASIDCache \<Rightarrow> (riscvASIDCache \<times> riscvASIDCache list) option" where
  "insertMRU list new =
    (let eject = \<lparr>cacheVMID = 0, cacheASID = 0, cacheValid = False\<rparr>;
         i = getASIDCacheIndex list new
     in if i = 0 then Some (eject, list)
        else let (eject, i) = (if i = length list then (list ! (i - 1), i - 1) else (eject, i))
             in map_option (\<lambda>list. (eject, list[0 := new])) (demoteEntries list i))"

section \<open>State\<close>

type_synonym tlbEntryP = nat
type_synonym memDomainP = nat

record riscvTLB =
  lut :: "(tlbEntryP \<times> tlbEntry) list"
  ASIDCache :: "riscvASIDCache list"
  ASIDICount :: Uns64
  ASIDEjectNum :: Uns64

datatype vmCall =
  UnaliasMemoryVM memDomainP Uns64 Uns64 Uns64 Uns64
| AliasMemoryVM memDomainP memDomainP Uns64 Uns64 Uns64 vmPriv Uns64 Uns64
| MapPMP riscvMode vmPriv Uns64 Uns64
| MapPMA riscvMode vmPriv Uns64 Uns64
| FreeEntryNotifier riscvTLBId Uns16

record riscvMMU =
  mmuVM :: riscvVM
  mmuMode :: riscvDMode
  fence_g_preserves_vs :: bool
  artifactLdSt :: bool
  executedICount :: Uns64
  tlb :: "riscvTLBId \<Rightarrow> riscvTLB option"
  newEntryP :: tlbEntryP
  vmDomains :: "riscvVMMode \<Rightarrow> bool \<Rightarrow> memDomainP option"
  hlvxDomains :: "bool \<Rightarrow> memDomainP option"
  guestPTWDomainP :: "memDomainP option"
  pmpDomainsP :: "riscvMode \<Rightarrow> bool \<Rightarrow> memDomainP"
  vmCalls :: "vmCall list"
  aborted :: bool

abbreviation RISCV_MAX_ADDR :: Uns64 where "RISCV_MAX_ADDR \<equiv> -1"

definition vmiAbort :: "riscvMMU \<Rightarrow> riscvMMU" where
  "vmiAbort riscv = riscv\<lparr>aborted := True\<rparr>"

text \<open>The entry at a place of a range table, and changes of it.\<close>

definition tlbEntries :: "riscvMMU \<Rightarrow> riscvTLBId \<Rightarrow> (tlbEntryP \<times> tlbEntry) list" where
  "tlbEntries riscv tlbId = (case tlb riscv tlbId of None \<Rightarrow> [] | Some t \<Rightarrow> lut t)"

definition changeEntries ::
  "riscvMMU \<Rightarrow> riscvTLBId \<Rightarrow> ((tlbEntryP \<times> tlbEntry) list \<Rightarrow> (tlbEntryP \<times> tlbEntry) list) \<Rightarrow> riscvMMU" where
  "changeEntries riscv tlbId f = riscv\<lparr>tlb := (tlb riscv)(tlbId := map_option (\<lambda>t. t\<lparr>lut := f (lut t)\<rparr>) (tlb riscv tlbId))\<rparr>"

definition setEntry :: "riscvMMU \<Rightarrow> riscvTLBId \<Rightarrow> tlbEntryP \<Rightarrow> tlbEntry \<Rightarrow> riscvMMU" where
  "setEntry riscv tlbId p entry = changeEntries riscv tlbId (map (\<lambda>(q, e). (q, if q = p then entry else e)))"

definition vmirtRemoveRangeEntry :: "riscvMMU \<Rightarrow> riscvTLBId \<Rightarrow> tlbEntryP \<Rightarrow> riscvMMU" where
  "vmirtRemoveRangeEntry riscv tlbId p = changeEntries riscv tlbId (filter (\<lambda>(q, e). q \<noteq> p))"

definition inRange :: "Uns64 \<Rightarrow> Uns64 \<Rightarrow> tlbEntry \<Rightarrow> bool" where
  "inRange low high entry \<longleftrightarrow> lowVA entry \<le> high \<and> low \<le> highVA entry"

section \<open>Unmapping\<close>

definition getVirtDomainCorD :: "riscvMMU \<Rightarrow> riscvMode \<Rightarrow> bool \<Rightarrow> memDomainP option" where
  "getVirtDomainCorD riscv mode isCode =
    (case modeToVMMode mode of
       None \<Rightarrow> None
     | Some vmMode \<Rightarrow> if vmMode = RISCV_VMMODE_LAST then None else vmDomains riscv vmMode isCode)"

definition getHLVXDomain :: "riscvMMU \<Rightarrow> memDomainP option \<Rightarrow> memDomainP option" where
  "getHLVXDomain riscv codeDomain =
    (if codeDomain = None then None
     else if codeDomain = vmDomains riscv RISCV_VMMODE_VU True then hlvxDomains riscv False
     else if codeDomain = vmDomains riscv RISCV_VMMODE_VS True then hlvxDomains riscv True
     else None)"

definition getGPTWDomain :: "riscvMMU \<Rightarrow> tlbEntry \<Rightarrow> memDomainP option" where
  "getGPTWDomain riscv entry = (if entryTLB entry = RISCV_TLB_VS2 then guestPTWDomainP riscv else None)"

definition vmirtUnaliasMemoryVM :: "riscvMMU \<Rightarrow> memDomainP option \<Rightarrow> Uns64 \<Rightarrow> Uns64 \<Rightarrow> Uns64 \<Rightarrow> Uns64 \<Rightarrow> riscvMMU" where
  "vmirtUnaliasMemoryVM riscv domain low high ASIDMask ASID = (case domain of
     None \<Rightarrow> riscv
   | Some d \<Rightarrow> riscv\<lparr>vmCalls := UnaliasMemoryVM d low high ASIDMask ASID # vmCalls riscv\<rparr>)"

definition deleteTLBEntryMappingsMode :: "riscvMMU \<times> tlbEntry \<Rightarrow> riscvMode \<Rightarrow> riscvMMU \<times> tlbEntry" where
  "deleteTLBEntryMappingsMode = (\<lambda>(riscv, entry) mode.
    let modeMask = getModeMask mode
    in if mapped entry AND modeMask \<noteq> 0
       then let dataDomain = getVirtDomainCorD riscv mode False;
                codeDomain = getVirtDomainCorD riscv mode True;
                gptwDomain = getGPTWDomain riscv entry;
                hlvxDomain = getHLVXDomain riscv codeDomain;
                fullASID = simASID entry;
                ASIDMask = getEntryASIDMask entry mode;
                unalias = (\<lambda>domain riscv. vmirtUnaliasMemoryVM riscv domain (lowVA entry) (highVA entry) ASIDMask fullASID);
                riscv = unalias dataDomain riscv;
                riscv = (if codeDomain \<noteq> dataDomain then unalias codeDomain riscv else riscv);
                riscv = unalias gptwDomain riscv;
                riscv = unalias hlvxDomain riscv
            in (riscv, entry\<lparr>mapped := mapped entry AND NOT modeMask\<rparr>)
       else (riscv, entry))"

definition deleteTLBEntryMappingsModeASID :: "riscvSimASID \<Rightarrow> riscvMMU \<times> tlbEntry \<Rightarrow> riscvMode \<Rightarrow> riscvMMU \<times> tlbEntry" where
  "deleteTLBEntryMappingsModeASID newASID = (\<lambda>(riscv, entry) mode.
    let ASIDMask = getEntryASIDMask entry mode
    in if ASIDMask AND simASID entry \<noteq> ASIDMask AND newASID then deleteTLBEntryMappingsMode (riscv, entry) mode
       else (riscv, entry))"

definition unmapTLBEntry :: "riscvMMU \<Rightarrow> tlbEntry \<Rightarrow> riscvMMU \<times> tlbEntry" where
  "unmapTLBEntry riscv entry = (case entryTLB entry of
     RISCV_TLB_HS \<Rightarrow> deleteTLBEntryMappingsMode (deleteTLBEntryMappingsMode (riscv, entry) RISCV_MODE_U) RISCV_MODE_S
   | RISCV_TLB_LAST \<Rightarrow> (vmiAbort riscv, entry)
   | _ \<Rightarrow> deleteTLBEntryMappingsMode (deleteTLBEntryMappingsMode (riscv, entry) RISCV_MODE_VU) RISCV_MODE_VS)"

definition unmapTLBEntryNewASID :: "riscvMMU \<Rightarrow> tlbEntry \<Rightarrow> riscvSimASID \<Rightarrow> riscvMMU \<times> tlbEntry" where
  "unmapTLBEntryNewASID riscv entry newASID = (case entryTLB entry of
     RISCV_TLB_HS \<Rightarrow> deleteTLBEntryMappingsModeASID newASID (deleteTLBEntryMappingsModeASID newASID (riscv, entry) RISCV_MODE_U) RISCV_MODE_S
   | RISCV_TLB_LAST \<Rightarrow> (vmiAbort riscv, entry)
   | _ \<Rightarrow> deleteTLBEntryMappingsModeASID newASID (deleteTLBEntryMappingsModeASID newASID (riscv, entry) RISCV_MODE_VU) RISCV_MODE_VS)"

section \<open>Deletion\<close>

text \<open>The iterator over the entries in a range deletes entries made by artifact accesses.\<close>

definition iterTLBEntryRange ::
  "(riscvMMU \<Rightarrow> tlbEntryP \<Rightarrow> tlbEntry \<Rightarrow> riscvMMU) \<Rightarrow> (riscvMMU \<Rightarrow> tlbEntryP \<Rightarrow> tlbEntry \<Rightarrow> riscvMMU) \<Rightarrow>
    riscvTLBId \<Rightarrow> Uns64 \<Rightarrow> Uns64 \<Rightarrow> riscvMMU \<Rightarrow> riscvMMU" where
  "iterTLBEntryRange delete body tlbId low high riscv =
    fold (\<lambda>p riscv. case map_of (tlbEntries riscv tlbId) p of
        None \<Rightarrow> riscv
      | Some entry \<Rightarrow> if artifact entry then delete riscv p entry else body riscv p entry)
      (map fst (filter (\<lambda>(p, entry). inRange low high entry) (tlbEntries riscv tlbId))) riscv"

definition unmapInTable :: "riscvTLBId \<Rightarrow> riscvMMU \<Rightarrow> tlbEntryP \<Rightarrow> tlbEntry \<Rightarrow> riscvMMU" where
  "unmapInTable tlbId riscv p entry = (let (riscv, entry) = unmapTLBEntry riscv entry in setEntry riscv tlbId p entry)"

text \<open>The end of the deletion of an entry: notification of derived models and removal.\<close>

definition removeTLBEntry :: "riscvTLBId \<Rightarrow> riscvMMU \<Rightarrow> tlbEntryP \<Rightarrow> tlbEntry \<Rightarrow> riscvMMU" where
  "removeTLBEntry tlbId riscv p entry =
    (let riscv = (if custom entry then riscv\<lparr>vmCalls := FreeEntryNotifier (entryTLB entry) (entryId entry) # vmCalls riscv\<rparr> else riscv)
     in vmirtRemoveRangeEntry riscv tlbId p)"

text \<open>Deletion of an entry that is not of stage 2, and of any entry. The entries of the stage 1 table, which
  the second iterates over, are not of stage 2.\<close>

definition deleteS1Entry :: "riscvTLBId \<Rightarrow> riscvMMU \<Rightarrow> tlbEntryP \<Rightarrow> tlbEntry \<Rightarrow> riscvMMU" where
  "deleteS1Entry tlbId riscv p entry = removeTLBEntry tlbId (unmapInTable tlbId riscv p entry) p entry"

definition unmapS1EntryForS2Entry :: "tlbEntry \<Rightarrow> riscvMMU \<Rightarrow> tlbEntryP \<Rightarrow> tlbEntry \<Rightarrow> riscvMMU" where
  "unmapS1EntryForS2Entry entryS2 riscv p entryS1 =
    (if simASID_S2 (simASID entryS1)
     then let lowGPA = lowVA entryS2; highGPA = highVA entryS2;
              lowPA = entryPA entryS1; highPA = getEntryHighPA entryS1
          in if highGPA < lowPA \<or> highPA < lowGPA then riscv
             else if getEntryVMID entryS1 \<noteq> getEntryVMID entryS2 then riscv
             else unmapInTable RISCV_TLB_VS1 riscv p entryS1
     else riscv)"

definition unmapS1EntriesForS2Entry :: "riscvMMU \<Rightarrow> tlbEntry \<Rightarrow> riscvMMU" where
  "unmapS1EntriesForS2Entry riscv entryS2 =
    iterTLBEntryRange (deleteS1Entry RISCV_TLB_VS1) (unmapS1EntryForS2Entry entryS2) RISCV_TLB_VS1 0 RISCV_MAX_ADDR riscv"

definition deleteTLBEntry :: "riscvTLBId \<Rightarrow> riscvMMU \<Rightarrow> tlbEntryP \<Rightarrow> tlbEntry \<Rightarrow> riscvMMU" where
  "deleteTLBEntry tlbId riscv p entry =
    (let riscv = unmapInTable tlbId riscv p entry;
         riscv = (if entryTLB entry = RISCV_TLB_VS2 then unmapS1EntriesForS2Entry riscv entry else riscv)
     in removeTLBEntry tlbId riscv p entry)"

abbreviation ITER_TLB_ENTRY_RANGE ::
  "riscvTLBId \<Rightarrow> Uns64 \<Rightarrow> Uns64 \<Rightarrow> (riscvMMU \<Rightarrow> tlbEntryP \<Rightarrow> tlbEntry \<Rightarrow> riscvMMU) \<Rightarrow> riscvMMU \<Rightarrow> riscvMMU" where
  "ITER_TLB_ENTRY_RANGE tlbId low high body \<equiv> iterTLBEntryRange (deleteTLBEntry tlbId) body tlbId low high"

definition invalidateTLB :: "riscvMMU \<Rightarrow> riscvTLBId \<Rightarrow> riscvMMU" where
  "invalidateTLB riscv tlbId = ITER_TLB_ENTRY_RANGE tlbId 0 RISCV_MAX_ADDR (deleteTLBEntry tlbId) riscv"

definition unmapTLB :: "riscvMMU \<Rightarrow> riscvTLBId \<Rightarrow> riscvMMU" where
  "unmapTLB riscv tlbId = ITER_TLB_ENTRY_RANGE tlbId 0 RISCV_MAX_ADDR (unmapInTable tlbId) riscv"

section \<open>Allocation\<close>

definition setTLB :: "riscvMMU \<Rightarrow> riscvTLBId \<Rightarrow> riscvTLB \<Rightarrow> riscvMMU" where
  "setTLB riscv tlbId t = riscv\<lparr>tlb := (tlb riscv)(tlbId := Some t)\<rparr>"

definition newASIDCache :: "nat \<Rightarrow> riscvASIDCache list" where
  "newASIDCache cacheSize = replicate cacheSize \<lparr>cacheVMID = 0, cacheASID = 0, cacheValid = False\<rparr>"

definition monitorASIDCacheEjectRate :: "Uns64 \<Rightarrow> riscvTLB \<Rightarrow> riscvTLB" where
  "monitorASIDCacheEjectRate iCount t =
    (let iDelta = iCount - ASIDICount t
     in if 10000000 \<le> iDelta
        then let rate = iDelta div ASIDEjectNum t; cacheSize = length (ASIDCache t)
             in if rate < 100000 \<and> cacheSize < 256
                then t\<lparr>ASIDCache := ASIDCache t @ newASIDCache cacheSize, ASIDICount := iCount, ASIDEjectNum := 0\<rparr>
                else t
        else t)"

definition promoteASIDMRU :: "riscvMMU \<Rightarrow> riscvTLBId \<Rightarrow> tlbEntry \<Rightarrow> riscvMMU" where
  "promoteASIDMRU riscv tlbId entry = (case tlb riscv tlbId of
     None \<Rightarrow> vmiAbort riscv
   | Some t \<Rightarrow>
       if ASIDCache t \<noteq> [] \<and> \<not> artifact entry \<and> \<not> custom entry
       then case insertMRU (ASIDCache t) \<lparr>cacheVMID = ucast (getEntryVMID entry), cacheASID = ucast (getEntryASID entry), cacheValid = True\<rparr> of
              None \<Rightarrow> vmiAbort riscv
            | Some (eject, list) \<Rightarrow>
                let t = t\<lparr>ASIDCache := list\<rparr>
                in if cacheValid eject
                   then let t = t\<lparr>ASIDEjectNum := ASIDEjectNum t + 1\<rparr>;
                            t = (if ASIDEjectNum t AND 0x3ff = 0 then monitorASIDCacheEjectRate (executedICount riscv) t else t)
                        in ITER_TLB_ENTRY_RANGE tlbId 0 RISCV_MAX_ADDR
                             (\<lambda>riscv p entry.
                               if ucast (cacheASID eject) = getEntryASID entry \<and> ucast (cacheVMID eject) = getEntryVMID entry
                               then deleteTLBEntry tlbId riscv p entry else riscv)
                             (setTLB riscv tlbId t)
                   else setTLB riscv tlbId t
       else riscv)"

definition insertTLBEntry :: "riscvMMU \<Rightarrow> riscvTLBId \<Rightarrow> tlbEntry \<Rightarrow> riscvMMU \<times> tlbEntryP" where
  "insertTLBEntry riscv tlbId entry =
    (let riscv = promoteASIDMRU riscv tlbId entry; p = newEntryP riscv
     in ((changeEntries riscv tlbId (\<lambda>l. (p, entry) # l))\<lparr>newEntryP := Suc p\<rparr>, p))"

definition allocateTLBEntry :: "riscvMMU \<Rightarrow> riscvTLBId \<Rightarrow> tlbEntry \<Rightarrow> riscvMMU \<times> tlbEntryP" where
  "allocateTLBEntry riscv tlbId base =
    insertTLBEntry riscv tlbId (base\<lparr>artifact := artifactLdSt riscv, simASID := getSimASID (mmuVM riscv)\<rparr>)"

definition newTLB :: "nat \<Rightarrow> riscvTLB" where
  "newTLB cacheSize = \<lparr>lut = [], ASIDCache = newASIDCache cacheSize, ASIDICount = 0, ASIDEjectNum = 0\<rparr>"

section \<open>Lookup\<close>

text \<open>The iteration that returns the first match; artifact entries in front of it are deleted.\<close>

fun findInTable :: "Uns64 \<Rightarrow> Uns64 \<Rightarrow> riscvTLBId \<Rightarrow> tlbEntryP list \<Rightarrow> riscvMMU \<Rightarrow> riscvMMU \<times> tlbEntryP option" where
  "findInTable VMID ASID tlbId [] riscv = (riscv, None)"
| "findInTable VMID ASID tlbId (p # ps) riscv = (case map_of (tlbEntries riscv tlbId) p of
     None \<Rightarrow> findInTable VMID ASID tlbId ps riscv
   | Some entry \<Rightarrow>
       if artifact entry then findInTable VMID ASID tlbId ps (deleteTLBEntry tlbId riscv p entry)
       else if matchVMID VMID entry \<and> matchASID ASID entry then (riscv, Some p)
       else findInTable VMID ASID tlbId ps riscv)"

definition findTLBEntry :: "riscvMMU \<Rightarrow> Uns64 \<Rightarrow> riscvMMU \<times> tlbEntryP option" where
  "findTLBEntry riscv VA =
    (let tlbId = activeTLB (mmuVM riscv)
     in findInTable (getActiveVMID (mmuVM riscv)) (getActiveASID (mmuVM riscv)) tlbId
          (map fst (filter (\<lambda>(p, entry). inRange VA VA entry) (tlbEntries riscv tlbId))) riscv)"

section \<open>Fences\<close>

text \<open>A mask of a simulated ASID without its ASID fields.\<close>

definition clearASIDs :: "riscvSimASID \<Rightarrow> riscvSimASID" where
  "clearASIDs a = a AND NOT (mask 32)"

definition deleteTLBEntryMask ::
  "riscvTLBId \<Rightarrow> riscvSimASID \<Rightarrow> riscvSimASID \<Rightarrow> riscvMMU \<Rightarrow> tlbEntryP \<Rightarrow> tlbEntry \<Rightarrow> riscvMMU" where
  "deleteTLBEntryMask tlbId msk match riscv p entry =
    (let msk = (if entryG entry then clearASIDs msk else msk)
     in if match AND msk = simASID entry AND msk then deleteTLBEntry tlbId riscv p entry else riscv)"

text \<open>The masks of the entries to delete are made of the fields for the two ASIDs and the VMID.\<close>

definition mskFields :: "bool \<Rightarrow> bool \<Rightarrow> bool \<Rightarrow> riscvSimASID" where
  "mskFields ASID_HS ASID_VS VMID =
    mkSimASID (if ASID_HS then -1 else 0) (if ASID_VS then -1 else 0) (if VMID then -1 else 0) False False False False False False"

definition deleteTLBEntriesMask ::
  "riscvMMU \<Rightarrow> riscvTLBId \<Rightarrow> Uns64 \<Rightarrow> Uns64 \<Rightarrow> bool \<Rightarrow> bool \<Rightarrow> Uns32 \<Rightarrow> Uns32 \<Rightarrow> riscvMMU" where
  "deleteTLBEntriesMask riscv tlbId low high mskASID mskVMID VMID ASID =
    (let VMID = ucast (maskVMID (mmuVM riscv) VMID);
         ASID = ucast (maskASID (mmuVM riscv) ASID);
         (msk, match) =
           (case tlbId of
              RISCV_TLB_HS \<Rightarrow> (mskFields mskASID False False, mkSimASID ASID 0 0 False False False False False False)
            | RISCV_TLB_VS1 \<Rightarrow> (mskFields False mskASID mskVMID, mkSimASID 0 ASID VMID False False False False False False)
            | RISCV_TLB_VS2 \<Rightarrow> (mskFields False False mskVMID, mkSimASID 0 0 VMID False False False False False False)
            | RISCV_TLB_LAST \<Rightarrow> (mskFields mskASID mskASID mskVMID, 0));
         riscv = ITER_TLB_ENTRY_RANGE tlbId low high (deleteTLBEntryMask tlbId msk match) riscv
     in if tlbId = RISCV_TLB_VS2 \<and> \<not> fence_g_preserves_vs riscv
        then ITER_TLB_ENTRY_RANGE RISCV_TLB_VS1 0 RISCV_MAX_ADDR (deleteTLBEntryMask RISCV_TLB_VS1 msk match) riscv
        else riscv)"

definition deleteTLBEntriesMaskActiveVMID ::
  "riscvMMU \<Rightarrow> riscvTLBId \<Rightarrow> Uns64 \<Rightarrow> Uns64 \<Rightarrow> bool \<Rightarrow> Uns32 \<Rightarrow> riscvMMU" where
  "deleteTLBEntriesMaskActiveVMID riscv tlbId low high mskASID ASID =
    deleteTLBEntriesMask riscv tlbId low high mskASID True (ucast (hgatp_VMIDf (mmuVM riscv))) ASID"

definition getS1TLBId :: "riscvMMU \<Rightarrow> riscvTLBId" where
  "getS1TLBId riscv = (if dmodeIsVirtual (mmuMode riscv) then RISCV_TLB_VS1 else RISCV_TLB_HS)"

definition invalidate_VMx_ASx_ADx :: "riscvMMU \<Rightarrow> riscvTLBId \<Rightarrow> riscvMMU" where
  "invalidate_VMx_ASx_ADx riscv tlbId = deleteTLBEntriesMask riscv tlbId 0 RISCV_MAX_ADDR False False 0 0"

definition invalidate_VMx_ASx_AD1 :: "riscvMMU \<Rightarrow> Uns64 \<Rightarrow> riscvTLBId \<Rightarrow> riscvMMU" where
  "invalidate_VMx_ASx_AD1 riscv AD tlbId = deleteTLBEntriesMask riscv tlbId AD AD False False 0 0"

definition invalidate_VM1_ASx_ADx :: "riscvMMU \<Rightarrow> Uns32 \<Rightarrow> riscvTLBId \<Rightarrow> riscvMMU" where
  "invalidate_VM1_ASx_ADx riscv VMID tlbId = deleteTLBEntriesMask riscv tlbId 0 RISCV_MAX_ADDR False True VMID 0"

definition invalidate_VM1_ASx_AD1 :: "riscvMMU \<Rightarrow> Uns32 \<Rightarrow> Uns64 \<Rightarrow> riscvTLBId \<Rightarrow> riscvMMU" where
  "invalidate_VM1_ASx_AD1 riscv VMID AD tlbId = deleteTLBEntriesMask riscv tlbId AD AD False True VMID 0"

definition invalidate_VMC_ASx_ADx :: "riscvMMU \<Rightarrow> riscvTLBId \<Rightarrow> riscvMMU" where
  "invalidate_VMC_ASx_ADx riscv tlbId = deleteTLBEntriesMaskActiveVMID riscv tlbId 0 RISCV_MAX_ADDR False 0"

definition invalidate_VMC_AS1_ADx :: "riscvMMU \<Rightarrow> Uns32 \<Rightarrow> riscvTLBId \<Rightarrow> riscvMMU" where
  "invalidate_VMC_AS1_ADx riscv ASID tlbId = deleteTLBEntriesMaskActiveVMID riscv tlbId 0 RISCV_MAX_ADDR True ASID"

definition invalidate_VMC_ASx_AD1 :: "riscvMMU \<Rightarrow> Uns64 \<Rightarrow> riscvTLBId \<Rightarrow> riscvMMU" where
  "invalidate_VMC_ASx_AD1 riscv AD tlbId = deleteTLBEntriesMaskActiveVMID riscv tlbId AD AD False 0"

definition invalidate_VMC_AS1_AD1 :: "riscvMMU \<Rightarrow> Uns32 \<Rightarrow> Uns64 \<Rightarrow> riscvTLBId \<Rightarrow> riscvMMU" where
  "invalidate_VMC_AS1_AD1 riscv ASID AD tlbId = deleteTLBEntriesMaskActiveVMID riscv tlbId AD AD True ASID"

definition riscvVMInvalidateAll :: "riscvMMU \<Rightarrow> riscvMMU" where
  "riscvVMInvalidateAll riscv = invalidate_VMC_ASx_ADx riscv (getS1TLBId riscv)"

definition riscvVMInvalidateAllASID :: "riscvMMU \<Rightarrow> Uns32 \<Rightarrow> riscvMMU" where
  "riscvVMInvalidateAllASID riscv ASID = invalidate_VMC_AS1_ADx riscv ASID (getS1TLBId riscv)"

definition riscvVMInvalidateVA :: "riscvMMU \<Rightarrow> Uns64 \<Rightarrow> riscvMMU" where
  "riscvVMInvalidateVA riscv VA = invalidate_VMC_ASx_AD1 riscv VA (getS1TLBId riscv)"

definition riscvVMInvalidateVAASID :: "riscvMMU \<Rightarrow> Uns64 \<Rightarrow> Uns32 \<Rightarrow> riscvMMU" where
  "riscvVMInvalidateVAASID riscv VA ASID = invalidate_VMC_AS1_AD1 riscv ASID VA (getS1TLBId riscv)"

definition riscvVMInvalidateAllV :: "riscvMMU \<Rightarrow> riscvMMU" where
  "riscvVMInvalidateAllV riscv = invalidate_VMC_ASx_ADx riscv RISCV_TLB_VS1"

definition riscvVMInvalidateAllASIDV :: "riscvMMU \<Rightarrow> Uns32 \<Rightarrow> riscvMMU" where
  "riscvVMInvalidateAllASIDV riscv ASID = invalidate_VMC_AS1_ADx riscv ASID RISCV_TLB_VS1"

definition riscvVMInvalidateVAV :: "riscvMMU \<Rightarrow> Uns64 \<Rightarrow> riscvMMU" where
  "riscvVMInvalidateVAV riscv VA = invalidate_VMC_ASx_AD1 riscv VA RISCV_TLB_VS1"

definition riscvVMInvalidateVAASIDV :: "riscvMMU \<Rightarrow> Uns64 \<Rightarrow> Uns32 \<Rightarrow> riscvMMU" where
  "riscvVMInvalidateVAASIDV riscv VA ASID = invalidate_VMC_AS1_AD1 riscv ASID VA RISCV_TLB_VS1"

definition riscvVMInvalidateAllG :: "riscvMMU \<Rightarrow> riscvMMU" where
  "riscvVMInvalidateAllG riscv = invalidate_VMx_ASx_ADx riscv RISCV_TLB_VS2"

definition riscvVMInvalidateAllVMIDG :: "riscvMMU \<Rightarrow> Uns32 \<Rightarrow> riscvMMU" where
  "riscvVMInvalidateAllVMIDG riscv VMID = invalidate_VM1_ASx_ADx riscv VMID RISCV_TLB_VS2"

definition riscvVMInvalidateVAG :: "riscvMMU \<Rightarrow> Uns64 \<Rightarrow> riscvMMU" where
  "riscvVMInvalidateVAG riscv GPAsh2 = invalidate_VMx_ASx_AD1 riscv (push_bit 2 GPAsh2) RISCV_TLB_VS2"

definition riscvVMInvalidateVAVMIDG :: "riscvMMU \<Rightarrow> Uns64 \<Rightarrow> Uns32 \<Rightarrow> riscvMMU" where
  "riscvVMInvalidateVAVMIDG riscv GPAsh2 VMID = invalidate_VM1_ASx_AD1 riscv VMID (push_bit 2 GPAsh2) RISCV_TLB_VS2"

section \<open>Mapping\<close>

record tlbMapInfo =
  miLowVA :: Uns64
  miHighVA :: Uns64
  miPriv :: vmPriv

definition getPMPDomainPriv :: "riscvMMU \<Rightarrow> riscvMode \<Rightarrow> vmPriv \<Rightarrow> memDomainP" where
  "getPMPDomainPriv riscv mode priv = pmpDomainsP riscv (getBaseMode mode) (priv AND VM_PRIV_X \<noteq> 0)"

text \<open>The bounds of the mapping, its offset to the physical address and the mask of its ASID.\<close>

definition mapTLBBounds ::
  "Uns64 \<Rightarrow> Uns64 \<Rightarrow> tlbEntry \<Rightarrow> tlbEntry option \<Rightarrow> riscvMode \<Rightarrow> tlbMapInfo \<Rightarrow> Uns64 \<times> Uns64 \<times> Uns64 \<times> Uns64" where
  "mapTLBBounds VA GPA entry1 entry2 mode mi =
    (let vmiPageMax = 0x100000000;
         low = lowVA entry1; high = highVA entry1;
         ASIDMask = getEntryASIDMask entry1 mode;
         VAtoPA = getEntryVAtoPA entry1;
         (low, high) = (if vmiPageMax < getEntrySize entry1
                        then (miLowVA mi AND - vmiPageMax, (miLowVA mi AND - vmiPageMax) + vmiPageMax - 1)
                        else (low, high))
     in case entry2 of
          None \<Rightarrow> (low, high, VAtoPA, ASIDMask)
        | Some entry2 \<Rightarrow>
            let lowVA2 = lowVA entry2; highVA2 = highVA entry2;
                ASIDMask2 = getEntryASIDMask entry2 mode;
                VAtoPA2 = getEntryVAtoPA entry2;
                loDelta1 = VA - low; loDelta2 = GPA - lowVA2;
                hiDelta1 = high - VA; hiDelta2 = highVA2 - GPA;
                low = (if loDelta2 < loDelta1 then low + (loDelta1 - loDelta2) else low);
                high = (if hiDelta2 < hiDelta1 then high - (hiDelta1 - hiDelta2) else high)
            in (low, high, VAtoPA + VAtoPA2, ASIDMask OR ASIDMask2))"

definition mapTLBEntry ::
  "riscvMMU \<Rightarrow> Uns64 \<Rightarrow> Uns64 \<Rightarrow> riscvTLBId \<Rightarrow> tlbEntryP \<Rightarrow> tlbEntry \<Rightarrow> tlbEntry option \<Rightarrow> memDomainP \<Rightarrow> riscvMode \<Rightarrow> vmPriv \<Rightarrow>
    tlbMapInfo \<Rightarrow> riscvMMU \<times> tlbMapInfo" where
  "mapTLBEntry riscv VA GPA tlbId p1 entry1 entry2 domainV mode requiredPriv mi =
    (let domainP = getPMPDomainPriv riscv mode requiredPriv;
         priv = miPriv mi;
         ASID = simASID entry1;
         (low, high, VAtoPA, ASIDMask) = mapTLBBounds VA GPA entry1 entry2 mode mi;
         lowPA = low + VAtoPA; highPA = high + VAtoPA;
         calls = AliasMemoryVM domainP domainV lowPA highPA low priv ASIDMask ASID # vmCalls riscv;
         hlvx = (hlvxActive (mmuVM riscv) \<and> priv AND VM_PRIV_X \<noteq> 0);
         calls = (case getHLVXDomain riscv (Some domainV) of
             Some hlvxDomain \<Rightarrow>
               if hlvx then AliasMemoryVM (getPMPDomainPriv riscv mode VM_PRIV_R) hlvxDomain lowPA highPA low VM_PRIV_R ASIDMask ASID # calls
               else calls
           | None \<Rightarrow> calls);
         requiredPriv = (if hlvx then VM_PRIV_R else requiredPriv);
         lowPA = miLowVA mi + VAtoPA; highPA = miHighVA mi + VAtoPA;
         calls = MapPMA mode requiredPriv lowPA highPA # MapPMP mode requiredPriv lowPA highPA # calls;
         riscv = riscv\<lparr>vmCalls := calls\<rparr>;
         riscv = setEntry riscv tlbId p1 (entry1\<lparr>mapped := mapped entry1 OR getModeMask mode\<rparr>)
     in (riscv, mi\<lparr>miLowVA := low, miHighVA := high\<rparr>))"

end
