(* ===== verification/RV_TLB_Cache.thy ===== *)
theory RV_TLB_Cache
  imports RV_TLB
begin

text \<open>
  The cache of recently used ASIDs holds the most recently used address spaces, the most recent first,
  for every size but one.
\<close>

section \<open>The cache of recently used ASIDs\<close>

lemma demoteEntries_eq:
  "0 < i \<Longrightarrow> i < length l \<Longrightarrow> demoteEntries l i = Some (hd l # take i l @ drop (Suc i) l)"
proof (induction i arbitrary: l)
  case (Suc i)
  then obtain x l' where l: "l = x # l'" by (cases l) auto
  show ?case
  proof (cases i)
    case 0
    then show ?thesis using Suc.prems l by (cases l') simp_all
  next
    case pos: (Suc j)
    let ?l = "l[Suc i := l ! i]"
    have "demoteEntries l (Suc i) = demoteEntries ?l i" using pos by (simp add: Let_def)
    also have "\<dots> = Some (hd ?l # take i ?l @ drop (Suc i) ?l)" by (rule Suc.IH) (use Suc.prems pos in simp_all)
    finally have "demoteEntries l (Suc i) = Some (hd ?l # take i ?l @ drop (Suc i) ?l)" .
    moreover have "drop (Suc i) ?l = l ! i # drop (Suc (Suc i)) l"
      using Suc.prems by (simp add: drop_update_swap Cons_nth_drop_Suc [symmetric])
    moreover have "hd ?l = hd l" by (simp add: l)
    ultimately show ?thesis using Suc.prems by (simp add: take_Suc_conv_app_nth)
  qed
qed simp

lemma getASIDCacheIndex_le: "getASIDCacheIndex l new \<le> length l"
  by (induction l) auto

lemma getASIDCacheIndex_nth:
  "getASIDCacheIndex l new < length l \<Longrightarrow> cacheValid new \<Longrightarrow> l ! getASIDCacheIndex l new = new"
  by (induction l) auto

abbreviation no_entry :: riscvASIDCache where
  "no_entry \<equiv> \<lparr>cacheVMID = 0, cacheASID = 0, cacheValid = False\<rparr>"

lemma insertMRU_hit:
  assumes "getASIDCacheIndex l new = i" "i < length l" "cacheValid new"
  shows "insertMRU l new = Some (no_entry, new # take i l @ drop (Suc i) l)"
proof (cases i)
  case 0
  then have "l ! 0 = new" using getASIDCacheIndex_nth [of l new] assms by simp
  then show ?thesis using 0 assms by (cases l) (simp_all add: insertMRU_def)
next
  case (Suc j)
  then show ?thesis using assms demoteEntries_eq [of i l] by (simp add: insertMRU_def Let_def)
qed

lemma insertMRU_miss:
  assumes "getASIDCacheIndex l new = length l" "2 \<le> length l"
  shows "insertMRU l new = Some (last l, new # butlast l)"
proof -
  have "demoteEntries l (length l - 1) = Some (hd l # take (length l - 1) l @ drop (length l) l)"
    using assms(2) demoteEntries_eq [of "length l - 1" l] by (simp add: Suc_diff_le)
  moreover have ne: "l \<noteq> []" using assms(2) by auto
  moreover have "l ! (length l - 1) = last l" using last_conv_nth [OF ne] by simp
  ultimately show ?thesis using assms by (simp add: insertMRU_def Let_def butlast_conv_take)
qed

text \<open>The address spaces in the order of their last use.\<close>

definition cache_entry :: "Uns16 \<times> Uns16 \<Rightarrow> riscvASIDCache" where
  "cache_entry = (\<lambda>(vmid, asid). \<lparr>cacheVMID = vmid, cacheASID = asid, cacheValid = True\<rparr>)"

definition recent :: "(Uns16 \<times> Uns16) list \<Rightarrow> (Uns16 \<times> Uns16) list" where
  "recent xs = fold (\<lambda>x l. x # removeAll x l) xs []"

definition cache_of :: "nat \<Rightarrow> (Uns16 \<times> Uns16) list \<Rightarrow> riscvASIDCache list" where
  "cache_of n l = map cache_entry (take n l) @ replicate (n - length l) no_entry"

text \<open>The entries ejected and the final cache after a sequence of uses.\<close>

fun uses :: "(Uns16 \<times> Uns16) list \<Rightarrow> riscvASIDCache list \<Rightarrow> riscvASIDCache list option" where
  "uses [] l = Some l"
| "uses (x # xs) l = (case insertMRU l (cache_entry x) of None \<Rightarrow> None | Some (eject, l) \<Rightarrow> uses xs l)"

lemma cache_index_hit:
  "getASIDCacheIndex (map cache_entry l @ m) (cache_entry x) =
    (if x \<in> set l then length (takeWhile (\<lambda>y. y \<noteq> x) l) else length l + getASIDCacheIndex m (cache_entry x))"
  by (induction l) (auto simp: cache_entry_def split: prod.splits)

lemma cache_index_empty: "getASIDCacheIndex (replicate k no_entry) new = k"
  by (induction k) simp_all

lemma takeWhile_removeAll:
  "distinct l \<Longrightarrow> x \<in> set l \<Longrightarrow>
    take (length (takeWhile (\<lambda>y. y \<noteq> x) l)) l @ drop (Suc (length (takeWhile (\<lambda>y. y \<noteq> x) l))) l = removeAll x l"
  by (induction l) auto

lemma takeWhile_less: "x \<in> set l \<Longrightarrow> length (takeWhile (\<lambda>y. y \<noteq> x) l) < length l"
  by (induction l) auto

lemma removeAll_before: "x \<notin> set (take n l) \<Longrightarrow> take n (removeAll x l) = take n l"
  by (induction l arbitrary: n) (auto simp: take_Cons' split: if_splits)

lemma removeAll_take:
  "distinct l \<Longrightarrow> x \<in> set (take n l) \<Longrightarrow> take (n - 1) (removeAll x l) = removeAll x (take n l)"
proof (induction l arbitrary: n)
  case (Cons y l)
  then show ?case
  proof (cases n)
    case (Suc m)
    show ?thesis
    proof (cases "x = y")
      case True
      then have "removeAll x l = l" "removeAll x (take m l) = take m l"
        using Cons.prems in_set_takeD [of x m l] by (auto intro!: removeAll_id)
      then show ?thesis using Suc True by simp
    next
      case False
      then have "x \<in> set (take m l)" using Cons.prems Suc by simp
      moreover from this have "m \<noteq> 0" by (cases m) simp_all
      ultimately show ?thesis using Suc False Cons.IH [of m] Cons.prems by (cases m) simp_all
    qed
  qed simp
qed simp

lemma insertMRU_recency:
  assumes "distinct l" "2 \<le> n"
  shows "\<exists>eject. insertMRU (cache_of n l) (cache_entry x) = Some (eject, cache_of n (x # removeAll x l)) \<and>
    (cacheValid eject \<longleftrightarrow> x \<notin> set (take n l) \<and> n \<le> length l) \<and> (cacheValid eject \<longrightarrow> eject = cache_entry (l ! (n - 1)))"
proof (cases "x \<in> set (take n l)")
  case True
  define i where "i = length (takeWhile (\<lambda>y. y \<noteq> x) (take n l))"
  have i: "i < length (take n l)" unfolding i_def by (rule takeWhile_less [OF True])
  have xl: "x \<in> set l" using True by (rule in_set_takeD)
  have "getASIDCacheIndex (cache_of n l) (cache_entry x) = i"
    using True by (simp add: cache_of_def cache_index_hit i_def)
  moreover have "i < length (cache_of n l)" using i by (simp add: cache_of_def min_def)
  moreover have "cacheValid (cache_entry x)" by (simp add: cache_entry_def split: prod.splits)
  ultimately have ins: "insertMRU (cache_of n l) (cache_entry x) =
    Some (no_entry, cache_entry x # take i (cache_of n l) @ drop (Suc i) (cache_of n l))" by (rule insertMRU_hit)
  have "take i (cache_of n l) @ drop (Suc i) (cache_of n l) =
    map cache_entry (take i (take n l) @ drop (Suc i) (take n l)) @ replicate (n - length l) no_entry"
    using i by (simp add: cache_of_def take_map drop_map)
  also have "take i (take n l) @ drop (Suc i) (take n l) = removeAll x (take n l)"
    unfolding i_def by (rule takeWhile_removeAll) (use True assms(1) in simp_all)
  also have "\<dots> = take (n - 1) (removeAll x l)" using removeAll_take [OF assms(1) True] by simp
  finally have "cache_entry x # take i (cache_of n l) @ drop (Suc i) (cache_of n l) = cache_of n (x # removeAll x l)"
    using assms xl length_pos_if_in_set [OF xl]
    by (cases n) (simp_all add: cache_of_def distinct_remove1_removeAll [symmetric] length_remove1)
  then show ?thesis using ins True by simp
next
  case False
  have idx: "getASIDCacheIndex (cache_of n l) (cache_entry x) = length (cache_of n l)"
    using False by (simp add: cache_of_def cache_index_hit cache_index_empty)
  have len: "length (cache_of n l) = n" by (simp add: cache_of_def)
  have ins: "insertMRU (cache_of n l) (cache_entry x) = Some (last (cache_of n l), cache_entry x # butlast (cache_of n l))"
    by (rule insertMRU_miss [OF idx]) (simp add: len assms(2))
  show ?thesis
  proof (cases "n \<le> length l")
    case True
    have c: "cache_of n l = map cache_entry (take n l)" using True by (simp add: cache_of_def)
    have ne: "take n l \<noteq> []" using assms(2) True by auto
    have "x \<notin> set (take (n - 1) l)" using False set_take_subset_set_take [of "n - 1" n l] by auto
    then have before: "take (n - 1) (removeAll x l) = take (n - 1) l" by (rule removeAll_before)
    moreover have "butlast (cache_of n l) = map cache_entry (take (n - 1) l)"
      using True by (simp add: c map_butlast [symmetric] butlast_take)
    moreover have "n - 1 \<le> length (removeAll x l)"
      using arg_cong [OF before, of length] True by (simp add: min_def split: if_splits)
    ultimately have "cache_entry x # butlast (cache_of n l) = cache_of n (x # removeAll x l)"
      using assms(2) before by (cases n) (simp_all add: cache_of_def)
    moreover have "last (cache_of n l) = cache_entry (l ! (n - 1))"
      using ne True assms(2) by (simp add: c last_map last_conv_nth min_def)
    ultimately show ?thesis using ins False True by (simp add: cache_entry_def split: prod.splits)
  next
    case short: False
    then have "x \<notin> set l" using False by simp
    moreover obtain k where k: "n - length l = Suc k" using short by (metis Suc_diff_Suc not_le)
    then have "cache_of n l = map cache_entry l @ replicate k no_entry @ [no_entry]"
      using short by (simp add: cache_of_def replicate_append_same)
    moreover have "n - Suc (length l) = k" using k by simp
    ultimately show ?thesis using ins short False k by (cases n) (simp_all add: cache_of_def butlast_append)
  qed
qed

lemma recent_snoc: "recent (xs @ [x]) = x # removeAll x (recent xs)"
  by (simp add: recent_def)

lemma recent_distinct: "distinct (recent xs)"
  by (induction xs rule: rev_induct) (simp_all add: recent_snoc distinct_removeAll, simp add: recent_def)

lemma uses_append: "uses (xs @ ys) l = (case uses xs l of None \<Rightarrow> None | Some l \<Rightarrow> uses ys l)"
  by (induction xs arbitrary: l) (simp_all split: option.split)

text \<open>C22: A cache of at least two ASIDs holds the most recently used address spaces, the most recent
  first, and ejects exactly the least recently used one when a new one does not fit; in a cache
  of one the first use already reads before the array.\<close>

theorem asid_cache_recency:
  assumes "2 \<le> n"
  shows "uses xs (newASIDCache n) = Some (cache_of n (recent xs)) \<and>
    (\<exists>eject. insertMRU (cache_of n (recent xs)) (cache_entry x) = Some (eject, cache_of n (recent (xs @ [x]))) \<and>
      (if x \<notin> set (take n (recent xs)) \<and> n \<le> length (recent xs) then eject = cache_entry (recent xs ! (n - 1)) else \<not> cacheValid eject)) \<and>
    insertMRU (newASIDCache 1) (cache_entry x) = None"
proof -
  have one: "insertMRU (newASIDCache 1) (cache_entry x) = None" by (simp add: newASIDCache_def insertMRU_def)
  have step: "\<exists>eject. insertMRU (cache_of n (recent xs)) (cache_entry x) = Some (eject, cache_of n (recent (xs @ [x]))) \<and>
      (if x \<notin> set (take n (recent xs)) \<and> n \<le> length (recent xs) then eject = cache_entry (recent xs ! (n - 1)) else \<not> cacheValid eject)" for xs x
    using insertMRU_recency [OF recent_distinct assms, of xs x] unfolding recent_snoc by auto
  have "uses xs (newASIDCache n) = Some (cache_of n (recent xs))"
  proof (induction xs rule: rev_induct)
    case Nil
    show ?case by (simp add: newASIDCache_def cache_of_def recent_def)
  next
    case (snoc x xs)
    then show ?case using step [of xs x] by (auto simp: uses_append)
  qed
  then show ?thesis using step one by blast
qed

theorem asid_cache_recency_witness:
  "(2::nat) \<le> 4 \<and> uses [(0, 7), (0, 9)] (newASIDCache 4) = Some (cache_of 4 (recent [(0, 7), (0, 9)]))"
  using asid_cache_recency [of 4 "[(0, 7), (0, 9)]" "(0, 1)"] by simp

end
