(* ===== verification/RV_TLB_Map.thy ===== *)
theory RV_TLB_Map
  imports RV_TLB
begin

text \<open>
  The mapping made for a stage 1 entry and the stage 2 entry of its physical address lies in both and
  composes their translations.
\<close>

section \<open>Mappings through two stages\<close>

text \<open>An entry covers the aligned block of some size around an address.\<close>

definition block_around :: "tlbEntry \<Rightarrow> Uns64 \<Rightarrow> nat \<Rightarrow> bool" where
  "block_around e va k \<longleftrightarrow> k < 64 \<and> lowVA e = va AND NOT (mask k) \<and> highVA e = va OR mask k"

lemma block_top: "(va AND NOT (mask k)) + mask k = va OR mask k" for va :: Uns64
proof -
  have "(va AND NOT (mask k)) + mask k = (va AND NOT (mask k)) OR mask k" by (rule disjunctive_add) (auto simp: bit_simps)
  also have "\<dots> = va OR mask k" by (rule bit_word_eqI) (auto simp: bit_simps)
  finally show ?thesis .
qed

lemma block_size:
  assumes "block_around e va k"
  shows "getEntrySize e = push_bit k 1"
proof -
  have "highVA e = lowVA e + mask k" using assms block_top [of va k] by (simp add: block_around_def)
  then show ?thesis by (simp add: getEntrySize_def mask_eq_exp_minus_1)
qed

lemma block_bounds:
  fixes va :: Uns64
  shows "va AND NOT (mask k) \<le> va" "va \<le> va OR mask k"
    and "j \<le> k \<Longrightarrow> va AND NOT (mask k) \<le> va AND NOT (mask j)" "j \<le> k \<Longrightarrow> va OR mask j \<le> va OR mask k"
proof -
  show "va AND NOT (mask k) \<le> va" "va \<le> va OR mask k" by (simp_all add: word_and_le2 le_word_or2 word_and_le1)
  assume "j \<le> k"
  then have "va AND NOT (mask k) = (va AND NOT (mask j)) AND NOT (mask k)" "va OR mask k = (va OR mask j) OR mask k"
    by (intro bit_word_eqI; auto simp: bit_simps)+
  then show "va AND NOT (mask k) \<le> va AND NOT (mask j)" "va OR mask j \<le> va OR mask k"
    by (metis word_and_le2, metis le_word_or2 word_and_le1)
qed

text \<open>A shift by a distance that is within the bounds of a block on either side stays in the block.\<close>

lemma shift_within:
  fixes VA va GPA lo hi :: Uns64
  assumes "lo \<le> GPA" "GPA \<le> hi" "va \<le> VA \<Longrightarrow> VA - va \<le> GPA - lo" "VA \<le> va \<Longrightarrow> va - VA \<le> hi - GPA"
  shows "lo \<le> GPA + (va - VA)" "GPA + (va - VA) \<le> hi"
proof -
  have "lo \<le> GPA + (va - VA) \<and> GPA + (va - VA) \<le> hi"
  proof (cases "va \<le> VA")
    case True
    then have d: "unat (VA - va) \<le> unat GPA - unat lo" using assms(1,3) by (simp add: word_le_nat_alt unat_sub)
    then have "VA - va \<le> GPA" by (simp add: word_le_nat_alt)
    then have "unat (GPA - (VA - va)) = unat GPA - unat (VA - va)" by (rule unat_sub)
    moreover have "GPA + (va - VA) = GPA - (VA - va)" by simp
    ultimately have "unat (GPA + (va - VA)) = unat GPA - unat (VA - va)" by (simp only:)
    then show ?thesis using d assms(1,2) unfolding word_le_nat_alt by linarith
  next
    case False
    then have d: "unat (va - VA) \<le> unat hi - unat GPA" using assms(2,4) by (simp add: word_le_nat_alt unat_sub)
    have "unat hi < 2 ^ 64" using unsigned_less [of hi, where ?'a = nat] by simp
    then have "unat (GPA + (va - VA)) = unat GPA + unat (va - VA)"
      using d assms(2) by (simp add: unat_word_ariths word_le_nat_alt)
    then show ?thesis using d assms(1,2) by (simp add: word_le_nat_alt)
  qed
  then show "lo \<le> GPA + (va - VA)" "GPA + (va - VA) \<le> hi" by simp_all
qed

lemma lower_bound:
  fixes VA l d :: Uns64
  assumes "l \<le> VA" "l' = (if d < VA - l then l + ((VA - l) - d) else l)"
  shows "l \<le> l'" "l' \<le> VA" "l' \<le> va \<Longrightarrow> va \<le> VA \<Longrightarrow> VA - va \<le> d"
proof -
  have l': "unat l' = (if d < VA - l then unat VA - unat d else unat l)"
    using assms unat_sub [of d VA] by (auto simp: word_le_nat_alt word_less_nat_alt unat_sub algebra_simps)
  have d: "d < VA - l \<longleftrightarrow> unat d < unat VA - unat l" using assms(1) by (simp add: word_less_nat_alt unat_sub)
  show "l \<le> l'" "l' \<le> VA" using l' d assms(1) by (auto simp: word_le_nat_alt split: if_splits)
  assume "l' \<le> va" "va \<le> VA"
  then show "VA - va \<le> d" using l' d assms(1) by (auto simp: word_le_nat_alt unat_sub split: if_splits)
qed

lemma upper_bound:
  fixes VA h d :: Uns64
  assumes "VA \<le> h" "h' = (if d < h - VA then h - ((h - VA) - d) else h)"
  shows "h' \<le> h" "VA \<le> h'" "va \<le> h' \<Longrightarrow> VA \<le> va \<Longrightarrow> va - VA \<le> d"
proof -
  have d: "d < h - VA \<longleftrightarrow> unat d < unat h - unat VA" using assms(1) by (simp add: word_less_nat_alt unat_sub)
  have lim: "unat h < 2 ^ 64" using unsigned_less [of h, where ?'a = nat] by simp
  have "h - ((h - VA) - d) = VA + d" by simp
  moreover have "unat (VA + d) = unat VA + unat d" if "d < h - VA" using that lim unfolding d by (simp add: unat_word_ariths)
  ultimately have h': "unat h' = (if d < h - VA then unat VA + unat d else unat h)" unfolding assms(2) by (simp only: if_distrib [of unat] cong: if_cong)
  show "h' \<le> h" "VA \<le> h'" using h' d assms(1) by (auto simp: word_le_nat_alt split: if_splits)
  assume "va \<le> h'" "VA \<le> va"
  then show "va - VA \<le> d" using h' d assms(1) by (auto simp: word_le_nat_alt unat_sub split: if_splits)
qed


lemma mapTLBBounds_first:
  assumes "block_around e1 VA k" "miLowVA mi = VA"
  shows "\<exists>j \<le> k. j \<le> 32 \<and> mapTLBBounds VA GPA e1 None mode mi = (VA AND NOT (mask j), VA OR mask j, getEntryVAtoPA e1, getEntryASIDMask e1 mode) \<and>
    (\<forall>e2. mapTLBBounds VA GPA e1 (Some e2) mode mi =
      (let l = VA AND NOT (mask j); h = VA OR mask j; d = GPA - lowVA e2; d' = highVA e2 - GPA
       in (if d < VA - l then l + ((VA - l) - d) else l, if d' < h - VA then h - ((h - VA) - d') else h,
           getEntryVAtoPA e1 + getEntryVAtoPA e2, getEntryASIDMask e1 mode OR getEntryASIDMask e2 mode)))"
proof -
  have size: "getEntrySize e1 = push_bit k 1" by (rule block_size [OF assms(1)])
  have k: "k < 64" "lowVA e1 = VA AND NOT (mask k)" "highVA e1 = VA OR mask k" using assms(1) by (simp_all add: block_around_def)
  have "unat (push_bit k 1 :: Uns64) = 2 ^ k" unfolding unsigned_push_bit_eq using k(1)
    by (simp add: take_bit_nat_eq_self)
  then have big: "0x100000000 < getEntrySize e1 \<longleftrightarrow> 32 < k"
    unfolding size word_less_nat_alt using power_strict_increasing_iff [of "2::nat" 32 k] by simp
  have m: "- 0x100000000 = NOT (mask 32 :: Uns64)" by (simp add: mask_eq_exp_minus_1 not_eq_complement)
  have top: "(VA AND NOT (mask 32)) + 0x100000000 - 1 = VA OR mask 32"
    using block_top [of VA 32] by (simp add: mask_eq_exp_minus_1 add.commute)
  show ?thesis
    by (intro exI [of _ "min k 32"])
      (cases "32 < k"; simp add: mapTLBBounds_def big k assms(2) m top Let_def)
qed

lemma mapTLBBounds_sound:
  assumes "block_around e1 VA k" "miLowVA mi = VA" "GPA = entryPA e1 + (VA - lowVA e1)" "lowVA e2 \<le> GPA" "GPA \<le> highVA e2"
    and "mapTLBBounds VA GPA e1 (Some e2) mode mi = (low, high, off, msk)" "low \<le> va" "va \<le> high"
    and "gpa = entryPA e1 + (va - lowVA e1)"
  shows "low \<le> VA \<and> VA \<le> high \<and> lowVA e1 \<le> low \<and> high \<le> highVA e1 \<and> high - low < 0x100000000 \<and>
    lowVA e2 \<le> gpa \<and> gpa \<le> highVA e2 \<and> va + off = entryPA e2 + (gpa - lowVA e2)"
proof -
  obtain j where j: "j \<le> k" "j \<le> 32" and b: "mapTLBBounds VA GPA e1 (Some e2) mode mi =
      (let l = VA AND NOT (mask j); h = VA OR mask j; d = GPA - lowVA e2; d' = highVA e2 - GPA
       in (if d < VA - l then l + ((VA - l) - d) else l, if d' < h - VA then h - ((h - VA) - d') else h,
           getEntryVAtoPA e1 + getEntryVAtoPA e2, getEntryASIDMask e1 mode OR getEntryASIDMask e2 mode))"
    using mapTLBBounds_first [OF assms(1,2)] by blast
  define l where "l = VA AND NOT (mask j)"
  define h where "h = VA OR mask j"
  have lh: "l \<le> VA" "VA \<le> h" unfolding l_def h_def by (rule block_bounds)+
  have e1: "lowVA e1 \<le> l" "h \<le> highVA e1" using assms(1) j(1) block_bounds(3,4) by (simp_all add: block_around_def l_def h_def)
  have low: "low = (if GPA - lowVA e2 < VA - l then l + ((VA - l) - (GPA - lowVA e2)) else l)"
    and high: "high = (if highVA e2 - GPA < h - VA then h - ((h - VA) - (highVA e2 - GPA)) else h)"
    and off: "off = getEntryVAtoPA e1 + getEntryVAtoPA e2"
    using assms(6) unfolding b l_def [symmetric] h_def [symmetric] Let_def by simp_all
  note lb = lower_bound [OF lh(1) low] and ub = upper_bound [OF lh(2) high]
  have gpa: "gpa = GPA + (va - VA)" unfolding assms(3,9) by simp
  have "lowVA e2 \<le> gpa" "gpa \<le> highVA e2"
    unfolding gpa using lb(3) [OF assms(7)] ub(3) [OF assms(8)] by (intro shift_within [OF assms(4,5)]; simp)+
  moreover have "va + off = entryPA e2 + (gpa - lowVA e2)" unfolding off assms(9) by (simp add: getEntryVAtoPA_def)
  moreover have "high - low < 0x100000000"
  proof -
    have "h = l + mask j" using block_top [of VA j] by (simp add: l_def h_def)
    moreover have "take_bit 32 (mask j :: Uns64) = mask j" using j(2) by (intro bit_word_eqI) (auto simp: bit_simps)
    then have "unat (mask j :: Uns64) = take_bit 32 (unat (mask j :: Uns64))" by (metis unsigned_take_bit_eq)
    then have "unat (mask j :: Uns64) < 2 ^ 32" by (metis take_bit_nat_less_exp)
    ultimately have "unat (h - l) < 2 ^ 32" by simp
    moreover have "unat high - unat low \<le> unat (h - l)"
      using lb(1) ub(1) lh by (simp add: word_le_nat_alt unat_sub)
    moreover have "low \<le> high" using lb(2) ub(2) by (rule order.trans)
    ultimately show ?thesis by (simp add: word_less_nat_alt unat_sub)
  qed
  ultimately show ?thesis using lb(1,2) ub(1,2) e1 by (meson order.trans)
qed

end
