(* ===== verification/RV_TLB_Mask.thy ===== *)
theory RV_TLB_Mask
  imports RV_TLB RV_VM_Pages
begin

text \<open>
  Simulated ASIDs: the fields that the mask of an entry selects determine its permissions and the
  address space it belongs to, so that a mapping made for the entry may stay while they do not change.
\<close>

section \<open>Fields of simulated ASIDs\<close>

lemma bit_mkSimASID:
  "bit (mkSimASID a b c f0 f1 f2 f3 f4 f5) n \<longleftrightarrow>
    n < 16 \<and> bit a n \<or> 16 \<le> n \<and> n < 32 \<and> bit b (n - 16) \<or> 32 \<le> n \<and> n < 48 \<and> bit c (n - 32) \<or>
    n = 48 \<and> f0 \<or> n = 49 \<and> f1 \<or> n = 50 \<and> f2 \<or> n = 51 \<and> f3 \<or> n = 52 \<and> f4 \<or> n = 53 \<and> f5"
proof -
  have p: "bit (push_bit k (of_bool P :: Uns64)) n \<longleftrightarrow> n = k \<and> P" if "k < 64" for k P
    using that by (auto simp: bit_simps)
  have q: "bit (push_bit k (take_bit 16 x :: Uns64)) n \<longleftrightarrow> k \<le> n \<and> n < k + 16 \<and> bit x (n - k)" if "k + 16 \<le> 64" for k x
    using that by (auto simp: bit_simps dest: bit_imp_le_length)
  show ?thesis unfolding mkSimASID_def bit_or_iff using q [of 16 b] q [of 32 c] by (simp add: p bit_take_bit_iff)
qed

lemma simASID_fields:
  "simASID_ASID_HS (mkSimASID a b c f0 f1 f2 f3 f4 f5) = take_bit 16 a"
  "simASID_ASID_VS (mkSimASID a b c f0 f1 f2 f3 f4 f5) = take_bit 16 b"
  "simASID_VMID (mkSimASID a b c f0 f1 f2 f3 f4 f5) = take_bit 16 c"
  by (intro bit_word_eqI; simp add: reg_field_def bit_take_bit_iff bit_drop_bit_eq bit_mkSimASID; auto)+

text \<open>Two simulated ASIDs agree under a mask made of fields if they agree in these fields.\<close>

definition same_masked :: "riscvSimASID \<Rightarrow> riscvSimASID \<Rightarrow> riscvSimASID \<Rightarrow> bool" where
  "same_masked m x y \<longleftrightarrow> x AND m = y AND m"

lemma same_masked_bits: "same_masked m x y \<longleftrightarrow> (\<forall>n. bit m n \<longrightarrow> bit x n = bit y n)"
  unfolding same_masked_def bit_eq_iff bit_and_iff using bit_imp_le_length [of m] by auto

lemma field_eq: "reg_field k 16 x = reg_field k 16 y \<longleftrightarrow> (\<forall>n. k \<le> n \<and> n < k + 16 \<longrightarrow> bit x n = bit y n)" for x y :: Uns64
proof -
  have "reg_field k 16 x = reg_field k 16 y \<longleftrightarrow> (\<forall>n < 16. bit x (k + n) = bit y (k + n))"
    by (auto simp: reg_field_def bit_eq_iff bit_take_bit_iff bit_drop_bit_eq) (metis less_le_trans numeral_le_iff semiring_norm(68,71,69,70))+
  also have "\<dots> \<longleftrightarrow> (\<forall>n. k \<le> n \<and> n < k + 16 \<longrightarrow> bit x n = bit y n)"
    by (metis add_less_cancel_left le_add1 le_add_diff_inverse)
  finally show ?thesis .
qed

lemma same_masked_fields:
  "same_masked (mkSimASID (if p then -1 else 0) (if q then -1 else 0) (if v then -1 else 0) f0 f1 f2 f3 f4 f5) x y \<longleftrightarrow>
    (p \<longrightarrow> simASID_ASID_HS x = simASID_ASID_HS y) \<and> (q \<longrightarrow> simASID_ASID_VS x = simASID_ASID_VS y) \<and>
    (v \<longrightarrow> simASID_VMID x = simASID_VMID y) \<and>
    (f0 \<longrightarrow> bit x 48 = bit y 48) \<and> (f1 \<longrightarrow> bit x 49 = bit y 49) \<and> (f2 \<longrightarrow> bit x 50 = bit y 50) \<and>
    (f3 \<longrightarrow> bit x 51 = bit y 51) \<and> (f4 \<longrightarrow> bit x 52 = bit y 52) \<and> (f5 \<longrightarrow> bit x 53 = bit y 53)"
proof -
  have b: "bit (if p then -1 else 0 :: Uns64) n \<longleftrightarrow> p \<and> n < 64" for p n by simp
  define E where "E n \<longleftrightarrow> bit x n = bit y n" for n
  have r1: "(\<forall>n. n < 16 \<and> P \<and> n < 64 \<longrightarrow> E n) \<longleftrightarrow> (P \<longrightarrow> (\<forall>n. 0 \<le> n \<and> n < 0 + 16 \<longrightarrow> E n))" for P by auto
  have r2: "(\<forall>n. 16 \<le> n \<and> n < 32 \<and> P \<and> n - 16 < 64 \<longrightarrow> E n) \<longleftrightarrow> (P \<longrightarrow> (\<forall>n. 16 \<le> n \<and> n < 16 + 16 \<longrightarrow> E n))" for P by auto
  have r3: "(\<forall>n. 32 \<le> n \<and> n < 48 \<and> P \<and> n - 32 < 64 \<longrightarrow> E n) \<longleftrightarrow> (P \<longrightarrow> (\<forall>n. 32 \<le> n \<and> n < 32 + 16 \<longrightarrow> E n))" for P by auto
  have s1: "(\<forall>n. n = k \<and> P \<longrightarrow> E n) \<longleftrightarrow> (P \<longrightarrow> E k)" for k P by auto
  show ?thesis unfolding same_masked_bits field_eq bit_mkSimASID b E_def [symmetric] imp_disjL all_conj_distrib r1 r2 r3 s1 ..
qed

section \<open>The mask of an entry\<close>

lemma small_fields [simp]:
  "take_bit 16 (atp_ASID is32 x) = atp_ASID is32 x" "take_bit 16 (hgatp_VMID is32 x) = hgatp_VMID is32 x"
  by (simp_all add: atp_ASID_def hgatp_VMID_def reg_field_def)

lemma getSimASID_fields:
  "simASID_ASID_HS (getSimASID r) = satp_ASID r" "simASID_ASID_VS (getSimASID r) = vsatp_ASID r"
  "simASID_VMID (getSimASID r) = hgatp_VMIDf r" "bit (getSimASID r) 48 = mstatus_MXR r" "bit (getSimASID r) 49 = mstatus_SUM r"
  "bit (getSimASID r) 50 = vsstatus_MXR r" "bit (getSimASID r) 51 = vsstatus_SUM r"
  "bit (getSimASID r) 52 \<longleftrightarrow> vsatp_MODE r \<noteq> 0" "bit (getSimASID r) 53 \<longleftrightarrow> hgatp_MODE r \<noteq> 0"
  by (simp_all add: getSimASID_def simASID_fields bit_mkSimASID)

text \<open>C19: If the simulated ASIDs of two states agree in the fields that the mask of an entry selects,
  then the entry grants the same permissions in both, and belongs to the same address space and
  virtual machine, so that a mapping made in one may be used in the other.\<close>

theorem entry_mask_sufficient:
  assumes "activeTLB r = entryTLB e" "activeTLB r' = entryTLB e" "entryTLB e \<noteq> RISCV_TLB_LAST"
    and "modeIsVirtual mode \<longleftrightarrow> entryTLB e \<noteq> RISCV_TLB_HS" "getBaseMode mode \<in> {RISCV_MODE_U, RISCV_MODE_S}"
    and "privVersion_1_11 r' = privVersion_1_11 r"
    and "getSimASID r' AND getEntryASIDMask e mode = getSimASID r AND getEntryASIDMask e mode"
  shows "getEntryPriv r' mode e = getEntryPriv r mode e \<and> (entryG e \<or> getActiveASID r' = getActiveASID r) \<and>
    getActiveVMID r' = getActiveVMID r"
proof -
  define V where "V \<longleftrightarrow> modeIsVirtual mode"
  define user where "user \<longleftrightarrow> entryTLB e \<noteq> RISCV_TLB_VS2 \<and> entryU e \<and> getBaseMode mode = RISCV_MODE_S"
  have "same_masked (getEntryASIDMask e mode) (getSimASID r') (getSimASID r)" using assms(7) by (simp add: same_masked_def)
  then have f: "\<not> entryG e \<and> \<not> V \<longrightarrow> satp_ASID r' = satp_ASID r" "\<not> entryG e \<and> V \<longrightarrow> vsatp_ASID r' = vsatp_ASID r"
    "V \<longrightarrow> hgatp_VMIDf r' = hgatp_VMIDf r" "mstatus_MXR r' = mstatus_MXR r" "user \<and> \<not> V \<longrightarrow> mstatus_SUM r' = mstatus_SUM r"
    "V \<longrightarrow> vsstatus_MXR r' = vsstatus_MXR r" "user \<and> V \<longrightarrow> vsstatus_SUM r' = vsstatus_SUM r"
    unfolding getEntryASIDMask_def Let_def V_def [symmetric] user_def [symmetric] same_masked_fields getSimASID_fields by simp_all
  have tlb: "V \<longleftrightarrow> entryTLB e \<noteq> RISCV_TLB_HS" using assms(4) by (simp add: V_def)
  have "getEntryPriv r' mode e = getEntryPriv r mode e"
    using f(4-7) tlb assms(1-3,5,6)
    by (cases "entryTLB e") (auto simp: getEntryPriv_def user_def Let_def)
  moreover have "entryG e \<or> getActiveASID r' = getActiveASID r" "getActiveVMID r' = getActiveVMID r"
    using f(1-3) tlb assms(1-3) by (cases "entryTLB e"; simp add: getActiveASID_def getActiveVMID_def; blast)+
  ultimately show ?thesis by blast
qed

theorem entry_mask_sufficient_witness:
  "getEntryPriv sv39_example RISCV_MODE_S (entry_example 0) = getEntryPriv (sv39_example\<lparr>mstatus := 0x40000\<rparr>) RISCV_MODE_S (entry_example 0)"
proof -
  have "activeTLB (sv39_example\<lparr>mstatus := 0x40000\<rparr>) = entryTLB (entry_example 0)" "activeTLB sv39_example = entryTLB (entry_example 0)"
    "entryTLB (entry_example 0) \<noteq> RISCV_TLB_LAST" "modeIsVirtual RISCV_MODE_S \<longleftrightarrow> entryTLB (entry_example 0) \<noteq> RISCV_TLB_HS"
    "getBaseMode RISCV_MODE_S \<in> {RISCV_MODE_U, RISCV_MODE_S}"
    "privVersion_1_11 sv39_example = privVersion_1_11 (sv39_example\<lparr>mstatus := 0x40000\<rparr>)"
    "getSimASID sv39_example AND getEntryASIDMask (entry_example 0) RISCV_MODE_S =
      getSimASID (sv39_example\<lparr>mstatus := 0x40000\<rparr>) AND getEntryASIDMask (entry_example 0) RISCV_MODE_S"
    by code_simp+
  from entry_mask_sufficient [OF this] show ?thesis by blast
qed

end
