(* ===== verification/RV_TLB_Fence.thy ===== *)
theory RV_TLB_Fence
  imports RV_TLB_Mask
begin

text \<open>
  Fences: iteration over a table with deletion removes exactly the selected entries, a fence selects by
  address, ASID and VMID with global entries always included in the match, and after a fence for
  the current address space a lookup of the address finds no entry.
\<close>

section \<open>Iterations\<close>

text \<open>A visit of each of a list of places of a table removes the entries that satisfy a condition, if one
  visit does so for its place.\<close>

locale range_iteration =
  fixes entries :: "'s \<Rightarrow> 'p \<Rightarrow> 'e option" and visit :: "'p \<Rightarrow> 's \<Rightarrow> 's" and goes :: "'e \<Rightarrow> bool" and ok :: "'s \<Rightarrow> bool"
  assumes visit_ok: "ok s \<Longrightarrow> ok (visit p s)"
    and visit_other: "ok s \<Longrightarrow> q \<noteq> p \<Longrightarrow> entries (visit p s) q = entries s q"
    and visit_this: "ok s \<Longrightarrow> entries (visit p s) p = Option.bind (entries s p) (\<lambda>e. if goes e then None else Some e)"
begin

lemma fold_ok: "ok s \<Longrightarrow> ok (fold visit ps s)"
  by (induction ps arbitrary: s) (simp_all add: visit_ok)

lemma fold_entries:
  "ok s \<Longrightarrow> entries (fold visit ps s) q =
    (if q \<in> set ps then Option.bind (entries s q) (\<lambda>e. if goes e then None else Some e) else entries s q)"
proof (induction ps arbitrary: s)
  case (Cons p ps)
  have "entries (fold visit ps (visit p s)) q =
    (if q \<in> set ps then Option.bind (entries (visit p s) q) (\<lambda>e. if goes e then None else Some e) else entries (visit p s) q)"
    by (rule Cons.IH) (rule visit_ok [OF Cons.prems])
  then show ?case
    using visit_other [OF Cons.prems, of q p] visit_this [OF Cons.prems, of q]
    by (cases "q = p"; cases "entries s q") simp_all
qed simp

end

section \<open>The tables\<close>

text \<open>Unmapping changes only the record of the modes in which an entry is mapped.\<close>

definition plain :: "tlbEntry \<Rightarrow> tlbEntry" where
  "plain e = e\<lparr>mapped := 0\<rparr>"

definition tlb_view :: "riscvTLBId \<Rightarrow> riscvMMU \<Rightarrow> tlbEntryP \<Rightarrow> tlbEntry option" where
  "tlb_view tlbId s p = map_option plain (map_of (tlbEntries s tlbId) p)"

definition tlb_wf :: "riscvMMU \<Rightarrow> bool" where
  "tlb_wf s \<longleftrightarrow> (\<forall>tlbId. distinct (map fst (tlbEntries s tlbId)) \<and> (\<forall>p e. map_of (tlbEntries s tlbId) p = Some e \<longrightarrow> entryTLB e = tlbId)) \<and>
    tlbEntries s RISCV_TLB_LAST = []"

type_synonym mmu_frame = "riscvVM \<times> riscvDMode \<times> bool \<times> bool"

definition frame :: "riscvMMU \<Rightarrow> mmu_frame" where
  "frame s = (mmuVM s, mmuMode s, fence_g_preserves_vs s, aborted s)"

lemma plain_fields [simp]:
  "entryTLB (plain e) = entryTLB e" "artifact (plain e) = artifact e" "entryG (plain e) = entryG e" "simASID (plain e) = simASID e"
  "lowVA (plain e) = lowVA e" "highVA (plain e) = highVA e" "plain (e\<lparr>mapped := m\<rparr>) = plain e" "plain (plain e) = plain e"
  by (simp_all add: plain_def)

lemma map_of_set: "map_of (map (\<lambda>(q, e). (q, if q = p then x else e)) l) q = (if q = p then map_option (\<lambda>e. x) (map_of l q) else map_of l q)"
  by (induction l) auto

lemma map_of_remove: "map_of (filter (\<lambda>(q, e). q \<noteq> p) l) q = (if q = p then None else map_of l q)"
  by (induction l) auto

lemma tlbEntries_set: "tlbEntries (setEntry s tlbId p x) tlbId' =
    (if tlbId' = tlbId then map (\<lambda>(q, e). (q, if q = p then x else e)) (tlbEntries s tlbId) else tlbEntries s tlbId')"
  by (simp add: tlbEntries_def setEntry_def changeEntries_def split: option.split)

lemma tlbEntries_remove: "tlbEntries (vmirtRemoveRangeEntry s tlbId p) tlbId' =
    (if tlbId' = tlbId then filter (\<lambda>(q, e). q \<noteq> p) (tlbEntries s tlbId) else tlbEntries s tlbId')"
  by (simp add: tlbEntries_def vmirtRemoveRangeEntry_def changeEntries_def split: option.split)

lemma frame_change [simp]: "frame (changeEntries s tlbId f) = frame s"
  by (simp add: frame_def changeEntries_def)

lemma frame_set [simp]: "frame (setEntry s tlbId p x) = frame s" "frame (vmirtRemoveRangeEntry s tlbId p) = frame s"
  by (simp_all add: setEntry_def vmirtRemoveRangeEntry_def)

lemma calls_only [simp]: "tlbEntries (s\<lparr>vmCalls := c\<rparr>) = tlbEntries s" "frame (s\<lparr>vmCalls := c\<rparr>) = frame s"
  by (simp_all add: fun_eq_iff tlbEntries_def frame_def)

lemma unalias_calls: "\<exists>c. vmirtUnaliasMemoryVM s d l h m a = s\<lparr>vmCalls := c\<rparr>"
  by (cases d) (auto simp: vmirtUnaliasMemoryVM_def intro: exI [of _ "vmCalls s"])

lemma unalias_frame [simp]: "tlbEntries (vmirtUnaliasMemoryVM s d l h m a) = tlbEntries s" "frame (vmirtUnaliasMemoryVM s d l h m a) = frame s"
  using unalias_calls [of s d l h m a] by auto

lemma deleteTLBEntryMappingsMode_frame:
  assumes "deleteTLBEntryMappingsMode (s, e) mode = (s', e')"
  shows "tlbEntries s' = tlbEntries s" "frame s' = frame s" "plain e' = plain e" "entryTLB e' = entryTLB e"
  using assms by (auto simp: deleteTLBEntryMappingsMode_def Let_def split: if_splits)

lemma unmapTLBEntry_frame:
  assumes "unmapTLBEntry s e = (s', e')" "entryTLB e \<noteq> RISCV_TLB_LAST"
  shows "tlbEntries s' = tlbEntries s \<and> frame s' = frame s \<and> plain e' = plain e \<and> entryTLB e' = entryTLB e"
proof -
  have two: "tlbEntries s' = tlbEntries s \<and> frame s' = frame s \<and> plain e' = plain e \<and> entryTLB e' = entryTLB e"
    if "deleteTLBEntryMappingsMode (deleteTLBEntryMappingsMode (s, e) m1) m2 = (s', e')" for m1 m2
    using that deleteTLBEntryMappingsMode_frame by (cases "deleteTLBEntryMappingsMode (s, e) m1") metis
  then show ?thesis using assms by (cases "entryTLB e") (auto simp: unmapTLBEntry_def)
qed

lemma wf_set:
  assumes "tlb_wf s" "entryTLB x = tlbId"
  shows "tlb_wf (setEntry s tlbId p x)"
proof -
  have "fst \<circ> (\<lambda>(q, e). (q, if q = p then x else e)) = fst" by (auto simp: fun_eq_iff)
  then show ?thesis
    using assms unfolding tlb_wf_def tlbEntries_set by (auto simp: map_of_set split: if_splits)
qed

lemma wf_remove: "tlb_wf s \<Longrightarrow> tlb_wf (vmirtRemoveRangeEntry s tlbId p)"
  unfolding tlb_wf_def tlbEntries_remove by (auto simp: map_of_remove distinct_map_filter split: if_splits)

lemma unmapInTable_effect:
  assumes "tlb_wf s" "map_of (tlbEntries s tlbId) p = Some e"
  shows "tlb_wf (unmapInTable tlbId s p e)" "frame (unmapInTable tlbId s p e) = frame s" "tlb_view t (unmapInTable tlbId s p e) = tlb_view t s"
proof -
  have tlb: "entryTLB e = tlbId" "tlbId \<noteq> RISCV_TLB_LAST" using assms by (auto simp: tlb_wf_def)
  obtain s' e' where u: "unmapTLBEntry s e = (s', e')" by fastforce
  have f: "tlbEntries s' = tlbEntries s" "frame s' = frame s" "plain e' = plain e" "entryTLB e' = entryTLB e"
    using unmapTLBEntry_frame [OF u] tlb by auto
  have eq: "unmapInTable tlbId s p e = setEntry s' tlbId p e'" by (simp add: unmapInTable_def u)
  have "tlb_wf s'" using assms(1) f(1) by (simp add: tlb_wf_def)
  then show "tlb_wf (unmapInTable tlbId s p e)" unfolding eq by (rule wf_set) (simp add: f(4) tlb)
  show "frame (unmapInTable tlbId s p e) = frame s" by (simp add: eq f(2))
  show "tlb_view t (unmapInTable tlbId s p e) = tlb_view t s"
    using assms(2) f(1,3) by (auto simp: eq fun_eq_iff tlb_view_def tlbEntries_set map_of_set)
qed

lemma removeTLBEntry_effect:
  assumes "tlb_wf s"
  shows "tlb_wf (removeTLBEntry tlbId s p e)" "frame (removeTLBEntry tlbId s p e) = frame s"
    "tlb_view t (removeTLBEntry tlbId s p e) = (if t = tlbId then (tlb_view t s)(p := None) else tlb_view t s)"
proof -
  have c: "\<exists>c. removeTLBEntry tlbId s p e = vmirtRemoveRangeEntry (s\<lparr>vmCalls := c\<rparr>) tlbId p"
    by (auto simp: removeTLBEntry_def Let_def intro: exI [of _ "vmCalls s"])
  have "tlb_wf (s\<lparr>vmCalls := c\<rparr>)" for c using assms by (simp add: tlb_wf_def)
  then show "tlb_wf (removeTLBEntry tlbId s p e)" using c wf_remove by metis
  show "frame (removeTLBEntry tlbId s p e) = frame s"
    "tlb_view t (removeTLBEntry tlbId s p e) = (if t = tlbId then (tlb_view t s)(p := None) else tlb_view t s)"
    using c by (auto simp: fun_eq_iff tlb_view_def tlbEntries_remove map_of_remove)
qed


text \<open>One step of an iteration.\<close>

definition visit_entry ::
  "(riscvMMU \<Rightarrow> tlbEntryP \<Rightarrow> tlbEntry \<Rightarrow> riscvMMU) \<Rightarrow> (riscvMMU \<Rightarrow> tlbEntryP \<Rightarrow> tlbEntry \<Rightarrow> riscvMMU) \<Rightarrow> riscvTLBId \<Rightarrow> tlbEntryP \<Rightarrow> riscvMMU \<Rightarrow> riscvMMU" where
  "visit_entry delete body tlbId p s = (case map_of (tlbEntries s tlbId) p of
     None \<Rightarrow> s | Some entry \<Rightarrow> if artifact entry then delete s p entry else body s p entry)"

lemma iterTLBEntryRange_fold:
  "iterTLBEntryRange delete body tlbId low high s =
    fold (visit_entry delete body tlbId) (map fst (filter (\<lambda>(p, e). inRange low high e) (tlbEntries s tlbId))) s"
  by (simp add: iterTLBEntryRange_def visit_entry_def [abs_def])

lemma in_range_places:
  assumes "tlb_wf s"
  shows "p \<in> set (map fst (filter (\<lambda>(p, e). inRange low high e) (tlbEntries s tlbId))) \<longleftrightarrow>
    (\<exists>e. tlb_view tlbId s p = Some e \<and> inRange low high e)"
proof -
  have d: "distinct (map fst (tlbEntries s tlbId))" using assms by (simp add: tlb_wf_def)
  have i: "inRange low high (plain e) = inRange low high e" for e by (simp add: inRange_def)
  have "p \<in> set (map fst (filter (\<lambda>(p, e). inRange low high e) (tlbEntries s tlbId))) \<longleftrightarrow> (\<exists>e. (p, e) \<in> set (tlbEntries s tlbId) \<and> inRange low high e)"
    by force
  then show ?thesis using d by (auto simp: tlb_view_def i)
qed

abbreviation tlb_ok :: "mmu_frame \<Rightarrow> riscvMMU \<Rightarrow> bool" where
  "tlb_ok f s \<equiv> tlb_wf s \<and> frame s = f"

lemma deleteS1Entry_effect:
  assumes "tlb_ok f s" "map_of (tlbEntries s tlbId) p = Some e"
  shows "tlb_ok f (deleteS1Entry tlbId s p e)"
    "tlb_view t (deleteS1Entry tlbId s p e) = (if t = tlbId then (tlb_view t s)(p := None) else tlb_view t s)"
  using unmapInTable_effect [of s tlbId p e] removeTLBEntry_effect [where s = "unmapInTable tlbId s p e" and tlbId = tlbId and p = p and e = e] assms
  by (simp_all add: deleteS1Entry_def)

lemma unmapS1EntryForS2Entry_effect:
  assumes "tlb_ok f s" "map_of (tlbEntries s RISCV_TLB_VS1) p = Some e"
  shows "tlb_ok f (unmapS1EntryForS2Entry e2 s p e)" "tlb_view t (unmapS1EntryForS2Entry e2 s p e) = tlb_view t s"
  using unmapInTable_effect [OF _ assms(2)] assms(1) by (simp_all add: unmapS1EntryForS2Entry_def Let_def)

lemma view_None: "map_of (tlbEntries s t) p = None \<Longrightarrow> tlb_view t s p = None"
  by (simp add: tlb_view_def)

lemma view_Some: "map_of (tlbEntries s t) p = Some e \<Longrightarrow> tlb_view t s p = Some (plain e)"
  by (simp add: tlb_view_def)

text \<open>The unmapping of stage 1 entries on the deletion of a stage 2 entry removes the artifact entries only.\<close>

interpretation unmap_s1: range_iteration "tlb_view RISCV_TLB_VS1"
  "visit_entry (deleteS1Entry RISCV_TLB_VS1) (unmapS1EntryForS2Entry e2) RISCV_TLB_VS1" artifact "tlb_ok f" for e2 f
proof
  fix s p q
  assume ok: "tlb_ok f s"
  let ?v = "visit_entry (deleteS1Entry RISCV_TLB_VS1) (unmapS1EntryForS2Entry e2) RISCV_TLB_VS1 p s"
  show "tlb_ok f ?v"
    using deleteS1Entry_effect(1) [OF ok] unmapS1EntryForS2Entry_effect(1) [OF ok] ok by (simp add: visit_entry_def split: option.split)
  show "tlb_view RISCV_TLB_VS1 ?v p = Option.bind (tlb_view RISCV_TLB_VS1 s p) (\<lambda>e. if artifact e then None else Some e)"
    using deleteS1Entry_effect(2) [OF ok] unmapS1EntryForS2Entry_effect(2) [OF ok]
    by (cases "map_of (tlbEntries s RISCV_TLB_VS1) p") (simp_all add: visit_entry_def view_Some view_None)
  assume "q \<noteq> p"
  then show "tlb_view RISCV_TLB_VS1 ?v q = tlb_view RISCV_TLB_VS1 s q"
    using deleteS1Entry_effect(2) [OF ok] unmapS1EntryForS2Entry_effect(2) [OF ok] by (simp add: visit_entry_def split: option.split)
qed


lemma unmapS1EntriesForS2Entry_effect:
  assumes "tlb_ok f s"
  shows "tlb_ok f (unmapS1EntriesForS2Entry s e2)"
    "t \<noteq> RISCV_TLB_VS1 \<Longrightarrow> tlb_view t (unmapS1EntriesForS2Entry s e2) = tlb_view t s"
    "tlb_view RISCV_TLB_VS1 (unmapS1EntriesForS2Entry s e2) p =
      Option.bind (tlb_view RISCV_TLB_VS1 s p) (\<lambda>e. if artifact e then None else Some e)"
proof -
  let ?visit = "visit_entry (deleteS1Entry RISCV_TLB_VS1) (unmapS1EntryForS2Entry e2) RISCV_TLB_VS1"
  show "tlb_ok f (unmapS1EntriesForS2Entry s e2)"
    unfolding unmapS1EntriesForS2Entry_def iterTLBEntryRange_fold by (rule unmap_s1.fold_ok [OF assms])
  have all: "inRange 0 RISCV_MAX_ADDR e" for e by (simp add: inRange_def)
  show "tlb_view RISCV_TLB_VS1 (unmapS1EntriesForS2Entry s e2) p =
      Option.bind (tlb_view RISCV_TLB_VS1 s p) (\<lambda>e. if artifact e then None else Some e)"
    unfolding unmapS1EntriesForS2Entry_def iterTLBEntryRange_fold unmap_s1.fold_entries [OF assms]
    using in_range_places [of s p 0 RISCV_MAX_ADDR RISCV_TLB_VS1] assms by (cases "tlb_view RISCV_TLB_VS1 s p") (auto simp: all)
  assume t: "t \<noteq> RISCV_TLB_VS1"
  have one: "tlb_view t (?visit p s) = tlb_view t s" if "tlb_ok f s" for p s
    using deleteS1Entry_effect(2) [OF that] unmapS1EntryForS2Entry_effect(2) [OF that] t by (simp add: visit_entry_def split: option.split)
  have "tlb_view t (fold ?visit ps s) = tlb_view t s" if "tlb_ok f s" for ps s
    using that by (induction ps arbitrary: s) (simp_all add: one unmap_s1.visit_ok)
  then show "tlb_view t (unmapS1EntriesForS2Entry s e2) = tlb_view t s"
    unfolding unmapS1EntriesForS2Entry_def iterTLBEntryRange_fold using assms by blast
qed

lemma deleteTLBEntry_effect:
  assumes "tlb_ok f s" "map_of (tlbEntries s tlbId) p = Some e"
  shows "tlb_ok f (deleteTLBEntry tlbId s p e)" "tlb_view tlbId (deleteTLBEntry tlbId s p e) = (tlb_view tlbId s)(p := None)"
proof -
  let ?u = "unmapInTable tlbId s p e"
  let ?v = "if entryTLB e = RISCV_TLB_VS2 then unmapS1EntriesForS2Entry ?u e else ?u"
  have u: "tlb_ok f ?u" "tlb_view tlbId ?u = tlb_view tlbId s" using unmapInTable_effect [OF _ assms(2)] assms(1) by simp_all
  have "entryTLB e = tlbId" using assms by (auto simp: tlb_wf_def)
  then have v: "tlb_ok f ?v" "tlb_view tlbId ?v = tlb_view tlbId s"
    using unmapS1EntriesForS2Entry_effect(1,2) [OF u(1)] u by (auto split: if_splits)
  have eq: "deleteTLBEntry tlbId s p e = removeTLBEntry tlbId ?v p e" by (simp add: deleteTLBEntry_def Let_def)
  show "tlb_ok f (deleteTLBEntry tlbId s p e)" "tlb_view tlbId (deleteTLBEntry tlbId s p e) = (tlb_view tlbId s)(p := None)"
    unfolding eq using removeTLBEntry_effect [of ?v] v by simp_all
qed

section \<open>Fences\<close>

definition fence_selects :: "riscvSimASID \<Rightarrow> riscvSimASID \<Rightarrow> tlbEntry \<Rightarrow> bool" where
  "fence_selects msk match e \<longleftrightarrow>
    artifact e \<or> match AND (if entryG e then clearASIDs msk else msk) = simASID e AND (if entryG e then clearASIDs msk else msk)"

interpretation fence: range_iteration "tlb_view tlbId" "visit_entry (deleteTLBEntry tlbId) (deleteTLBEntryMask tlbId msk match) tlbId"
  "fence_selects msk match" "tlb_ok f" for tlbId msk match f
proof
  fix s p q
  assume ok: "tlb_ok f s"
  let ?v = "visit_entry (deleteTLBEntry tlbId) (deleteTLBEntryMask tlbId msk match) tlbId p s"
  have visit: "?v = (case map_of (tlbEntries s tlbId) p of None \<Rightarrow> s | Some e \<Rightarrow> if fence_selects msk match e then deleteTLBEntry tlbId s p e else s)"
    by (auto simp: visit_entry_def deleteTLBEntryMask_def fence_selects_def Let_def split: option.split)
  have sel: "fence_selects msk match (plain e) = fence_selects msk match e" for e by (simp add: fence_selects_def)
  show "tlb_ok f ?v" unfolding visit using deleteTLBEntry_effect(1) [OF ok] ok by (simp split: option.split)
  show "tlb_view tlbId ?v p = Option.bind (tlb_view tlbId s p) (\<lambda>e. if fence_selects msk match e then None else Some e)"
    unfolding visit using deleteTLBEntry_effect(2) [OF ok] by (cases "map_of (tlbEntries s tlbId) p") (simp_all add: view_Some view_None sel)
  assume "q \<noteq> p"
  then show "tlb_view tlbId ?v q = tlb_view tlbId s q"
    unfolding visit using deleteTLBEntry_effect(2) [OF ok] by (simp split: option.split)
qed

lemma iter_fence:
  assumes "tlb_ok f s"
  shows "tlb_ok f (ITER_TLB_ENTRY_RANGE tlbId low high (deleteTLBEntryMask tlbId msk match) s)"
    "tlb_view tlbId (ITER_TLB_ENTRY_RANGE tlbId low high (deleteTLBEntryMask tlbId msk match) s) p =
      Option.bind (tlb_view tlbId s p) (\<lambda>e. if inRange low high e \<and> fence_selects msk match e then None else Some e)"
proof -
  show "tlb_ok f (ITER_TLB_ENTRY_RANGE tlbId low high (deleteTLBEntryMask tlbId msk match) s)"
    unfolding iterTLBEntryRange_fold by (rule fence.fold_ok [OF assms])
  have "tlb_wf s" using assms by simp
  from in_range_places [OF this, of p low high tlbId]
  show "tlb_view tlbId (ITER_TLB_ENTRY_RANGE tlbId low high (deleteTLBEntryMask tlbId msk match) s) p =
      Option.bind (tlb_view tlbId s p) (\<lambda>e. if inRange low high e \<and> fence_selects msk match e then None else Some e)"
    unfolding iterTLBEntryRange_fold fence.fold_entries [OF assms] by (cases "tlb_view tlbId s p") auto
qed

text \<open>Iterations over a stage 1 table leave the others alone; over the stage 2 table they may remove artifact
  entries of stage 1.\<close>

lemma deleteTLBEntry_other:
  assumes "tlb_ok f s" "map_of (tlbEntries s tlbId) p = Some e" "t \<noteq> tlbId"
  shows "tlb_view t (deleteTLBEntry tlbId s p e) q = (if tlbId = RISCV_TLB_VS2 \<and> t = RISCV_TLB_VS1
      then Option.bind (tlb_view t s q) (\<lambda>e. if artifact e then None else Some e) else tlb_view t s q)"
proof -
  let ?u = "unmapInTable tlbId s p e"
  have u: "tlb_ok f ?u" "tlb_view t ?u = tlb_view t s" for t using unmapInTable_effect [OF _ assms(2)] assms(1) by simp_all
  have "entryTLB e = tlbId" using assms by (auto simp: tlb_wf_def)
  then show ?thesis
    using unmapS1EntriesForS2Entry_effect [OF u(1), where ?e2.0 = e] removeTLBEntry_effect(3) [where t = t and tlbId = tlbId and p = p and e = e] u assms(3)
    by (auto simp: deleteTLBEntry_def Let_def)
qed

abbreviation drop_artifacts :: "tlbEntry option \<Rightarrow> tlbEntry option" where
  "drop_artifacts x \<equiv> Option.bind x (\<lambda>e. if artifact e then None else Some e)"

lemma iter_fence_other:
  assumes "tlb_ok f s" "t \<noteq> tlbId"
  shows "tlb_view t (ITER_TLB_ENTRY_RANGE tlbId low high (deleteTLBEntryMask tlbId msk match) s) q = tlb_view t s q \<or>
    tlbId = RISCV_TLB_VS2 \<and> t = RISCV_TLB_VS1 \<and>
    tlb_view t (ITER_TLB_ENTRY_RANGE tlbId low high (deleteTLBEntryMask tlbId msk match) s) q = drop_artifacts (tlb_view t s q)"
proof -
  let ?visit = "visit_entry (deleteTLBEntry tlbId) (deleteTLBEntryMask tlbId msk match) tlbId"
  have one: "tlb_view t (?visit p s) q = tlb_view t s q \<or> tlbId = RISCV_TLB_VS2 \<and> t = RISCV_TLB_VS1 \<and> tlb_view t (?visit p s) q = drop_artifacts (tlb_view t s q)"
    if "tlb_ok f s" for p s
    using deleteTLBEntry_other [OF that _ assms(2), of p _ q]
    by (cases "map_of (tlbEntries s tlbId) p") (auto simp: visit_entry_def deleteTLBEntryMask_def Let_def)
  have idem: "Option.bind x (\<lambda>y. drop_artifacts (if artifact y then None else Some y)) = drop_artifacts x" for x by (cases x) simp_all
  have "tlb_view t (fold ?visit ps s) q = tlb_view t s q \<or> tlbId = RISCV_TLB_VS2 \<and> t = RISCV_TLB_VS1 \<and> tlb_view t (fold ?visit ps s) q = drop_artifacts (tlb_view t s q)"
    if "tlb_ok f s" for ps s
    using that
  proof (induction ps arbitrary: s)
    case (Cons p ps)
    have "tlb_ok f (?visit p s)" by (rule fence.visit_ok [OF Cons.prems])
    from Cons.IH [OF this] one [OF Cons.prems, of p] show ?case
      by (elim disjE conjE) (simp_all add: idem)
  qed simp
  then show ?thesis unfolding iterTLBEntryRange_fold using assms(1) by blast
qed


text \<open>The entries that a fence with an optional ASID and an optional VMID selects.\<close>

definition fence_matches :: "bool \<Rightarrow> bool \<Rightarrow> Uns64 \<Rightarrow> Uns64 \<Rightarrow> tlbEntry \<Rightarrow> bool" where
  "fence_matches byASID byVMID VMID ASID e \<longleftrightarrow>
    (byASID \<and> entryTLB e \<noteq> RISCV_TLB_VS2 \<longrightarrow> matchASID ASID e) \<and> (byVMID \<longrightarrow> matchVMID VMID e)"

section \<open>Selection\<close>

lemma clearASIDs_fields: "clearASIDs (mskFields a b v) = mskFields False False v"
  by (rule bit_word_eqI) (auto simp: clearASIDs_def mskFields_def bit_and_iff bit_not_iff bit_mask_iff bit_mkSimASID)

lemma masked_fields:
  "x AND mskFields a b v = y AND mskFields a b v \<longleftrightarrow> (a \<longrightarrow> simASID_ASID_HS x = simASID_ASID_HS y) \<and>
    (b \<longrightarrow> simASID_ASID_VS x = simASID_ASID_VS y) \<and> (v \<longrightarrow> simASID_VMID x = simASID_VMID y)"
  using same_masked_fields [of a b v False False False False False False x y] by (simp add: same_masked_def mskFields_def)

lemma mask_widths: "take_bit 16 (ucast (maskASID r a) :: Uns64) = ucast (maskASID r a)" "take_bit 16 (ucast (maskVMID r a) :: Uns64) = ucast (maskVMID r a)"
  by (intro bit_word_eqI; auto simp: maskASID_def maskVMID_def bit_simps)+

text \<open>The mask and the value that select entries, for the table of a fence.\<close>

definition fence_args :: "riscvTLBId \<Rightarrow> bool \<Rightarrow> bool \<Rightarrow> Uns64 \<Rightarrow> Uns64 \<Rightarrow> riscvSimASID \<times> riscvSimASID" where
  "fence_args tlbId byASID byVMID VMID ASID = (case tlbId of
      RISCV_TLB_HS \<Rightarrow> (mskFields byASID False False, mkSimASID ASID 0 0 False False False False False False)
    | RISCV_TLB_VS1 \<Rightarrow> (mskFields False byASID byVMID, mkSimASID 0 ASID VMID False False False False False False)
    | RISCV_TLB_VS2 \<Rightarrow> (mskFields False False byVMID, mkSimASID 0 0 VMID False False False False False False)
    | RISCV_TLB_LAST \<Rightarrow> (mskFields byASID byASID byVMID, 0))"

lemma deleteTLBEntriesMask_eq:
  assumes "VMID' = ucast (maskVMID (mmuVM s) VMID)" "ASID' = ucast (maskASID (mmuVM s) ASID)"
    and "(msk, match) = fence_args tlbId byASID byVMID VMID' ASID'"
  shows "deleteTLBEntriesMask s tlbId low high byASID byVMID VMID ASID =
    (let s = ITER_TLB_ENTRY_RANGE tlbId low high (deleteTLBEntryMask tlbId msk match) s
     in if tlbId = RISCV_TLB_VS2 \<and> \<not> fence_g_preserves_vs s
        then ITER_TLB_ENTRY_RANGE RISCV_TLB_VS1 0 RISCV_MAX_ADDR (deleteTLBEntryMask RISCV_TLB_VS1 msk match) s else s)"
  using assms(3) unfolding deleteTLBEntriesMask_def Let_def assms(1,2) [symmetric] fence_args_def [symmetric]
  by (simp add: assms(3) [symmetric])

lemma fence_args_selects:
  assumes "(msk, match) = fence_args tlbId byASID byVMID VMID ASID" "take_bit 16 VMID = VMID" "take_bit 16 ASID = ASID"
    and "entryTLB e = tlbId" "tlbId \<noteq> RISCV_TLB_LAST"
  shows "fence_selects msk match e \<longleftrightarrow> artifact e \<or> fence_matches byASID byVMID VMID ASID e"
  using assms
  by (cases tlbId) (auto simp: fence_args_def fence_selects_def fence_matches_def clearASIDs_fields masked_fields simASID_fields
    matchASID_def matchVMID_def entryHasVMID_def getEntryASID_def getEntryVMID_def)

lemma fence_args_selects_S1:
  assumes "(msk, match) = fence_args RISCV_TLB_VS2 byASID byVMID VMID ASID" "take_bit 16 VMID = VMID" "entryTLB e = RISCV_TLB_VS1"
  shows "fence_selects msk match e \<longleftrightarrow> artifact e \<or> fence_matches False byVMID VMID ASID e"
  using assms
  by (auto simp: fence_args_def fence_selects_def fence_matches_def clearASIDs_fields masked_fields simASID_fields
    matchASID_def matchVMID_def entryHasVMID_def getEntryASID_def getEntryVMID_def)

lemma view_TLB: "tlb_wf s \<Longrightarrow> tlb_view t s p = Some e \<Longrightarrow> entryTLB e = t"
  by (auto simp: tlb_view_def tlb_wf_def)

lemma deleteTLBEntriesMask_effect:
  assumes "tlb_wf s" "tlbId \<noteq> RISCV_TLB_LAST"
    and "s' = deleteTLBEntriesMask s tlbId low high byASID byVMID VMID ASID"
    and "VMID' = ucast (maskVMID (mmuVM s) VMID)" "ASID' = ucast (maskASID (mmuVM s) ASID)"
  shows "tlb_wf s'" "frame s' = frame s"
    "tlb_view tlbId s' p = Option.bind (tlb_view tlbId s p) (\<lambda>e.
      if inRange low high e \<and> (artifact e \<or> fence_matches byASID byVMID VMID' ASID' e) then None else Some e)"
    "tlbId = RISCV_TLB_VS2 \<Longrightarrow> \<not> fence_g_preserves_vs s \<Longrightarrow>
      tlb_view RISCV_TLB_VS1 s' p = Option.bind (tlb_view RISCV_TLB_VS1 s p) (\<lambda>e.
        if artifact e \<or> fence_matches False byVMID VMID' ASID' e then None else Some e)"
proof -
  obtain msk match where args: "(msk, match) = fence_args tlbId byASID byVMID VMID' ASID'" by (metis surj_pair)
  have w: "take_bit 16 VMID' = VMID'" "take_bit 16 ASID' = ASID'" unfolding assms(4,5) by (rule mask_widths)+
  have ok: "tlb_ok (frame s) s" using assms(1) by simp
  define s1 where "s1 = ITER_TLB_ENTRY_RANGE tlbId low high (deleteTLBEntryMask tlbId msk match) s"
  have ok1: "tlb_ok (frame s) s1" unfolding s1_def by (rule iter_fence(1) [OF ok])
  have v1: "tlb_view tlbId s1 p = Option.bind (tlb_view tlbId s p) (\<lambda>e.
      if inRange low high e \<and> (artifact e \<or> fence_matches byASID byVMID VMID' ASID' e) then None else Some e)"
    unfolding s1_def iter_fence(2) [OF ok]
    using fence_args_selects [OF args w _ assms(2)] view_TLB [OF assms(1)] by (cases "tlb_view tlbId s p") auto
  let ?s2 = "ITER_TLB_ENTRY_RANGE RISCV_TLB_VS1 0 RISCV_MAX_ADDR (deleteTLBEntryMask RISCV_TLB_VS1 msk match) s1"
  have pres: "fence_g_preserves_vs s1 = fence_g_preserves_vs s" using ok1 by (simp add: frame_def)
  have s': "s' = (if tlbId = RISCV_TLB_VS2 \<and> \<not> fence_g_preserves_vs s then ?s2 else s1)"
    unfolding assms(3) deleteTLBEntriesMask_eq [OF assms(4,5) args] s1_def [symmetric] Let_def pres ..
  have vs2: "tlb_view RISCV_TLB_VS2 ?s2 p = tlb_view RISCV_TLB_VS2 s1 p"
    using iter_fence_other [OF ok1, of RISCV_TLB_VS2 RISCV_TLB_VS1] by simp
  show "tlb_wf s'" "frame s' = frame s" using ok1 iter_fence(1) [OF ok1] by (auto simp: s')
  show "tlb_view tlbId s' p = Option.bind (tlb_view tlbId s p) (\<lambda>e.
      if inRange low high e \<and> (artifact e \<or> fence_matches byASID byVMID VMID' ASID' e) then None else Some e)"
    using v1 vs2 by (auto simp: s')
  assume g: "tlbId = RISCV_TLB_VS2" "\<not> fence_g_preserves_vs s"
  have all: "inRange 0 RISCV_MAX_ADDR e" for e by (simp add: inRange_def)
  have sel: "fence_selects msk match e \<longleftrightarrow> artifact e \<or> fence_matches False byVMID VMID' ASID' e" if "tlb_view RISCV_TLB_VS1 s p = Some e" for e
    using fence_args_selects_S1 [OF _ w(1)] args g view_TLB [OF assms(1) that] by auto
  have vs1: "tlb_view RISCV_TLB_VS1 s1 p = tlb_view RISCV_TLB_VS1 s p \<or> tlb_view RISCV_TLB_VS1 s1 p = drop_artifacts (tlb_view RISCV_TLB_VS1 s p)"
    unfolding s1_def using iter_fence_other [OF ok, of RISCV_TLB_VS1 tlbId] g by auto
  show "tlb_view RISCV_TLB_VS1 s' p = Option.bind (tlb_view RISCV_TLB_VS1 s p) (\<lambda>e.
      if artifact e \<or> fence_matches False byVMID VMID' ASID' e then None else Some e)"
    unfolding s' if_P [OF conjI [OF g]] iter_fence(2) [OF ok1] using vs1 sel by (cases "tlb_view RISCV_TLB_VS1 s p") (auto simp: all)
qed

text \<open>C20: A fence removes exactly the entries in its address range that an artifact access made or
  whose ASID, unless they are global, and VMID match, as far as the fence specifies them; a
  fence of stage 2 removes in addition all stage 1 entries of the virtual machine unless
  configured otherwise.\<close>

theorem tlb_fence_exact:
  assumes "tlb_wf s" "tlbId \<noteq> RISCV_TLB_LAST"
    and "s' = deleteTLBEntriesMask s tlbId low high byASID byVMID VMID ASID"
    and "VMID' = ucast (maskVMID (mmuVM s) VMID)" "ASID' = ucast (maskASID (mmuVM s) ASID)"
  shows "tlb_wf s' \<and> frame s' = frame s \<and>
    tlb_view tlbId s' p = Option.bind (tlb_view tlbId s p) (\<lambda>e.
      if inRange low high e \<and> (artifact e \<or> fence_matches byASID byVMID VMID' ASID' e) then None else Some e) \<and>
    (tlbId = RISCV_TLB_VS2 \<and> \<not> fence_g_preserves_vs s \<longrightarrow>
      tlb_view RISCV_TLB_VS1 s' p = Option.bind (tlb_view RISCV_TLB_VS1 s p) (\<lambda>e.
        if artifact e \<or> fence_matches False byVMID VMID' ASID' e then None else Some e))"
  using deleteTLBEntriesMask_effect [OF assms] by blast

text \<open>A lookup returns an entry of the table that covers the address and matches the active address space.\<close>

lemma findInTable_found:
  assumes "findInTable V A tlbId ps s = (s', Some p)" "tlb_ok f s"
  shows "\<exists>e. tlb_view tlbId s p = Some e \<and> matchVMID V e \<and> matchASID A e \<and> p \<in> set ps"
  using assms
proof (induction ps arbitrary: s)
  case (Cons q ps)
  have m: "matchVMID V (plain e) = matchVMID V e" "matchASID A (plain e) = matchASID A e" for e
    by (simp_all add: matchVMID_def matchASID_def entryHasVMID_def getEntryVMID_def getEntryASID_def)
  show ?case
  proof (cases "map_of (tlbEntries s tlbId) q")
    case None
    then show ?thesis using Cons by fastforce
  next
    case (Some e)
    show ?thesis
    proof (cases "artifact e")
      case True
      then have "\<exists>e'. tlb_view tlbId (deleteTLBEntry tlbId s q e) p = Some e' \<and> matchVMID V e' \<and> matchASID A e' \<and> p \<in> set ps"
        using Cons.prems Some Cons.IH [OF _ deleteTLBEntry_effect(1) [OF Cons.prems(2) Some]] by simp
      then show ?thesis unfolding deleteTLBEntry_effect(2) [OF Cons.prems(2) Some] by (auto split: if_splits)
    next
      case False
      then show ?thesis using Cons Some view_Some [OF Some] m by (fastforce split: if_splits)
    qed
  qed
qed simp

lemma findTLBEntry_found:
  assumes "findTLBEntry s VA = (s', Some p)" "tlb_wf s"
  shows "\<exists>e. tlb_view (activeTLB (mmuVM s)) s p = Some e \<and> inRange VA VA e \<and>
    matchVMID (getActiveVMID (mmuVM s)) e \<and> matchASID (getActiveASID (mmuVM s)) e"
proof -
  have ok: "tlb_ok (frame s) s" using assms(2) by simp
  show ?thesis
    using findInTable_found [OF assms(1) [unfolded findTLBEntry_def Let_def] ok] in_range_places [OF assms(2), of p VA VA "activeTLB (mmuVM s)"]
    by auto
qed

lemma fence_clears:
  assumes "tlb_wf s" "activeTLB (mmuVM s) = tlbId" "tlbId \<in> {RISCV_TLB_HS, RISCV_TLB_VS1}" "low \<le> VA" "VA \<le> high"
    and "byASID \<longrightarrow> ucast (maskASID (mmuVM s) ASID) = getActiveASID (mmuVM s)"
    and "maskVMID (mmuVM s) (ucast (hgatp_VMIDf (mmuVM s))) = ucast (hgatp_VMIDf (mmuVM s))"
  shows "snd (findTLBEntry (deleteTLBEntriesMaskActiveVMID s tlbId low high byASID ASID) VA) = None"
proof (rule ccontr)
  define s' where "s' = deleteTLBEntriesMaskActiveVMID s tlbId low high byASID ASID"
  have last: "tlbId \<noteq> RISCV_TLB_LAST" using assms(3) by auto
  have vm: "ucast (maskVMID (mmuVM s) (ucast (hgatp_VMIDf (mmuVM s)))) = hgatp_VMIDf (mmuVM s)"
    unfolding assms(7) by (intro bit_word_eqI) (auto simp: hgatp_VMID_def reg_field_def bit_simps)
  note eff = deleteTLBEntriesMask_effect [OF assms(1) last s'_def [unfolded deleteTLBEntriesMaskActiveVMID_def] vm [symmetric] refl]
  have wf: "tlb_wf s'" by (rule eff(1))
  have same: "mmuVM s' = mmuVM s" using eff(2) by (simp add: frame_def)
  assume "snd (findTLBEntry (deleteTLBEntriesMaskActiveVMID s tlbId low high byASID ASID) VA) \<noteq> None"
  then obtain s'' p where "findTLBEntry s' VA = (s'', Some p)" unfolding s'_def [symmetric] by (metis option.exhaust prod.collapse)
  from findTLBEntry_found [OF this wf] obtain e where e: "tlb_view tlbId s' p = Some e" "inRange VA VA e"
    "matchVMID (getActiveVMID (mmuVM s)) e" "matchASID (getActiveASID (mmuVM s)) e"
    unfolding same assms(2) by blast
  have "inRange low high e" using e(2) assms(4,5) unfolding inRange_def by (meson order.trans)
  moreover have "fence_matches byASID True (hgatp_VMIDf (mmuVM s)) (ucast (maskASID (mmuVM s) ASID)) e"
    using e(3,4) assms(2,3,6) view_TLB [OF wf e(1)]
    by (auto simp: fence_matches_def matchVMID_def entryHasVMID_def getActiveVMID_def)
  ultimately show False using e(1) eff(3) [of p] by (cases "tlb_view tlbId s p") (auto split: if_splits)
qed

text \<open>C21: After each of the four stage 1 fences for the current address space a lookup of the fenced
  address finds no entry, so that the next access walks the page table.\<close>

theorem fence_forces_walk:
  assumes "tlb_wf s" "activeTLB (mmuVM s) = getS1TLBId s"
    and "ucast (maskASID (mmuVM s) ASID) = getActiveASID (mmuVM s)"
    and "maskVMID (mmuVM s) (ucast (hgatp_VMIDf (mmuVM s))) = ucast (hgatp_VMIDf (mmuVM s))"
  shows "snd (findTLBEntry (riscvVMInvalidateAll s) VA) = None \<and> snd (findTLBEntry (riscvVMInvalidateAllASID s ASID) VA) = None \<and>
    snd (findTLBEntry (riscvVMInvalidateVA s VA) VA) = None \<and> snd (findTLBEntry (riscvVMInvalidateVAASID s VA ASID) VA) = None"
proof -
  have t: "getS1TLBId s \<in> {RISCV_TLB_HS, RISCV_TLB_VS1}" by (simp add: getS1TLBId_def)
  show ?thesis
    unfolding riscvVMInvalidateAll_def riscvVMInvalidateAllASID_def riscvVMInvalidateVA_def riscvVMInvalidateVAASID_def
      invalidate_VMC_ASx_ADx_def invalidate_VMC_AS1_ADx_def invalidate_VMC_ASx_AD1_def invalidate_VMC_AS1_AD1_def
    using fence_clears [OF assms(1,2) t _ _ _ assms(4)] assms(3) by simp
qed

definition mmu_example :: riscvMMU where
  "mmu_example = \<lparr>mmuVM = sv39_example, mmuMode = RISCV_DMODE64_S_VM, fence_g_preserves_vs = False, artifactLdSt = False, executedICount = 0,
    tlb = (\<lambda>tlbId. if tlbId = RISCV_TLB_HS then Some \<lparr>lut = [(0, (entry_example 0x12000)\<lparr>highVA := 0x12fff, mapped := 2\<rparr>)], ASIDCache = [],
      ASIDICount = 0, ASIDEjectNum = 0\<rparr> else None),
    newEntryP = 1, vmDomains = (\<lambda>mode isCode. Some 0), hlvxDomains = (\<lambda>mode. None), guestPTWDomainP = None,
    pmpDomainsP = (\<lambda>mode isCode. 0), vmCalls = [], aborted = False\<rparr>"

lemma mmu_example_wf: "tlb_wf mmu_example"
  by (auto simp: tlb_wf_def mmu_example_def tlbEntries_def entry_example_def split: if_splits)

theorem tlb_fence_exact_witness:
  "tlb_view RISCV_TLB_HS (deleteTLBEntriesMask mmu_example RISCV_TLB_HS 0 RISCV_MAX_ADDR True True 0 0) 0 = None \<and>
    tlb_view RISCV_TLB_HS mmu_example 0 \<noteq> None"
proof -
  have "tlb_view RISCV_TLB_HS mmu_example 0 = Some (plain ((entry_example 0x12000)\<lparr>highVA := 0x12fff, mapped := 2\<rparr>))"
    by (simp add: tlb_view_def mmu_example_def tlbEntries_def)
  moreover have "fence_matches True True (ucast (maskVMID (mmuVM mmu_example) 0)) (ucast (maskASID (mmuVM mmu_example) 0))
    (plain ((entry_example 0x12000)\<lparr>highVA := 0x12fff, mapped := 2\<rparr>))" by code_simp
  ultimately show ?thesis
    using tlb_fence_exact [OF mmu_example_wf _ refl refl refl, where tlbId = RISCV_TLB_HS and p = 0 and low = 0 and
      high = RISCV_MAX_ADDR and byASID = True and byVMID = True and VMID = 0 and ASID = 0] by (simp add: inRange_def)
qed

theorem fence_forces_walk_witness:
  "snd (findTLBEntry (riscvVMInvalidateVAASID mmu_example 0x12345 0) 0x12345) = None"
proof -
  have "activeTLB (mmuVM mmu_example) = getS1TLBId mmu_example" "ucast (maskASID (mmuVM mmu_example) 0) = getActiveASID (mmuVM mmu_example)"
    "maskVMID (mmuVM mmu_example) (ucast (hgatp_VMIDf (mmuVM mmu_example))) = ucast (hgatp_VMIDf (mmuVM mmu_example))"
    by code_simp+
  from fence_forces_walk [OF mmu_example_wf this] show ?thesis by blast
qed

end
