(* ===== verification/RV_Hart.thy ===== *)
theory RV_Hart
  imports RV_Mode RV_Variant
begin

text \<open>
  The state of a hart that exceptions, interrupts and the CLIC work on
  (\<^verbatim>\<open>riscvStructure.h\<close>, \<^verbatim>\<open>riscvCLICTypes.h\<close>, \<^verbatim>\<open>riscvAIATypes.h\<close>), the views of the system
  registers (\<^verbatim>\<open>riscvCSR.h\<close>) and the predicates on the configuration. The system registers are
  one function from register names to 64-bit values, as the unions of \<^verbatim>\<open>riscvCSR.h\<close> overlay
  them; a field is its position and width in the 32-bit and in the 64-bit view. Calls of the
  simulator (\<open>vmirt...\<close>) are recorded in order in the field \<open>vmi\<close> of the state, and the
  callbacks of derived models are the record \<open>riscvExtCB\<close>.
\<close>

section \<open>Architecture and versions\<close>

definition ISA_C :: riscvArchitecture where "ISA_C = RISCV_FEATURE_BIT 2"
definition ISA_H :: riscvArchitecture where "ISA_H = RISCV_FEATURE_BIT 7"
definition ISA_N :: riscvArchitecture where "ISA_N = RISCV_FEATURE_BIT 13"
definition ISA_S :: riscvArchitecture where "ISA_S = RISCV_FEATURE_BIT 18"
definition ISA_U :: riscvArchitecture where "ISA_U = RISCV_FEATURE_BIT 20"

definition ISA_XLEN_32 :: riscvArchitecture where "ISA_XLEN_32 = RISCV_FEATURE_BIT 26"
definition ISA_XLEN_64 :: riscvArchitecture where "ISA_XLEN_64 = RISCV_FEATURE_BIT 27"

datatype riscvCLICVer = RVCLC_20180831 | RVCLC_0_9_20191208 | RVCLC_0_9_20220315 | RVCLC_0_9_20221108 | RVCLC_MASTER

fun riscvCLICVer_code :: "riscvCLICVer \<Rightarrow> nat" where
  "riscvCLICVer_code RVCLC_20180831 = 0"
| "riscvCLICVer_code RVCLC_0_9_20191208 = 1"
| "riscvCLICVer_code RVCLC_0_9_20220315 = 2"
| "riscvCLICVer_code RVCLC_0_9_20221108 = 3"
| "riscvCLICVer_code RVCLC_MASTER = 4"

lemma riscvCLICVer_code_inject [simp]: "riscvCLICVer_code v = riscvCLICVer_code w \<longleftrightarrow> v = w"
  by (cases v; cases w) simp_all

text \<open>Versions are compared in the order in which the enumeration lists them.\<close>

instantiation riscvCLICVer :: linorder
begin

definition less_eq_riscvCLICVer :: "riscvCLICVer \<Rightarrow> riscvCLICVer \<Rightarrow> bool" where
  "less_eq_riscvCLICVer v w \<longleftrightarrow> riscvCLICVer_code v \<le> riscvCLICVer_code w"

definition less_riscvCLICVer :: "riscvCLICVer \<Rightarrow> riscvCLICVer \<Rightarrow> bool" where
  "less_riscvCLICVer v w \<longleftrightarrow> riscvCLICVer_code v < riscvCLICVer_code w"

instance
  by standard (auto simp: less_eq_riscvCLICVer_def less_riscvCLICVer_def)

end

datatype riscvPrivVer = RVPV_1_10 | RVPV_1_11 | RVPV_20190405 | RVPV_20190608 | RVPV_20211203 | RVPV_1_12 | RVPV_MASTER

fun riscvPrivVer_code :: "riscvPrivVer \<Rightarrow> nat" where
  "riscvPrivVer_code RVPV_1_10 = 0"
| "riscvPrivVer_code RVPV_1_11 = 1"
| "riscvPrivVer_code RVPV_20190405 = 2"
| "riscvPrivVer_code RVPV_20190608 = 3"
| "riscvPrivVer_code RVPV_20211203 = 4"
| "riscvPrivVer_code RVPV_1_12 = 5"
| "riscvPrivVer_code RVPV_MASTER = 6"

datatype riscvDebugVer = RVDBG_0_13_2 | RVDBG_0_14_0 | RVDBG_1_0_0 | RVDBG_1_0

fun riscvDebugVer_code :: "riscvDebugVer \<Rightarrow> nat" where
  "riscvDebugVer_code RVDBG_0_13_2 = 0"
| "riscvDebugVer_code RVDBG_0_14_0 = 1"
| "riscvDebugVer_code RVDBG_1_0_0 = 2"
| "riscvDebugVer_code RVDBG_1_0 = 3"

datatype riscvRNMIVer = RNMI_NONE | RNMI_0_2_1 | RNMI_0_4

datatype riscvDPriority = RVDP_A_S_X_H | RVDP_A_S_H_X | RVDP_A_H_S_X | RVDP_H_A_S_X

datatype riscvDMMode = RVDM_NONE | RVDM_VECTOR | RVDM_INTERRUPT | RVDM_HALT | RVDM_INJECT

datatype riscvDERETMode = RVDRM_NOP | RVDRM_JUMP | RVDRM_TRAP

section \<open>System registers\<close>

text \<open>A register is named by its number, as the comments of the structure \<open>riscvCSRs\<close> give it.\<close>

type_synonym csrId = nat

abbreviation csr_mstatus :: csrId where "csr_mstatus \<equiv> 0x300"
abbreviation csr_vsstatus :: csrId where "csr_vsstatus \<equiv> 0x200"
abbreviation csr_hstatus :: csrId where "csr_hstatus \<equiv> 0x600"
abbreviation csr_mnstatus :: csrId where "csr_mnstatus \<equiv> 0x744"
abbreviation csr_mintstatus :: csrId where "csr_mintstatus \<equiv> 0x346"
abbreviation csr_tcontrol :: csrId where "csr_tcontrol \<equiv> 0x7A5"
abbreviation csr_dcsr :: csrId where "csr_dcsr \<equiv> 0x7B0"
abbreviation csr_mcause :: csrId where "csr_mcause \<equiv> 0x342"
abbreviation csr_scause :: csrId where "csr_scause \<equiv> 0x142"
abbreviation csr_vscause :: csrId where "csr_vscause \<equiv> 0x242"
abbreviation csr_ucause :: csrId where "csr_ucause \<equiv> 0x042"
abbreviation csr_mncause :: csrId where "csr_mncause \<equiv> 0x742"
abbreviation csr_mepc :: csrId where "csr_mepc \<equiv> 0x341"
abbreviation csr_sepc :: csrId where "csr_sepc \<equiv> 0x141"
abbreviation csr_vsepc :: csrId where "csr_vsepc \<equiv> 0x241"
abbreviation csr_uepc :: csrId where "csr_uepc \<equiv> 0x041"
abbreviation csr_mnepc :: csrId where "csr_mnepc \<equiv> 0x741"
abbreviation csr_dpc :: csrId where "csr_dpc \<equiv> 0x7B1"
abbreviation csr_mtval :: csrId where "csr_mtval \<equiv> 0x343"
abbreviation csr_stval :: csrId where "csr_stval \<equiv> 0x143"
abbreviation csr_vstval :: csrId where "csr_vstval \<equiv> 0x243"
abbreviation csr_utval :: csrId where "csr_utval \<equiv> 0x043"
abbreviation csr_mtval2 :: csrId where "csr_mtval2 \<equiv> 0x34B"
abbreviation csr_htval :: csrId where "csr_htval \<equiv> 0x643"
abbreviation csr_mtinst :: csrId where "csr_mtinst \<equiv> 0x34A"
abbreviation csr_htinst :: csrId where "csr_htinst \<equiv> 0x64A"
abbreviation csr_mtvec :: csrId where "csr_mtvec \<equiv> 0x305"
abbreviation csr_stvec :: csrId where "csr_stvec \<equiv> 0x105"
abbreviation csr_vstvec :: csrId where "csr_vstvec \<equiv> 0x205"
abbreviation csr_utvec :: csrId where "csr_utvec \<equiv> 0x005"
abbreviation csr_mtvt :: csrId where "csr_mtvt \<equiv> 0x307"
abbreviation csr_stvt :: csrId where "csr_stvt \<equiv> 0x107"
abbreviation csr_utvt :: csrId where "csr_utvt \<equiv> 0x007"
abbreviation csr_medeleg :: csrId where "csr_medeleg \<equiv> 0x302"
abbreviation csr_hedeleg :: csrId where "csr_hedeleg \<equiv> 0x602"
abbreviation csr_sedeleg :: csrId where "csr_sedeleg \<equiv> 0x102"
abbreviation csr_mideleg :: csrId where "csr_mideleg \<equiv> 0x303"
abbreviation csr_hideleg :: csrId where "csr_hideleg \<equiv> 0x603"
abbreviation csr_sideleg :: csrId where "csr_sideleg \<equiv> 0x103"
abbreviation csr_mie :: csrId where "csr_mie \<equiv> 0x304"
abbreviation csr_mip :: csrId where "csr_mip \<equiv> 0x344"
abbreviation csr_mvip :: csrId where "csr_mvip \<equiv> 0x309"
abbreviation csr_mvien :: csrId where "csr_mvien \<equiv> 0x308"
abbreviation csr_hvip :: csrId where "csr_hvip \<equiv> 0x645"
abbreviation csr_hvien :: csrId where "csr_hvien \<equiv> 0x608"
abbreviation csr_vsie :: csrId where "csr_vsie \<equiv> 0x204"
abbreviation csr_hvictl :: csrId where "csr_hvictl \<equiv> 0x609"
abbreviation csr_hgeip :: csrId where "csr_hgeip \<equiv> 0xE12"
abbreviation csr_hgeie :: csrId where "csr_hgeie \<equiv> 0x607"
abbreviation csr_mintthresh :: csrId where "csr_mintthresh \<equiv> 0x347"
abbreviation csr_sintthresh :: csrId where "csr_sintthresh \<equiv> 0x14A"
abbreviation csr_uintthresh :: csrId where "csr_uintthresh \<equiv> 0x04A"
abbreviation csr_menvcfg :: csrId where "csr_menvcfg \<equiv> 0x30A"
abbreviation csr_henvcfg :: csrId where "csr_henvcfg \<equiv> 0x60A"
abbreviation csr_satp :: csrId where "csr_satp \<equiv> 0x180"
abbreviation csr_vsatp :: csrId where "csr_vsatp \<equiv> 0x280"
abbreviation csr_hgatp :: csrId where "csr_hgatp \<equiv> 0x680"
abbreviation csr_misa :: csrId where "csr_misa \<equiv> 0x301"
abbreviation csr_mstateen0 :: csrId where "csr_mstateen0 \<equiv> 0x30C"
abbreviation csr_hstateen0 :: csrId where "csr_hstateen0 \<equiv> 0x60C"
abbreviation csr_sstateen0 :: csrId where "csr_sstateen0 \<equiv> 0x10C"
abbreviation csr_stimecmp :: csrId where "csr_stimecmp \<equiv> 0x14D"
abbreviation csr_vstimecmp :: csrId where "csr_vstimecmp \<equiv> 0x24D"
abbreviation csr_htimedelta :: csrId where "csr_htimedelta \<equiv> 0x605"
abbreviation csr_vstart :: csrId where "csr_vstart \<equiv> 0x008"
abbreviation csr_mcountinhibit :: csrId where "csr_mcountinhibit \<equiv> 0x320"

text \<open>A field: position and width in the 32-bit view and in the 64-bit view.\<close>

type_synonym csrField = "(nat \<times> nat) \<times> (nat \<times> nat)"

abbreviation commonField :: "nat \<Rightarrow> nat \<Rightarrow> csrField" where
  "commonField p w \<equiv> ((p, w), (p, w))"

definition rd_field :: "nat \<times> nat \<Rightarrow> Uns64 \<Rightarrow> Uns64" where
  "rd_field f r = take_bit (snd f) (drop_bit (fst f) r)"

definition wr_field :: "nat \<times> nat \<Rightarrow> Uns64 \<Rightarrow> Uns64 \<Rightarrow> Uns64" where
  "wr_field f v r = (r AND NOT (push_bit (fst f) (mask (snd f)))) OR push_bit (fst f) (take_bit (snd f) v)"

abbreviation status_UIE :: csrField where "status_UIE \<equiv> commonField 0 1"
abbreviation status_SIE :: csrField where "status_SIE \<equiv> commonField 1 1"
abbreviation status_MIE :: csrField where "status_MIE \<equiv> commonField 3 1"
abbreviation status_UBE :: csrField where "status_UBE \<equiv> commonField 6 1"
abbreviation status_SBE :: csrField where "status_SBE \<equiv> commonField 36 1"
abbreviation status_MBE :: csrField where "status_MBE \<equiv> commonField 37 1"
abbreviation status_UPIE :: csrField where "status_UPIE \<equiv> commonField 4 1"
abbreviation status_SPIE :: csrField where "status_SPIE \<equiv> commonField 5 1"
abbreviation status_MPIE :: csrField where "status_MPIE \<equiv> commonField 7 1"
abbreviation status_SPP :: csrField where "status_SPP \<equiv> commonField 8 1"
abbreviation status_MPP :: csrField where "status_MPP \<equiv> commonField 11 2"
abbreviation status_FS :: csrField where "status_FS \<equiv> commonField 13 2"
abbreviation status_MPRV :: csrField where "status_MPRV \<equiv> commonField 17 1"
abbreviation status_TW :: csrField where "status_TW \<equiv> commonField 21 1"
abbreviation status_GVA :: csrField where "status_GVA \<equiv> commonField 38 1"
abbreviation status_MPV :: csrField where "status_MPV \<equiv> commonField 39 1"
abbreviation mnstatus_NMIE :: csrField where "mnstatus_NMIE \<equiv> commonField 3 1"
abbreviation mnstatus_MNPV :: csrField where "mnstatus_MNPV \<equiv> commonField 7 1"
abbreviation mnstatus_MNPP :: csrField where "mnstatus_MNPP \<equiv> commonField 11 2"
abbreviation hstatus_VSBE :: csrField where "hstatus_VSBE \<equiv> commonField 5 1"
abbreviation hstatus_HU :: csrField where "hstatus_HU \<equiv> commonField 9 1"
abbreviation hstatus_GVA :: csrField where "hstatus_GVA \<equiv> commonField 6 1"
abbreviation hstatus_SPV :: csrField where "hstatus_SPV \<equiv> commonField 7 1"
abbreviation hstatus_SPVP :: csrField where "hstatus_SPVP \<equiv> commonField 8 1"
abbreviation hstatus_VGEIN :: csrField where "hstatus_VGEIN \<equiv> commonField 12 6"
abbreviation hstatus_VTW :: csrField where "hstatus_VTW \<equiv> commonField 21 1"
abbreviation tvec_MODE :: csrField where "tvec_MODE \<equiv> commonField 0 2"
abbreviation cause_ExceptionCode :: csrField where "cause_ExceptionCode \<equiv> commonField 0 16"
abbreviation cause_pil :: csrField where "cause_pil \<equiv> commonField 16 8"
abbreviation cause_inhv :: csrField where "cause_inhv \<equiv> commonField 30 1"
abbreviation cause_Interrupt :: csrField where "cause_Interrupt \<equiv> ((31, 1), (63, 1))"
abbreviation intstatus_uil :: csrField where "intstatus_uil \<equiv> commonField 0 8"
abbreviation intstatus_sil :: csrField where "intstatus_sil \<equiv> commonField 8 8"
abbreviation intstatus_mil :: csrField where "intstatus_mil \<equiv> commonField 24 8"
abbreviation intthresh_th :: csrField where "intthresh_th \<equiv> commonField 0 8"
abbreviation tcontrol_mte :: csrField where "tcontrol_mte \<equiv> commonField 3 1"
abbreviation tcontrol_mpte :: csrField where "tcontrol_mpte \<equiv> commonField 7 1"
abbreviation dcsr_step :: csrField where "dcsr_step \<equiv> commonField 2 1"
abbreviation dcsr_nmip :: csrField where "dcsr_nmip \<equiv> commonField 3 1"
abbreviation dcsr_cause :: csrField where "dcsr_cause \<equiv> commonField 6 3"
abbreviation dcsr_prv :: csrField where "dcsr_prv \<equiv> commonField 0 2"
abbreviation dcsr_mprven :: csrField where "dcsr_mprven \<equiv> commonField 4 1"
abbreviation dcsr_v :: csrField where "dcsr_v \<equiv> commonField 5 1"
abbreviation dcsr_stopcount :: csrField where "dcsr_stopcount \<equiv> commonField 10 1"
abbreviation dcsr_stepie :: csrField where "dcsr_stepie \<equiv> commonField 11 1"
abbreviation hvictl_IPRIO :: csrField where "hvictl_IPRIO \<equiv> commonField 0 8"
abbreviation hvictl_IPRIOM :: csrField where "hvictl_IPRIOM \<equiv> commonField 8 1"
abbreviation hvictl_DPR :: csrField where "hvictl_DPR \<equiv> commonField 9 1"
abbreviation hvictl_IID :: csrField where "hvictl_IID \<equiv> commonField 16 12"
abbreviation hvictl_VTI :: csrField where "hvictl_VTI \<equiv> commonField 30 1"
abbreviation envcfg_STCE :: csrField where "envcfg_STCE \<equiv> commonField 63 1"
abbreviation misa_Extensions :: csrField where "misa_Extensions \<equiv> commonField 0 26"
abbreviation countinhibit_CY :: csrField where "countinhibit_CY \<equiv> commonField 0 1"
abbreviation countinhibit_IR :: csrField where "countinhibit_IR \<equiv> commonField 2 1"
abbreviation atp_ASID :: csrField where "atp_ASID \<equiv> ((22, 9), (44, 16))"
abbreviation atp_VMID :: csrField where "atp_VMID \<equiv> ((22, 7), (44, 14))"
abbreviation atp_MODEf :: csrField where "atp_MODEf \<equiv> ((31, 1), (60, 4))"

section \<open>Interrupt structures\<close>

record riscvPendEnab =
  pe_priv :: riscvMode
  pe_id :: int
  pe_level :: Uns8
  pe_isCLIC :: bool

record riscvBasicIntState =
  int_ip :: "riscvMode \<Rightarrow> Uns64"
  int_hvictl :: bool

record riscvAIA =
  miprio :: "Uns8 list"
  siprio :: "Uns8 list"
  vsiprio :: "Uns8 list"
  meiprio :: Uns16
  seiprio :: Uns16
  vseiprio :: Uns16

abbreviation RV_NO_INT :: int where "RV_NO_INT \<equiv> -1"

datatype CLICIntFieldType = CIT_clicintip | CIT_clicintie | CIT_clicintattr | CIT_clicintctl | CIT_clicconfig | CIT_LAST

type_synonym riscvCLICIntState = "CLICIntFieldType \<Rightarrow> Uns8"

record riscvCLICOutState =
  sel_priv :: riscvMode
  sel_id :: int
  sel_level :: Uns8
  sel_shv :: bool

record riscvCLIC =
  clicsel :: riscvCLICOutState
  intState :: "riscvCLICIntState list"
  ipe :: "Uns64 list"
  trigFixed :: "Uns64 list"
  num_interrupt :: nat
  clicinfo_version :: nat
  CLICINTCTLBITS :: nat
  nlbits :: "riscvMode \<Rightarrow> nat"
  nmbits :: nat

text \<open>The unpacked trigger registers. The type of a trigger is its 4-bit code.\<close>

record riscvTData1UP =
  t1_type :: Uns32
  t1_modes :: Uns32
  t1_match :: Uns32
  t1_action :: Uns32
  t1_size :: Uns32
  t1_priv :: memPriv
  t1_chain :: bool
  t1_timing :: bool
  t1_select :: bool
  t1_hit0 :: bool
  t1_hit1 :: bool
  t1_dmode :: bool
  t1_nmi :: bool
  t1_pending :: bool
  t1_icmatch :: bool
  t1_uncertain :: bool
  t1_count :: Uns32

record riscvTData3UP =
  t3_sselect :: Uns32
  t3_mhselect :: Uns32
  t3_svalue :: Uns64
  t3_mhvalue :: Uns32
  t3_sbytemask :: Uns32

record riscvTrigger =
  matchICount :: Uns64
  trig_tval :: Uns64
  tvalValid :: bool
  triggered :: bool
  tdata1UP :: riscvTData1UP
  tdata3UP :: riscvTData3UP
  tdata2 :: Uns64
  tinfo_version :: Uns32
  mcontext :: Uns64
  scontext :: Uns64

record riscvNetValue =
  nv_reset :: bool
  nv_resethaltreq :: bool
  nv_illegalInst :: bool
  nv_haltreq :: bool
  nv_stepreq :: bool
  nv_resethaltreqS :: bool
  nv_deferint :: bool
  nv_restartwfi :: bool
  nv_enableCLIC :: bool
  nv_triggerAfter :: Uns8

section \<open>Simulator calls\<close>

datatype vmiCall =
  vmirtHalt | vmirtBlock | vmirtRestartNext | vmirtDoSynchronousInterrupt | vmirtInterrupt | vmirtAbortRepeat |
  vmirtSetMode riscvDMode | vmirtWriteNetPort Uns32 Uns32 | vmirtSetAckTimer Uns64 | vmirtSetStepTimer Uns64 |
  vmirtSetPC Uns64 | vmirtSetPCException Uns64 | vmirtSetProcessorDataDomain nat | vmirtFlushAllDicts | vmirtSetBlockMask64 riscvArchitecture |
  vmirtSetTWTimer Uns32 | vmirtClearTWTimer | vmirtSetMTimer Uns64

section \<open>Configuration and state\<close>

record excConfig =
  cfg_arch :: riscvArchitecture
  cfg_Smaia :: bool
  cfg_Sstc :: bool
  CLICLEVELS :: Uns32
  externalCLIC :: bool
  CLICANDBASIC :: bool
  CLIC_version :: riscvCLICVer
  CLICCFGMBITS :: nat
  CLICSELHVEC :: bool
  CSIP_present :: bool
  unimp_int_mask :: Uns64
  ecode_nmi :: Uns64
  priv_version :: riscvPrivVer
  dbg_version :: riscvDebugVer
  debug_mode :: riscvDMMode
  debug_eret_mode :: riscvDERETMode
  debug_address :: Uns64
  dexc_address :: Uns64
  nmiexc_address :: Uns64
  defer_step_bug :: bool
  tval_zero :: bool
  trap_preserves_lr :: bool
  xret_preserves_lr :: bool
  tvt_undefined :: bool
  tcontrol_undefined :: bool
  no_hit :: bool
  xtinst_basic :: bool
  tval_ii_code :: bool
  tval_zero_ebreak :: bool
  mcontrol_maskmax :: Uns32
  chain_tval :: Uns32
  cfg_Zfinx :: bool
  nmi_address :: Uns64
  rnmi_version :: riscvRNMIVer
  nmi_is_latched :: bool
  debug_priority :: riscvDPriority
  no_resethaltreq :: bool
  wfi_resume_not_trap :: bool
  wfi_is_nop :: bool
  TW_time_limit :: Uns32
  STO_time_limit :: Uns32
  unaligned :: bool
  CLINT_address :: Uns64
  vs_status_8 :: bool
  vs_status_9 :: bool
  CLICCFGLBITS :: nat
  nlbits_valid :: Uns32
  local_int_num :: nat
  mclicbase :: Uns64
  sclicbase :: Uns64
  uclicbase :: Uns64
  posedge_0_63 :: Uns64
  poslevel_0_63 :: Uns64
  posedge_other :: bool
  poslevel_other :: bool

record riscvHart =
  configInfo :: excConfig
  csr :: "csrId \<Rightarrow> Uns64"
  csrMask :: "csrId \<Rightarrow> Uns64"
  hartMode :: riscvDMode
  hartXlenMask :: Uns32
  currentArch :: riscvArchitecture
  pendEnab :: riscvPendEnab
  aia :: riscvAIA
  clic :: riscvCLIC
  ipWords :: "Uns64 list"
  swip :: Uns64
  svie :: Uns64
  stimecmpf :: bool
  vstimecmpf :: bool
  disableMask :: Uns64
  exceptionMask :: Uns64
  interruptMask :: Uns64
  DM :: bool
  disableReasons :: Uns32
  inWFI :: bool
  wfiHandle :: Uns32
  netValue :: riscvNetValue
  PC :: Uns64
  dsOffset :: Uns8
  jumpBase :: Uns64
  icount :: Uns64
  executed :: Uns64
  hartException :: int
  exceptionDetail :: nat
  exceptionFetch :: int
  extInt :: "nat \<Rightarrow> Uns32"
  MIMode :: Uns64
  SIMode :: Uns64
  UIMode :: Uns64
  threshOnes :: Uns32
  inhv :: bool
  isFetch :: bool
  HLVHSV :: bool
  atomicCode :: Uns8
  exclusiveTag :: Uns64
  hartGPA :: Uns64
  GVA :: bool
  trapInst :: Uns64
  baseCycles :: Uns64
  baseInstructions :: Uns64
  stepICount :: Uns32
  DMStall :: bool
  inSaveRestore :: bool
  artifactAccess :: bool
  hasParent :: bool
  fpFlagsMT :: Uns8
  fpFlagsCSR :: Uns8
  SFMT :: Uns8
  SFCSR :: Uns8
  usingBF16 :: bool
  dataMode :: riscvMode
  dendian :: bool
  virtDomain :: "riscvMode \<Rightarrow> nat"
  physDomain :: "riscvMode \<Rightarrow> nat"
  dataDomain :: nat
  triggers :: "riscvTrigger list"
  checkTriggerLA :: bool
  checkTriggerLV :: bool
  checkTriggerS :: bool
  checkTriggerX :: bool
  triggerVA :: Uns64
  triggerLV :: Uns64
  mtimecmp :: Uns64
  mtimebase :: Uns64
  mtimeCount :: "Uns64 option"
  clintPresent :: bool
  twTimer :: bool
  PTWActive :: bool
  PTWBadAddr :: bool
  CMO :: Uns8
  CMOBytes :: Uns16
  CMOOffset :: Uns16
  originalVA :: Uns64
  vFirstFault :: bool
  irq_id_Handle :: Uns32
  irq_ack_Handle :: Uns32
  AMOActiveHandle :: Uns32
  sec_lvl_Handle :: Uns32
  DMPortHandle :: Uns32
  ssclic :: bool
  suclic :: bool
  impSCB :: bool
  impUCB :: bool
  vmi :: "vmiCall list"

definition emit :: "vmiCall \<Rightarrow> riscvHart \<Rightarrow> riscvHart" where
  "emit c riscv = riscv\<lparr>vmi := vmi riscv @ [c]\<rparr>"

definition writeNet :: "Uns32 \<Rightarrow> Uns32 \<Rightarrow> riscvHart \<Rightarrow> riscvHart" where
  "writeNet handle v riscv = (if handle \<noteq> 0 then emit (vmirtWriteNetPort handle v) riscv else riscv)"

datatype riscvERETType = ERT_NA | ERT_M | ERT_D | ERT_MN | ERT_S | ERT_VS | ERT_U | ERT_VU

text \<open>The callbacks a derived model registers that interrupts use, in registration order.\<close>

record riscvExtCB =
  cb_customIAssign :: "(riscvHart \<Rightarrow> Uns64 \<Rightarrow> riscvBasicIntState \<Rightarrow> Uns64 \<times> riscvBasicIntState) list"
  cb_getInterruptPri :: "(riscvHart \<Rightarrow> nat \<Rightarrow> int) list"
  cb_haltRestartNotifier :: "(riscvHart \<Rightarrow> riscvHart) list"
  cb_setDomainNotifier :: "(riscvHart \<Rightarrow> nat \<Rightarrow> nat) list"
  cb_getHandlerPC :: "(riscvHart \<Rightarrow> Uns64 \<Rightarrow> Uns64 \<Rightarrow> int \<Rightarrow> Uns32 \<Rightarrow> Uns64 option \<times> riscvHart) list"
  cb_trapPreNotifier :: "(riscvHart \<Rightarrow> riscvMode \<Rightarrow> riscvHart) list"
  cb_trapNotifier :: "(riscvHart \<Rightarrow> riscvMode \<Rightarrow> riscvHart) list"
  cb_customNMI :: "(riscvHart \<Rightarrow> bool \<times> riscvHart) list"
  cb_rdFault :: "(riscvHart \<Rightarrow> Uns64 \<Rightarrow> nat \<Rightarrow> bool) list"
  cb_wrFault :: "(riscvHart \<Rightarrow> Uns64 \<Rightarrow> nat \<Rightarrow> bool) list"
  cb_rdSnap :: "(riscvHart \<Rightarrow> Uns64 \<Rightarrow> nat \<Rightarrow> Uns8 \<Rightarrow> Uns32) list"
  cb_wrSnap :: "(riscvHart \<Rightarrow> Uns64 \<Rightarrow> nat \<Rightarrow> Uns8 \<Rightarrow> Uns32) list"
  cb_suppressMemExcept :: "(riscvHart \<Rightarrow> int \<Rightarrow> bool) list"
  cb_ERETNotifier :: "(riscvHart \<Rightarrow> riscvMode \<Rightarrow> riscvERETType \<Rightarrow> riscvHart) list"

section \<open>Register access\<close>

definition RISCV_XLEN_IS_32M :: "riscvHart \<Rightarrow> riscvMode \<Rightarrow> bool" where
  "RISCV_XLEN_IS_32M riscv mode \<longleftrightarrow> \<not> bit (hartXlenMask riscv) (unat (riscvMode_code mode))"

definition RD_CSR64 :: "riscvHart \<Rightarrow> csrId \<Rightarrow> Uns64" where
  "RD_CSR64 riscv r = csr riscv r"

definition RD_CSRC :: "riscvHart \<Rightarrow> csrId \<Rightarrow> Uns64" where
  "RD_CSRC riscv r = take_bit 32 (csr riscv r)"

definition WR_CSR64 :: "csrId \<Rightarrow> Uns64 \<Rightarrow> riscvHart \<Rightarrow> riscvHart" where
  "WR_CSR64 r v riscv = riscv\<lparr>csr := (csr riscv)(r := v)\<rparr>"

definition WR_CSR32 :: "csrId \<Rightarrow> Uns32 \<Rightarrow> riscvHart \<Rightarrow> riscvHart" where
  "WR_CSR32 r v riscv = riscv\<lparr>csr := (csr riscv)(r := wr_field (0, 32) (ucast v) (csr riscv r))\<rparr>"

definition RD_CSR_FIELDC :: "riscvHart \<Rightarrow> csrId \<Rightarrow> csrField \<Rightarrow> Uns64" where
  "RD_CSR_FIELDC riscv r f = rd_field (fst f) (csr riscv r)"

definition RD_CSR_FIELD64 :: "riscvHart \<Rightarrow> csrId \<Rightarrow> csrField \<Rightarrow> Uns64" where
  "RD_CSR_FIELD64 riscv r f = rd_field (snd f) (csr riscv r)"

definition WR_CSR_FIELDC :: "csrId \<Rightarrow> csrField \<Rightarrow> Uns64 \<Rightarrow> riscvHart \<Rightarrow> riscvHart" where
  "WR_CSR_FIELDC r f v riscv = riscv\<lparr>csr := (csr riscv)(r := wr_field (fst f) v (csr riscv r))\<rparr>"

definition WR_CSR_FIELD64 :: "csrId \<Rightarrow> csrField \<Rightarrow> Uns64 \<Rightarrow> riscvHart \<Rightarrow> riscvHart" where
  "WR_CSR_FIELD64 r f v riscv = riscv\<lparr>csr := (csr riscv)(r := wr_field (snd f) v (csr riscv r))\<rparr>"

definition RD_CSR_MODE :: "riscvHart \<Rightarrow> riscvMode \<Rightarrow> csrId \<Rightarrow> Uns64" where
  "RD_CSR_MODE riscv mode r = (if RISCV_XLEN_IS_32M riscv mode then take_bit 32 (csr riscv r) else csr riscv r)"

definition WR_CSR_MODE :: "riscvMode \<Rightarrow> csrId \<Rightarrow> Uns64 \<Rightarrow> riscvHart \<Rightarrow> riscvHart" where
  "WR_CSR_MODE mode r v riscv =
    (if RISCV_XLEN_IS_32M riscv mode then WR_CSR32 r (ucast v) riscv else WR_CSR64 r v riscv)"

definition RD_CSR_FIELD_MODE :: "riscvHart \<Rightarrow> riscvMode \<Rightarrow> csrId \<Rightarrow> csrField \<Rightarrow> Uns64" where
  "RD_CSR_FIELD_MODE riscv mode r f =
    (if RISCV_XLEN_IS_32M riscv mode then rd_field (fst f) (csr riscv r) else rd_field (snd f) (csr riscv r))"

definition WR_CSR_FIELD_MODE :: "riscvMode \<Rightarrow> csrId \<Rightarrow> csrField \<Rightarrow> Uns64 \<Rightarrow> riscvHart \<Rightarrow> riscvHart" where
  "WR_CSR_FIELD_MODE mode r f v riscv =
    (if RISCV_XLEN_IS_32M riscv mode then WR_CSR_FIELDC r f v riscv else WR_CSR_FIELD64 r f v riscv)"

definition RD_CSR_MASK64 :: "riscvHart \<Rightarrow> csrId \<Rightarrow> Uns64" where
  "RD_CSR_MASK64 riscv r = csrMask riscv r"

section \<open>Configuration and mode predicates\<close>

definition getCurrentMode5 :: "riscvHart \<Rightarrow> riscvMode" where
  "getCurrentMode5 riscv = the (dmodeToMode5 (hartMode riscv))"

definition getCurrentMode3 :: "riscvHart \<Rightarrow> riscvMode" where
  "getCurrentMode3 riscv = the (dmodeToMode3 (hartMode riscv))"

definition inVMode :: "riscvHart \<Rightarrow> bool" where
  "inVMode riscv \<longleftrightarrow> dmodeIsVirtual (hartMode riscv)"

definition inDebugMode :: "riscvHart \<Rightarrow> bool" where
  "inDebugMode riscv \<longleftrightarrow> DM riscv"

definition CLICPresent :: "riscvHart \<Rightarrow> bool" where
  "CLICPresent riscv \<longleftrightarrow> CLICLEVELS (configInfo riscv) \<noteq> 0"

definition CLICInternal :: "riscvHart \<Rightarrow> bool" where
  "CLICInternal riscv \<longleftrightarrow> CLICPresent riscv \<and> \<not> externalCLIC (configInfo riscv)"

definition basicICPresent :: "riscvHart \<Rightarrow> bool" where
  "basicICPresent riscv \<longleftrightarrow> \<not> CLICPresent riscv \<or> CLICANDBASIC (configInfo riscv)"

definition mtvecDeterminesCLICMode :: "riscvHart \<Rightarrow> bool" where
  "mtvecDeterminesCLICMode riscv \<longleftrightarrow> CLIC_version (configInfo riscv) > RVCLC_0_9_20220315"

text \<open>\<open>riscv_int_Vectored\<close> and \<open>riscv_int_CLIC\<close> are the bits of an interrupt mode.\<close>

type_synonym riscvICMode = Uns64

abbreviation riscv_int_Vectored :: riscvICMode where "riscv_int_Vectored \<equiv> 1"
abbreviation riscv_int_CLIC :: riscvICMode where "riscv_int_CLIC \<equiv> 2"

definition useCLICM :: "riscvHart \<Rightarrow> bool" where
  "useCLICM riscv \<longleftrightarrow> RD_CSR_FIELD_MODE riscv RISCV_MODE_M csr_mtvec tvec_MODE AND riscv_int_CLIC \<noteq> 0"

definition useCLICS :: "riscvHart \<Rightarrow> bool" where
  "useCLICS riscv \<longleftrightarrow>
    (if mtvecDeterminesCLICMode riscv
     then RD_CSR_FIELD_MODE riscv RISCV_MODE_M csr_mtvec tvec_MODE AND riscv_int_CLIC \<noteq> 0
     else RD_CSR_FIELD_MODE riscv RISCV_MODE_S csr_stvec tvec_MODE AND riscv_int_CLIC \<noteq> 0)"

definition useCLICU :: "riscvHart \<Rightarrow> bool" where
  "useCLICU riscv \<longleftrightarrow>
    (if mtvecDeterminesCLICMode riscv
     then RD_CSR_FIELD_MODE riscv RISCV_MODE_M csr_mtvec tvec_MODE AND riscv_int_CLIC \<noteq> 0
     else RD_CSR_FIELD_MODE riscv RISCV_MODE_U csr_utvec tvec_MODE AND riscv_int_CLIC \<noteq> 0)"

definition useCLICVS :: "riscvHart \<Rightarrow> bool" where
  "useCLICVS riscv \<longleftrightarrow> False"

definition useCLICVU :: "riscvHart \<Rightarrow> bool" where
  "useCLICVU riscv \<longleftrightarrow> False"

definition Smaia :: "riscvHart \<Rightarrow> bool" where
  "Smaia riscv \<longleftrightarrow> cfg_Smaia (configInfo riscv)"

definition getEffectiveMvien :: "riscvHart \<Rightarrow> Uns64" where
  "getEffectiveMvien riscv = RD_CSR64 riscv csr_mvien AND NOT (RD_CSR64 riscv csr_mideleg)"

definition getEffectiveHvien :: "riscvHart \<Rightarrow> Uns64" where
  "getEffectiveHvien riscv =
    (let hideleg = RD_CSR64 riscv csr_hideleg AND RD_CSR64 riscv csr_mideleg
     in RD_CSR64 riscv csr_hvien AND NOT hideleg)"

definition stimecmpEnabled :: "riscvHart \<Rightarrow> bool" where
  "stimecmpEnabled riscv \<longleftrightarrow> RD_CSR_FIELDC riscv csr_menvcfg envcfg_STCE \<noteq> 0"

definition vstimecmpEnabled :: "riscvHart \<Rightarrow> bool" where
  "vstimecmpEnabled riscv \<longleftrightarrow> stimecmpEnabled riscv \<and> RD_CSR_FIELDC riscv csr_henvcfg envcfg_STCE \<noteq> 0"

definition userIntPresent :: "riscvHart \<Rightarrow> bool" where
  "userIntPresent riscv \<longleftrightarrow> cfg_arch (configInfo riscv) AND ISA_N \<noteq> 0"

section \<open>Field laws\<close>

lemma bit_rd_field [bit_rules]: "bit (rd_field f r) n \<longleftrightarrow> n < snd f \<and> bit r (fst f + n)"
  by (simp add: rd_field_def bit_take_bit_iff bit_drop_bit_eq)

lemma bit_wr_field [bit_rules]:
  "bit (wr_field f v r) n \<longleftrightarrow> n < 64 \<and> (if fst f \<le> n \<and> n < fst f + snd f then bit v (n - fst f) else bit r n)"
  by (auto simp: wr_field_def bit_or_iff bit_and_iff bit_not_iff bit_push_bit_iff bit_take_bit_iff bit_mask_iff
      dest: bit_imp_le_length)

text \<open>A field reads back what was written to it, cut to its width; other fields keep their value.\<close>

lemma rd_wr_field_same [simp]: "fst f + snd f \<le> 64 \<Longrightarrow> rd_field f (wr_field f v r) = take_bit (snd f) v"
  by (rule bit_word_eqI) (auto simp: bit_rd_field bit_wr_field bit_take_bit_iff)

lemma rd_wr_field_other [simp]:
  "fst f + snd f \<le> fst g \<or> fst g + snd g \<le> fst f \<Longrightarrow> rd_field f (wr_field g v r) = rd_field f r"
  by (rule bit_word_eqI) (auto simp: bit_rd_field bit_wr_field dest: bit_imp_le_length)

lemma take_bit_rd_field [simp]: "snd f \<le> n \<Longrightarrow> take_bit n (rd_field f r) = rd_field f r"
  by (rule bit_word_eqI) (auto simp: bit_rd_field bit_take_bit_iff)

lemmas csr_access = RD_CSR64_def RD_CSRC_def WR_CSR64_def WR_CSR32_def RD_CSR_FIELDC_def RD_CSR_FIELD64_def
  WR_CSR_FIELDC_def WR_CSR_FIELD64_def RD_CSR_MODE_def WR_CSR_MODE_def RD_CSR_FIELD_MODE_def WR_CSR_FIELD_MODE_def
  RD_CSR_MASK64_def

end
