(* ===== verification/RV_CLIC.thy ===== *)
theory RV_CLIC
  imports RV_Hart
begin

text \<open>
  Core-local interrupt controller, \<^verbatim>\<open>riscvCLIC.c\<close>, first part: the control fields of an
  interrupt, its target mode and the selection of the interrupt that is presented. The registers
  that one cluster root holds for all its harts (\<open>clicinfo\<close>, \<open>cliccfg\<close> and the configuration) are
  fields of the state of the hart.
\<close>

section \<open>Control fields\<close>

definition getCLICInterruptField :: "riscvHart \<Rightarrow> nat \<Rightarrow> CLICIntFieldType \<Rightarrow> Uns8" where
  "getCLICInterruptField hart intIndex type = (intState (clic hart) ! intIndex) type"

definition setCLICInterruptField :: "nat \<Rightarrow> CLICIntFieldType \<Rightarrow> Uns8 \<Rightarrow> riscvHart \<Rightarrow> riscvHart" where
  "setCLICInterruptField intIndex type newValue hart =
    hart\<lparr>clic := (clic hart)\<lparr>intState := (intState (clic hart))
      [intIndex := (intState (clic hart) ! intIndex)(type := newValue)]\<rparr>\<rparr>"

text \<open>Fields of \<open>clicintattr\<close>.\<close>

definition attr_shv :: "Uns8 \<Rightarrow> bool" where "attr_shv a \<longleftrightarrow> bit a 0"
definition attr_trig :: "Uns8 \<Rightarrow> Uns8" where "attr_trig a = take_bit 2 (drop_bit 1 a)"
definition attr_mode :: "Uns8 \<Rightarrow> Uns8" where "attr_mode a = drop_bit 6 a"

definition getCLICInterruptAttr :: "riscvHart \<Rightarrow> nat \<Rightarrow> Uns8" where
  "getCLICInterruptAttr hart intIndex = getCLICInterruptField hart intIndex CIT_clicintattr"

definition isCLICInterruptEdge :: "riscvHart \<Rightarrow> nat \<Rightarrow> bool" where
  "isCLICInterruptEdge hart intIndex \<longleftrightarrow> attr_trig (getCLICInterruptAttr hart intIndex) AND 1 \<noteq> 0"

definition isCLICInterruptActiveLow :: "riscvHart \<Rightarrow> nat \<Rightarrow> bool" where
  "isCLICInterruptActiveLow hart intIndex \<longleftrightarrow> attr_trig (getCLICInterruptAttr hart intIndex) AND 2 \<noteq> 0"

definition getCLICInterruptPending :: "riscvHart \<Rightarrow> nat \<Rightarrow> bool" where
  "getCLICInterruptPending hart intIndex =
    (let IP = (getCLICInterruptField hart intIndex CIT_clicintip \<noteq> 0)
     in if \<not> isCLICInterruptEdge hart intIndex
        then let wordIndex = intIndex div 64; m = push_bit (intIndex mod 64) 1;
                 externalIP = (ipWords hart ! wordIndex AND m \<noteq> 0)
             in IP \<or> externalIP
        else IP)"

definition setCLICInterruptPending :: "nat \<Rightarrow> bool \<Rightarrow> bool \<Rightarrow> riscvHart \<Rightarrow> riscvHart" where
  "setCLICInterruptPending intIndex newValue mayPendAny hart =
    (if mayPendAny \<or> isCLICInterruptEdge hart intIndex
     then setCLICInterruptField intIndex CIT_clicintip (of_bool newValue) hart else hart)"

definition getCLICInterruptEnable :: "riscvHart \<Rightarrow> nat \<Rightarrow> bool" where
  "getCLICInterruptEnable hart intIndex \<longleftrightarrow> getCLICInterruptField hart intIndex CIT_clicintie \<noteq> 0"

definition setCLICInterruptEnable :: "nat \<Rightarrow> bool \<Rightarrow> riscvHart \<Rightarrow> riscvHart" where
  "setCLICInterruptEnable intIndex newValue hart = setCLICInterruptField intIndex CIT_clicintie (of_bool newValue) hart"

definition getCLICPendingEnable :: "riscvHart \<Rightarrow> nat \<Rightarrow> bool" where
  "getCLICPendingEnable hart intIndex \<longleftrightarrow> ipe (clic hart) ! (intIndex div 64) AND push_bit (intIndex mod 64) 1 \<noteq> 0"

definition getCLICIntCtl1Bits :: "riscvHart \<Rightarrow> Uns32" where
  "getCLICIntCtl1Bits hart = push_bit (8 - CLICINTCTLBITS (clic hart)) 1 - 1"

section \<open>Target mode\<close>

definition modeOfCode :: "Uns8 \<Rightarrow> riscvMode" where
  "modeOfCode c =
    (if c = 0 then RISCV_MODE_U else if c = 1 then RISCV_MODE_S else if c = 2 then RISCV_MODE_H
     else if c = 3 then RISCV_MODE_M else if c = 4 then RISCV_MODE_VU else if c = 5 then RISCV_MODE_VS else RISCV_MODE_LAST)"

definition getCLICInterruptMode :: "riscvHart \<Rightarrow> nat \<Rightarrow> riscvMode" where
  "getCLICInterruptMode hart intIndex =
    (let am = attr_mode (getCLICInterruptAttr hart intIndex); nm = nmbits (clic hart)
     in if nm = 0 then RISCV_MODE_M
        else if CLICCFGMBITS (configInfo hart) = 1 then (if am AND 2 \<noteq> 0 then RISCV_MODE_M else RISCV_MODE_U)
        else modeOfCode (am OR of_bool (nm = 1)))"

section \<open>Selection\<close>

text \<open>The scan of one word of pending and enabled interrupts; the accumulator is the highest rank
  so far, its interrupt and its mode.\<close>

definition clic_rank :: "riscvHart \<Rightarrow> nat \<Rightarrow> Uns32" where
  "clic_rank hart intIndex =
    push_bit 8 (riscvMode_code (getCLICInterruptMode hart intIndex)) OR ucast (getCLICInterruptField hart intIndex CIT_clicintctl)"

function clic_word_loop ::
  "riscvHart \<Rightarrow> nat \<Rightarrow> Uns64 \<Rightarrow> nat \<Rightarrow> Uns32 \<times> int \<times> riscvMode \<Rightarrow> Uns32 \<times> int \<times> riscvMode" where
  "clic_word_loop hart wordIndex pendingEnabled i acc =
    (if pendingEnabled = 0 then acc
     else clic_word_loop hart wordIndex (drop_bit 1 pendingEnabled) (i + 1)
       (if bit pendingEnabled 0
        then let intIndex = wordIndex * 64 + i;
                 mode = getCLICInterruptMode hart intIndex;
                 rank = clic_rank hart intIndex;
                 (maxRank, _) = acc
             in if maxRank \<le> rank then (rank, int intIndex, mode) else acc
        else acc))"
  by pat_completeness auto
termination
proof (relation "measure (\<lambda>(hart, wordIndex, pendingEnabled, i, acc). unat pendingEnabled)")
  fix hart :: riscvHart and wordIndex i :: nat and pendingEnabled :: Uns64 and acc acc' :: "Uns32 \<times> int \<times> riscvMode"
  assume "pendingEnabled \<noteq> 0"
  then have "unat (drop_bit 1 pendingEnabled) < unat pendingEnabled"
    by (simp add: drop_bit_eq_div unat_div unat_gt_0)
  then show "((hart, wordIndex, drop_bit 1 pendingEnabled, i + 1, acc'), hart, wordIndex, pendingEnabled, i, acc)
      \<in> measure (\<lambda>(hart, wordIndex, pendingEnabled, i, acc). unat pendingEnabled)"
    by simp
qed simp

declare clic_word_loop.simps [simp del]

definition riscvRefreshPendingAndEnabledInternalCLIC :: "riscvHart \<Rightarrow> riscvHart" where
  "riscvRefreshPendingAndEnabledInternalCLIC hart =
    (let (maxRank, sid, priv) =
           fold (\<lambda>wordIndex acc. clic_word_loop hart wordIndex (ipe (clic hart) ! wordIndex) 0 acc)
             [0..<length (ipe (clic hart))] (0, RV_NO_INT, RISCV_MODE_U);
         sel = (if sid = RV_NO_INT
                then \<lparr>sel_priv = RISCV_MODE_U, sel_id = sid, sel_level = 0, sel_shv = False\<rparr>
                else let attr = getCLICInterruptAttr hart (nat sid);
                         ctl = getCLICInterruptField hart (nat sid) CIT_clicintctl;
                         nl = nlbits (clic hart) priv;
                         nlbitsMask = NOT (push_bit (8 - nl) 1 - 1) :: Uns8;
                         level = (ctl AND nlbitsMask) OR NOT nlbitsMask
                     in \<lparr>sel_priv = priv, sel_id = sid, sel_level = level, sel_shv = attr_shv attr\<rparr>)
     in hart\<lparr>clic := (clic hart)\<lparr>clicsel := sel\<rparr>\<rparr>)"

end
