(* ===== verification/RV_Int.thy ===== *)
theory RV_Int
  imports RV_CLIC
begin

text \<open>
  Interrupt selection, \<^verbatim>\<open>riscvExceptions.c\<close>: the pending-and-enabled interrupts of each target
  mode, their priorities with and without the Advanced Interrupt Architecture, the selection of
  the interrupt to take, the registers \<open>mtopi\<close>, \<open>stopi\<close> and \<open>vstopi\<close>, the presentation of CLIC
  interrupts, the conditions of Debug mode and NMI, wake-up from WFI, and the update of \<open>mip\<close>.
  Exception numbers and priorities are integers, as the enumerations of the source.
\<close>

section \<open>Exception numbers and priorities\<close>

abbreviation riscv_E_Interrupt :: int where "riscv_E_Interrupt \<equiv> 0x40"
abbreviation riscv_E_Local :: nat where "riscv_E_Local \<equiv> 16"

definition intToException :: "int \<Rightarrow> int" where "intToException intIndex = intIndex + riscv_E_Interrupt"
definition exceptionToInt :: "int \<Rightarrow> int" where "exceptionToInt exception = exception - riscv_E_Interrupt"
definition isInterrupt :: "int \<Rightarrow> bool" where "isInterrupt exception \<longleftrightarrow> exception \<ge> riscv_E_Interrupt"
definition getExceptionCode :: "int \<Rightarrow> int" where
  "getExceptionCode exception = (if isInterrupt exception then exceptionToInt exception else exception)"

text \<open>Interrupt numbers of \<^verbatim>\<open>riscvExceptionTypes.h\<close>.\<close>

abbreviation SSW :: nat where "SSW \<equiv> 1"
abbreviation VSSW :: nat where "VSSW \<equiv> 2"
abbreviation STimer :: nat where "STimer \<equiv> 5"
abbreviation VSTimer :: nat where "VSTimer \<equiv> 6"
abbreviation SExternal :: nat where "SExternal \<equiv> 9"
abbreviation VSExternal :: nat where "VSExternal \<equiv> 10"
abbreviation MExternal :: nat where "MExternal \<equiv> 11"
abbreviation SGEI :: nat where "SGEI \<equiv> 12"

abbreviation riscv_E_MinPriority :: int where "riscv_E_MinPriority \<equiv> -120"
abbreviation riscv_E_SExternalPriority :: int where "riscv_E_SExternalPriority \<equiv> 100"
abbreviation riscv_E_MExternalPriority :: int where "riscv_E_MExternalPriority \<equiv> 130"
abbreviation riscv_E_LocalPriority :: int where "riscv_E_LocalPriority \<equiv> 260"

text \<open>\<open>RV_NO_PRI\<close>: \<open>1ULL << 63\<close> as a signed 64-bit value.\<close>

abbreviation RV_NO_PRI :: int where "RV_NO_PRI \<equiv> - (2 ^ 63)"

definition intPri :: "nat \<Rightarrow> int" where
  "intPri n =
    (case map_of
       [(4, 10), (0, 20), (8, 30), (STimer, 80), (SSW, 90), (SExternal, 100), (VSTimer, 40), (VSSW, 50),
        (VSExternal, 60), (7, 110), (3, 120), (MExternal, 130), (SGEI, 70),
        (16, -110), (17, -80), (18, -50), (19, -20), (20, 150), (21, 180), (22, 210), (23, 240),
        (32, -120), (33, -100), (34, -90), (35, -70), (36, -60), (37, -40), (38, -30), (39, -10),
        (40, 140), (41, 160), (42, 170), (43, 190), (44, 200), (45, 220), (46, 230), (47, 250)] n of
       None \<Rightarrow> 0
     | Some p \<Rightarrow> p)"

section \<open>Pending and locally enabled interrupts\<close>

definition getIE :: "riscvHart \<Rightarrow> bool \<Rightarrow> riscvMode \<Rightarrow> bool \<Rightarrow> bool" where
  "getIE riscv IE modeIE useCLIC =
    (let curPri = the (mode5Priority (getCurrentMode5 riscv));
         IEPri = the (mode5Priority modeIE)
     in if useCLIC then False
        else if curPri < IEPri then True
        else if curPri > IEPri then False
        else IE)"

definition WM64_hvip :: Uns64 where "WM64_hvip = 0x444"

definition relocateVStoS :: "Uns64 \<Rightarrow> Uns64" where
  "relocateVStoS ip =
    (let ip = ip AND NOT (drop_bit 1 WM64_hvip);
         ip = ip OR drop_bit 1 (ip AND WM64_hvip)
     in ip AND NOT WM64_hvip)"

definition getPendingEnabledMIP :: "riscvHart \<Rightarrow> Uns64" where
  "getPendingEnabledMIP riscv = RD_CSR64 riscv csr_mie AND RD_CSR64 riscv csr_mip AND NOT (disableMask riscv)"

definition getPendingEnabledMVIP :: "riscvHart \<Rightarrow> Uns64" where
  "getPendingEnabledMVIP riscv =
    (let mvien = getEffectiveMvien riscv in RD_CSR64 riscv csr_mvip AND svie riscv AND mvien)"

definition getPendingEnabledVirtualHS :: "riscvHart \<Rightarrow> Uns64" where
  "getPendingEnabledVirtualHS riscv =
    (let mvip = getPendingEnabledMVIP riscv in mvip AND NOT (RD_CSR64 riscv csr_hideleg))"

definition getPendingEnabledVirtualVS :: "riscvHart \<Rightarrow> Uns64" where
  "getPendingEnabledVirtualVS riscv =
    (let mvip = getPendingEnabledMVIP riscv;
         hvien = getEffectiveHvien riscv;
         mvipVS = mvip AND RD_CSR64 riscv csr_hideleg AND NOT hvien;
         hvipVS = RD_CSR64 riscv csr_hvip AND RD_CSR64 riscv csr_vsie AND hvien
     in mvipVS OR hvipVS)"

text \<open>The result is whether something is pending and enabled, and the interrupts per target mode.\<close>

definition getPendingLocallyEnabledBasic :: "riscvExtCB \<Rightarrow> riscvHart \<Rightarrow> bool \<times> riscvBasicIntState" where
  "getPendingLocallyEnabledBasic cbs riscv =
    (let st = \<lparr>int_ip = \<lambda>_. 0, int_hvictl = False\<rparr>;
         ip = getPendingEnabledMIP riscv;
         st = (if ip \<noteq> 0
               then let mideleg = RD_CSR64 riscv csr_mideleg;
                        sideleg = RD_CSR64 riscv csr_sideleg AND mideleg;
                        hideleg = RD_CSR64 riscv csr_hideleg AND mideleg
                    in st\<lparr>int_ip := (int_ip st)
                         (RISCV_MODE_M := ip AND NOT mideleg,
                          RISCV_MODE_S := ip AND (mideleg AND NOT (hideleg OR sideleg)),
                          RISCV_MODE_U := ip AND sideleg,
                          RISCV_MODE_VS := relocateVStoS (ip AND hideleg))\<rparr>
               else st);
         (ip, st) =
           (if Smaia riscv
            then let st = st\<lparr>int_ip := (int_ip st)(RISCV_MODE_S := int_ip st RISCV_MODE_S OR getPendingEnabledVirtualHS riscv)\<rparr>;
                     ip = ip OR int_ip st RISCV_MODE_S;
                     st = st\<lparr>int_ip := (int_ip st)(RISCV_MODE_VS := int_ip st RISCV_MODE_VS OR getPendingEnabledVirtualVS riscv)\<rparr>;
                     ip = ip OR int_ip st RISCV_MODE_VS;
                     IID = RD_CSR_FIELDC riscv csr_hvictl hvictl_IID;
                     VTI = RD_CSR_FIELDC riscv csr_hvictl hvictl_VTI;
                     st = st\<lparr>int_hvictl := VTI \<noteq> 0 \<and> IID \<noteq> of_nat SExternal\<rparr>
                 in (ip OR of_bool (int_hvictl st), st)
            else (ip, st));
         (ip, st) = fold (\<lambda>cb (ip, st). cb riscv ip st) (cb_customIAssign cbs) (ip, st)
     in (ip \<noteq> 0, st))"

definition getPendingLocallyEnabledCLIC :: "riscvHart \<Rightarrow> bool" where
  "getPendingLocallyEnabledCLIC riscv \<longleftrightarrow> nv_enableCLIC (netValue riscv) \<and> sel_id (clicsel (clic riscv)) \<noteq> RV_NO_INT"

section \<open>Priorities\<close>

definition getMIPRIORaw :: "riscvHart \<Rightarrow> nat \<Rightarrow> Uns16" where
  "getMIPRIORaw riscv n = (if n \<noteq> MExternal then ucast (miprio (aia riscv) ! n) else meiprio (aia riscv))"

definition getSIPRIORaw :: "riscvHart \<Rightarrow> nat \<Rightarrow> Uns16" where
  "getSIPRIORaw riscv n = (if n \<noteq> SExternal then ucast (siprio (aia riscv) ! n) else seiprio (aia riscv))"

definition getVSIPRIORaw :: "riscvHart \<Rightarrow> nat \<Rightarrow> Uns16" where
  "getVSIPRIORaw riscv n = ucast (vsiprio (aia riscv) ! n)"

definition xiprioInvert :: "Uns16 \<Rightarrow> Uns16" where "xiprioInvert xiprio = 0xffff - xiprio"

text \<open>The union \<open>fullPri\<close>: the major priority in the upper 32 bits, the inverted minor priority in
  bits 16 to 31 and the tie-break in the lowest 16 bits.\<close>

definition getIntPriBasicID :: "int \<Rightarrow> Uns16 \<Rightarrow> int \<Rightarrow> int" where
  "getIntPriBasicID basePri xiprio major =
    (let tiebreak = basePri - riscv_E_MinPriority
     in signed_take_bit 31 major * 2 ^ 32 + uint (xiprioInvert xiprio) * 2 ^ 16 + take_bit 16 tiebreak)"

definition fullPri_minor :: "int \<Rightarrow> Uns16" where "fullPri_minor full = word_of_int (drop_bit 16 full)"
definition fullPri_tiebreak :: "int \<Rightarrow> int" where "fullPri_tiebreak full = signed_take_bit 15 full"

definition getDefaultPriBasic :: "riscvExtCB \<Rightarrow> riscvHart \<Rightarrow> nat \<Rightarrow> int" where
  "getDefaultPriBasic cbs riscv n =
    (let result = fold (\<lambda>cb result. if result = 0 then cb riscv n else result) (cb_getInterruptPri cbs) 0
     in if result \<noteq> 0 then result
        else if \<not> Smaia riscv \<and> n \<ge> riscv_E_Local then riscv_E_LocalPriority + int n - int riscv_E_Local
        else if n < 64 then intPri n
        else riscv_E_LocalPriority + int n - int riscv_E_Local)"

definition getIntPriBasic :: "riscvExtCB \<Rightarrow> riscvHart \<Rightarrow> riscvMode \<Rightarrow> nat \<Rightarrow> int" where
  "getIntPriBasic cbs riscv priv n =
    (let result = getDefaultPriBasic cbs riscv n
     in if Smaia riscv
        then let (major, xiprio) =
                   (if priv = RISCV_MODE_M then (riscv_E_MExternalPriority, getMIPRIORaw riscv n)
                    else if priv = RISCV_MODE_S then (riscv_E_SExternalPriority, getSIPRIORaw riscv n)
                    else (riscv_E_SExternalPriority, getVSIPRIORaw riscv n))
             in getIntPriBasicID result xiprio (if xiprio \<noteq> 0 then major else result)
        else result)"

section \<open>Selection of the highest priority\<close>

definition noInt :: riscvPendEnab where
  "noInt = \<lparr>pe_priv = RISCV_MODE_U, pe_id = RV_NO_INT, pe_level = 0, pe_isCLIC = False\<rparr>"

text \<open>The loop shifts the mask of candidates; \<open>n\<close> is the identifier of its lowest bit.\<close>

function basic_mode_loop ::
  "riscvExtCB \<Rightarrow> riscvHart \<Rightarrow> riscvMode \<Rightarrow> Uns64 \<Rightarrow> nat \<Rightarrow> int \<Rightarrow> riscvPendEnab \<Rightarrow> int \<times> riscvPendEnab" where
  "basic_mode_loop cbs riscv priv ip n selIntPri result =
    (if ip = 0 then (selIntPri, result)
     else let (selIntPri, result) =
                (if bit ip 0
                 then let tryIntPri = getIntPriBasic cbs riscv priv n
                      in if selIntPri \<le> tryIntPri
                         then (tryIntPri, \<lparr>pe_priv = priv, pe_id = int n, pe_level = 0, pe_isCLIC = False\<rparr>)
                         else (selIntPri, result)
                 else (selIntPri, result))
          in basic_mode_loop cbs riscv priv (drop_bit 1 ip) (n + 1) selIntPri result)"
  by pat_completeness auto
termination
proof (relation "measure (\<lambda>(cbs, riscv, priv, ip, n, selIntPri, result). unat ip)")
  show "wf (measure (\<lambda>(cbs :: riscvExtCB, riscv :: riscvHart, priv :: riscvMode, ip :: Uns64, n :: nat,
      selIntPri :: int, result :: riscvPendEnab). unat ip))"
    by simp
next
  fix ip :: Uns64 and cbs :: riscvExtCB and riscv :: riscvHart and priv :: riscvMode and n :: nat
    and selIntPri selIntPri' :: int and result result' :: riscvPendEnab and x :: "int \<times> riscvPendEnab"
  assume "ip \<noteq> 0"
  then have "unat (drop_bit 1 ip) < unat ip"
    by (simp add: drop_bit_eq_div unat_div unat_gt_0)
  then show "((cbs, riscv, priv, drop_bit 1 ip, n + 1, selIntPri', result'), cbs, riscv, priv, ip, n, selIntPri, result)
      \<in> measure (\<lambda>(cbs, riscv, priv, ip, n, selIntPri, result). unat ip)"
    by simp
qed

declare basic_mode_loop.simps [simp del]

definition getHighestPriorityBasicMode ::
  "riscvExtCB \<Rightarrow> riscvHart \<Rightarrow> riscvBasicIntState \<Rightarrow> riscvMode \<Rightarrow> riscvPendEnab \<Rightarrow> int \<times> riscvPendEnab" where
  "getHighestPriorityBasicMode cbs riscv st priv result =
    (let (selIntPri, result) = basic_mode_loop cbs riscv priv (int_ip st priv) 0 RV_NO_PRI result
     in (if selIntPri \<noteq> RV_NO_PRI then selIntPri else 0, result))"

definition getHighestPriorityBasicVSInt ::
  "riscvExtCB \<Rightarrow> riscvHart \<Rightarrow> riscvBasicIntState \<Rightarrow> riscvPendEnab \<Rightarrow> int \<times> riscvPendEnab" where
  "getHighestPriorityBasicVSInt cbs riscv st result =
    (let seiMask = push_bit SExternal 1; seiDefPri = riscv_E_SExternalPriority;
         VGEIN = RD_CSR_FIELDC riscv csr_hstatus hstatus_VGEIN;
         IID = unat (RD_CSR_FIELDC riscv csr_hvictl hvictl_IID);
         IPRIO = ucast (RD_CSR_FIELDC riscv csr_hvictl hvictl_IPRIO) :: Uns16;
         try123 = \<lparr>pe_priv = RISCV_MODE_VS, pe_id = int SExternal, pe_level = 0, pe_isCLIC = False\<rparr>;
         pri123 = (if int_ip st RISCV_MODE_VS AND seiMask \<noteq> 0
                   then let vsiprio = (if VGEIN = 0 then 256
                                       else if vseiprio (aia riscv) \<noteq> 0 then vseiprio (aia riscv)
                                       else if IID \<noteq> SExternal \<and> IPRIO \<noteq> 0 then IPRIO
                                       else 256)
                        in getIntPriBasicID seiDefPri vsiprio seiDefPri
                   else 0);
         (pri45, result) =
           (if RD_CSR_FIELDC riscv csr_hvictl hvictl_VTI = 0
            then getHighestPriorityBasicMode cbs riscv
                   (st\<lparr>int_ip := (int_ip st)(RISCV_MODE_VS := int_ip st RISCV_MODE_VS AND NOT seiMask)\<rparr>) RISCV_MODE_VS result
            else if IID \<noteq> SExternal
            then let adjust = (if RD_CSR_FIELDC riscv csr_hvictl hvictl_DPR \<noteq> 0 then -1 else 1)
                 in (getIntPriBasicID (seiDefPri + adjust) IPRIO seiDefPri,
                     result\<lparr>pe_priv := RISCV_MODE_VS, pe_id := int IID\<rparr>)
            else (0, result))
     in if pri123 \<noteq> 0 \<and> (pri45 = 0 \<or> pri123 > pri45) then (pri123, try123) else (pri45, result))"

definition getHighestPriorityBasicVS ::
  "riscvExtCB \<Rightarrow> riscvHart \<Rightarrow> riscvBasicIntState \<Rightarrow> riscvPendEnab \<Rightarrow> int \<times> riscvPendEnab" where
  "getHighestPriorityBasicVS cbs riscv st result =
    (if \<not> Smaia riscv then getHighestPriorityBasicMode cbs riscv st RISCV_MODE_VS result
     else if inVMode riscv then getHighestPriorityBasicVSInt cbs riscv st result
     else (0, result))"

definition getHighestPriorityBasic :: "riscvExtCB \<Rightarrow> riscvHart \<Rightarrow> riscvBasicIntState \<Rightarrow> riscvPendEnab \<Rightarrow> riscvPendEnab" where
  "getHighestPriorityBasic cbs riscv st result =
    (let (pri, result) = getHighestPriorityBasicMode cbs riscv st RISCV_MODE_M result in
     if pri \<noteq> 0 then result else
     let (pri, result) = getHighestPriorityBasicMode cbs riscv st RISCV_MODE_S result in
     if pri \<noteq> 0 then result else
     let (pri, result) = getHighestPriorityBasicMode cbs riscv st RISCV_MODE_U result in
     if pri \<noteq> 0 then result else
     let (pri, result) = getHighestPriorityBasicVS cbs riscv st result in
     if pri \<noteq> 0 then result else
     let (pri, result) = getHighestPriorityBasicMode cbs riscv st RISCV_MODE_VU result in result)"

section \<open>The registers of the highest priority interrupt\<close>

definition getXTOPIInt :: "riscvExtCB \<Rightarrow> riscvHart \<Rightarrow> riscvMode \<Rightarrow> int \<Rightarrow> bool \<Rightarrow> Uns32" where
  "getXTOPIInt cbs riscv mode xeiPri ipriom =
    (let (_, st) = getPendingLocallyEnabledBasic cbs riscv;
         (pri, hpInt) = (if mode = RISCV_MODE_VS then getHighestPriorityBasicVSInt cbs riscv st noInt
                            else getHighestPriorityBasicMode cbs riscv st mode noInt)
     in if pri \<noteq> 0
        then let xiprio = xiprioInvert (fullPri_minor pri);
                 defPri = fullPri_tiebreak pri + riscv_E_MinPriority;
                 xiprio = (if xiprio > 255 \<or> (xiprio = 0 \<and> defPri < xeiPri) then 255 else xiprio)
             in push_bit 16 (take_bit 12 (of_int (pe_id hpInt))) OR take_bit 8 (if ipriom then ucast xiprio else 1)
        else 0)"

definition riscvGetMTOPI :: "riscvExtCB \<Rightarrow> riscvHart \<Rightarrow> Uns32" where
  "riscvGetMTOPI cbs riscv = getXTOPIInt cbs riscv RISCV_MODE_M riscv_E_MExternalPriority True"

definition riscvGetSTOPI :: "riscvExtCB \<Rightarrow> riscvHart \<Rightarrow> Uns32" where
  "riscvGetSTOPI cbs riscv = getXTOPIInt cbs riscv RISCV_MODE_S riscv_E_SExternalPriority True"

definition riscvGetVSTOPI :: "riscvExtCB \<Rightarrow> riscvHart \<Rightarrow> Uns32" where
  "riscvGetVSTOPI cbs riscv =
    (let ipriom = RD_CSR_FIELDC riscv csr_hvictl hvictl_IPRIOM \<noteq> 0
     in getXTOPIInt cbs riscv RISCV_MODE_VS riscv_E_SExternalPriority ipriom)"

section \<open>Refresh of the pending and enabled interrupt\<close>

definition refreshPendingAndEnabledBasic :: "riscvExtCB \<Rightarrow> riscvHart \<Rightarrow> riscvHart" where
  "refreshPendingAndEnabledBasic cbs riscv =
    (let (some, st) = getPendingLocallyEnabledBasic cbs riscv
     in if some
        then let MIE = RD_CSR_FIELDC riscv csr_mstatus status_MIE \<noteq> 0;
                 HSIE = RD_CSR_FIELDC riscv csr_mstatus status_SIE \<noteq> 0;
                 HUIE = RD_CSR_FIELDC riscv csr_mstatus status_UIE \<noteq> 0;
                 VSIE = RD_CSR_FIELDC riscv csr_vsstatus status_SIE \<noteq> 0;
                 VUIE = RD_CSR_FIELDC riscv csr_vsstatus status_UIE \<noteq> 0;
                 ie = (\<lambda>_. False)
                   (RISCV_MODE_M := getIE riscv MIE RISCV_MODE_M (useCLICM riscv),
                    RISCV_MODE_S := getIE riscv HSIE RISCV_MODE_S (useCLICS riscv),
                    RISCV_MODE_U := getIE riscv HUIE RISCV_MODE_U (useCLICU riscv),
                    RISCV_MODE_VS := getIE riscv VSIE RISCV_MODE_VS (useCLICVS riscv),
                    RISCV_MODE_VU := getIE riscv VUIE RISCV_MODE_VU (useCLICVU riscv));
                 st = st\<lparr>int_ip := \<lambda>m. if ie m then int_ip st m else 0, int_hvictl := ie RISCV_MODE_VS \<and> int_hvictl st\<rparr>;
                 pendingEnabled = (int_hvictl st \<or>
                   list_ex (\<lambda>m. int_ip st m \<noteq> 0)
                     [RISCV_MODE_U, RISCV_MODE_S, RISCV_MODE_H, RISCV_MODE_M, RISCV_MODE_VU, RISCV_MODE_VS])
             in if pendingEnabled then riscv\<lparr>pendEnab := getHighestPriorityBasic cbs riscv st (pendEnab riscv)\<rparr> else riscv
        else riscv)"

text \<open>\<open>PRESENT_INT_CLIC\<close>: is a CLIC interrupt of target mode \<open>X\<close> and level \<open>level\<close> presented to the
  execution mode \<open>mode\<close>?\<close>

definition PRESENT_INT_CLIC ::
  "riscvHart \<Rightarrow> bool \<Rightarrow> csrField \<Rightarrow> riscvMode \<Rightarrow> csrField \<Rightarrow> csrId \<Rightarrow> Uns8 \<Rightarrow> riscvMode \<Rightarrow> bool" where
  "PRESENT_INT_CLIC hart useCLIC xIE X xil xintthresh level mode \<longleftrightarrow>
    useCLIC \<and> RD_CSR_FIELDC hart csr_mstatus xIE \<noteq> 0 \<and>
    (riscvMode_code mode < riscvMode_code X \<or>
     (ucast level > RD_CSR_FIELDC hart csr_mintstatus xil \<and> ucast level > RD_CSR_FIELDC hart xintthresh intthresh_th))"

text \<open>The code aborts the simulation if the presented interrupt has a privilege that is none of the
  three modes; here it is not presented then.\<close>

definition refreshPendingAndEnabledCLIC :: "riscvHart \<Rightarrow> riscvHart" where
  "refreshPendingAndEnabledCLIC hart =
    (let hart = (if CLICInternal hart then riscvRefreshPendingAndEnabledInternalCLIC hart else hart)
     in if getPendingLocallyEnabledCLIC hart
        then let sel = clicsel (clic hart); priv = sel_priv sel; level = sel_level sel;
                 mode = getCurrentMode3 hart;
                 enable =
                   (if riscvMode_code (pe_priv (pendEnab hart)) > riscvMode_code priv then False
                    else if riscvMode_code mode > riscvMode_code priv then False
                    else if priv = RISCV_MODE_M
                    then PRESENT_INT_CLIC hart (useCLICM hart) status_MIE RISCV_MODE_M intstatus_mil csr_mintthresh level mode
                    else if priv = RISCV_MODE_S
                    then PRESENT_INT_CLIC hart (useCLICS hart) status_SIE RISCV_MODE_S intstatus_sil csr_sintthresh level mode
                    else if priv = RISCV_MODE_U
                    then PRESENT_INT_CLIC hart (useCLICU hart) status_UIE RISCV_MODE_U intstatus_uil csr_uintthresh level mode
                    else False)
             in if enable
                then hart\<lparr>pendEnab := \<lparr>pe_priv = priv, pe_id = sel_id sel, pe_level = level, pe_isCLIC = True\<rparr>\<rparr>
                else hart
        else hart)"

definition riscvRefreshPendingAndEnabled :: "riscvExtCB \<Rightarrow> riscvHart \<Rightarrow> riscvHart" where
  "riscvRefreshPendingAndEnabled cbs riscv =
    (let riscv = riscv\<lparr>pendEnab := noInt\<rparr>;
         riscv = (if basicICPresent riscv then refreshPendingAndEnabledBasic cbs riscv else riscv)
     in if CLICPresent riscv then refreshPendingAndEnabledCLIC riscv else riscv)"

section \<open>Debug requests, NMI and wake-up\<close>

definition interruptStepDisable :: "riscvHart \<Rightarrow> bool" where
  "interruptStepDisable riscv \<longleftrightarrow>
    RD_CSR_FIELDC riscv csr_dcsr dcsr_step \<noteq> 0 \<and> RD_CSR_FIELDC riscv csr_dcsr dcsr_stepie = 0"

definition getPendingAndEnabledResethaltreq :: "riscvHart \<Rightarrow> bool" where
  "getPendingAndEnabledResethaltreq riscv \<longleftrightarrow> nv_resethaltreqS (netValue riscv) \<and> \<not> nv_deferint (netValue riscv)"

definition getPendingAndEnabledHaltreq :: "riscvHart \<Rightarrow> bool" where
  "getPendingAndEnabledHaltreq riscv \<longleftrightarrow>
    nv_haltreq (netValue riscv) \<and> \<not> inDebugMode riscv \<and> \<not> nv_deferint (netValue riscv)"

definition getPendingAndEnabledNMI :: "riscvHart \<Rightarrow> bool" where
  "getPendingAndEnabledNMI riscv \<longleftrightarrow>
    RD_CSR_FIELDC riscv csr_dcsr dcsr_nmip \<noteq> 0 \<and> \<not> inDebugMode riscv \<and>
    RD_CSR_FIELDC riscv csr_mnstatus mnstatus_NMIE \<noteq> 0 \<and> \<not> nv_deferint (netValue riscv)"

definition getPendingAndEnabled :: "riscvHart \<Rightarrow> bool" where
  "getPendingAndEnabled riscv \<longleftrightarrow>
    pe_id (pendEnab riscv) \<noteq> RV_NO_INT \<and> \<not> inDebugMode riscv \<and> \<not> interruptStepDisable riscv \<and>
    RD_CSR_FIELDC riscv csr_mnstatus mnstatus_NMIE \<noteq> 0 \<and> \<not> nv_deferint (netValue riscv)"

definition riscvPendingAndEnabled :: "riscvHart \<Rightarrow> bool" where
  "riscvPendingAndEnabled riscv \<longleftrightarrow>
    getPendingAndEnabledResethaltreq riscv \<or> getPendingAndEnabledHaltreq riscv \<or>
    getPendingAndEnabledNMI riscv \<or> getPendingAndEnabled riscv"

abbreviation RVD_WFI :: Uns32 where "RVD_WFI \<equiv> 0x01"
abbreviation RVD_RESTART_WFI :: Uns32 where "RVD_RESTART_WFI \<equiv> 0x39"
abbreviation RVD_RESTART_NMI :: Uns32 where "RVD_RESTART_NMI \<equiv> 0x79"

definition refreshInWFI :: "riscvHart \<Rightarrow> riscvHart" where
  "refreshInWFI riscv =
    (let wfi = (disableReasons riscv AND RVD_WFI \<noteq> 0)
     in if inWFI riscv \<noteq> wfi then writeNet (wfiHandle riscv) (of_bool wfi) (riscv\<lparr>inWFI := wfi\<rparr>) else riscv)"

definition notifyHaltRestart :: "riscvExtCB \<Rightarrow> riscvHart \<Rightarrow> riscvHart" where
  "notifyHaltRestart cbs riscv = fold (\<lambda>cb riscv. cb riscv) (cb_haltRestartNotifier cbs) (refreshInWFI riscv)"

definition riscvHalt :: "riscvExtCB \<Rightarrow> Uns32 \<Rightarrow> riscvHart \<Rightarrow> riscvHart" where
  "riscvHalt cbs reason riscv =
    (let disabled = disableReasons riscv \<noteq> 0;
         riscv = riscv\<lparr>disableReasons := disableReasons riscv OR reason\<rparr>
     in if \<not> disabled then notifyHaltRestart cbs (emit vmirtHalt riscv) else riscv)"

definition riscvBlock :: "riscvExtCB \<Rightarrow> Uns32 \<Rightarrow> riscvHart \<Rightarrow> riscvHart" where
  "riscvBlock cbs reason riscv =
    (let disabled = disableReasons riscv \<noteq> 0;
         riscv = riscv\<lparr>disableReasons := disableReasons riscv OR reason\<rparr>
     in if \<not> disabled then notifyHaltRestart cbs (emit vmirtBlock riscv) else riscv)"

definition riscvRestart :: "riscvExtCB \<Rightarrow> Uns32 \<Rightarrow> riscvHart \<Rightarrow> riscvHart" where
  "riscvRestart cbs reason riscv =
    (let riscv = riscv\<lparr>disableReasons := disableReasons riscv AND NOT reason\<rparr>
     in if disableReasons riscv = 0 then notifyHaltRestart cbs (emit vmirtRestartNext riscv) else riscv)"

definition handlePendingAndEnabled :: "riscvExtCB \<Rightarrow> riscvHart \<Rightarrow> bool \<times> riscvHart" where
  "handlePendingAndEnabled cbs riscv =
    (let interruptNow = riscvPendingAndEnabled riscv
     in (interruptNow,
         if interruptNow then emit vmirtDoSynchronousInterrupt (riscvRestart cbs RVD_RESTART_NMI riscv) else riscv))"

definition riscvResumeFromWFI :: "riscvExtCB \<Rightarrow> riscvHart \<Rightarrow> bool" where
  "riscvResumeFromWFI cbs riscv \<longleftrightarrow>
    nv_restartwfi (netValue riscv) \<or> fst (getPendingLocallyEnabledBasic cbs riscv) \<or> getPendingLocallyEnabledCLIC riscv \<or>
    inDebugMode riscv \<or> RD_CSR_FIELDC riscv csr_dcsr dcsr_step \<noteq> 0"

definition riscvTestInterrupt :: "riscvExtCB \<Rightarrow> riscvHart \<Rightarrow> riscvHart" where
  "riscvTestInterrupt cbs riscv =
    (let riscv = riscvRefreshPendingAndEnabled cbs riscv;
         (now, riscv) = handlePendingAndEnabled cbs riscv
     in if now then riscv
        else if disableReasons riscv AND NOT RVD_RESTART_WFI \<noteq> 0 then riscv
        else if disableReasons riscv \<noteq> 0 \<and> riscvResumeFromWFI cbs riscv then riscvRestart cbs RVD_RESTART_WFI riscv
        else riscv)"

section \<open>Update of the pending interrupts\<close>

definition getGuestEIP :: "riscvHart \<Rightarrow> Uns32" where
  "getGuestEIP riscv =
    (let m = push_bit (unat (RD_CSR_FIELDC riscv csr_hstatus hstatus_VGEIN)) (1 :: Uns64);
         selectSGEI = (RD_CSR_MODE riscv RISCV_MODE_S csr_hgeip AND RD_CSR_MODE riscv RISCV_MODE_S csr_hgeie \<noteq> 0);
         selectVSEI = (RD_CSR_MODE riscv RISCV_MODE_S csr_hgeip AND m \<noteq> 0)
     in (if selectSGEI then push_bit SGEI 1 else 0) OR (if selectVSEI then push_bit VSExternal 1 else 0))"

definition WM64_mip_mvip :: Uns64 where "WM64_mip_mvip = 0x222"

definition riscvUpdatePending :: "riscvExtCB \<Rightarrow> riscvHart \<Rightarrow> riscvHart" where
  "riscvUpdatePending cbs riscv =
    (let swi = swip riscv AND NOT (WM64_mip_mvip AND RD_CSR64 riscv csr_mvien);
         swi = (if stimecmpEnabled riscv
                then let swi = swi AND NOT (push_bit STimer 1);
                         swi = (if stimecmpf riscv then swi OR push_bit STimer 1 else swi)
                     in if vstimecmpf riscv \<and> vstimecmpEnabled riscv then swi OR push_bit VSTimer 1 else swi
                else swi);
         riscv = WR_CSR64 csr_mip (ipWords riscv ! 0 OR swi OR ucast (getGuestEIP riscv)) riscv
     in riscvTestInterrupt cbs riscv)"

definition riscvUpdateInterruptDisable :: "riscvExtCB \<Rightarrow> Uns64 \<Rightarrow> riscvHart \<Rightarrow> riscvHart" where
  "riscvUpdateInterruptDisable cbs newMask riscv =
    (let oldMask = disableMask riscv; riscv = riscv\<lparr>disableMask := newMask\<rparr>
     in if oldMask AND NOT newMask \<noteq> 0 then riscvTestInterrupt cbs riscv else riscv)"

end
