(* ===== verification/RV_Scan.thy ===== *)
theory RV_Scan
  imports RV_Prelude
begin

text \<open>
  Scans of the set bits of a mask that keep the candidate of the highest priority, the later one
  among equals: the form of the loops that select interrupts. A scan selects the best candidate.
\<close>

definition bits_of :: "Uns64 \<Rightarrow> nat list" where
  "bits_of w = filter (bit w) [0..<64]"

lemma set_bits_of [simp]: "set (bits_of w) = {k. bit w k}"
  by (auto simp: bits_of_def dest: bit_imp_le_length)

lemma word_nonzero_bit: "w \<noteq> 0 \<longleftrightarrow> (\<exists>k. bit w k)" for w :: "'a :: len word"
proof
  assume "w \<noteq> 0"
  show "\<exists>k. bit w k"
  proof (rule ccontr)
    assume "\<nexists>k. bit w k"
    then have "w = 0" by (intro bit_word_eqI) simp
    with \<open>w \<noteq> 0\<close> show False by contradiction
  qed
qed auto

lemma sorted_bits_of: "sorted_wrt (<) (bits_of w)"
  by (simp add: bits_of_def sorted_wrt_filter)

lemma bits_of_0 [simp]: "bits_of 0 = []"
  by (simp add: bits_of_def)

lemma bits_of_eq_Nil [simp]: "bits_of w = [] \<longleftrightarrow> w = 0"
proof
  assume "bits_of w = []"
  then have "{k. bit w k} = {}" by (simp flip: set_bits_of)
  then show "w = 0" by (intro bit_word_eqI) simp
qed simp

lemma bits_of_step: "bits_of w = (if bit w 0 then [0] else []) @ map Suc (bits_of (drop_bit 1 w))"
proof -
  have up: "[0..<64] = 0 # map Suc [0..<63]" and up': "[0..<64] = [0..<63] @ [63::nat]"
    by (simp_all add: upt_conv_Cons flip: map_Suc_upt)
  have "bits_of w = (if bit w 0 then [0] else []) @ map Suc (filter (\<lambda>k. bit w (Suc k)) [0..<63])"
    unfolding bits_of_def up by (simp add: filter_map o_def)
  moreover have "bits_of (drop_bit 1 w) = filter (\<lambda>k. bit w (Suc k)) [0..<63]"
    unfolding bits_of_def up' by (auto simp: bit_drop_bit_eq o_def cong: filter_cong dest: bit_imp_le_length)
  ultimately show ?thesis by simp
qed

definition scan_step :: "('a \<Rightarrow> 'p :: linorder) \<Rightarrow> ('a \<Rightarrow> 'b) \<Rightarrow> 'a \<Rightarrow> 'p \<times> 'b \<Rightarrow> 'p \<times> 'b" where
  "scan_step pri f k acc = (if fst acc \<le> pri k then (pri k, f k) else acc)"

lemma scan_step_pair [simp]: "scan_step pri f k (s, r) = (if s \<le> pri k then (pri k, f k) else (s, r))"
  by (simp add: scan_step_def)

text \<open>\<open>k\<close> is the best of the candidates \<open>C\<close>: of the highest priority, and the largest among equals.\<close>

definition best_of :: "('a :: linorder \<Rightarrow> 'p :: linorder) \<Rightarrow> ('a \<Rightarrow> bool) \<Rightarrow> 'a \<Rightarrow> bool" where
  "best_of pri C k \<longleftrightarrow> C k \<and> (\<forall>j. C j \<longrightarrow> pri j < pri k \<or> (pri j = pri k \<and> j \<le> k))"

lemma best_of_unique: "best_of pri C k \<Longrightarrow> best_of pri C j \<Longrightarrow> k = j"
  by (fastforce simp: best_of_def)

lemma scan_selects:
  assumes "sorted_wrt (<) ks"
  shows "(fold (scan_step pri f) ks (s, r) = (s, r) \<and> (\<forall>k\<in>set ks. pri k < s)) \<or>
         (\<exists>k. best_of pri (\<lambda>k. k \<in> set ks) k \<and> s \<le> pri k \<and> fold (scan_step pri f) ks (s, r) = (pri k, f k))"
  using assms
proof (induction ks rule: rev_induct)
  case (snoc x xs)
  let ?r = "fold (scan_step pri f) xs (s, r)"
  from snoc.prems have sorted: "sorted_wrt (<) xs" and less: "\<And>k. k \<in> set xs \<Longrightarrow> k < x"
    by (auto simp: sorted_wrt_append)
  from snoc.IH [OF sorted] consider
      (none) "?r = (s, r)" "\<forall>k\<in>set xs. pri k < s"
    | (some) k where "best_of pri (\<lambda>k. k \<in> set xs) k" "s \<le> pri k" "?r = (pri k, f k)" by blast
  then show ?case
  proof cases
    case none
    show ?thesis
    proof (cases "s \<le> pri x")
      case True
      then have "best_of pri (\<lambda>k. k \<in> set (xs @ [x])) x"
        using none(2) by (auto simp: best_of_def)
      moreover have "fold (scan_step pri f) (xs @ [x]) (s, r) = (pri x, f x)"
        using none(1) True by simp
      ultimately show ?thesis using True by blast
    next
      case False
      then show ?thesis using none by auto
    qed
  next
    case some
    show ?thesis
    proof (cases "pri k \<le> pri x")
      case True
      then have "best_of pri (\<lambda>k. k \<in> set (xs @ [x])) x"
        using some(1) less unfolding best_of_def
        by (metis in_set_conv_decomp less_imp_le order.strict_trans1 order_le_less set_ConsD Un_iff set_append empty_iff list.set(1))
      moreover have "fold (scan_step pri f) (xs @ [x]) (s, r) = (pri x, f x)"
        using some(3) True by simp
      ultimately show ?thesis using order.trans [OF some(2) True] by blast
    next
      case False
      then have "best_of pri (\<lambda>k. k \<in> set (xs @ [x])) k"
        using some(1) by (auto simp: best_of_def)
      moreover have "fold (scan_step pri f) (xs @ [x]) (s, r) = (pri k, f k)"
        using some(3) False by simp
      ultimately show ?thesis using some(2) by blast
    qed
  qed
qed simp

text \<open>A scan that starts below all priorities selects the best candidate when there is one.\<close>

lemma scan_selects_best:
  assumes "sorted_wrt (<) ks" and "\<And>k. k \<in> set ks \<Longrightarrow> s \<le> pri k" and "ks \<noteq> []"
  shows "\<exists>k. best_of pri (\<lambda>k. k \<in> set ks) k \<and> fold (scan_step pri f) ks (s, r) = (pri k, f k)"
  using scan_selects [OF assms(1), of pri f s r] assms(2,3)
  by (metis leD list.set_sel(1))

end
