(* ===== verification/RV_Int_Select.thy ===== *)
theory RV_Int_Select
  imports RV_Int RV_Scan
begin

text \<open>
  Correctness of the interrupt selection: which interrupt is taken when the Advanced Interrupt
  Architecture and the CLIC are absent, and how the priority words of the Advanced Interrupt
  Architecture order the interrupts.
\<close>

section \<open>The scan of one target mode\<close>

definition mkInt :: "riscvMode \<Rightarrow> nat \<Rightarrow> riscvPendEnab" where
  "mkInt priv n = \<lparr>pe_priv = priv, pe_id = int n, pe_level = 0, pe_isCLIC = False\<rparr>"

lemma basic_mode_loop_fold:
  "basic_mode_loop cbs riscv priv w n s r =
    fold (scan_step (getIntPriBasic cbs riscv priv) (mkInt priv)) (map ((+) n) (bits_of w)) (s, r)"
proof (induction cbs riscv priv w n s r rule: basic_mode_loop.induct)
  case (1 cbs riscv priv w n s r)
  let ?step = "scan_step (getIntPriBasic cbs riscv priv) (mkInt priv)"
  show ?case
  proof (cases "w = 0")
    case True
    then show ?thesis by (simp add: basic_mode_loop.simps)
  next
    case False
    have rest: "map ((+) n) (map Suc (bits_of (drop_bit 1 w))) = map ((+) (n + 1)) (bits_of (drop_bit 1 w))"
      by simp
    obtain s' r' where acc: "(if bit w 0 then ?step n (s, r) else (s, r)) = (s', r')" by fastforce
    from False have "basic_mode_loop cbs riscv priv w n s r = basic_mode_loop cbs riscv priv (drop_bit 1 w) (n + 1) s' r'"
      using acc by (subst basic_mode_loop.simps) (auto simp: Let_def mkInt_def split: if_splits)
    also have "\<dots> = fold ?step (map ((+) (n + 1)) (bits_of (drop_bit 1 w))) (s', r')"
      by (rule 1 [OF False refl])
        (use acc in \<open>auto simp: Let_def mkInt_def split: if_splits\<close>)
    also have "\<dots> = fold ?step (map ((+) n) (bits_of w)) (s, r)"
      unfolding bits_of_step [of w] map_append rest fold_append o_apply using acc by (simp split: if_splits)
    finally show ?thesis .
  qed
qed

text \<open>The scan returns the candidate of the highest priority, and \<open>0\<close> exactly when there is none,
  provided no candidate has the priority \<open>0\<close> or \<open>RV_NO_PRI\<close>.\<close>

lemma getHighestPriorityBasicMode_none:
  "int_ip st priv = 0 \<Longrightarrow> getHighestPriorityBasicMode cbs riscv st priv r = (0, r)"
  by (simp add: getHighestPriorityBasicMode_def basic_mode_loop_fold)

lemma getHighestPriorityBasicMode_some:
  assumes "int_ip st priv \<noteq> 0" and "\<And>k. bit (int_ip st priv) k \<Longrightarrow> getIntPriBasic cbs riscv priv k > RV_NO_PRI"
  shows "\<exists>k. best_of (getIntPriBasic cbs riscv priv) (bit (int_ip st priv)) k \<and>
    getHighestPriorityBasicMode cbs riscv st priv r = (getIntPriBasic cbs riscv priv k, mkInt priv k)"
proof -
  let ?w = "int_ip st priv"
  from assms(1) have "bits_of ?w \<noteq> []" by simp
  then obtain k where k: "best_of (getIntPriBasic cbs riscv priv) (\<lambda>k. k \<in> set (bits_of ?w)) k"
    and fold: "fold (scan_step (getIntPriBasic cbs riscv priv) (mkInt priv)) (bits_of ?w) (RV_NO_PRI, r) =
      (getIntPriBasic cbs riscv priv k, mkInt priv k)"
    using scan_selects_best [OF sorted_bits_of, of ?w RV_NO_PRI "getIntPriBasic cbs riscv priv" "mkInt priv" r] assms(2)
    by (metis less_imp_le mem_Collect_eq set_bits_of)
  moreover from k have "bit ?w k" by (simp add: best_of_def)
  ultimately show ?thesis
    using assms(2) [of k] by (auto simp: getHighestPriorityBasicMode_def basic_mode_loop_fold map_idI)
qed

section \<open>Delivered interrupts\<close>

text \<open>The architecture without the Advanced Interrupt Architecture: an interrupt that is pending,
  enabled and not disabled is delivered to a target mode by the delegation registers, and has a
  number there; interrupts for VS-mode are seen at the numbers of the Supervisor interrupts.\<close>

definition active :: "riscvHart \<Rightarrow> nat \<Rightarrow> bool" where
  "active riscv i \<longleftrightarrow> bit (csr riscv csr_mip) i \<and> bit (csr riscv csr_mie) i \<and> \<not> bit (disableMask riscv) i"

fun delivered :: "riscvHart \<Rightarrow> riscvMode \<Rightarrow> nat \<Rightarrow> bool" where
  "delivered riscv RISCV_MODE_M k \<longleftrightarrow> active riscv k \<and> \<not> bit (csr riscv csr_mideleg) k"
| "delivered riscv RISCV_MODE_S k \<longleftrightarrow> active riscv k \<and> bit (csr riscv csr_mideleg) k \<and>
    \<not> bit (csr riscv csr_hideleg) k \<and> \<not> bit (csr riscv csr_sideleg) k"
| "delivered riscv RISCV_MODE_U k \<longleftrightarrow> active riscv k \<and> bit (csr riscv csr_mideleg) k \<and> bit (csr riscv csr_sideleg) k"
| "delivered riscv RISCV_MODE_VS k \<longleftrightarrow>
    (\<exists>i \<in> (if k \<in> {1, 5, 9} then {k + 1} else if k \<in> {2, 6, 10} then {} else {k}).
      active riscv i \<and> bit (csr riscv csr_mideleg) i \<and> bit (csr riscv csr_hideleg) i)"
| "delivered riscv _ k \<longleftrightarrow> False"

lemma bit_relocateVStoS:
  "bit (relocateVStoS w) k \<longleftrightarrow>
    (if k \<in> {1, 5, 9} then bit w (k + 1) else if k \<in> {2, 6, 10} then False else bit w k)"
proof -
  have eq: "WM64_hvip = push_bit 2 1 OR push_bit 6 1 OR push_bit 10 1"
    by (simp add: WM64_hvip_def)
  have hvip: "bit WM64_hvip n \<longleftrightarrow> n = 2 \<or> n = 6 \<or> n = 10" for n
    unfolding eq bit_or_iff bit_push_bit_iff by (auto simp: bit_1_iff)
  have "bit (relocateVStoS w) k \<longleftrightarrow>
    ((bit w k \<and> \<not> bit WM64_hvip (Suc k)) \<or> (bit w (Suc k) \<and> \<not> bit WM64_hvip (Suc (Suc k)) \<and> bit WM64_hvip (Suc k)))
      \<and> \<not> bit WM64_hvip k"
    by (simp add: relocateVStoS_def Let_def bit_and_iff bit_or_iff bit_not_iff bit_drop_bit_eq)
      (auto dest: bit_imp_le_length)
  then show ?thesis
    unfolding hvip by (cases "k \<in> {1, 5, 9}"; cases "k \<in> {2, 6, 10}") auto
qed

lemma active_less: "active riscv i \<Longrightarrow> i < 64"
  by (auto simp: active_def dest: bit_imp_le_length)

lemma pending_delivered:
  assumes "cb_customIAssign cbs = []" and "\<not> Smaia riscv"
  shows "\<exists>st. getPendingLocallyEnabledBasic cbs riscv = ((\<exists>i. active riscv i), st) \<and>
    (\<forall>m k. bit (int_ip st m) k \<longleftrightarrow> delivered riscv m k) \<and> \<not> int_hvictl st"
proof -
  let ?ip = "getPendingEnabledMIP riscv"
  let ?md = "RD_CSR64 riscv csr_mideleg"
  let ?hd = "RD_CSR64 riscv csr_hideleg AND ?md"
  let ?sd = "RD_CSR64 riscv csr_sideleg AND ?md"
  define f where "f = (\<lambda>_. 0 :: Uns64)(RISCV_MODE_M := ?ip AND NOT ?md, RISCV_MODE_S := ?ip AND (?md AND NOT (?hd OR ?sd)),
    RISCV_MODE_U := ?ip AND ?sd, RISCV_MODE_VS := relocateVStoS (?ip AND ?hd))"
  have bit_ip: "bit ?ip k \<longleftrightarrow> active riscv k" for k
    by (auto simp: getPendingEnabledMIP_def active_def RD_CSR64_def bit_and_iff bit_not_iff dest: bit_imp_le_length)
  have "getPendingLocallyEnabledBasic cbs riscv = (?ip \<noteq> 0, \<lparr>int_ip = if ?ip = 0 then \<lambda>_. 0 else f, int_hvictl = False\<rparr>)"
    using assms by (simp add: getPendingLocallyEnabledBasic_def f_def Let_def)
  moreover have "(if ?ip = 0 then \<lambda>_. 0 else f) = f"
    by (auto simp: f_def relocateVStoS_def Let_def)
  moreover have "?ip \<noteq> 0 \<longleftrightarrow> (\<exists>i. active riscv i)"
    unfolding word_nonzero_bit bit_ip ..
  ultimately have eq: "getPendingLocallyEnabledBasic cbs riscv = ((\<exists>i. active riscv i), \<lparr>int_ip = f, int_hvictl = False\<rparr>)"
    by simp
  have bits: "bit (f m) k \<longleftrightarrow> delivered riscv m k" for m k
    by (cases m) (auto simp: f_def bit_and_iff bit_not_iff bit_or_iff bit_relocateVStoS bit_ip RD_CSR64_def
        dest: active_less)
  show ?thesis by (simp add: eq bits)
qed

section \<open>Global enables\<close>

text \<open>The order in which target modes take precedence, and the enable bit of each.\<close>

fun precedence :: "riscvMode \<Rightarrow> nat" where
  "precedence RISCV_MODE_VU = 1"
| "precedence RISCV_MODE_VS = 2"
| "precedence RISCV_MODE_U = 3"
| "precedence RISCV_MODE_S = 4"
| "precedence RISCV_MODE_M = 5"
| "precedence _ = 0"

fun enable_bit :: "riscvHart \<Rightarrow> riscvMode \<Rightarrow> bool" where
  "enable_bit riscv RISCV_MODE_M \<longleftrightarrow> bit (csr riscv csr_mstatus) 3"
| "enable_bit riscv RISCV_MODE_S \<longleftrightarrow> bit (csr riscv csr_mstatus) 1"
| "enable_bit riscv RISCV_MODE_U \<longleftrightarrow> bit (csr riscv csr_mstatus) 0"
| "enable_bit riscv RISCV_MODE_VS \<longleftrightarrow> bit (csr riscv csr_vsstatus) 1"
| "enable_bit riscv RISCV_MODE_VU \<longleftrightarrow> bit (csr riscv csr_vsstatus) 0"
| "enable_bit riscv _ \<longleftrightarrow> False"

fun clic_mode :: "riscvHart \<Rightarrow> riscvMode \<Rightarrow> bool" where
  "clic_mode riscv RISCV_MODE_M \<longleftrightarrow> useCLICM riscv"
| "clic_mode riscv RISCV_MODE_S \<longleftrightarrow> useCLICS riscv"
| "clic_mode riscv RISCV_MODE_U \<longleftrightarrow> useCLICU riscv"
| "clic_mode riscv _ \<longleftrightarrow> False"

definition globally_enabled :: "riscvHart \<Rightarrow> riscvMode \<Rightarrow> bool" where
  "globally_enabled riscv m \<longleftrightarrow> \<not> clic_mode riscv m \<and>
    (precedence (getCurrentMode5 riscv) < precedence m \<or> (getCurrentMode5 riscv = m \<and> enable_bit riscv m))"

lemma getIE_iff:
  assumes "hartMode riscv \<noteq> RISCV_DMODE_LAST" and "m \<in> {RISCV_MODE_M, RISCV_MODE_S, RISCV_MODE_U, RISCV_MODE_VS, RISCV_MODE_VU}"
  shows "getIE riscv IE m uc \<longleftrightarrow> \<not> uc \<and>
    (precedence (getCurrentMode5 riscv) < precedence m \<or> (getCurrentMode5 riscv = m \<and> IE))"
  using assms by (cases "hartMode riscv") (auto simp: getIE_def getCurrentMode5_def)

lemma rd_field_bit: "rd_field (n, 1) w \<noteq> 0 \<longleftrightarrow> bit w n"
  unfolding word_nonzero_bit bit_rd_field by auto

section \<open>Standard priorities\<close>

text \<open>The standard interrupts from the lowest to the highest priority; local interrupts are above
  them, by number.\<close>

definition standard_order :: "nat list" where
  "standard_order = [4, 0, 8, 6, 2, 10, 12, 5, 1, 9, 7, 3, 11]"

definition arch_rank :: "nat \<Rightarrow> nat" where
  "arch_rank k = (if k < 16 then length (takeWhile ((\<noteq>) k) standard_order) else k)"

lemma standard_table:
  assumes "k < 16" and "k \<notin> {13, 14, 15}"
  shows "intPri k = 10 * (int (arch_rank k) + 1)" and "arch_rank k \<le> 12" and "standard_order ! arch_rank k = k"
proof -
  have "list_all (\<lambda>k. intPri k = 10 * (int (arch_rank k) + 1) \<and> arch_rank k \<le> 12 \<and> standard_order ! arch_rank k = k) [0..<13]"
    by code_simp
  moreover have "k < 13" using assms by simp
  ultimately show "intPri k = 10 * (int (arch_rank k) + 1)" "arch_rank k \<le> 12" "standard_order ! arch_rank k = k"
    by (auto simp: list_all_iff)
qed

lemma standard_priority:
  assumes "cb_getInterruptPri cbs = []" and "\<not> Smaia riscv" and "k \<notin> {13, 14, 15}"
  shows "getIntPriBasic cbs riscv m k = (if k < 16 then 10 * (int (arch_rank k) + 1) else 244 + int (arch_rank k))"
  using assms standard_table(1) [OF _ assms(3)]
  by (auto simp: getIntPriBasic_def getDefaultPriBasic_def arch_rank_def)

lemma standard_priority_less:
  assumes "cb_getInterruptPri cbs = []" and "\<not> Smaia riscv" and "k \<notin> {13, 14, 15}" and "j \<notin> {13, 14, 15}"
  shows "getIntPriBasic cbs riscv m k < getIntPriBasic cbs riscv m j \<longleftrightarrow> arch_rank k < arch_rank j"
  using standard_table(2) [OF _ assms(3)] standard_table(2) [OF _ assms(4)]
  unfolding standard_priority [OF assms(1-3)] standard_priority [OF assms(1,2,4)]
  by (auto simp: arch_rank_def)

lemma arch_rank_inj:
  assumes "k \<notin> {13, 14, 15}" and "j \<notin> {13, 14, 15}" and "arch_rank k = arch_rank j"
  shows "k = j"
proof -
  have "k < 16 \<longleftrightarrow> j < 16"
    using standard_table(2) [OF _ assms(1)] standard_table(2) [OF _ assms(2)] assms(3)
    by (cases "k < 16"; cases "j < 16") (auto simp: arch_rank_def)
  then show ?thesis
    using standard_table(3) [OF _ assms(1)] standard_table(3) [OF _ assms(2)] assms(3)
    by (cases "k < 16") (metis, simp add: arch_rank_def)
qed

section \<open>The selected interrupt\<close>

definition takeable :: "riscvHart \<Rightarrow> riscvMode \<Rightarrow> nat \<Rightarrow> bool" where
  "takeable riscv m k \<longleftrightarrow> delivered riscv m k \<and> globally_enabled riscv m"

lemma delivered_modes:
  "delivered riscv m k \<Longrightarrow> m \<in> {RISCV_MODE_M, RISCV_MODE_S, RISCV_MODE_U, RISCV_MODE_VS}"
  by (cases m) auto

lemma delivered_active: "delivered riscv m k \<Longrightarrow> \<exists>i. active riscv i"
  by (cases m) (auto split: if_splits)

text \<open>The chain over the target modes stops at the first mode that has a candidate.\<close>

lemma basic_chain:
  assumes "\<not> Smaia riscv" and "\<And>m k. bit (int_ip st m) k \<Longrightarrow> 0 < getIntPriBasic cbs riscv m k"
    and "bit (int_ip st m0) k0" and "\<And>m k. bit (int_ip st m) k \<Longrightarrow> m \<in> {RISCV_MODE_M, RISCV_MODE_S, RISCV_MODE_U, RISCV_MODE_VS}"
  shows "\<exists>m k. best_of (getIntPriBasic cbs riscv m) (bit (int_ip st m)) k \<and>
    getHighestPriorityBasic cbs riscv st r = mkInt m k \<and> (\<forall>m' k'. bit (int_ip st m') k' \<longrightarrow> precedence m' \<le> precedence m)"
proof -
  let ?first = "find (\<lambda>m. int_ip st m \<noteq> 0) [RISCV_MODE_M, RISCV_MODE_S, RISCV_MODE_U, RISCV_MODE_VS]"
  have some: "int_ip st m \<noteq> 0 \<Longrightarrow> \<exists>k. best_of (getIntPriBasic cbs riscv m) (bit (int_ip st m)) k \<and> getIntPriBasic cbs riscv m k \<noteq> 0 \<and>
      getHighestPriorityBasicMode cbs riscv st m r' = (getIntPriBasic cbs riscv m k, mkInt m k)" for m r'
    using getHighestPriorityBasicMode_some [where st = st and priv = m and cbs = cbs and riscv = riscv and r = r'] assms(2) [of m]
    by (force simp: best_of_def)
  note none = getHighestPriorityBasicMode_none [where st = st and cbs = cbs and riscv = riscv]
  have zero: "int_ip st m = 0 \<Longrightarrow> \<not> bit (int_ip st m) k" for m k by simp
  consider "int_ip st RISCV_MODE_M \<noteq> 0"
    | "int_ip st RISCV_MODE_M = 0" "int_ip st RISCV_MODE_S \<noteq> 0"
    | "int_ip st RISCV_MODE_M = 0" "int_ip st RISCV_MODE_S = 0" "int_ip st RISCV_MODE_U \<noteq> 0"
    | "int_ip st RISCV_MODE_M = 0" "int_ip st RISCV_MODE_S = 0" "int_ip st RISCV_MODE_U = 0" "int_ip st RISCV_MODE_VS \<noteq> 0"
    using zero [of m0 k0] assms(3) assms(4) [OF assms(3)] by blast
  then show ?thesis
  proof cases
    case 1
    with some [OF 1, of r] assms(4) show ?thesis
      by (intro exI [of _ RISCV_MODE_M]) (fastforce simp: getHighestPriorityBasic_def)
  next
    case 2
    with some [OF 2(2), of r] assms(4) show ?thesis
      by (intro exI [of _ RISCV_MODE_S]) (fastforce simp: getHighestPriorityBasic_def none)
  next
    case 3
    with some [OF 3(3), of r] assms(4) show ?thesis
      by (intro exI [of _ RISCV_MODE_U]) (fastforce simp: getHighestPriorityBasic_def none)
  next
    case 4
    with some [OF 4(4), of r] assms(1,4) show ?thesis
      by (intro exI [of _ RISCV_MODE_VS]) (fastforce simp: getHighestPriorityBasic_def getHighestPriorityBasicVS_def none)
  qed
qed

lemma refreshPendingAndEnabledBasic_selects:
  assumes "cb_customIAssign cbs = []" and "cb_getInterruptPri cbs = []" and "\<not> Smaia riscv"
    and "hartMode riscv \<noteq> RISCV_DMODE_LAST" and "\<And>m k. delivered riscv m k \<Longrightarrow> k \<notin> {13, 14, 15}"
  shows "(\<nexists>m k. takeable riscv m k) \<and> refreshPendingAndEnabledBasic cbs riscv = riscv \<or>
    (\<exists>m k. takeable riscv m k \<and> refreshPendingAndEnabledBasic cbs riscv = riscv\<lparr>pendEnab := mkInt m k\<rparr> \<and>
      (\<forall>m' k'. takeable riscv m' k' \<longrightarrow> precedence m' < precedence m \<or> (m' = m \<and> (arch_rank k' < arch_rank k \<or> k' = k))))"
proof -
  obtain st where st: "getPendingLocallyEnabledBasic cbs riscv = ((\<exists>i. active riscv i), st)"
    and bits: "\<And>m k. bit (int_ip st m) k \<longleftrightarrow> delivered riscv m k" and hv: "\<not> int_hvictl st"
    using pending_delivered [OF assms(1,3)] by blast
  show ?thesis
  proof (cases "\<exists>i. active riscv i")
    case False
    then show ?thesis using st delivered_active [of riscv] by (auto simp: refreshPendingAndEnabledBasic_def takeable_def)
  next
    case True
    let ?ie = "(\<lambda>_. False)
      (RISCV_MODE_M := getIE riscv (RD_CSR_FIELDC riscv csr_mstatus status_MIE \<noteq> 0) RISCV_MODE_M (useCLICM riscv),
       RISCV_MODE_S := getIE riscv (RD_CSR_FIELDC riscv csr_mstatus status_SIE \<noteq> 0) RISCV_MODE_S (useCLICS riscv),
       RISCV_MODE_U := getIE riscv (RD_CSR_FIELDC riscv csr_mstatus status_UIE \<noteq> 0) RISCV_MODE_U (useCLICU riscv),
       RISCV_MODE_VS := getIE riscv (RD_CSR_FIELDC riscv csr_vsstatus status_SIE \<noteq> 0) RISCV_MODE_VS (useCLICVS riscv),
       RISCV_MODE_VU := getIE riscv (RD_CSR_FIELDC riscv csr_vsstatus status_UIE \<noteq> 0) RISCV_MODE_VU (useCLICVU riscv))"
    define st' where "st' = st\<lparr>int_ip := \<lambda>m. if ?ie m then int_ip st m else 0, int_hvictl := ?ie RISCV_MODE_VS \<and> int_hvictl st\<rparr>"
    have ie: "?ie m \<longleftrightarrow> globally_enabled riscv m" if "m \<in> {RISCV_MODE_M, RISCV_MODE_S, RISCV_MODE_U, RISCV_MODE_VS}" for m
      using that getIE_iff [OF assms(4)]
      by (cases m) (simp_all add: globally_enabled_def RD_CSR_FIELDC_def rd_field_bit rd_field_bit [unfolded One_nat_def] useCLICVS_def)
    have bits': "bit (int_ip st' m) k \<longleftrightarrow> takeable riscv m k" for m k
      using bits [of m k] delivered_modes [of riscv m k] ie [of m] by (simp only: st'_def takeable_def) auto
    have any: "int_ip st' m \<noteq> 0 \<longleftrightarrow> (\<exists>k. takeable riscv m k)" for m
      unfolding word_nonzero_bit bits' ..
    have pe: "(int_hvictl st' \<or> list_ex (\<lambda>m. int_ip st' m \<noteq> 0)
        [RISCV_MODE_U, RISCV_MODE_S, RISCV_MODE_H, RISCV_MODE_M, RISCV_MODE_VU, RISCV_MODE_VS]) \<longleftrightarrow> (\<exists>m k. takeable riscv m k)"
    proof -
      have "\<not> int_hvictl st'" using hv by (simp only: st'_def) simp
      then show ?thesis
        unfolding list_ex_iff any using delivered_modes [of riscv] unfolding takeable_def by fastforce
    qed
    have eq: "refreshPendingAndEnabledBasic cbs riscv =
      (if \<exists>m k. takeable riscv m k then riscv\<lparr>pendEnab := getHighestPriorityBasic cbs riscv st' (pendEnab riscv)\<rparr> else riscv)"
      using True unfolding refreshPendingAndEnabledBasic_def st by (simp only: Let_def prod.case if_True st'_def [symmetric] pe)
    show ?thesis
    proof (cases "\<exists>m k. takeable riscv m k")
      case False
      then show ?thesis using eq by auto
    next
      case True
      then obtain m0 k0 where "bit (int_ip st' m0) k0" using bits' by blast
      note legal = assms(5)
      have pos: "0 < getIntPriBasic cbs riscv m k" if "bit (int_ip st' m) k" for m k
        using that legal [of m k] standard_priority [OF assms(2,3), of k m] unfolding bits' takeable_def by (auto split: if_splits)
      from basic_chain [where cbs = cbs and riscv = riscv and st = st' and r = "pendEnab riscv",
          OF assms(3) pos \<open>bit (int_ip st' m0) k0\<close>]
      obtain m k where mk: "best_of (getIntPriBasic cbs riscv m) (bit (int_ip st' m)) k"
        "getHighestPriorityBasic cbs riscv st' (pendEnab riscv) = mkInt m k"
        "\<And>m' k'. takeable riscv m' k' \<Longrightarrow> precedence m' \<le> precedence m"
        using delivered_modes [of riscv] unfolding bits' takeable_def by blast
      have "takeable riscv m k" using mk(1) by (simp add: best_of_def bits')
      moreover have "precedence m' < precedence m \<or> (m' = m \<and> (arch_rank k' < arch_rank k \<or> k' = k))"
        if t: "takeable riscv m' k'" for m' k'
      proof (cases "m' = m")
        case True
        then have "getIntPriBasic cbs riscv m k' < getIntPriBasic cbs riscv m k \<or> getIntPriBasic cbs riscv m k' = getIntPriBasic cbs riscv m k"
          using mk(1) t by (auto simp: best_of_def bits')
        moreover have "k \<notin> {13, 14, 15}" "k' \<notin> {13, 14, 15}"
          using legal [of m k] legal [of m k'] t \<open>takeable riscv m k\<close> True by (auto simp: takeable_def)
        ultimately have "arch_rank k' \<le> arch_rank k"
          using standard_priority_less [OF assms(2,3), of k k' m] standard_priority_less [OF assms(2,3), of k' k m] by force
        then show ?thesis
          using True arch_rank_inj \<open>k \<notin> {13, 14, 15}\<close> \<open>k' \<notin> {13, 14, 15}\<close> by (metis le_neq_implies_less)
      next
        case False
        have "m \<in> {RISCV_MODE_M, RISCV_MODE_S, RISCV_MODE_U, RISCV_MODE_VS}" "m' \<in> {RISCV_MODE_M, RISCV_MODE_S, RISCV_MODE_U, RISCV_MODE_VS}"
          using t \<open>takeable riscv m k\<close> delivered_modes by (auto simp: takeable_def)
        then show ?thesis using mk(3) [OF t] False by auto
      qed
      ultimately show ?thesis using eq True mk(2) by metis
    qed
  qed
qed

section \<open>Selection and wake-up\<close>

lemma takeable_pendEnab [simp]: "takeable (riscv\<lparr>pendEnab := p\<rparr>) m k \<longleftrightarrow> takeable riscv m k"
proof -
  have "active (riscv\<lparr>pendEnab := p\<rparr>) i \<longleftrightarrow> active riscv i" for i by (simp add: active_def)
  then have "delivered (riscv\<lparr>pendEnab := p\<rparr>) m k \<longleftrightarrow> delivered riscv m k" by (cases m) simp_all
  moreover have "enable_bit (riscv\<lparr>pendEnab := p\<rparr>) m \<longleftrightarrow> enable_bit riscv m" by (cases m) simp_all
  moreover have "clic_mode (riscv\<lparr>pendEnab := p\<rparr>) m \<longleftrightarrow> clic_mode riscv m"
    by (cases m) (simp_all add: useCLICM_def useCLICS_def useCLICU_def mtvecDeterminesCLICMode_def csr_access RISCV_XLEN_IS_32M_def)
  ultimately show ?thesis by (simp add: takeable_def globally_enabled_def getCurrentMode5_def)
qed

lemma reserved_not_delivered:
  assumes "csr riscv csr_mie AND 0xE000 = 0" and "delivered riscv m k"
  shows "k \<notin> {13, 14, 15}"
proof -
  have "\<not> bit (csr riscv csr_mie) n" if "n \<in> {13, 14, 15}" for n
  proof -
    have "\<not> bit (csr riscv csr_mie AND 0xE000) n" using assms(1) by simp
    moreover have "bit (0xE000 :: Uns64) n" using that by auto
    ultimately show ?thesis by (simp add: bit_and_iff)
  qed
  moreover have "k \<in> {13, 14, 15} \<Longrightarrow> active riscv k"
    using assms(2) by (cases m) (auto split: if_splits)
  ultimately show ?thesis unfolding active_def by blast
qed

lemma refreshPendingAndEnabledBasic_frame: "\<exists>p. refreshPendingAndEnabledBasic cbs riscv = riscv\<lparr>pendEnab := p\<rparr>"
  by (auto simp: refreshPendingAndEnabledBasic_def Let_def split: prod.split intro: exI [of _ "pendEnab riscv"])

lemma refresh_selects:
  assumes "cb_customIAssign cbs = []" and "cb_getInterruptPri cbs = []" and "\<not> Smaia riscv" and "\<not> CLICPresent riscv"
    and "hartMode riscv \<noteq> RISCV_DMODE_LAST" and "csr riscv csr_mie AND 0xE000 = 0"
  shows "(\<nexists>m k. takeable riscv m k) \<and> riscvRefreshPendingAndEnabled cbs riscv = riscv\<lparr>pendEnab := noInt\<rparr> \<or>
    (\<exists>m k. takeable riscv m k \<and> riscvRefreshPendingAndEnabled cbs riscv = riscv\<lparr>pendEnab := mkInt m k\<rparr> \<and>
      (\<forall>m' k'. takeable riscv m' k' \<longrightarrow> precedence m' < precedence m \<or> (m' = m \<and> (arch_rank k' < arch_rank k \<or> k' = k))))"
proof -
  let ?r = "riscv\<lparr>pendEnab := noInt\<rparr>"
  have "riscvRefreshPendingAndEnabled cbs riscv = refreshPendingAndEnabledBasic cbs ?r"
    using assms(4) refreshPendingAndEnabledBasic_frame [of cbs ?r]
    by (auto simp: riscvRefreshPendingAndEnabled_def basicICPresent_def CLICPresent_def Let_def)
  moreover have "\<And>m k. delivered ?r m k \<Longrightarrow> k \<notin> {13, 14, 15}"
    using reserved_not_delivered [of ?r] assms(6) by simp
  ultimately show ?thesis
    using refreshPendingAndEnabledBasic_selects [OF assms(1,2), of ?r] assms(3,5) by (simp add: Smaia_def)
qed

text \<open>C2: Without the Advanced Interrupt Architecture and the CLIC, the interrupt that the hart will
  take is pending, enabled, delegated to its target mode and not masked there, and it is the one
  of the highest precedence among all such interrupts, by target mode and then by the standard
  order; no interrupt is selected exactly when there is none.\<close>

theorem interrupt_selection:
  assumes "cb_customIAssign cbs = []" and "cb_getInterruptPri cbs = []" and "\<not> Smaia riscv" and "\<not> CLICPresent riscv"
    and "hartMode riscv \<noteq> RISCV_DMODE_LAST" and "csr riscv csr_mie AND 0xE000 = 0"
  shows "let p = pendEnab (riscvRefreshPendingAndEnabled cbs riscv) in
    if \<exists>m k. takeable riscv m k
    then \<exists>m k. p = mkInt m k \<and> takeable riscv m k \<and>
      (\<forall>m' k'. takeable riscv m' k' \<longrightarrow> precedence m' < precedence m \<or> (m' = m \<and> (arch_rank k' < arch_rank k \<or> k' = k)))
    else p = noInt"
proof (cases "\<exists>m k. takeable riscv m k")
  case True
  then obtain m k where mk: "takeable riscv m k" "riscvRefreshPendingAndEnabled cbs riscv = riscv\<lparr>pendEnab := mkInt m k\<rparr>"
    "\<forall>m' k'. takeable riscv m' k' \<longrightarrow> precedence m' < precedence m \<or> (m' = m \<and> (arch_rank k' < arch_rank k \<or> k' = k))"
    using refresh_selects [OF assms] by blast
  show ?thesis
    unfolding Let_def if_P [OF True] by (intro exI [of _ m] exI [of _ k] conjI) (use mk in simp_all)
next
  case False
  then show ?thesis using refresh_selects [OF assms] by (auto simp: Let_def)
qed

definition hart_none :: riscvHart where
  "hart_none = \<lparr>configInfo = \<lparr>cfg_arch = 0, cfg_Smaia = False, cfg_Sstc = False, CLICLEVELS = 0, externalCLIC = False,
    CLICANDBASIC = False, CLIC_version = RVCLC_0_9_20220315, CLICCFGMBITS = 0, CLICSELHVEC = False, CSIP_present = False,
    unimp_int_mask = 0, ecode_nmi = 0, priv_version = RVPV_1_12, dbg_version = RVDBG_1_0, debug_mode = RVDM_NONE,
    debug_eret_mode = RVDRM_NOP, debug_address = 0, dexc_address = 0, nmiexc_address = 0, defer_step_bug = False,
    tval_zero = False, trap_preserves_lr = False, xret_preserves_lr = False, tvt_undefined = False, tcontrol_undefined =
    False, no_hit = False, xtinst_basic = False, tval_ii_code = False, tval_zero_ebreak = False, mcontrol_maskmax = 0,
    chain_tval = 0, cfg_Zfinx = False, nmi_address = 0, rnmi_version = RNMI_NONE, nmi_is_latched = False, debug_priority =
    RVDP_H_A_S_X, no_resethaltreq = False, wfi_resume_not_trap = False, wfi_is_nop = False, TW_time_limit = 0,
    STO_time_limit = 0, unaligned = False, CLINT_address = 0, vs_status_8 = False, vs_status_9 = False, CLICCFGLBITS = 0,
    nlbits_valid = -1, local_int_num = 0, mclicbase = 0, sclicbase = 0, uclicbase = 0, posedge_0_63 = 0, poslevel_0_63 =
    0, posedge_other = False, poslevel_other = False\<rparr>, csr = \<lambda>_. 0, csrMask = \<lambda>_. -1, hartMode =
    RISCV_DMODE64_U, hartXlenMask = 0x3f, currentArch = 0, pendEnab = noInt, aia = \<lparr>miprio = [], siprio = [],
    vsiprio = [], meiprio = 0, seiprio = 0, vseiprio = 0\<rparr>, clic = \<lparr>clicsel = \<lparr>sel_priv =
    RISCV_MODE_U, sel_id = RV_NO_INT, sel_level = 0, sel_shv = False\<rparr>, intState = [], ipe = [], trigFixed = [],
    num_interrupt = 0, clicinfo_version = 0, CLICINTCTLBITS = 0, nlbits = \<lambda>_. 0, nmbits = 0\<rparr>, ipWords =
    [0], swip = 0, svie = 0, stimecmpf = False, vstimecmpf = False, disableMask = 0, exceptionMask = 0, interruptMask = 0,
    DM = False, disableReasons = 0, inWFI = False, wfiHandle = 0, netValue = \<lparr>nv_reset = False, nv_resethaltreq =
    False, nv_illegalInst = False, nv_haltreq = False, nv_stepreq = False, nv_resethaltreqS = False, nv_deferint = False,
    nv_restartwfi = False, nv_enableCLIC = False, nv_triggerAfter = 0\<rparr>, PC = 0, dsOffset = 0, jumpBase = 0, icount
    = 0, executed = 0, hartException = 0, exceptionDetail = 0, exceptionFetch = 0, extInt = \<lambda>_. 0, MIMode = 0,
    SIMode = 0, UIMode = 0, threshOnes = 0, inhv = False, isFetch = False, HLVHSV = False, atomicCode = 0, exclusiveTag =
    -1, hartGPA = 0, GVA = False, trapInst = 0, baseCycles = 0, baseInstructions = 0, stepICount = 0, DMStall = False,
    inSaveRestore = False, artifactAccess = False, hasParent = False, fpFlagsMT = 0, fpFlagsCSR = 0, SFMT = 0, SFCSR = 0,
    usingBF16 = False, dataMode = RISCV_MODE_M, dendian = False, virtDomain = \<lambda>_. 0, physDomain = \<lambda>_. 0,
    dataDomain = 0, triggers = [], checkTriggerLA = False, checkTriggerLV = False, checkTriggerS = False, checkTriggerX =
    False, triggerVA = 0, triggerLV = 0, mtimecmp = 0, mtimebase = 0, mtimeCount = None, clintPresent = False, twTimer =
    False, PTWActive = False, PTWBadAddr = False, CMO = 0, CMOBytes = 0, CMOOffset = 0, originalVA = 0, vFirstFault =
    False, irq_id_Handle = 0, irq_ack_Handle = 0, AMOActiveHandle = 0, sec_lvl_Handle = 0, DMPortHandle = 0, ssclic =
    False, suclic = False, impSCB = False, impUCB = False, vmi = []\<rparr>"

definition no_callbacks :: riscvExtCB where
  "no_callbacks = \<lparr>cb_customIAssign = [], cb_getInterruptPri = [], cb_haltRestartNotifier = [],
    cb_setDomainNotifier = [], cb_getHandlerPC = [], cb_trapPreNotifier = [], cb_trapNotifier = [],
    cb_customNMI = [], cb_rdFault = [], cb_wrFault = [], cb_rdSnap = [], cb_wrSnap = [], cb_suppressMemExcept = [], cb_ERETNotifier = []\<rparr>"

text \<open>In User mode with the Supervisor timer interrupt delegated and the Machine external and software
  interrupts pending, the Machine external interrupt is selected.\<close>

definition hart_irq :: riscvHart where
  "hart_irq = hart_none\<lparr>csr := (\<lambda>_. 0)(csr_mip := 0x828, csr_mie := 0xAAA, csr_mideleg := 0x222)\<rparr>"

theorem interrupt_selection_witness:
  "pendEnab (riscvRefreshPendingAndEnabled no_callbacks hart_irq) = mkInt RISCV_MODE_M 11 \<and>
    (\<exists>m k. mkInt RISCV_MODE_M 11 = mkInt m k \<and> takeable hart_irq m k)"
proof -
  have "takeable hart_irq RISCV_MODE_M 11" by code_simp
  moreover have "pendEnab (riscvRefreshPendingAndEnabled no_callbacks hart_irq) = mkInt RISCV_MODE_M 11" by code_simp
  ultimately show ?thesis
    using interrupt_selection [of no_callbacks hart_irq]
    by (auto simp: Let_def no_callbacks_def hart_irq_def hart_none_def Smaia_def CLICPresent_def split: if_splits)
qed








end
