(* ===== verification/RV_Int_AIA.thy ===== *)
theory RV_Int_AIA
  imports RV_Int_Select
begin

text \<open>
  The Advanced Interrupt Architecture: the priority words order interrupts by their priority
  numbers, with the default order around them, and \<open>mtopi\<close> reports the interrupt of the highest
  priority with its number.
\<close>

section \<open>The order of the priority words\<close>

text \<open>The priority number of an interrupt for a target mode, and the slot of the default order in
  which it stands: its own when the number is zero, that of the external interrupt otherwise.\<close>

definition raw_priority :: "riscvHart \<Rightarrow> riscvMode \<Rightarrow> nat \<Rightarrow> nat" where
  "raw_priority riscv m n = unat
    (if m = RISCV_MODE_M then getMIPRIORaw riscv n
     else if m = RISCV_MODE_S then getSIPRIORaw riscv n else getVSIPRIORaw riscv n)"

definition external_slot :: "riscvMode \<Rightarrow> int" where
  "external_slot m = (if m = RISCV_MODE_M then riscv_E_MExternalPriority else riscv_E_SExternalPriority)"

definition priority_slot :: "riscvHart \<Rightarrow> riscvMode \<Rightarrow> nat \<Rightarrow> int" where
  "priority_slot riscv m n = (if raw_priority riscv m n = 0 then intPri n else external_slot m)"

definition aia_lower :: "riscvHart \<Rightarrow> riscvMode \<Rightarrow> nat \<Rightarrow> nat \<Rightarrow> bool" where
  "aia_lower riscv m a b \<longleftrightarrow>
    priority_slot riscv m a < priority_slot riscv m b \<or>
    (priority_slot riscv m a = priority_slot riscv m b \<and>
     (raw_priority riscv m a > raw_priority riscv m b \<or>
      (raw_priority riscv m a = raw_priority riscv m b \<and> intPri a < intPri b)))"

lemma intPri_bounds: "-120 \<le> intPri n \<and> intPri n \<le> 250"
proof (cases "n < 64")
  case True
  have "list_all (\<lambda>n. -120 \<le> intPri n \<and> intPri n \<le> 250) [0..<64]" by code_simp
  then show ?thesis using True by (auto simp: list_all_iff)
qed (simp add: intPri_def)

lemma lex_words:
  fixes x y z x' y' z' :: int
  assumes "0 \<le> y" "y < 2 ^ 16" "0 \<le> z" "z < 2 ^ 16" "0 \<le> y'" "y' < 2 ^ 16" "0 \<le> z'" "z' < 2 ^ 16"
  shows "x * 2 ^ 32 + y * 2 ^ 16 + z < x' * 2 ^ 32 + y' * 2 ^ 16 + z' \<longleftrightarrow> x < x' \<or> (x = x' \<and> (y < y' \<or> (y = y' \<and> z < z')))"
  using assms by (cases x x' rule: linorder_cases; cases y y' rule: linorder_cases) auto

lemma getIntPriBasic_word:
  assumes "cb_getInterruptPri cbs = []" and "Smaia riscv" and "n < 64"
  shows "getIntPriBasic cbs riscv m n =
    priority_slot riscv m n * 2 ^ 32 + (65535 - int (raw_priority riscv m n)) * 2 ^ 16 + (intPri n + 120)"
proof -
  have small: "signed_take_bit 31 s = s" if "-120 \<le> s" "s \<le> 250" for s :: int
    using that by (intro signed_take_bit_int_eq_self) auto
  have tie: "take_bit 16 (intPri n + 120) = intPri n + 120"
    using intPri_bounds [of n] by (intro take_bit_int_eq_self) auto
  have inv: "uint (xiprioInvert x) = 65535 - int (unat x)" for x :: Uns16
    using unsigned_less [of x, where ?'a = int]
    by (simp add: xiprioInvert_def uint_word_ariths) (rule mod_pos_pos_trivial; use uint_ge_0 [of x] in linarith)
  have slot: "-120 \<le> priority_slot riscv m n \<and> priority_slot riscv m n \<le> 250"
    using intPri_bounds [of n] by (simp add: priority_slot_def external_slot_def)
  have "getIntPriBasic cbs riscv m n = getIntPriBasicID (intPri n)
      (if m = RISCV_MODE_M then getMIPRIORaw riscv n else if m = RISCV_MODE_S then getSIPRIORaw riscv n else getVSIPRIORaw riscv n)
      (priority_slot riscv m n)"
    using assms by (auto simp: getIntPriBasic_def getDefaultPriBasic_def Let_def priority_slot_def raw_priority_def
        external_slot_def unat_eq_0)
  then show ?thesis
    using small [of "priority_slot riscv m n"] slot tie by (simp add: getIntPriBasicID_def inv raw_priority_def)
qed

lemma raw_priority_less: "raw_priority riscv m n < 65536"
proof -
  have "unat (x :: Uns16) < 65536" for x using unsigned_less [of x, where ?'a = nat] by simp
  then show ?thesis by (simp add: raw_priority_def)
qed

text \<open>C24: With the Advanced Interrupt Architecture the composed priority words compare as the
  architecture orders interrupts: by slot in the default order, where a non-zero priority number
  puts the interrupt in the slot of the external interrupt, then by smaller priority number,
  then by the default order.\<close>

theorem aia_priority_order:
  assumes "cb_getInterruptPri cbs = []" and "Smaia riscv" and "a < 64" and "b < 64"
  shows "getIntPriBasic cbs riscv m a < getIntPriBasic cbs riscv m b \<longleftrightarrow> aia_lower riscv m a b"
  using intPri_bounds [of a] intPri_bounds [of b] raw_priority_less [of riscv m a] raw_priority_less [of riscv m b]
  unfolding getIntPriBasic_word [OF assms(1-3)] getIntPriBasic_word [OF assms(1,2,4)]
  by (subst lex_words) (auto simp: aia_lower_def)

section \<open>The register mtopi\<close>

definition hart_aia :: riscvHart where
  "hart_aia = hart_none\<lparr>configInfo := (configInfo hart_none)\<lparr>cfg_Smaia := True\<rparr>, hartMode := RISCV_DMODE64_M,
    aia := \<lparr>miprio = (replicate 64 0)[3 := 5, 7 := 4], siprio = replicate 64 0, vsiprio = replicate 64 0,
      meiprio = 7, seiprio = 0, vseiprio = 0\<rparr>,
    csr := (\<lambda>_. 0)(csr_mip := 0x888, csr_mie := 0x888)\<rparr>"

theorem aia_priority_order_witness:
  "aia_lower hart_aia RISCV_MODE_M 11 3 \<and> getIntPriBasic no_callbacks hart_aia RISCV_MODE_M 11 < getIntPriBasic no_callbacks hart_aia RISCV_MODE_M 3"
proof -
  have "aia_lower hart_aia RISCV_MODE_M 11 3" by code_simp
  then show ?thesis
    using aia_priority_order [of no_callbacks hart_aia 11 3 RISCV_MODE_M]
    by (simp add: no_callbacks_def hart_aia_def hart_none_def Smaia_def)
qed

text \<open>The priority number that the register shows: zero for an interrupt that outranks the external
  interrupt by default, and at most 255.\<close>

definition shown_priority :: "riscvHart \<Rightarrow> riscvMode \<Rightarrow> nat \<Rightarrow> nat" where
  "shown_priority riscv m n =
    (if raw_priority riscv m n = 0 then (if intPri n < external_slot m then 255 else 0)
     else min 255 (raw_priority riscv m n))"

lemma fullPri_parts:
  assumes "0 \<le> y" "y < 2 ^ 16" "0 \<le> z" "z < 2 ^ 15"
  shows "fullPri_minor (x * 2 ^ 32 + y * 2 ^ 16 + z) = word_of_int y" and "fullPri_tiebreak (x * 2 ^ 32 + y * 2 ^ 16 + z) = z"
proof -
  have "x * 2 ^ 32 + y * 2 ^ 16 + z = (x * 2 ^ 16 + y) * 2 ^ 16 + z" by (simp add: algebra_simps)
  then have "drop_bit 16 (x * 2 ^ 32 + y * 2 ^ 16 + z) = x * 2 ^ 16 + y"
    using assms by (simp add: drop_bit_eq_div div_mult_self1 [where c = "x * 2 ^ 16 + y", simplified add.commute])
  then show "fullPri_minor (x * 2 ^ 32 + y * 2 ^ 16 + z) = word_of_int y"
    unfolding fullPri_minor_def by (simp only: word_of_int_eq_iff) (simp add: take_bit_eq_mod)
  have "take_bit 16 (x * 2 ^ 32 + y * 2 ^ 16 + z) = z"
  proof -
    have "x * 2 ^ 32 + y * 2 ^ 16 + z = z + (x * 2 ^ 16 + y) * 2 ^ 16" by (simp add: algebra_simps)
    then show ?thesis using assms by (simp only: take_bit_eq_mod mod_mult_self1) simp
  qed
  then have "signed_take_bit 15 (x * 2 ^ 32 + y * 2 ^ 16 + z) = signed_take_bit 15 z"
    by (metis numeral_eq_Suc signed_take_bit_take_bit take_bit_signed_take_bit signed_take_bit_eq_iff_take_bit_eq take_bit_take_bit min.idem pred_numeral_simps(2,3) add_One BitM.simps)
  also have "\<dots> = z" using assms by (intro signed_take_bit_int_eq_self) auto
  finally show "fullPri_tiebreak (x * 2 ^ 32 + y * 2 ^ 16 + z) = z" by (simp add: fullPri_tiebreak_def)
qed

lemma pending_M_aia:
  assumes "cb_customIAssign cbs = []"
  shows "bit (int_ip (snd (getPendingLocallyEnabledBasic cbs riscv)) RISCV_MODE_M) k \<longleftrightarrow> delivered riscv RISCV_MODE_M k"
proof -
  have "int_ip (snd (getPendingLocallyEnabledBasic cbs riscv)) RISCV_MODE_M =
      getPendingEnabledMIP riscv AND NOT (RD_CSR64 riscv csr_mideleg)"
    using assms by (simp add: getPendingLocallyEnabledBasic_def Let_def)
  then show ?thesis
    by (auto simp: getPendingEnabledMIP_def active_def RD_CSR64_def bit_and_iff bit_not_iff dest: bit_imp_le_length)
qed

lemma shown_low:
  assumes "raw < 65536" and "k < 64"
  shows "(let xiprio = of_nat raw :: Uns16; xiprio = (if 255 < xiprio \<or> xiprio = 0 \<and> lower then 255 else xiprio)
    in push_bit 16 (take_bit 12 (of_int (int k))) OR take_bit 8 (ucast xiprio)) =
    push_bit 16 (of_nat k) OR (of_nat (if raw = 0 then (if lower then 255 else 0) else min 255 raw) :: Uns32)"
proof -
  have num: "take_bit 12 (of_int (int k)) = (of_nat k :: Uns32)"
    using assms(2) by (simp add: take_bit_of_nat take_bit_nat_eq_self)
  have cmp: "255 < (of_nat raw :: Uns16) \<longleftrightarrow> 255 < raw" "(of_nat raw :: Uns16) = 0 \<longleftrightarrow> raw = 0"
    using assms(1) by (simp_all add: word_less_nat_alt unat_of_nat of_nat_eq_0_iff flip: unat_eq_0)
  have pri: "take_bit 8 (ucast (of_nat raw :: Uns16) :: Uns32) = of_nat raw" if "raw \<le> 255"
    using that by (simp add: unsigned_of_nat take_bit_of_nat take_bit_nat_eq_self)
  show ?thesis unfolding Let_def num cmp using pri by (auto simp: min_def)
qed

text \<open>C25: The register mtopi reads as zero when no interrupt is pending and enabled for Machine mode,
  and otherwise gives the number of one that no other such interrupt outranks, with its priority
  number, shown as 0 or 255 where the number is zero and as 255 where it is larger.\<close>

theorem mtopi_reports_highest:
  assumes "cb_customIAssign cbs = []" and "cb_getInterruptPri cbs = []" and "Smaia riscv"
  shows "if \<exists>k. delivered riscv RISCV_MODE_M k
    then \<exists>k. delivered riscv RISCV_MODE_M k \<and>
      (\<forall>j. delivered riscv RISCV_MODE_M j \<longrightarrow> \<not> aia_lower riscv RISCV_MODE_M k j) \<and>
      riscvGetMTOPI cbs riscv = push_bit 16 (of_nat k) OR of_nat (shown_priority riscv RISCV_MODE_M k)
    else riscvGetMTOPI cbs riscv = 0"
proof -
  let ?st = "snd (getPendingLocallyEnabledBasic cbs riscv)"
  let ?pri = "getIntPriBasic cbs riscv RISCV_MODE_M"
  have less: "k < 64" if "delivered riscv RISCV_MODE_M k" for k using that active_less by auto
  have any: "int_ip ?st RISCV_MODE_M \<noteq> 0 \<longleftrightarrow> (\<exists>k. delivered riscv RISCV_MODE_M k)"
    unfolding word_nonzero_bit pending_M_aia [OF assms(1)] ..
  have mtopi: "riscvGetMTOPI cbs riscv =
      (case getHighestPriorityBasicMode cbs riscv ?st RISCV_MODE_M noInt of (pri, hpInt) \<Rightarrow>
        if pri \<noteq> 0
        then let xiprio = xiprioInvert (fullPri_minor pri); defPri = fullPri_tiebreak pri + riscv_E_MinPriority;
                 xiprio = (if xiprio > 255 \<or> (xiprio = 0 \<and> defPri < riscv_E_MExternalPriority) then 255 else xiprio)
             in push_bit 16 (take_bit 12 (of_int (pe_id hpInt))) OR take_bit 8 (ucast xiprio)
        else 0)"
    by (simp add: riscvGetMTOPI_def getXTOPIInt_def Let_def split: prod.split)
  show ?thesis
  proof (cases "\<exists>k. delivered riscv RISCV_MODE_M k")
    case False
    then have "int_ip ?st RISCV_MODE_M = 0" using any by blast
    then show ?thesis unfolding if_not_P [OF False] by (simp add: mtopi getHighestPriorityBasicMode_none)
  next
    case True
    have word: "?pri k = priority_slot riscv RISCV_MODE_M k * 2 ^ 32 +
        (65535 - int (raw_priority riscv RISCV_MODE_M k)) * 2 ^ 16 + (intPri k + 120)"
      if "delivered riscv RISCV_MODE_M k" for k
      by (rule getIntPriBasic_word [OF assms(2,3) less [OF that]])
    have slot: "-120 \<le> priority_slot riscv RISCV_MODE_M k \<and> priority_slot riscv RISCV_MODE_M k \<le> 250" for k
      using intPri_bounds [of k] by (simp add: priority_slot_def external_slot_def)
    have low: "RV_NO_PRI < ?pri k" if "delivered riscv RISCV_MODE_M k" for k
      using word [OF that] slot [of k] raw_priority_less [of riscv RISCV_MODE_M k] intPri_bounds [of k] by simp
    obtain k where best: "best_of ?pri (bit (int_ip ?st RISCV_MODE_M)) k"
      and sel: "getHighestPriorityBasicMode cbs riscv ?st RISCV_MODE_M noInt = (?pri k, mkInt RISCV_MODE_M k)"
      using getHighestPriorityBasicMode_some [where st = ?st and priv = RISCV_MODE_M and cbs = cbs and riscv = riscv and r = noInt]
        True any low unfolding pending_M_aia [OF assms(1)] by blast
    have k: "delivered riscv RISCV_MODE_M k" using best by (simp add: best_of_def pending_M_aia [OF assms(1)])
    have lower: "\<not> aia_lower riscv RISCV_MODE_M k j" if j: "delivered riscv RISCV_MODE_M j" for j
    proof
      assume "aia_lower riscv RISCV_MODE_M k j"
      then have "?pri k < ?pri j" using aia_priority_order [OF assms(2,3) less [OF k] less [OF j]] by simp
      then show False using best j by (auto simp: best_of_def pending_M_aia [OF assms(1)])
    qed
    let ?raw = "raw_priority riscv RISCV_MODE_M k"
    have raw: "?raw < 65536" by (rule raw_priority_less)
    have minor: "fullPri_minor (?pri k) = word_of_int (65535 - int ?raw)"
      unfolding word [OF k] by (rule fullPri_parts(1)) (use raw intPri_bounds [of k] in simp_all)
    have tiebreak: "fullPri_tiebreak (?pri k) = intPri k + 120"
      unfolding word [OF k] by (rule fullPri_parts(2)) (use raw intPri_bounds [of k] in simp_all)
    have inv: "xiprioInvert (word_of_int (65535 - int ?raw)) = of_nat ?raw"
      by (simp add: xiprioInvert_def)
    have "?pri k \<noteq> 0"
    proof (cases "priority_slot riscv RISCV_MODE_M k = 0")
      case True
      then have "?raw = 0" by (auto simp: priority_slot_def external_slot_def split: if_splits)
      then show ?thesis unfolding word [OF k] using True intPri_bounds [of k] by simp
    next
      case False
      then show ?thesis unfolding word [OF k] using raw intPri_bounds [of k] by (cases "priority_slot riscv RISCV_MODE_M k < 0") auto
    qed
    then have "riscvGetMTOPI cbs riscv =
        (let xiprio = of_nat ?raw :: Uns16;
             xiprio = (if 255 < xiprio \<or> xiprio = 0 \<and> intPri k + 120 + riscv_E_MinPriority < riscv_E_MExternalPriority then 255 else xiprio)
         in push_bit 16 (take_bit 12 (of_int (int k))) OR take_bit 8 (ucast xiprio))"
      unfolding mtopi sel prod.case minor tiebreak inv by (simp add: mkInt_def Let_def)
    then have "riscvGetMTOPI cbs riscv = push_bit 16 (of_nat k) OR of_nat (shown_priority riscv RISCV_MODE_M k)"
      unfolding shown_low [OF raw less [OF k]] by (simp add: shown_priority_def external_slot_def)
    then show ?thesis unfolding if_P [OF True] using k lower by blast
  qed
qed

theorem mtopi_reports_highest_witness: "riscvGetMTOPI no_callbacks hart_aia = 0x70004"
proof -
  have "if \<exists>k. delivered hart_aia RISCV_MODE_M k
    then \<exists>k. delivered hart_aia RISCV_MODE_M k \<and> (\<forall>j. delivered hart_aia RISCV_MODE_M j \<longrightarrow> \<not> aia_lower hart_aia RISCV_MODE_M k j) \<and>
      riscvGetMTOPI no_callbacks hart_aia = push_bit 16 (of_nat k) OR of_nat (shown_priority hart_aia RISCV_MODE_M k)
    else riscvGetMTOPI no_callbacks hart_aia = 0"
    by (rule mtopi_reports_highest) (simp_all add: no_callbacks_def hart_aia_def Smaia_def)
  moreover have seven: "delivered hart_aia RISCV_MODE_M 7" by code_simp
  ultimately obtain k where k: "delivered hart_aia RISCV_MODE_M k" "\<not> aia_lower hart_aia RISCV_MODE_M k 7"
    "riscvGetMTOPI no_callbacks hart_aia = push_bit 16 (of_nat k) OR of_nat (shown_priority hart_aia RISCV_MODE_M k)"
    by (auto split: if_splits)
  have "\<forall>k \<in> set [0..<64]. delivered hart_aia RISCV_MODE_M k \<longrightarrow> aia_lower hart_aia RISCV_MODE_M k 7 \<or> k = 7" by code_simp
  moreover have "k < 64" using k(1) by (auto dest: active_less)
  ultimately have "k = 7" using k(1,2) by auto
  moreover have "shown_priority hart_aia RISCV_MODE_M 7 = 4" by code_simp
  ultimately show ?thesis using k(3) by simp
qed

end
