(* ===== verification/RV_CLIC_Regs.thy ===== *)
theory RV_CLIC_Regs
  imports RV_Int
begin

text \<open>
  Core-local interrupt controller, \<^verbatim>\<open>riscvCLIC.c\<close>, second part: the registers. Writes of the control
  fields of an interrupt keep the mask \<open>ipe\<close> of the pending-and-enabled interrupts; the memory-mapped
  pages of the legacy version and of version 0.9 are decoded to abstract descriptions of field
  accesses. A cluster is the list of its harts. What the cluster root holds for all harts
  (\<open>cliccfg\<close>, \<open>clicinfo\<close>, \<open>ssclic\<close>, the base addresses) is repeated in every hart, so that an update
  of the root updates all; the root is read in the first hart.
\<close>

section \<open>Versions\<close>

definition clicinfoAbsent :: "riscvHart \<Rightarrow> bool" where
  "clicinfoAbsent riscv \<longleftrightarrow> CLIC_version (configInfo riscv) > RVCLC_0_9_20220315"

definition haveNVbits :: "riscvHart \<Rightarrow> bool" where
  "haveNVbits riscv \<longleftrightarrow> CLIC_version (configInfo riscv) \<le> RVCLC_0_9_20220315"

definition xcliccfgPerMode :: "riscvHart \<Rightarrow> bool" where
  "xcliccfgPerMode riscv \<longleftrightarrow> CLIC_version (configInfo riscv) > RVCLC_0_9_20221108"

definition mayPendLevel :: "riscvHart \<Rightarrow> bool" where
  "mayPendLevel hart \<longleftrightarrow> CLIC_version (configInfo hart) = RVCLC_0_9_20191208"

definition haveCSIP :: "riscvHart \<Rightarrow> bool" where
  "haveCSIP riscv \<longleftrightarrow> CLICPresent riscv \<and> CSIP_present (configInfo riscv)"

definition useCSIP12 :: "riscvHart \<Rightarrow> bool" where
  "useCSIP12 riscv \<longleftrightarrow> haveCSIP riscv \<and> CLIC_version (configInfo riscv) \<le> RVCLC_0_9_20220315"

abbreviation riscv_E_CSIP :: int where "riscv_E_CSIP \<equiv> 0x4C"
abbreviation riscv_E_GenericNMI :: int where "riscv_E_GenericNMI \<equiv> -1"

definition riscvHasStandardException :: "riscvHart \<Rightarrow> int \<Rightarrow> bool" where
  "riscvHasStandardException riscv code =
    (if code = riscv_E_GenericNMI then ecode_nmi (configInfo riscv) = 0
     else if code = riscv_E_CSIP \<and> useCSIP12 riscv then True
     else if \<not> isInterrupt code then bit (exceptionMask riscv) (nat code)
     else if exceptionToInt code \<ge> 64 then True
     else let m = interruptMask riscv AND NOT (unimp_int_mask (configInfo riscv)) in bit m (nat (exceptionToInt code)))"

definition riscvGetIntNum :: "riscvHart \<Rightarrow> nat" where
  "riscvGetIntNum riscv = local_int_num (configInfo riscv) + riscv_E_Local"

section \<open>Control fields with their effect on the selection\<close>

definition updateCLICInterruptField :: "riscvExtCB \<Rightarrow> nat \<Rightarrow> CLICIntFieldType \<Rightarrow> Uns8 \<Rightarrow> riscvHart \<Rightarrow> riscvHart" where
  "updateCLICInterruptField cbs intIndex type newValue hart =
    (if getCLICInterruptField hart intIndex type \<noteq> newValue
     then riscvTestInterrupt cbs (setCLICInterruptField intIndex type newValue hart)
     else hart)"

definition setIPE :: "nat \<Rightarrow> bool \<Rightarrow> riscvHart \<Rightarrow> riscvHart" where
  "setIPE intIndex newIPE hart =
    (let word = intIndex div 64; m = push_bit (intIndex mod 64) 1; old = ipe (clic hart) ! word
     in hart\<lparr>clic := (clic hart)\<lparr>ipe := (ipe (clic hart))[word := if newIPE then old OR m else old AND NOT m]\<rparr>\<rparr>)"

definition updateCLICPendingEnable :: "riscvExtCB \<Rightarrow> nat \<Rightarrow> bool \<Rightarrow> riscvHart \<Rightarrow> riscvHart" where
  "updateCLICPendingEnable cbs intIndex newIPE hart = riscvTestInterrupt cbs (setIPE intIndex newIPE hart)"

definition writeCLICInterruptPending :: "riscvExtCB \<Rightarrow> nat \<Rightarrow> Uns8 \<Rightarrow> bool \<Rightarrow> riscvHart \<Rightarrow> riscvHart" where
  "writeCLICInterruptPending cbs intIndex newValue mayPendAny hart =
    (let oldIE = getCLICInterruptEnable hart intIndex;
         newIP = bit newValue 0;
         oldIPE = getCLICPendingEnable hart intIndex;
         hart = setCLICInterruptPending intIndex newIP mayPendAny hart;
         newIPE = (oldIE \<and> newIP)
     in if oldIPE \<noteq> newIPE then updateCLICPendingEnable cbs intIndex newIPE hart else hart)"

definition writeCLICInterruptEnable :: "riscvExtCB \<Rightarrow> nat \<Rightarrow> Uns8 \<Rightarrow> riscvHart \<Rightarrow> riscvHart" where
  "writeCLICInterruptEnable cbs intIndex newValue hart =
    (let oldIP = getCLICInterruptPending hart intIndex;
         newIE = bit newValue 0;
         oldIPE = getCLICPendingEnable hart intIndex;
         hart = setCLICInterruptEnable intIndex newIE hart;
         newIPE = (oldIP \<and> newIE)
     in if oldIPE \<noteq> newIPE then updateCLICPendingEnable cbs intIndex newIPE hart else hart)"

definition mk_attr :: "bool \<Rightarrow> Uns8 \<Rightarrow> Uns8 \<Rightarrow> Uns8" where
  "mk_attr shv trig mode = of_bool shv OR push_bit 1 (take_bit 2 trig) OR push_bit 6 mode"

text \<open>The mode of a page is its encoding, as the field of the attributes.\<close>

definition writeCLICInterruptAttr :: "riscvExtCB \<Rightarrow> nat \<Rightarrow> Uns8 \<Rightarrow> riscvMode \<Rightarrow> riscvHart \<Rightarrow> riscvHart" where
  "writeCLICInterruptAttr cbs intIndex newValue pageMode hart =
    (let page = ucast (riscvMode_code pageMode) :: Uns8;
         mbits = CLICCFGMBITS (configInfo hart);
         intMode = attr_mode newValue;
         trig = (if trigFixed (clic hart) ! (intIndex div 64) AND push_bit (intIndex mod 64) 1 \<noteq> 0
                 then attr_trig (getCLICInterruptAttr hart intIndex) else attr_trig newValue);
         shv = (attr_shv newValue \<and> CLICSELHVEC (configInfo hart));
         intMode = (if intMode > page \<or> mbits = 0 \<or> intMode = 2 \<or> mbits < 2 \<and> intMode = 1 \<or>
                       intMode = 0 \<and> \<not> userIntPresent hart
                    then page else intMode)
     in updateCLICInterruptField cbs intIndex CIT_clicintattr (mk_attr shv trig intMode) hart)"

definition writeCLICInterruptCtl :: "riscvExtCB \<Rightarrow> nat \<Rightarrow> Uns8 \<Rightarrow> riscvHart \<Rightarrow> riscvHart" where
  "writeCLICInterruptCtl cbs intIndex newValue hart =
    updateCLICInterruptField cbs intIndex CIT_clicintctl (newValue OR ucast (getCLICIntCtl1Bits hart)) hart"

section \<open>Inputs and acknowledgement\<close>

definition refreshCLICIPE :: "riscvHart \<Rightarrow> riscvHart" where
  "refreshCLICIPE hart =
    fold (\<lambda>i hart. if getCLICInterruptPending hart i \<and> getCLICInterruptEnable hart i then setIPE i True hart else hart)
      [0..<num_interrupt (clic hart)]
      (hart\<lparr>clic := (clic hart)\<lparr>ipe := map (\<lambda>_. 0) (ipe (clic hart))\<rparr>\<rparr>)"

definition riscvAcknowledgeCLICInt :: "riscvExtCB \<Rightarrow> nat \<Rightarrow> riscvHart \<Rightarrow> riscvHart" where
  "riscvAcknowledgeCLICInt cbs intIndex hart =
    (if CLICInternal hart \<and> isCLICInterruptEdge hart intIndex
     then writeCLICInterruptPending cbs intIndex 0 False hart
     else riscvRefreshPendingAndEnabled cbs hart)"

definition riscvUpdateCLICInput :: "riscvExtCB \<Rightarrow> nat \<Rightarrow> bool \<Rightarrow> riscvHart \<Rightarrow> riscvHart" where
  "riscvUpdateCLICInput cbs intIndex newValue hart =
    (let isEdge = isCLICInterruptEdge hart intIndex;
         activeLow = isCLICInterruptActiveLow hart intIndex;
         newValue = (newValue \<noteq> activeLow)
     in if \<not> isEdge \<or> newValue then writeCLICInterruptPending cbs intIndex (of_bool newValue) False hart else hart)"

definition riscvUpdateInterrupt :: "riscvExtCB \<Rightarrow> nat \<Rightarrow> bool \<Rightarrow> riscvHart \<Rightarrow> riscvHart option" where
  "riscvUpdateInterrupt cbs index newValue riscv =
    (if index < riscvGetIntNum riscv
     then let off = index div 64; m = push_bit (index mod 64) 1; old = ipWords riscv ! off;
              riscv = riscv\<lparr>ipWords := (ipWords riscv)[off := if newValue then old OR m else old AND NOT m]\<rparr>;
              riscv = (if CLICInternal riscv then riscvUpdateCLICInput cbs index newValue riscv else riscv)
          in Some (if basicICPresent riscv then riscvUpdatePending cbs riscv else riscv)
     else None)"

section \<open>The configuration registers of a cluster\<close>

type_synonym clicCluster = "riscvHart list"

definition nlbitsR :: "clicCluster \<Rightarrow> riscvMode \<Rightarrow> nat" where
  "nlbitsR root mode = nlbits (clic (hd root)) mode"

definition nmbitsR :: "clicCluster \<Rightarrow> nat" where
  "nmbitsR root = nmbits (clic (hd root))"

definition set_nlbits :: "riscvMode \<Rightarrow> nat \<Rightarrow> clicCluster \<Rightarrow> clicCluster" where
  "set_nlbits mode n root = map (\<lambda>h. h\<lparr>clic := (clic h)\<lparr>nlbits := (nlbits (clic h))(mode := n)\<rparr>\<rparr>) root"

definition set_nmbits :: "nat \<Rightarrow> clicCluster \<Rightarrow> clicCluster" where
  "set_nmbits n root = map (\<lambda>h. h\<lparr>clic := (clic h)\<lparr>nmbits := n\<rparr>\<rparr>) root"

definition refreshCCLICInterruptAll :: "riscvExtCB \<Rightarrow> clicCluster \<Rightarrow> clicCluster" where
  "refreshCCLICInterruptAll cbs root = map (riscvTestInterrupt cbs) root"

definition nlbitsValid :: "clicCluster \<Rightarrow> nat \<Rightarrow> bool" where
  "nlbitsValid root n \<longleftrightarrow> nlbits_valid (configInfo (hd root)) AND push_bit n 1 \<noteq> 0"

definition nlbitsW :: "riscvMode \<Rightarrow> nat \<Rightarrow> clicCluster \<Rightarrow> bool \<times> clicCluster" where
  "nlbitsW mode n root =
    (let lbits = CLICCFGLBITS (configInfo (hd root));
         n = (if n > lbits then lbits else if \<not> nlbitsValid root n then nlbitsR root mode else n)
     in if nlbitsR root mode \<noteq> n then (True, set_nlbits mode n root) else (False, root))"

definition nmbitsW :: "nat \<Rightarrow> clicCluster \<Rightarrow> bool \<times> clicCluster" where
  "nmbitsW n root =
    (let mbits = CLICCFGMBITS (configInfo (hd root));
         n = (if n > mbits then mbits else n)
     in if nmbitsR root \<noteq> n then (True, set_nmbits n root) else (False, root))"

definition cliccfgR :: "clicCluster \<Rightarrow> riscvMode \<Rightarrow> Uns8" where
  "cliccfgR root mode =
    of_bool (haveNVbits (hd root) \<and> CLICSELHVEC (configInfo (hd root))) OR
    push_bit 1 (take_bit 4 (of_nat (nlbitsR root mode))) OR
    push_bit 5 (take_bit 2 (of_nat (if mode = RISCV_MODE_M then nmbitsR root else 0)))"

definition cliccfgW :: "riscvExtCB \<Rightarrow> Uns8 \<Rightarrow> clicCluster \<Rightarrow> clicCluster" where
  "cliccfgW cbs newValue root =
    (let (refresh, root) = nlbitsW RISCV_MODE_M (unat (take_bit 4 (drop_bit 1 newValue))) root;
         (refresh', root) = nmbitsW (unat (take_bit 2 (drop_bit 5 newValue))) root;
         refresh = (refresh' \<or> refresh);
         n = nlbitsR root RISCV_MODE_M;
         root = set_nlbits RISCV_MODE_U n root;
         root = set_nlbits RISCV_MODE_S n root
     in if refresh then refreshCCLICInterruptAll cbs root else root)"

definition mcliccfgR :: "clicCluster \<Rightarrow> Uns8" where
  "mcliccfgR root =
    take_bit 4 (of_nat (nlbitsR root RISCV_MODE_M)) OR push_bit 4 (take_bit 2 (of_nat (nmbitsR root)))"

definition mcliccfgW :: "riscvExtCB \<Rightarrow> Uns8 \<Rightarrow> clicCluster \<Rightarrow> clicCluster" where
  "mcliccfgW cbs newValue root =
    (let (refresh, root) = nlbitsW RISCV_MODE_M (unat (take_bit 4 newValue)) root;
         (refresh', root) = nmbitsW (unat (take_bit 2 (drop_bit 4 newValue))) root
     in if refresh' \<or> refresh then refreshCCLICInterruptAll cbs root else root)"

definition scliccfgR :: "clicCluster \<Rightarrow> Uns8" where
  "scliccfgR root = take_bit 4 (of_nat (nlbitsR root RISCV_MODE_S))"

definition scliccfgW :: "riscvExtCB \<Rightarrow> Uns8 \<Rightarrow> clicCluster \<Rightarrow> clicCluster" where
  "scliccfgW cbs newValue root =
    (let (refresh, root) = nlbitsW RISCV_MODE_S (unat (take_bit 4 newValue)) root
     in if refresh then refreshCCLICInterruptAll cbs root else root)"

definition ucliccfgR :: "clicCluster \<Rightarrow> Uns8" where
  "ucliccfgR root = take_bit 4 (of_nat (nlbitsR root RISCV_MODE_U))"

definition ucliccfgW :: "riscvExtCB \<Rightarrow> Uns8 \<Rightarrow> clicCluster \<Rightarrow> clicCluster" where
  "ucliccfgW cbs newValue root =
    (let (refresh, root) = nlbitsW RISCV_MODE_U (unat (take_bit 4 newValue)) root
     in if refresh then refreshCCLICInterruptAll cbs root else root)"

section \<open>Abstract field accesses\<close>

record CLICIntDesc =
  desc_hart :: int
  desc_raw :: nat
  desc_int :: nat
  desc_mode :: riscvMode
  desc_type :: CLICIntFieldType

abbreviation mode_le :: "riscvMode \<Rightarrow> riscvMode \<Rightarrow> bool" where
  "mode_le m n \<equiv> riscvMode_code m \<le> riscvMode_code n"

definition mcliccfgAccess :: "clicCluster \<Rightarrow> CLICIntDesc \<Rightarrow> bool" where
  "mcliccfgAccess root desc \<longleftrightarrow> desc_int desc = 0 \<and> mode_le RISCV_MODE_M (desc_mode desc)"

definition scliccfgAccess :: "clicCluster \<Rightarrow> CLICIntDesc \<Rightarrow> bool" where
  "scliccfgAccess root desc \<longleftrightarrow> desc_int desc = 2 \<and> mode_le RISCV_MODE_S (desc_mode desc) \<and> ssclic (hd root)"

definition ucliccfgAccess :: "clicCluster \<Rightarrow> CLICIntDesc \<Rightarrow> bool" where
  "ucliccfgAccess root desc \<longleftrightarrow> desc_int desc = 3 \<and> suclic (hd root)"

definition getCLICHart :: "clicCluster \<Rightarrow> CLICIntDesc \<Rightarrow> riscvHart" where
  "getCLICHart root desc = root ! nat (desc_hart desc)"

definition accessCLICInterrupt :: "clicCluster \<Rightarrow> CLICIntDesc \<Rightarrow> bool" where
  "accessCLICInterrupt root desc =
    (let hart = getCLICHart root desc; intIndex = desc_int desc; intCode = intToException (int intIndex)
     in if intIndex < riscv_E_Local \<and> \<not> riscvHasStandardException hart intCode then False
        else if intIndex < num_interrupt (clic (hd root))
        then mode_le (getCLICInterruptMode hart intIndex) (desc_mode desc)
        else False)"

definition getCLICInterruptValue :: "riscvHart \<Rightarrow> nat \<Rightarrow> Uns32" where
  "getCLICInterruptValue hart i =
    ucast (getCLICInterruptField hart i CIT_clicintip) OR
    push_bit 8 (ucast (getCLICInterruptField hart i CIT_clicintie)) OR
    push_bit 16 (ucast (getCLICInterruptField hart i CIT_clicintattr)) OR
    push_bit 24 (ucast (getCLICInterruptField hart i CIT_clicintctl))"

definition readCLICInterrupt :: "clicCluster \<Rightarrow> CLICIntDesc \<Rightarrow> Uns32" where
  "readCLICInterrupt root desc =
    (if accessCLICInterrupt root desc
     then let hart = getCLICHart root desc; intIndex = desc_int desc
          in if desc_type desc = CIT_clicintip then of_bool (getCLICInterruptPending hart intIndex)
             else getCLICInterruptValue hart intIndex
     else 0)"

definition writeCLICInterrupt :: "riscvExtCB \<Rightarrow> CLICIntDesc \<Rightarrow> Uns8 \<Rightarrow> clicCluster \<Rightarrow> clicCluster option" where
  "writeCLICInterrupt cbs desc newValue root =
    (if accessCLICInterrupt root desc
     then let hart = getCLICHart root desc; intIndex = desc_int desc;
              put = (\<lambda>hart. Some (root[nat (desc_hart desc) := hart]))
          in (case desc_type desc of
                CIT_clicintip \<Rightarrow> put (writeCLICInterruptPending cbs intIndex newValue (mayPendLevel hart) hart)
              | CIT_clicintie \<Rightarrow> put (writeCLICInterruptEnable cbs intIndex newValue hart)
              | CIT_clicintattr \<Rightarrow> put (writeCLICInterruptAttr cbs intIndex newValue (desc_mode desc) hart)
              | CIT_clicintctl \<Rightarrow> put (writeCLICInterruptCtl cbs intIndex newValue hart)
              | _ \<Rightarrow> None)
     else Some root)"

definition clicinfo_bits :: "clicCluster \<Rightarrow> Uns32" where
  "clicinfo_bits root =
    (let c = clic (hd root)
     in take_bit 13 (of_nat (num_interrupt c)) OR push_bit 13 (take_bit 8 (of_nat (clicinfo_version c))) OR
        push_bit 21 (take_bit 4 (of_nat (CLICINTCTLBITS c))))"

fun CLICIntFieldType_code :: "CLICIntFieldType \<Rightarrow> nat" where
  "CLICIntFieldType_code CIT_clicintip = 0"
| "CLICIntFieldType_code CIT_clicintie = 1"
| "CLICIntFieldType_code CIT_clicintattr = 2"
| "CLICIntFieldType_code CIT_clicintctl = 3"
| "CLICIntFieldType_code CIT_clicconfig = 4"
| "CLICIntFieldType_code CIT_LAST = 5"

definition readCLICInt :: "clicCluster \<Rightarrow> CLICIntDesc \<Rightarrow> Uns8" where
  "readCLICInt root desc =
    (let onecliccfg = (\<not> xcliccfgPerMode (hd root))
     in if desc_type desc \<noteq> CIT_clicconfig
        then ucast (drop_bit (CLICIntFieldType_code (desc_type desc) * 8) (readCLICInterrupt root desc))
        else if desc_int desc div 4 = 1 \<and> \<not> clicinfoAbsent (hd root)
        then ucast (drop_bit (desc_raw desc mod 4 * 8) (clicinfo_bits root))
        else if onecliccfg \<and> desc_int desc = 0 then cliccfgR root (desc_mode desc)
        else if onecliccfg then 0
        else if mcliccfgAccess root desc then mcliccfgR root
        else if scliccfgAccess root desc then scliccfgR root
        else if ucliccfgAccess root desc then ucliccfgR root
        else 0)"

definition writeCLICInt :: "riscvExtCB \<Rightarrow> CLICIntDesc \<Rightarrow> Uns8 \<Rightarrow> clicCluster \<Rightarrow> clicCluster option" where
  "writeCLICInt cbs desc newValue root =
    (let onecliccfg = (\<not> xcliccfgPerMode (hd root))
     in if desc_type desc \<noteq> CIT_clicconfig then writeCLICInterrupt cbs desc newValue root
        else if onecliccfg \<and> desc_int desc = 0 then Some (cliccfgW cbs newValue root)
        else if onecliccfg then Some root
        else if mcliccfgAccess root desc then Some (mcliccfgW cbs newValue root)
        else if scliccfgAccess root desc then Some (scliccfgW cbs newValue root)
        else if ucliccfgAccess root desc then Some (ucliccfgW cbs newValue root)
        else Some root)"

end
