(* ===== verification/RV_CLIC_Map.thy ===== *)
theory RV_CLIC_Map
  imports RV_CLIC_Regs
begin

text \<open>
  Core-local interrupt controller, \<^verbatim>\<open>riscvCLIC.c\<close>, third part: the memory maps of the legacy version
  and of version 0.9, accesses of several bytes, and construction and reset of the controller.
\<close>

section \<open>Legacy memory map\<close>

abbreviation CLIC_OLD_SIZE :: nat where "CLIC_OLD_SIZE \<equiv> 0x800000"
abbreviation CLIC_OLD_MODE_SIZE :: nat where "CLIC_OLD_MODE_SIZE \<equiv> 0x200000"
abbreviation CLIC_OLD_AP_SIZE :: nat where "CLIC_OLD_AP_SIZE \<equiv> 0x1000"
abbreviation CLIC_OLD_INDEX_SIZE :: nat where "CLIC_OLD_INDEX_SIZE \<equiv> 0x400"

definition supervisorPresent :: "riscvHart \<Rightarrow> bool" where
  "supervisorPresent riscv \<longleftrightarrow> cfg_arch (configInfo riscv) AND ISA_S \<noteq> 0"

definition getCLICOldOffset :: "clicCluster \<Rightarrow> Uns64 \<Rightarrow> nat" where
  "getCLICOldOffset root addr = unat (ucast (addr - mclicbase (configInfo (hd root))) :: Uns32)"

definition getCLICOldHart :: "nat \<Rightarrow> nat" where
  "getCLICOldHart off = off mod CLIC_OLD_MODE_SIZE div CLIC_OLD_AP_SIZE"

definition getCLICOldIntId :: "nat \<Rightarrow> nat" where
  "getCLICOldIntId off = off mod CLIC_OLD_INDEX_SIZE"

definition getCLICOldPMode :: "nat \<Rightarrow> riscvMode" where
  "getCLICOldPMode off =
    (let page = off div (CLIC_OLD_SIZE div 4)
     in if page = 0 then RISCV_MODE_M else if page = 1 then RISCV_MODE_S else if page = 2 then RISCV_MODE_S
        else RISCV_MODE_U)"

definition getCLICOldFType :: "nat \<Rightarrow> CLICIntFieldType" where
  "getCLICOldFType off =
    (let part = off mod CLIC_OLD_AP_SIZE div (CLIC_OLD_AP_SIZE div 4)
     in if part = 0 then CIT_clicintip else if part = 1 then CIT_clicintie else if part = 2 then CIT_clicintctl
        else CIT_clicconfig)"

definition fillCLICDescOld :: "nat \<Rightarrow> CLICIntDesc" where
  "fillCLICDescOld off =
    (let result = \<lparr>desc_hart = int (getCLICOldHart off), desc_raw = off, desc_int = getCLICOldIntId off,
                   desc_mode = getCLICOldPMode off, desc_type = getCLICOldFType off\<rparr>
     in if desc_type result \<noteq> CIT_clicconfig then result
        else if desc_mode result \<noteq> RISCV_MODE_M then result\<lparr>desc_type := CIT_LAST\<rparr>
        else if desc_int result \<noteq> 0 then result\<lparr>desc_type := CIT_LAST\<rparr>
        else result)"

definition maskCLICOldIntCfg :: "clicCluster \<Rightarrow> CLICIntDesc \<Rightarrow> Uns8 \<Rightarrow> Uns8" where
  "maskCLICOldIntCfg root desc clicintctl =
    (if desc_mode desc \<noteq> RISCV_MODE_M
     then let riscv = getCLICHart root desc
          in if desc_mode desc = RISCV_MODE_S \<or> \<not> supervisorPresent riscv then clicintctl AND 0x7f
             else clicintctl AND 0x3f
     else clicintctl)"

definition writeCLICOldIntAttr :: "riscvExtCB \<Rightarrow> CLICIntDesc \<Rightarrow> Uns8 \<Rightarrow> clicCluster \<Rightarrow> clicCluster option" where
  "writeCLICOldIntAttr cbs desc clicintctl root =
    (let ctlbits = CLICINTCTLBITS (clic (hd root));
         shv = ((ucast clicintctl :: Uns32) AND push_bit (8 - ctlbits) 1 \<noteq> 0);
         attr = mk_attr shv 0 (drop_bit 6 clicintctl)
     in writeCLICInt cbs (desc\<lparr>desc_type := CIT_clicintattr\<rparr>) attr root)"

text \<open>A byte of the result that the function leaves alone is \<open>None\<close>.\<close>

definition readCLICOld :: "clicCluster \<Rightarrow> Uns64 \<Rightarrow> nat \<Rightarrow> Uns8 option list" where
  "readCLICOld root address bytes =
    map (\<lambda>i. let desc = fillCLICDescOld (getCLICOldOffset root (address + of_nat i))
             in if nat (desc_hart desc) < length root
                then Some (if desc_type desc \<noteq> CIT_LAST then readCLICInt root desc else 0)
                else None) [0..<bytes]"

definition writeCLICOldByte :: "riscvExtCB \<Rightarrow> Uns64 \<Rightarrow> Uns8 \<Rightarrow> clicCluster \<Rightarrow> clicCluster option" where
  "writeCLICOldByte cbs addr byte root =
    (let desc = fillCLICDescOld (getCLICOldOffset root addr)
     in if nat (desc_hart desc) < length root \<and> desc_type desc \<noteq> CIT_LAST
        then if desc_type desc = CIT_clicintctl
             then let byte = maskCLICOldIntCfg root desc byte
                  in Option.bind (writeCLICOldIntAttr cbs desc byte root) (writeCLICInt cbs desc byte)
             else writeCLICInt cbs desc byte root
        else Some root)"

primrec writeCLICOld :: "riscvExtCB \<Rightarrow> Uns64 \<Rightarrow> Uns8 list \<Rightarrow> clicCluster \<Rightarrow> clicCluster option" where
  "writeCLICOld cbs addr [] root = Some root"
| "writeCLICOld cbs addr (b # bs) root = Option.bind (writeCLICOldByte cbs addr b root) (writeCLICOld cbs (addr + 1) bs)"

section \<open>Memory map of version 0.9\<close>

definition getNumHarts :: "clicCluster \<Rightarrow> nat" where "getNumHarts root = length root"
definition getBaseM :: "clicCluster \<Rightarrow> Uns64" where "getBaseM root = mclicbase (configInfo (hd root))"
definition getBaseS :: "clicCluster \<Rightarrow> Uns64" where "getBaseS root = sclicbase (configInfo (hd root))"
definition getBaseU :: "clicCluster \<Rightarrow> Uns64" where "getBaseU root = uclicbase (configInfo (hd root))"

definition pagesToBytes4k :: "nat \<Rightarrow> Uns32" where "pagesToBytes4k pages = of_nat (pages * 4096)"
definition get4kPage :: "nat \<Rightarrow> nat" where "get4kPage off = off div 4096"
definition getCLICWordByte :: "nat \<Rightarrow> nat" where "getCLICWordByte off = off mod 4"

definition configPagesSU :: "clicCluster \<Rightarrow> nat" where "configPagesSU root = (if xcliccfgPerMode (hd root) then 1 else 0)"
definition getSizeM :: "clicCluster \<Rightarrow> Uns32" where "getSizeM root = pagesToBytes4k (1 + getNumHarts root * 4)"
definition getSizeS :: "clicCluster \<Rightarrow> Uns32" where "getSizeS root = pagesToBytes4k (configPagesSU root + getNumHarts root * 4)"
definition getSizeU :: "clicCluster \<Rightarrow> Uns32" where "getSizeU root = pagesToBytes4k (configPagesSU root + getNumHarts root * 4)"

definition featurePresent :: "clicCluster \<Rightarrow> riscvArchitecture \<Rightarrow> bool" where
  "featurePresent root feature \<longleftrightarrow> list_ex (\<lambda>h. cfg_arch (configInfo h) AND feature \<noteq> 0) root"

fun fieldTypeOf :: "nat \<Rightarrow> CLICIntFieldType" where
  "fieldTypeOf 0 = CIT_clicintip"
| "fieldTypeOf (Suc 0) = CIT_clicintie"
| "fieldTypeOf (Suc (Suc 0)) = CIT_clicintattr"
| "fieldTypeOf _ = CIT_clicintctl"

definition fillCLICDescCtrl :: "riscvMode \<Rightarrow> nat \<Rightarrow> nat \<Rightarrow> CLICIntDesc" where
  "fillCLICDescCtrl mode rawOffset intOffset =
    \<lparr>desc_hart = -1, desc_raw = rawOffset, desc_int = intOffset mod 0x10000, desc_mode = mode, desc_type = CIT_clicconfig\<rparr>"

definition fillCLICDescInt :: "riscvMode \<Rightarrow> nat \<Rightarrow> nat \<Rightarrow> CLICIntDesc" where
  "fillCLICDescInt mode rawOffset intOffset =
    (let intPage4k = get4kPage intOffset
     in \<lparr>desc_hart = int (intPage4k div 4), desc_raw = rawOffset, desc_int = intOffset div 4 mod 4096, desc_mode = mode,
         desc_type = fieldTypeOf (getCLICWordByte intOffset)\<rparr>)"

definition getCLICDescM :: "clicCluster \<Rightarrow> Uns64 \<Rightarrow> CLICIntDesc" where
  "getCLICDescM root address =
    (let off = unat (ucast (address - getBaseM root) :: Uns32)
     in if off < 4096 then fillCLICDescCtrl RISCV_MODE_M off off else fillCLICDescInt RISCV_MODE_M off (off - 4096))"

definition CLICIntDescSU :: "clicCluster \<Rightarrow> riscvMode \<Rightarrow> nat \<Rightarrow> nat \<Rightarrow> CLICIntDesc" where
  "CLICIntDescSU root mode rawOffset intOffset =
    (if \<not> xcliccfgPerMode (hd root) then fillCLICDescInt mode rawOffset intOffset
     else if intOffset < 4096 then fillCLICDescCtrl mode rawOffset intOffset
     else fillCLICDescInt mode rawOffset (intOffset - 4096))"

definition getCLICDescS :: "clicCluster \<Rightarrow> Uns64 \<Rightarrow> CLICIntDesc" where
  "getCLICDescS root address =
    (let intOffset = unat (ucast (address - getBaseS root) :: Uns32);
         rawOffset = (if impSCB (hd root) then unat (ucast (address - getBaseM root) :: Uns32) else intOffset)
     in CLICIntDescSU root RISCV_MODE_S rawOffset intOffset)"

definition getCLICDescU :: "clicCluster \<Rightarrow> Uns64 \<Rightarrow> CLICIntDesc" where
  "getCLICDescU root address =
    (let intOffset = unat (ucast (address - getBaseU root) :: Uns32);
         rawOffset = (if impUCB (hd root) then unat (ucast (address - getBaseM root) :: Uns32) else intOffset)
     in CLICIntDescSU root RISCV_MODE_U rawOffset intOffset)"

definition readCLIC :: "(clicCluster \<Rightarrow> Uns64 \<Rightarrow> CLICIntDesc) \<Rightarrow> clicCluster \<Rightarrow> Uns64 \<Rightarrow> nat \<Rightarrow> Uns8 list" where
  "readCLIC intDescCB root address bytes = map (\<lambda>i. readCLICInt root (intDescCB root (address + of_nat i))) [0..<bytes]"

primrec writeCLIC ::
  "riscvExtCB \<Rightarrow> (clicCluster \<Rightarrow> Uns64 \<Rightarrow> CLICIntDesc) \<Rightarrow> Uns64 \<Rightarrow> Uns8 list \<Rightarrow> clicCluster \<Rightarrow> clicCluster option" where
  "writeCLIC cbs intDescCB address [] root = Some root"
| "writeCLIC cbs intDescCB address (b # bs) root =
    Option.bind (writeCLICInt cbs (intDescCB root address) b root) (writeCLIC cbs intDescCB (address + 1) bs)"

section \<open>Construction and reset\<close>

text \<open>The callbacks that a region of the memory map is connected to.\<close>

datatype clicRegion = CLICOld | CLICM | CLICS | CLICU

definition mapCLICDomainOld :: "clicCluster \<Rightarrow> (clicRegion \<times> Uns64 \<times> Uns32) list \<times> clicCluster" where
  "mapCLICDomainOld root = ([(CLICOld, getBaseM root, of_nat CLIC_OLD_SIZE)], root)"

definition mapCLICDomain_0_9 :: "clicCluster \<Rightarrow> (clicRegion \<times> Uns64 \<times> Uns32) list \<times> clicCluster" where
  "mapCLICDomain_0_9 root =
    (let baseM = getBaseM root; baseS = getBaseS root; baseU = getBaseU root;
         sizeM = getSizeM root; sizeS = getSizeS root; sizeU = getSizeU root;
         (baseS, root) =
           (if baseS = 0
            then let b = baseM + ucast sizeM
                 in (b, map (\<lambda>h. h\<lparr>impSCB := True, configInfo := (configInfo h)\<lparr>sclicbase := b\<rparr>\<rparr>) root)
            else (baseS, root));
         (baseU, root) =
           (if baseU = 0
            then let b = baseS + ucast sizeS
                 in (b, map (\<lambda>h. h\<lparr>impUCB := True, configInfo := (configInfo h)\<lparr>uclicbase := b\<rparr>\<rparr>) root)
            else (baseU, root))
     in ((CLICM, baseM, sizeM) # (if ssclic (hd root) then [(CLICS, baseS, sizeS)] else []) @
           (if suclic (hd root) then [(CLICU, baseU, sizeU)] else []), root))"

definition riscvMapCLICDomain :: "clicCluster \<Rightarrow> (clicRegion \<times> Uns64 \<times> Uns32) list \<times> clicCluster" where
  "riscvMapCLICDomain root =
    (let s = featurePresent root ISA_S; u = featurePresent root ISA_N;
         root = map (\<lambda>h. h\<lparr>ssclic := s, suclic := u\<rparr>) root
     in if CLIC_version (configInfo (hd root)) \<ge> RVCLC_0_9_20191208 then mapCLICDomain_0_9 root else mapCLICDomainOld root)"

text \<open>The initial state of the interrupts of a hart; \<open>CLICINTCTLBITS\<close> and the number of interrupts are
  set before.\<close>

definition setTrigFixed :: "nat \<Rightarrow> riscvHart \<Rightarrow> riscvHart" where
  "setTrigFixed i riscv =
    (let word = i div 64; m = push_bit (i mod 64) 1
     in riscv\<lparr>clic := (clic riscv)\<lparr>trigFixed := (trigFixed (clic riscv))[word := trigFixed (clic riscv) ! word OR m]\<rparr>\<rparr>)"

definition fillCLICInt :: "nat \<Rightarrow> riscvHart \<Rightarrow> riscvHart" where
  "fillCLICInt i riscv =
    (let word = i div 64; m = push_bit (i mod 64) (1 :: Uns64); cfg = configInfo riscv;
         edge = (if word \<noteq> 0 then posedge_other cfg else m AND posedge_0_63 cfg \<noteq> 0);
         level = (if word \<noteq> 0 then poslevel_other cfg else m AND poslevel_0_63 cfg \<noteq> 0);
         riscv = (if edge \<or> level then setTrigFixed i riscv else riscv);
         riscv = setCLICInterruptField i CIT_clicintattr (mk_attr False (of_bool edge) 3) riscv
     in setCLICInterruptField i CIT_clicintctl (ucast (getCLICIntCtl1Bits riscv)) riscv)"

definition riscvFillCLIC :: "riscvHart \<Rightarrow> riscvHart" where
  "riscvFillCLIC riscv =
    (let intNum = riscvGetIntNum riscv; words = length (ipWords riscv);
         riscv = riscv\<lparr>netValue := (netValue riscv)\<lparr>nv_enableCLIC := True\<rparr>,
                       clic := (clic riscv)\<lparr>intState := replicate intNum (\<lambda>_. 0), ipe := replicate words 0,
                                           trigFixed := replicate words 0\<rparr>\<rparr>
     in fold fillCLICInt [0..<intNum] riscv)"

text \<open>The reset of a hart that is its own cluster root. In a larger cluster the function writes the
  configuration of the hart instead of that of the root, where no other function reads it.\<close>

definition riscvResetCLIC :: "riscvExtCB \<Rightarrow> riscvHart \<Rightarrow> riscvHart" where
  "riscvResetCLIC cbs riscv =
    (if intState (clic riscv) \<noteq> []
     then let riscv = (if \<not> xcliccfgPerMode riscv then hd (cliccfgW cbs 0 [riscv])
                       else hd (ucliccfgW cbs 0 (scliccfgW cbs 0 (mcliccfgW cbs 0 [riscv]))))
          in WR_CSR32 csr_mintstatus 0 riscv
     else riscv)"

end
