(* ===== verification/RV_CLIC_Select.thy ===== *)
theory RV_CLIC_Select
  imports RV_CLIC_Map RV_Int_Select
begin

text \<open>
  Correctness of the selection of the core-local interrupt controller: which interrupt of the mask
  of pending-and-enabled interrupts is presented to the hart.
\<close>

section \<open>Selection\<close>

text \<open>The interrupts of the mask in ascending order.\<close>

definition ipe_list :: "riscvHart \<Rightarrow> nat list" where
  "ipe_list hart = concat (map (\<lambda>w. map ((+) (w * 64)) (bits_of (ipe (clic hart) ! w))) [0..<length (ipe (clic hart))])"

definition clic_pending :: "riscvHart \<Rightarrow> nat \<Rightarrow> bool" where
  "clic_pending hart i \<longleftrightarrow> i div 64 < length (ipe (clic hart)) \<and> bit (ipe (clic hart) ! (i div 64)) (i mod 64)"

lemma set_ipe_list: "set (ipe_list hart) = {i. clic_pending hart i}"
proof -
  have "i \<in> set (ipe_list hart) \<longleftrightarrow> clic_pending hart i" for i
  proof
    assume "i \<in> set (ipe_list hart)"
    then obtain w k where w: "w < length (ipe (clic hart))" "bit (ipe (clic hart) ! w) k" "i = w * 64 + k"
      by (auto simp: ipe_list_def)
    then have "k < 64" using bit_imp_le_length by fastforce
    with w show "clic_pending hart i" by (simp add: clic_pending_def)
  next
    assume "clic_pending hart i"
    then show "i \<in> set (ipe_list hart)"
      by (auto simp: ipe_list_def clic_pending_def intro!: bexI [of _ "i div 64"] image_eqI [of _ _ "i mod 64"])
  qed
  then show ?thesis by auto
qed

lemma sorted_blocks:
  assumes "\<And>w. sorted_wrt (<) (f w)" and "\<And>w k. k \<in> set (f w) \<Longrightarrow> k < (64 :: nat)"
  shows "sorted_wrt (<) (concat (map (\<lambda>w. map ((+) (w * 64)) (f w)) [0..<n]))"
proof (induction n)
  case (Suc n)
  have "sorted_wrt (<) (map ((+) (n * 64)) (f n))"
    using assms(1) by (simp add: sorted_wrt_map)
  moreover have "w * 64 + k < n * 64 + j" if "w < n" "k \<in> set (f w)" for w k j
    using assms(2) [OF that(2)] that(1) by linarith
  ultimately show ?case using Suc.IH by (auto simp: sorted_wrt_append)
qed simp

lemma sorted_ipe_list: "sorted_wrt (<) (ipe_list hart)"
  unfolding ipe_list_def
  by (rule sorted_blocks) (auto simp: sorted_bits_of dest: bit_imp_le_length)

lemma clic_word_loop_fold:
  "clic_word_loop hart w p i acc =
    fold (scan_step (clic_rank hart) (\<lambda>k. (int k, getCLICInterruptMode hart k))) (map ((+) (w * 64 + i)) (bits_of p)) acc"
proof (induction hart w p i acc rule: clic_word_loop.induct)
  case (1 hart w p i acc)
  let ?step = "scan_step (clic_rank hart) (\<lambda>k. (int k, getCLICInterruptMode hart k))"
  show ?case
  proof (cases "p = 0")
    case True
    then show ?thesis by (simp add: clic_word_loop.simps)
  next
    case False
    have rest: "map ((+) (w * 64 + i)) (map Suc (bits_of (drop_bit 1 p))) = map ((+) (w * 64 + (i + 1))) (bits_of (drop_bit 1 p))"
      by simp
    let ?acc = "if bit p 0 then let intIndex = w * 64 + i; mode = getCLICInterruptMode hart intIndex;
        rank = clic_rank hart intIndex; (maxRank, _) = acc in if maxRank \<le> rank then (rank, int intIndex, mode) else acc else acc"
    have acc: "?acc = (if bit p 0 then ?step (w * 64 + i) acc else acc)"
      by (auto simp: Let_def scan_step_def split: prod.splits)
    have "clic_word_loop hart w p i acc = clic_word_loop hart w (drop_bit 1 p) (i + 1) ?acc"
      using False by (subst clic_word_loop.simps) simp
    also have "\<dots> = fold ?step (map ((+) (w * 64 + (i + 1))) (bits_of (drop_bit 1 p))) (if bit p 0 then ?step (w * 64 + i) acc else acc)"
      unfolding acc by (rule 1 [OF False, unfolded acc])
    also have "\<dots> = fold ?step (map ((+) (w * 64 + i)) (bits_of p)) acc"
      unfolding bits_of_step [of p] map_append rest fold_append o_apply by simp
    finally show ?thesis .
  qed
qed

lemma clic_scan:
  "fold (\<lambda>w acc. clic_word_loop hart w (ipe (clic hart) ! w) 0 acc) [0..<length (ipe (clic hart))] acc =
    fold (scan_step (clic_rank hart) (\<lambda>k. (int k, getCLICInterruptMode hart k))) (ipe_list hart) acc"
proof -
  have "fold (\<lambda>w acc. clic_word_loop hart w (ipe (clic hart) ! w) 0 acc) ws acc =
    fold (scan_step (clic_rank hart) (\<lambda>k. (int k, getCLICInterruptMode hart k)))
      (concat (map (\<lambda>w. map ((+) (w * 64)) (bits_of (ipe (clic hart) ! w))) ws)) acc" for ws
    by (induction ws arbitrary: acc) (simp_all add: clic_word_loop_fold)
  then show ?thesis by (simp add: ipe_list_def)
qed

text \<open>An interrupt outranks another by its target mode, then by its control byte, then by its number.\<close>

definition clic_outranks :: "riscvHart \<Rightarrow> nat \<Rightarrow> nat \<Rightarrow> bool" where
  "clic_outranks hart i j \<longleftrightarrow>
    (let m = (\<lambda>k. riscvMode_code (getCLICInterruptMode hart k)); c = (\<lambda>k. getCLICInterruptField hart k CIT_clicintctl)
     in m j < m i \<or> (m j = m i \<and> (c j < c i \<or> (c j = c i \<and> j \<le> i))))"

definition clic_selected :: "riscvHart \<Rightarrow> nat \<Rightarrow> bool" where
  "clic_selected hart i \<longleftrightarrow> clic_pending hart i \<and> (\<forall>j. clic_pending hart j \<longrightarrow> clic_outranks hart i j)"

lemma digit_lex:
  fixes m n c d :: nat
  assumes "c < 256" "d < 256"
  shows "m * 256 + c < n * 256 + d \<longleftrightarrow> m < n \<or> (m = n \<and> c < d)"
    and "m * 256 + c = n * 256 + d \<longleftrightarrow> m = n \<and> c = d"
proof -
  consider "m = n" | "m + 1 \<le> n" | "n + 1 \<le> m" by linarith
  then have "(m * 256 + c < n * 256 + d \<longleftrightarrow> m < n \<or> (m = n \<and> c < d)) \<and> (m * 256 + c = n * 256 + d \<longleftrightarrow> m = n \<and> c = d)"
    using assms by cases simp_all
  then show "m * 256 + c < n * 256 + d \<longleftrightarrow> m < n \<or> (m = n \<and> c < d)"
    and "m * 256 + c = n * 256 + d \<longleftrightarrow> m = n \<and> c = d" by blast+
qed

lemma byte_lex:
  fixes c d :: Uns8
  assumes "m < 8" "n < (8 :: Uns32)"
  shows "push_bit 8 m OR ucast c < push_bit 8 n OR (ucast d :: Uns32) \<longleftrightarrow> m < n \<or> (m = n \<and> c < d)"
    and "push_bit 8 m OR ucast c = push_bit 8 n OR (ucast d :: Uns32) \<longleftrightarrow> m = n \<and> c = d"
proof -
  have eq: "unat (push_bit 8 m OR ucast c :: Uns32) = unat m * 256 + unat c" if "m < 8" for m :: Uns32 and c :: Uns8
  proof -
    have "unat m < 8" using that by (simp add: word_less_nat_alt)
    moreover have "push_bit 8 m OR ucast c = push_bit 8 m + (ucast c :: Uns32)"
      by (rule disjunctive_add [symmetric]) (auto simp: bit_push_bit_iff bit_ucast_iff dest: bit_imp_le_length)
    moreover have "unat c < 256" using unsigned_less [of c] by simp
    ultimately show ?thesis
      by (simp add: unat_word_ariths unsigned_ucast_eq take_bit_nat_def push_bit_eq_mult word_less_nat_alt)
  qed
  have "unat c < 256" "unat d < 256" using unsigned_less [of c] unsigned_less [of d] by simp_all
  then show "push_bit 8 m OR ucast c < push_bit 8 n OR (ucast d :: Uns32) \<longleftrightarrow> m < n \<or> (m = n \<and> c < d)"
    and "push_bit 8 m OR ucast c = push_bit 8 n OR (ucast d :: Uns32) \<longleftrightarrow> m = n \<and> c = d"
    unfolding word_less_nat_alt word_unat_eq_iff eq [OF assms(1)] eq [OF assms(2)]
    by (simp_all add: digit_lex)
qed

lemma clic_outranks_rank:
  "clic_outranks hart i j \<longleftrightarrow> clic_rank hart j < clic_rank hart i \<or> (clic_rank hart j = clic_rank hart i \<and> j \<le> i)"
proof -
  have "riscvMode_code m < 8" for m by (cases m) simp_all
  then show ?thesis unfolding clic_outranks_def clic_rank_def Let_def by (auto simp: byte_lex)
qed

lemma clic_selected_best: "clic_selected hart i \<longleftrightarrow> best_of (clic_rank hart) (clic_pending hart) i"
  by (simp add: clic_selected_def best_of_def clic_outranks_rank)

lemma clic_selected_unique: "clic_selected hart i \<Longrightarrow> clic_selected hart j \<Longrightarrow> i = j"
  unfolding clic_selected_best by (rule best_of_unique)

lemma internal_selection:
  "(\<not> (\<exists>i. clic_pending hart i) \<and> fold (\<lambda>w acc. clic_word_loop hart w (ipe (clic hart) ! w) 0 acc) [0..<length (ipe (clic hart))]
      (0, RV_NO_INT, RISCV_MODE_U) = (0, RV_NO_INT, RISCV_MODE_U)) \<or>
   (\<exists>i. clic_selected hart i \<and> fold (\<lambda>w acc. clic_word_loop hart w (ipe (clic hart) ! w) 0 acc) [0..<length (ipe (clic hart))]
      (0, RV_NO_INT, RISCV_MODE_U) = (clic_rank hart i, int i, getCLICInterruptMode hart i))"
proof (cases "ipe_list hart = []")
  case True
  then show ?thesis using set_ipe_list [of hart] by (simp add: clic_scan)
next
  case False
  have "\<exists>k. best_of (clic_rank hart) (\<lambda>k. k \<in> set (ipe_list hart)) k \<and>
      fold (scan_step (clic_rank hart) (\<lambda>k. (int k, getCLICInterruptMode hart k))) (ipe_list hart) (0, RV_NO_INT, RISCV_MODE_U) =
        (clic_rank hart k, int k, getCLICInterruptMode hart k)"
    by (rule scan_selects_best [OF sorted_ipe_list _ False]) simp
  then show ?thesis by (simp add: clic_scan clic_selected_best set_ipe_list)
qed

text \<open>The level of an interrupt: the bits of its control byte that hold the level, the others set.\<close>

definition clic_level :: "riscvHart \<Rightarrow> nat \<Rightarrow> Uns8" where
  "clic_level hart i =
    getCLICInterruptField hart i CIT_clicintctl OR mask (8 - nlbits (clic hart) (getCLICInterruptMode hart i))"

fun intlevel :: "riscvHart \<Rightarrow> riscvMode \<Rightarrow> Uns64" where
  "intlevel hart RISCV_MODE_M = RD_CSR_FIELDC hart csr_mintstatus intstatus_mil"
| "intlevel hart RISCV_MODE_S = RD_CSR_FIELDC hart csr_mintstatus intstatus_sil"
| "intlevel hart _ = RD_CSR_FIELDC hart csr_mintstatus intstatus_uil"

fun intthreshold :: "riscvHart \<Rightarrow> riscvMode \<Rightarrow> Uns64" where
  "intthreshold hart RISCV_MODE_M = RD_CSR_FIELDC hart csr_mintthresh intthresh_th"
| "intthreshold hart RISCV_MODE_S = RD_CSR_FIELDC hart csr_sintthresh intthresh_th"
| "intthreshold hart _ = RD_CSR_FIELDC hart csr_uintthresh intthresh_th"

definition clic_presented :: "riscvHart \<Rightarrow> nat \<Rightarrow> bool" where
  "clic_presented hart i \<longleftrightarrow>
    (let X = getCLICInterruptMode hart i; cur = getCurrentMode3 hart
     in X \<in> {RISCV_MODE_M, RISCV_MODE_S, RISCV_MODE_U} \<and> clic_mode hart X \<and> enable_bit hart X \<and> mode_le cur X \<and>
        (cur \<noteq> X \<longrightarrow> riscvMode_code cur < riscvMode_code X) \<and>
        (cur = X \<longrightarrow> ucast (clic_level hart i) > intlevel hart X \<and> ucast (clic_level hart i) > intthreshold hart X))"

definition mkCLICInt :: "riscvHart \<Rightarrow> nat \<Rightarrow> riscvPendEnab" where
  "mkCLICInt hart i =
    \<lparr>pe_priv = getCLICInterruptMode hart i, pe_id = int i, pe_level = clic_level hart i, pe_isCLIC = True\<rparr>"

lemma level_bits: "(c AND NOT (2 ^ n - 1)) OR (2 ^ n - 1) = c OR mask n" for c :: Uns8
  by (rule bit_word_eqI) (auto simp: mask_eq_exp_minus_1 [symmetric] bit_simps)

lemma internal_clicsel:
  "(\<not> (\<exists>i. clic_pending hart i) \<and> sel_id (clicsel (clic (riscvRefreshPendingAndEnabledInternalCLIC hart))) = RV_NO_INT) \<or>
   (\<exists>i. clic_selected hart i \<and> clicsel (clic (riscvRefreshPendingAndEnabledInternalCLIC hart)) =
      \<lparr>sel_priv = getCLICInterruptMode hart i, sel_id = int i, sel_level = clic_level hart i,
       sel_shv = attr_shv (getCLICInterruptAttr hart i)\<rparr>)"
  using internal_selection [of hart]
  by (auto simp: riscvRefreshPendingAndEnabledInternalCLIC_def Let_def level_bits clic_level_def)

lemma internal_frame: "\<exists>s. riscvRefreshPendingAndEnabledInternalCLIC hart = hart\<lparr>clic := (clic hart)\<lparr>clicsel := s\<rparr>\<rparr>"
  by (auto simp: riscvRefreshPendingAndEnabledInternalCLIC_def Let_def split: prod.splits)

lemma present_iff:
  fixes hart :: riscvHart and p :: riscvPendEnab and s :: riscvCLICOutState
  defines "h \<equiv> hart\<lparr>pendEnab := p, clic := (clic hart)\<lparr>clicsel := s\<rparr>\<rparr>"
  shows "PRESENT_INT_CLIC h (useCLICM h) status_MIE RISCV_MODE_M intstatus_mil csr_mintthresh l m \<longleftrightarrow>
      clic_mode hart RISCV_MODE_M \<and> enable_bit hart RISCV_MODE_M \<and> (riscvMode_code m < riscvMode_code RISCV_MODE_M \<or>
        (ucast l > intlevel hart RISCV_MODE_M \<and> ucast l > intthreshold hart RISCV_MODE_M))"
    and "PRESENT_INT_CLIC h (useCLICS h) status_SIE RISCV_MODE_S intstatus_sil csr_sintthresh l m \<longleftrightarrow>
      clic_mode hart RISCV_MODE_S \<and> enable_bit hart RISCV_MODE_S \<and> (riscvMode_code m < riscvMode_code RISCV_MODE_S \<or>
        (ucast l > intlevel hart RISCV_MODE_S \<and> ucast l > intthreshold hart RISCV_MODE_S))"
    and "PRESENT_INT_CLIC h (useCLICU h) status_UIE RISCV_MODE_U intstatus_uil csr_uintthresh l m \<longleftrightarrow>
      clic_mode hart RISCV_MODE_U \<and> enable_bit hart RISCV_MODE_U \<and> (riscvMode_code m < riscvMode_code RISCV_MODE_U \<or>
        (ucast l > intlevel hart RISCV_MODE_U \<and> ucast l > intthreshold hart RISCV_MODE_U))"
  unfolding h_def
  by (simp_all add: PRESENT_INT_CLIC_def RD_CSR_FIELDC_def rd_field_bit rd_field_bit [unfolded One_nat_def] useCLICM_def useCLICS_def useCLICU_def
      RD_CSR_FIELD_MODE_def RISCV_XLEN_IS_32M_def mtvecDeterminesCLICMode_def)

lemma presented_mode [simp]: "getCurrentMode3 (hart\<lparr>pendEnab := p, clic := c\<rparr>) = getCurrentMode3 hart"
  by (simp add: getCurrentMode3_def)

text \<open>C6: With an internal CLIC alone, the interrupt that the hart will take is pending and enabled,
  outranks every other one by mode, level, priority and number, and is presented only if its
  mode and level pass; none is selected exactly when no such interrupt exists.\<close>

theorem clic_selection:
  assumes "CLICInternal hart" and "\<not> basicICPresent hart" and "nv_enableCLIC (netValue hart)"
    and "h = riscvRefreshPendingAndEnabled cbs hart"
  shows "(\<exists>i. clic_selected hart i \<and> clic_presented hart i \<and> pendEnab h = mkCLICInt hart i \<and>
      sel_shv (clicsel (clic h)) = attr_shv (getCLICInterruptAttr hart i)) \<or>
    (\<not> (\<exists>i. clic_selected hart i \<and> clic_presented hart i) \<and> pendEnab h = noInt)"
proof -
  let ?h0 = "hart\<lparr>pendEnab := noInt\<rparr>"
  have h0: "clic_selected ?h0 = clic_selected hart" "clic_pending ?h0 = clic_pending hart" "clic_level ?h0 = clic_level hart"
    "getCLICInterruptMode ?h0 = getCLICInterruptMode hart" "getCLICInterruptAttr ?h0 = getCLICInterruptAttr hart"
    by (simp_all add: fun_eq_iff clic_selected_def clic_pending_def clic_outranks_def getCLICInterruptMode_def getCLICInterruptAttr_def
        getCLICInterruptField_def clic_level_def Let_def)
  obtain s where s: "riscvRefreshPendingAndEnabledInternalCLIC ?h0 = ?h0\<lparr>clic := (clic ?h0)\<lparr>clicsel := s\<rparr>\<rparr>"
    using internal_frame by blast
  have h: "h = refreshPendingAndEnabledCLIC ?h0"
    using assms by (simp add: riscvRefreshPendingAndEnabled_def basicICPresent_def CLICPresent_def)
  have int: "CLICInternal ?h0" using assms(1) by (simp add: CLICInternal_def CLICPresent_def)
  from internal_clicsel [of ?h0] consider (none) "\<not> (\<exists>i. clic_pending hart i)" "sel_id s = RV_NO_INT"
    | (some) i where "clic_selected hart i" "s = \<lparr>sel_priv = getCLICInterruptMode hart i, sel_id = int i,
        sel_level = clic_level hart i, sel_shv = attr_shv (getCLICInterruptAttr hart i)\<rparr>"
    unfolding s h0 by auto
  then show ?thesis
  proof cases
    case none
    then show ?thesis using s int unfolding h
      by (auto simp: refreshPendingAndEnabledCLIC_def getPendingLocallyEnabledCLIC_def clic_selected_def)
  next
    case some
    have "pendEnab h = (if clic_presented hart i then mkCLICInt hart i else noInt)"
      using s int some(2) unfolding h
      by (cases "getCLICInterruptMode hart i"; cases "getCurrentMode3 hart")
        (simp_all add: refreshPendingAndEnabledCLIC_def Let_def getPendingLocallyEnabledCLIC_def assms(3) present_iff
          present_iff [unfolded One_nat_def] presented_mode clic_presented_def mkCLICInt_def noInt_def)
    moreover have "clicsel (clic h) = s"
      unfolding h using s int by (simp add: refreshPendingAndEnabledCLIC_def Let_def)
    ultimately show ?thesis using some clic_selected_unique by (auto split: if_splits)
  qed
qed

definition hart_clic :: riscvHart where
  "hart_clic = hart_none\<lparr>hartMode := RISCV_DMODE64_U,
    configInfo := (configInfo hart_none)\<lparr>CLICLEVELS := 256, CLIC_version := RVCLC_0_9_20221108, local_int_num := 4,
      posedge_0_63 := 1, poslevel_0_63 := 0xFFFF0\<rparr>,
    csr := (\<lambda>_. 0)(csr_mtvec := 3, csr_mstatus := 8),
    clic := (clic hart_none)\<lparr>num_interrupt := 20, CLICINTCTLBITS := 4, ipe := [0x30000],
      intState := (replicate 20 (\<lambda>_. 0))[16 := (\<lambda>_. 0)(CIT_clicintctl := 0x9F), 17 := (\<lambda>_. 0)(CIT_clicintctl := 0x7F)],
      trigFixed := [0xFFFF1], nlbits := \<lambda>_. 4\<rparr>,
    netValue := (netValue hart_none)\<lparr>nv_enableCLIC := True\<rparr>\<rparr>"

theorem clic_selection_witness:
  "pendEnab (riscvRefreshPendingAndEnabled no_callbacks hart_clic) =
      \<lparr>pe_priv = RISCV_MODE_M, pe_id = 16, pe_level = 0x9F, pe_isCLIC = True\<rparr> \<and>
    (\<exists>i. clic_selected hart_clic i \<and> clic_presented hart_clic i)"
proof -
  have pre: "CLICInternal hart_clic" "\<not> basicICPresent hart_clic" "nv_enableCLIC (netValue hart_clic)" by code_simp+
  have "pendEnab (riscvRefreshPendingAndEnabled no_callbacks hart_clic) =
      \<lparr>pe_priv = RISCV_MODE_M, pe_id = 16, pe_level = 0x9F, pe_isCLIC = True\<rparr>" by code_simp
  then show ?thesis using clic_selection [OF pre refl, of no_callbacks] by (auto simp: noInt_def)
qed

end
