(* ===== verification/RV_CLIC_Mask.thy ===== *)
theory RV_CLIC_Mask
  imports RV_CLIC_Select
begin

text \<open>
  The mask of pending-and-enabled interrupts of the core-local interrupt controller agrees with the
  control fields whatever sequence of inputs, register writes and acknowledgements occurs, except
  for level-sensitive interrupts whose pending bit is written.
\<close>

section \<open>The mask of pending-and-enabled interrupts\<close>

text \<open>The structures of a hart have matching sizes.\<close>

definition clic_wf :: "riscvHart \<Rightarrow> bool" where
  "clic_wf h \<longleftrightarrow> length (intState (clic h)) = num_interrupt (clic h) \<and> num_interrupt (clic h) \<le> 64 * length (ipe (clic h)) \<and>
    length (trigFixed (clic h)) = length (ipe (clic h)) \<and> length (ipWords h) = length (ipe (clic h)) \<and>
    riscvGetIntNum h = num_interrupt (clic h)"

text \<open>The interrupts of fixed edge or positive level type. The mask agrees with the fields if their bit is
  set exactly when they are pending and enabled; a level is then not latched.\<close>

definition trig_fixed :: "riscvHart \<Rightarrow> nat \<Rightarrow> bool" where
  "trig_fixed h i \<longleftrightarrow> i < num_interrupt (clic h) \<and> trigFixed (clic h) ! (i div 64) AND push_bit (i mod 64) 1 \<noteq> 0 \<and>
    (isCLICInterruptEdge h i \<or> \<not> isCLICInterruptActiveLow h i)"

definition ipe_agrees :: "riscvHart \<Rightarrow> nat \<Rightarrow> bool" where
  "ipe_agrees h i \<longleftrightarrow> (clic_pending h i \<longleftrightarrow> getCLICInterruptPending h i \<and> getCLICInterruptEnable h i) \<and>
    (\<not> isCLICInterruptEdge h i \<longrightarrow> getCLICInterruptField h i CIT_clicintip = 0)"

definition ipe_coherent :: "riscvHart \<Rightarrow> bool" where
  "ipe_coherent h \<longleftrightarrow> clic_wf h \<and> (\<forall>i. trig_fixed h i \<longrightarrow> ipe_agrees h i)"

text \<open>A test for interrupts changes the selection and what the simulator is told, nothing else.\<close>

definition retest :: "riscvHart \<Rightarrow> riscvHart \<Rightarrow> bool" where
  "retest h h' \<longleftrightarrow> (\<exists>p s d w v. h' =
    h\<lparr>pendEnab := p, clic := (clic h)\<lparr>clicsel := s\<rparr>, disableReasons := d, inWFI := w, vmi := v\<rparr>)"

lemma retest_refl: "retest h h"
  unfolding retest_def by (rule exI [of _ "pendEnab h"], rule exI [of _ "clicsel (clic h)"], rule exI [of _ "disableReasons h"],
      rule exI [of _ "inWFI h"], rule exI [of _ "vmi h"]) simp

lemma retest_trans [trans]: "retest h h' \<Longrightarrow> retest h' h'' \<Longrightarrow> retest h h''"
  unfolding retest_def by (elim exE, simp, intro exI, rule refl)

lemma retest_pendEnab: "retest h (h\<lparr>pendEnab := p\<rparr>)"
  unfolding retest_def by (rule exI [of _ p], rule exI [of _ "clicsel (clic h)"], rule exI [of _ "disableReasons h"],
      rule exI [of _ "inWFI h"], rule exI [of _ "vmi h"]) simp

lemma retest_internal: "retest h (riscvRefreshPendingAndEnabledInternalCLIC h)"
proof -
  obtain s where "riscvRefreshPendingAndEnabledInternalCLIC h = h\<lparr>clic := (clic h)\<lparr>clicsel := s\<rparr>\<rparr>" using internal_frame by blast
  then show ?thesis
    unfolding retest_def by (intro exI [of _ "pendEnab h"] exI [of _ s] exI [of _ "disableReasons h"]
      exI [of _ "inWFI h"] exI [of _ "vmi h"]) simp
qed

lemma retest_emit: "retest h (emit c h)"
  unfolding retest_def emit_def by (intro exI [of _ "pendEnab h"] exI [of _ "clicsel (clic h)"] exI [of _ "disableReasons h"]
      exI [of _ "inWFI h"] exI [of _ "vmi h @ [c]"]) simp

lemma retest_disable: "retest h (h\<lparr>disableReasons := d\<rparr>)"
  unfolding retest_def by (intro exI [of _ "pendEnab h"] exI [of _ "clicsel (clic h)"] exI [of _ d]
      exI [of _ "inWFI h"] exI [of _ "vmi h"]) simp

lemma retest_inWFI: "retest h (h\<lparr>inWFI := w\<rparr>)"
  unfolding retest_def by (intro exI [of _ "pendEnab h"] exI [of _ "clicsel (clic h)"] exI [of _ "disableReasons h"]
      exI [of _ w] exI [of _ "vmi h"]) simp

lemma retest_refresh: "retest h (riscvRefreshPendingAndEnabled cbs h)"
proof -
  have basic: "retest h (refreshPendingAndEnabledBasic cbs h)" for h
    using refreshPendingAndEnabledBasic_frame [of cbs h] retest_pendEnab by metis
  have clic: "retest h (refreshPendingAndEnabledCLIC h)" for h
    unfolding refreshPendingAndEnabledCLIC_def Let_def
    by (auto intro: retest_refl retest_internal retest_trans [OF retest_internal retest_pendEnab] retest_pendEnab)
  show ?thesis
    unfolding riscvRefreshPendingAndEnabled_def Let_def
    by (auto intro: retest_pendEnab retest_trans [OF retest_pendEnab basic] retest_trans [OF retest_pendEnab clic]
        retest_trans [OF retest_trans [OF retest_pendEnab basic] clic])
qed

lemma retest_restart:
  assumes "cb_haltRestartNotifier cbs = []"
  shows "retest h (riscvRestart cbs r h)"
proof -
  have "retest h (refreshInWFI h)" for h
    by (auto simp: refreshInWFI_def Let_def writeNet_def intro: retest_refl retest_inWFI retest_trans [OF retest_inWFI retest_emit])
  then show ?thesis using assms
    by (auto simp: riscvRestart_def Let_def notifyHaltRestart_def intro: retest_trans [OF retest_trans [OF retest_disable retest_emit]]
        retest_disable)
qed

lemma retest_testInterrupt:
  assumes "cb_haltRestartNotifier cbs = []"
  shows "retest h (riscvTestInterrupt cbs h)"
  unfolding riscvTestInterrupt_def handlePendingAndEnabled_def Let_def
  by (auto intro: retest_refresh retest_trans [OF retest_refresh retest_restart [OF assms]]
      retest_trans [OF retest_trans [OF retest_refresh retest_restart [OF assms]] retest_emit])

lemma retest_fields:
  assumes "retest h h'"
  shows "intState (clic h') = intState (clic h)" "ipe (clic h') = ipe (clic h)" "trigFixed (clic h') = trigFixed (clic h)"
    "num_interrupt (clic h') = num_interrupt (clic h)" "nmbits (clic h') = nmbits (clic h)" "ipWords h' = ipWords h"
    "configInfo h' = configInfo h" "nlbits (clic h') = nlbits (clic h)"
  using assms by (auto simp: retest_def)

lemmas clic_views = getCLICInterruptField_def clic_pending_def isCLICInterruptEdge_def isCLICInterruptActiveLow_def
  getCLICInterruptAttr_def getCLICInterruptPending_def getCLICInterruptEnable_def getCLICInterruptMode_def

lemma retest_views:
  assumes "retest h h'"
  shows "getCLICInterruptField h' i t = getCLICInterruptField h i t" "clic_pending h' i = clic_pending h i"
    "isCLICInterruptEdge h' i = isCLICInterruptEdge h i" "isCLICInterruptActiveLow h' i = isCLICInterruptActiveLow h i"
    "getCLICInterruptPending h' i = getCLICInterruptPending h i" "getCLICInterruptEnable h' i = getCLICInterruptEnable h i"
    "getCLICInterruptMode h' i = getCLICInterruptMode h i"
  by (simp_all only: clic_views retest_fields [OF assms])

lemma retest_coherent: "retest h h' \<Longrightarrow> ipe_coherent h' = ipe_coherent h"
  by (simp only: ipe_coherent_def trig_fixed_def ipe_agrees_def clic_wf_def riscvGetIntNum_def retest_fields retest_views)

section \<open>Writes of the control fields\<close>

lemma field_set:
  "getCLICInterruptField (setCLICInterruptField j t v h) i t' =
    (if i = j \<and> t = t' \<and> j < length (intState (clic h)) then v else getCLICInterruptField h i t')"
  by (cases "j < length (intState (clic h))") (auto simp: getCLICInterruptField_def setCLICInterruptField_def nth_list_update list_update_beyond not_less)

lemma set_fields [simp]:
  "ipe (clic (setCLICInterruptField j t v h)) = ipe (clic h)" "trigFixed (clic (setCLICInterruptField j t v h)) = trigFixed (clic h)"
  "num_interrupt (clic (setCLICInterruptField j t v h)) = num_interrupt (clic h)"
  "nmbits (clic (setCLICInterruptField j t v h)) = nmbits (clic h)"
  "length (intState (clic (setCLICInterruptField j t v h))) = length (intState (clic h))"
  "ipWords (setCLICInterruptField j t v h) = ipWords h" "configInfo (setCLICInterruptField j t v h) = configInfo h"
  "intState (clic (setIPE j b h)) = intState (clic h)" "trigFixed (clic (setIPE j b h)) = trigFixed (clic h)"
  "num_interrupt (clic (setIPE j b h)) = num_interrupt (clic h)" "nmbits (clic (setIPE j b h)) = nmbits (clic h)"
  "length (ipe (clic (setIPE j b h))) = length (ipe (clic h))"
  "nlbits (clic (setCLICInterruptField j t v h)) = nlbits (clic h)" "nlbits (clic (setIPE j b h)) = nlbits (clic h)"
  "ipWords (setIPE j b h) = ipWords h" "configInfo (setIPE j b h) = configInfo h"
  by (simp_all add: setCLICInterruptField_def setIPE_def Let_def)

lemma pending_setIPE:
  assumes "j div 64 < length (ipe (clic h))"
  shows "clic_pending (setIPE j b h) i = (if i = j then b else clic_pending h i)"
proof -
  have "i = j \<longleftrightarrow> i div 64 = j div 64 \<and> i mod 64 = j mod 64" by (metis div_mult_mod_eq)
  then show ?thesis using assms
    by (cases "i div 64 = j div 64")
      (auto simp: clic_pending_def setIPE_def Let_def nth_list_update bit_or_iff bit_and_iff bit_not_iff bit_exp_iff
        dest: bit_imp_le_length)
qed

lemma getCLICPendingEnable_iff:
  assumes "i div 64 < length (ipe (clic h))"
  shows "getCLICPendingEnable h i = clic_pending h i"
proof -
  have "w AND push_bit k 1 \<noteq> 0 \<longleftrightarrow> bit w k" if "k < 64" for w :: Uns64 and k
    unfolding word_nonzero_bit using that by (auto simp: bit_and_iff bit_exp_iff)
  then show ?thesis using assms by (simp add: getCLICPendingEnable_def clic_pending_def)
qed

text \<open>What no operation changes.\<close>

definition clic_same :: "riscvHart \<Rightarrow> riscvHart \<Rightarrow> bool" where
  "clic_same h h' \<longleftrightarrow> trigFixed (clic h') = trigFixed (clic h) \<and> num_interrupt (clic h') = num_interrupt (clic h) \<and>
    nmbits (clic h') = nmbits (clic h) \<and> nlbits (clic h') = nlbits (clic h) \<and> length (intState (clic h')) = length (intState (clic h)) \<and> length (ipe (clic h')) = length (ipe (clic h)) \<and>
    length (ipWords h') = length (ipWords h) \<and> configInfo h' = configInfo h"

lemma clic_same_refl [simp]: "clic_same h h"
  by (simp add: clic_same_def)

lemma clic_same_trans [trans]: "clic_same h h' \<Longrightarrow> clic_same h' h'' \<Longrightarrow> clic_same h h''"
  by (simp add: clic_same_def)

lemma clic_same_retest: "retest h h' \<Longrightarrow> clic_same h h'"
  by (simp add: clic_same_def retest_fields)

lemma clic_same_wf: "clic_same h h' \<Longrightarrow> clic_wf h \<Longrightarrow> clic_wf h'"
  by (simp add: clic_same_def clic_wf_def riscvGetIntNum_def)

lemma clic_same_internal: "clic_same h h' \<Longrightarrow> CLICInternal h' = CLICInternal h"
  by (simp add: clic_same_def CLICInternal_def CLICPresent_def)

lemma wf_word: "clic_wf h \<Longrightarrow> j < num_interrupt (clic h) \<Longrightarrow> j div 64 < length (ipe (clic h))"
  by (auto simp: clic_wf_def less_mult_imp_div_less)

lemma pending_set [simp]: "clic_pending (setCLICInterruptField j t v h) i = clic_pending h i"
  by (simp add: clic_pending_def)

lemma field_setIPE [simp]: "getCLICInterruptField (setIPE j b h) i t = getCLICInterruptField h i t"
  by (simp add: getCLICInterruptField_def)

lemma write_ipe:
  assumes "cb_haltRestartNotifier cbs = []" and "j div 64 < length (ipe (clic h))"
    and "h' = (if getCLICPendingEnable h0 j \<noteq> b then updateCLICPendingEnable cbs j b h else h)"
    and "ipe (clic h0) = ipe (clic h)"
  shows "clic_pending h' i = (if i = j then b else clic_pending h i)"
    and "getCLICInterruptField h' i t = getCLICInterruptField h i t" and "clic_same h h'" and "ipWords h' = ipWords h"
proof -
  have test: "retest (setIPE j b h) (updateCLICPendingEnable cbs j b h)"
    unfolding updateCLICPendingEnable_def by (rule retest_testInterrupt [OF assms(1)])
  have old: "getCLICPendingEnable h0 j = clic_pending h j"
    using getCLICPendingEnable_iff [of j h0] assms(2,4) by (simp add: clic_pending_def)
  show "clic_pending h' i = (if i = j then b else clic_pending h i)"
    using old unfolding assms(3) by (auto simp: retest_views [OF test] pending_setIPE [OF assms(2)])
  show "getCLICInterruptField h' i t = getCLICInterruptField h i t"
    unfolding assms(3) by (auto simp: retest_views [OF test])
  have "clic_same h (setIPE j b h)" by (simp add: clic_same_def)
  then show "clic_same h h'" unfolding assms(3) by (auto intro: clic_same_trans [OF _ clic_same_retest [OF test]])
  show "ipWords h' = ipWords h" unfolding assms(3) by (auto simp: retest_fields [OF test])
qed

lemma writePending_effect:
  assumes "cb_haltRestartNotifier cbs = []" and "clic_wf h" and "j < num_interrupt (clic h)"
    and "h' = writeCLICInterruptPending cbs j v may h"
  shows "clic_pending h' i = (if i = j then getCLICInterruptEnable h j \<and> bit v 0 else clic_pending h i)"
    and "getCLICInterruptField h' i t = (if i = j \<and> t = CIT_clicintip \<and> (may \<or> isCLICInterruptEdge h j) then of_bool (bit v 0)
      else getCLICInterruptField h i t)"
    and "clic_same h h'" and "ipWords h' = ipWords h"
proof -
  let ?h = "setCLICInterruptPending j (bit v 0) may h"
  have same: "clic_same h ?h" "ipe (clic ?h) = ipe (clic h)" "ipWords ?h = ipWords h"
    by (simp_all add: setCLICInterruptPending_def clic_same_def)
  have len: "j < length (intState (clic h))" using assms(2,3) by (simp add: clic_wf_def)
  have word: "j div 64 < length (ipe (clic ?h))" using wf_word [OF assms(2,3)] same by simp
  note w = write_ipe [OF assms(1) word, of h' h "getCLICInterruptEnable h j \<and> bit v 0"]
  have h': "h' = (if getCLICPendingEnable h j \<noteq> (getCLICInterruptEnable h j \<and> bit v 0)
      then updateCLICPendingEnable cbs j (getCLICInterruptEnable h j \<and> bit v 0) ?h else ?h)"
    unfolding assms(4) writeCLICInterruptPending_def Let_def ..
  have pend: "clic_pending ?h i = clic_pending h i" by (simp add: clic_pending_def same)
  have field: "getCLICInterruptField ?h i t = (if i = j \<and> t = CIT_clicintip \<and> (may \<or> isCLICInterruptEdge h j) then of_bool (bit v 0)
      else getCLICInterruptField h i t)"
    using len by (simp add: setCLICInterruptPending_def field_set)
  show "clic_pending h' i = (if i = j then getCLICInterruptEnable h j \<and> bit v 0 else clic_pending h i)"
    using w(1) [OF h'] same(2) pend by simp
  show "getCLICInterruptField h' i t = (if i = j \<and> t = CIT_clicintip \<and> (may \<or> isCLICInterruptEdge h j) then of_bool (bit v 0)
      else getCLICInterruptField h i t)"
    using w(2) [OF h'] same(2) field by simp
  show "clic_same h h'" using clic_same_trans [OF same(1)] w(3) [OF h'] same(2) by simp
  show "ipWords h' = ipWords h" using w(4) [OF h'] same by simp
qed

lemma writeEnable_effect:
  assumes "cb_haltRestartNotifier cbs = []" and "clic_wf h" and "j < num_interrupt (clic h)"
    and "h' = writeCLICInterruptEnable cbs j v h"
  shows "clic_pending h' i = (if i = j then getCLICInterruptPending h j \<and> bit v 0 else clic_pending h i)"
    and "getCLICInterruptField h' i t = (if i = j \<and> t = CIT_clicintie then of_bool (bit v 0) else getCLICInterruptField h i t)"
    and "clic_same h h'" and "ipWords h' = ipWords h"
proof -
  let ?h = "setCLICInterruptEnable j (bit v 0) h"
  have same: "clic_same h ?h" "ipe (clic ?h) = ipe (clic h)" "ipWords ?h = ipWords h"
    by (simp_all add: setCLICInterruptEnable_def clic_same_def)
  have len: "j < length (intState (clic h))" using assms(2,3) by (simp add: clic_wf_def)
  have word: "j div 64 < length (ipe (clic ?h))" using wf_word [OF assms(2,3)] same by simp
  note w = write_ipe [OF assms(1) word, of h' h "getCLICInterruptPending h j \<and> bit v 0"]
  have h': "h' = (if getCLICPendingEnable h j \<noteq> (getCLICInterruptPending h j \<and> bit v 0)
      then updateCLICPendingEnable cbs j (getCLICInterruptPending h j \<and> bit v 0) ?h else ?h)"
    unfolding assms(4) writeCLICInterruptEnable_def Let_def ..
  have pend: "clic_pending ?h i = clic_pending h i" by (simp add: clic_pending_def same)
  have field: "getCLICInterruptField ?h i t =
      (if i = j \<and> t = CIT_clicintie then of_bool (bit v 0) else getCLICInterruptField h i t)"
    using len by (simp add: setCLICInterruptEnable_def field_set)
  show "clic_pending h' i = (if i = j then getCLICInterruptPending h j \<and> bit v 0 else clic_pending h i)"
    using w(1) [OF h'] same(2) pend by simp
  show "getCLICInterruptField h' i t = (if i = j \<and> t = CIT_clicintie then of_bool (bit v 0) else getCLICInterruptField h i t)"
    using w(2) [OF h'] same(2) field by simp
  show "clic_same h h'" using clic_same_trans [OF same(1)] w(3) [OF h'] same(2) by simp
  show "ipWords h' = ipWords h" using w(4) [OF h'] same by simp
qed

lemma updateField_effect:
  assumes "cb_haltRestartNotifier cbs = []" and "clic_wf h" and "j < num_interrupt (clic h)"
    and "h' = updateCLICInterruptField cbs j t0 v h"
  shows "clic_pending h' i = clic_pending h i"
    and "getCLICInterruptField h' i t = (if i = j \<and> t = t0 then v else getCLICInterruptField h i t)"
    and "clic_same h h'" and "ipWords h' = ipWords h"
proof -
  let ?h = "setCLICInterruptField j t0 v h"
  have test: "retest ?h (riscvTestInterrupt cbs ?h)" by (rule retest_testInterrupt [OF assms(1)])
  have len: "j < length (intState (clic h))" using assms(2,3) by (simp add: clic_wf_def)
  show "clic_pending h' i = clic_pending h i"
    "getCLICInterruptField h' i t = (if i = j \<and> t = t0 then v else getCLICInterruptField h i t)"
    "ipWords h' = ipWords h"
    using len unfolding assms(4) updateCLICInterruptField_def by (auto simp: retest_views [OF test] retest_fields [OF test] field_set)
  have "clic_same h ?h" by (simp add: clic_same_def)
  then show "clic_same h h'" unfolding assms(4) updateCLICInterruptField_def
    by (auto intro: clic_same_trans [OF _ clic_same_retest [OF test]])
qed

section \<open>Agreement of the mask\<close>

lemma trig_views:
  assumes "getCLICInterruptField h' i CIT_clicintattr = getCLICInterruptField h i CIT_clicintattr"
  shows "isCLICInterruptEdge h' i = isCLICInterruptEdge h i" "isCLICInterruptActiveLow h' i = isCLICInterruptActiveLow h i"
  using assms by (simp_all add: isCLICInterruptEdge_def isCLICInterruptActiveLow_def getCLICInterruptAttr_def)

lemma agrees_other:
  assumes "clic_same h h'" and "\<And>t. t \<in> {CIT_clicintip, CIT_clicintie, CIT_clicintattr} \<Longrightarrow> getCLICInterruptField h' i t = getCLICInterruptField h i t"
    and "clic_pending h' i = clic_pending h i" and "bit (ipWords h' ! (i div 64)) (i mod 64) = bit (ipWords h ! (i div 64)) (i mod 64)"
  shows "trig_fixed h' i = trig_fixed h i" "ipe_agrees h' i = ipe_agrees h i"
proof -
  have ip: "(w AND 2 ^ k \<noteq> 0) = bit w k" if "k < 64" for w :: Uns64 and k
    unfolding word_nonzero_bit using that by (auto simp: bit_and_iff bit_exp_iff)
  have "getCLICInterruptPending h' i = getCLICInterruptPending h i"
    using assms(2) [of CIT_clicintip] assms(4) trig_views(1) [OF assms(2) [of CIT_clicintattr]]
    by (simp add: getCLICInterruptPending_def Let_def ip)
  then show "trig_fixed h' i = trig_fixed h i" "ipe_agrees h' i = ipe_agrees h i"
    using assms trig_views [OF assms(2) [of CIT_clicintattr]]
    by (simp_all add: trig_fixed_def ipe_agrees_def clic_same_def getCLICInterruptEnable_def)
qed

lemma coherent_but:
  assumes "ipe_coherent h" and "clic_same h h'" and "ipWords h' = ipWords h \<or> (\<exists>v. ipWords h' = (ipWords h)[j div 64 := v] \<and>
      (\<forall>k. k \<noteq> j mod 64 \<longrightarrow> bit v k = bit (ipWords h ! (j div 64)) k))"
    and "\<And>i t. i \<noteq> j \<Longrightarrow> getCLICInterruptField h' i t = getCLICInterruptField h i t"
    and "\<And>i. i \<noteq> j \<Longrightarrow> clic_pending h' i = clic_pending h i"
    and "trig_fixed h' j \<Longrightarrow> ipe_agrees h' j"
  shows "ipe_coherent h'"
  unfolding ipe_coherent_def
proof (intro conjI allI impI)
  show "clic_wf h'" using assms(1,2) clic_same_wf by (auto simp: ipe_coherent_def)
  fix i assume fixed: "trig_fixed h' i"
  show "ipe_agrees h' i"
  proof (cases "i = j")
    case False
    have "i mod 64 \<noteq> j mod 64" if "i div 64 = j div 64" using False that by (metis div_mult_mod_eq)
    then have "bit (ipWords h' ! (i div 64)) (i mod 64) = bit (ipWords h ! (i div 64)) (i mod 64)"
      using assms(3) by (cases "i div 64 = j div 64"; cases "j div 64 < length (ipWords h)") (auto simp: list_update_beyond not_less)
    from agrees_other [OF assms(2) assms(4) [OF False] assms(5) [OF False] this] fixed assms(1)
    show ?thesis by (simp add: ipe_coherent_def)
  qed (use assms(6) fixed in simp)
qed

lemma edge_pending: "isCLICInterruptEdge h i \<Longrightarrow> getCLICInterruptPending h i = (getCLICInterruptField h i CIT_clicintip \<noteq> 0)"
  by (simp add: getCLICInterruptPending_def Let_def)

lemma coherent_writePending:
  assumes "cb_haltRestartNotifier cbs = []" and "ipe_coherent h" and "j < num_interrupt (clic h)"
    and "isCLICInterruptEdge h j"
  shows "ipe_coherent (writeCLICInterruptPending cbs j v may h)"
proof -
  from assms(2) have wf: "clic_wf h" by (simp add: ipe_coherent_def)
  note w = writePending_effect [OF assms(1) wf assms(3) refl, of v may]
  have "getCLICInterruptField (writeCLICInterruptPending cbs j v may h) j CIT_clicintattr = getCLICInterruptField h j CIT_clicintattr"
    by (simp add: w(2))
  from trig_views(1) [OF this] assms(4) have edge: "isCLICInterruptEdge (writeCLICInterruptPending cbs j v may h) j" by simp
  show ?thesis
    by (rule coherent_but [OF assms(2) w(3), of j])
      (use w(4) edge assms(4) in \<open>auto simp: w(1,2) ipe_agrees_def edge_pending getCLICInterruptEnable_def\<close>)
qed

lemma coherent_writeEnable:
  assumes "cb_haltRestartNotifier cbs = []" and "ipe_coherent h" and "j < num_interrupt (clic h)"
  shows "ipe_coherent (writeCLICInterruptEnable cbs j v h)"
proof -
  from assms(2) have wf: "clic_wf h" by (simp add: ipe_coherent_def)
  note w = writeEnable_effect [OF assms(1) wf assms(3) refl, of v]
  let ?h = "writeCLICInterruptEnable cbs j v h"
  have "getCLICInterruptField ?h j CIT_clicintattr = getCLICInterruptField h j CIT_clicintattr" by (simp add: w(2))
  note trig = trig_views [OF this]
  then have "getCLICInterruptPending ?h j = getCLICInterruptPending h j" "trig_fixed ?h j = trig_fixed h j"
    using w(3) by (simp_all add: getCLICInterruptPending_def w(2,4) trig_fixed_def clic_same_def)
  then show ?thesis
    using assms(2) trig
    by (intro coherent_but [OF assms(2) w(3), of j])
      (auto simp: w(1,2,4) ipe_agrees_def getCLICInterruptEnable_def ipe_coherent_def)
qed

lemma attr_trig_mk: "attr_trig (mk_attr s t m) = take_bit 2 t"
proof (rule bit_word_eqI)
  fix n assume "n < LENGTH(8)"
  have "bit (of_bool s :: Uns8) (1 + n) = False" "bit (push_bit 6 m) (1 + n) = False" if "n < 2"
    using that by (simp_all add: bit_push_bit_iff bit_1_iff)
  moreover have "bit (push_bit 1 (take_bit 2 t)) (1 + n) = bit (take_bit 2 t) n" if "n < 2"
    using that by (simp only: bit_push_bit_iff) simp
  ultimately show "bit (attr_trig (mk_attr s t m)) n = bit (take_bit 2 t) n"
    by (simp only: attr_trig_def mk_attr_def bit_take_bit_iff bit_drop_bit_eq o_apply bit_or_iff) auto
qed

lemma take_attr_trig: "take_bit 2 (attr_trig a) = attr_trig a"
  by (simp add: attr_trig_def)

lemma coherent_updateField:
  assumes "cb_haltRestartNotifier cbs = []" and "ipe_coherent h" and "j < num_interrupt (clic h)"
    and "t0 = CIT_clicintctl \<or> (t0 = CIT_clicintattr \<and> (trigFixed (clic h) ! (j div 64) AND push_bit (j mod 64) 1 \<noteq> 0 \<longrightarrow>
      attr_trig v = attr_trig (getCLICInterruptAttr h j)))"
  shows "ipe_coherent (updateCLICInterruptField cbs j t0 v h)"
proof -
  from assms(2) have wf: "clic_wf h" by (simp add: ipe_coherent_def)
  note w = updateField_effect [OF assms(1) wf assms(3) refl, of t0 v]
  let ?h = "updateCLICInterruptField cbs j t0 v h"
  have trig: "isCLICInterruptEdge ?h j = isCLICInterruptEdge h j" "isCLICInterruptActiveLow ?h j = isCLICInterruptActiveLow h j"
    if "trigFixed (clic h) ! (j div 64) AND push_bit (j mod 64) 1 \<noteq> 0"
    using that assms(4) by (auto simp: isCLICInterruptEdge_def isCLICInterruptActiveLow_def getCLICInterruptAttr_def w(2))
  show ?thesis
    using assms(2,4) trig w(3)
    by (intro coherent_but [OF assms(2) w(3), of j])
      (auto simp: w(1,2,4) ipe_agrees_def getCLICInterruptEnable_def ipe_coherent_def trig_fixed_def clic_same_def
        getCLICInterruptPending_def Let_def)
qed

lemma coherent_writeAttr:
  assumes "cb_haltRestartNotifier cbs = []" and "ipe_coherent h" and "j < num_interrupt (clic h)"
  shows "ipe_coherent (writeCLICInterruptAttr cbs j v page h)"
  unfolding writeCLICInterruptAttr_def Let_def
  by (rule coherent_updateField [OF assms]) (simp add: attr_trig_mk take_attr_trig)

lemma coherent_writeCtl:
  assumes "cb_haltRestartNotifier cbs = []" and "ipe_coherent h" and "j < num_interrupt (clic h)"
  shows "ipe_coherent (writeCLICInterruptCtl cbs j v h)"
  unfolding writeCLICInterruptCtl_def by (rule coherent_updateField [OF assms]) simp

lemma coherent_csr: "ipe_coherent (h\<lparr>csr := c\<rparr>) = ipe_coherent h"
  by (simp add: ipe_coherent_def clic_wf_def riscvGetIntNum_def trig_fixed_def ipe_agrees_def clic_pending_def
      isCLICInterruptEdge_def isCLICInterruptActiveLow_def getCLICInterruptAttr_def getCLICInterruptField_def
      getCLICInterruptPending_def getCLICInterruptEnable_def Let_def)

lemma coherent_updatePending:
  assumes "cb_haltRestartNotifier cbs = []" and "ipe_coherent h"
  shows "ipe_coherent (riscvUpdatePending cbs h)"
  unfolding riscvUpdatePending_def Let_def
  by (simp add: retest_coherent [OF retest_testInterrupt [OF assms(1)]] WR_CSR64_def coherent_csr assms(2))

text \<open>The pending bit of an input in the port words.\<close>

definition setInput :: "nat \<Rightarrow> bool \<Rightarrow> riscvHart \<Rightarrow> riscvHart" where
  "setInput i v h = h\<lparr>ipWords := (ipWords h)[i div 64 := if v then ipWords h ! (i div 64) OR push_bit (i mod 64) 1
    else ipWords h ! (i div 64) AND NOT (push_bit (i mod 64) 1)]\<rparr>"

lemma setInput_views [simp]:
  "clic_pending (setInput i v h) k = clic_pending h k" "getCLICInterruptField (setInput i v h) k t = getCLICInterruptField h k t"
  "isCLICInterruptEdge (setInput i v h) k = isCLICInterruptEdge h k"
  "isCLICInterruptActiveLow (setInput i v h) k = isCLICInterruptActiveLow h k"
  "getCLICInterruptEnable (setInput i v h) k = getCLICInterruptEnable h k"
  "clic_same h (setInput i v h)" "clic (setInput i v h) = clic h"
  by (simp_all add: setInput_def clic_pending_def getCLICInterruptField_def isCLICInterruptEdge_def isCLICInterruptActiveLow_def
      getCLICInterruptAttr_def getCLICInterruptEnable_def clic_same_def)

lemma setInput_words:
  "\<exists>w. ipWords (setInput i v h) = (ipWords h)[i div 64 := w] \<and>
    (\<forall>k. k \<noteq> i mod 64 \<longrightarrow> bit w k = bit (ipWords h ! (i div 64)) k)"
  by (rule exI [of _ "if v then ipWords h ! (i div 64) OR push_bit (i mod 64) 1
      else ipWords h ! (i div 64) AND NOT (push_bit (i mod 64) 1)"])
    (auto simp: setInput_def bit_or_iff bit_and_iff bit_not_iff bit_exp_iff dest: bit_imp_le_length)

lemma setInput_bit:
  "i div 64 < length (ipWords h) \<Longrightarrow> (ipWords (setInput i v h) ! (i div 64) AND push_bit (i mod 64) 1 \<noteq> 0) = v"
  unfolding word_nonzero_bit
  by (auto simp: setInput_def bit_or_iff bit_and_iff bit_not_iff bit_exp_iff intro!: exI [of _ "i mod 64"])

lemma coherent_input:
  assumes "cb_haltRestartNotifier cbs = []" and "ipe_coherent h" and "CLICInternal h"
    and "riscvUpdateInterrupt cbs i v h = Some h'"
  shows "ipe_coherent h'"
proof -
  from assms(2) have wf: "clic_wf h" by (simp add: ipe_coherent_def)
  let ?h1 = "setInput i v h" and ?v = "v \<noteq> isCLICInterruptActiveLow h i"
  have i: "i < num_interrupt (clic h)" using assms(4) wf by (auto simp: riscvUpdateInterrupt_def clic_wf_def split: if_splits)
  have wf1: "clic_wf ?h1" by (rule clic_same_wf [OF setInput_views(6) wf])
  have word: "i div 64 < length (ipWords h)" using wf_word [OF wf i] wf by (simp add: clic_wf_def)
  have int1: "CLICInternal ?h1" using assms(3) by (simp add: setInput_def CLICInternal_def CLICPresent_def)
  have "ipe_coherent (riscvUpdateCLICInput cbs i v ?h1)"
  proof (cases "isCLICInterruptEdge h i")
    case True
    have "ipe_coherent ?h1"
      by (rule coherent_but [OF assms(2), of _ i])
        (use setInput_words True assms(2) in \<open>auto simp: ipe_coherent_def ipe_agrees_def edge_pending trig_fixed_def\<close>)
    then show ?thesis
      using coherent_writePending [OF assms(1), of ?h1 i] i True unfolding riscvUpdateCLICInput_def Let_def by auto
  next
    case False
    define b where "b \<longleftrightarrow> ?v"
    define u :: Uns8 where "u = of_bool b"
    have u: "bit u 0 = b" by (simp add: u_def)
    let ?h2 = "writeCLICInterruptPending cbs i u False ?h1"
    have i1: "i < num_interrupt (clic ?h1)" using i by simp
    note w = writePending_effect [OF assms(1) wf1 i1 refl, of u False]
    have same: "clic_same h ?h2" by (rule clic_same_trans [OF setInput_views(6) w(3)])
    have field: "getCLICInterruptField ?h2 k t = getCLICInterruptField h k t" for k t using w(2) [of k t] False by simp
    have trig: "isCLICInterruptEdge ?h2 i = isCLICInterruptEdge h i" "isCLICInterruptActiveLow ?h2 i = isCLICInterruptActiveLow h i"
      by (rule trig_views [OF field])+
    have "ipe_coherent ?h2"
    proof (rule coherent_but [OF assms(2) same, of i])
      show "ipWords ?h2 = ipWords h \<or> (\<exists>w. ipWords ?h2 = (ipWords h)[i div 64 := w] \<and>
          (\<forall>k. k \<noteq> i mod 64 \<longrightarrow> bit w k = bit (ipWords h ! (i div 64)) k))"
        using setInput_words [of i v h] w(4) by auto
      show "clic_pending ?h2 k = clic_pending h k" if "k \<noteq> i" for k using w(1) [of k] that by simp
      assume "trig_fixed ?h2 i"
      then have low: "\<not> isCLICInterruptActiveLow h i" "trig_fixed h i" using False trig same by (auto simp: trig_fixed_def clic_same_def)
      then have "getCLICInterruptField h i CIT_clicintip = 0" using assms(2) False by (simp add: ipe_coherent_def ipe_agrees_def)
      moreover have "getCLICInterruptEnable ?h2 i = getCLICInterruptEnable h i" by (simp add: getCLICInterruptEnable_def field)
      ultimately show "ipe_agrees ?h2 i"
        using w(1) [of i] low(1) False setInput_bit [OF word, of v]
        by (auto simp: ipe_agrees_def trig field getCLICInterruptPending_def w(4) u b_def)
    qed (simp add: field)
    then show ?thesis using False by (simp add: riscvUpdateCLICInput_def Let_def u_def b_def)
  qed
  moreover have "h' = (if basicICPresent (riscvUpdateCLICInput cbs i v ?h1) then riscvUpdatePending cbs (riscvUpdateCLICInput cbs i v ?h1)
      else riscvUpdateCLICInput cbs i v ?h1)"
    using assms(4) int1 by (auto simp: riscvUpdateInterrupt_def Let_def setInput_def split: if_splits)
  ultimately show ?thesis using coherent_updatePending [OF assms(1)] by simp
qed

lemma coherent_ack:
  assumes "cb_haltRestartNotifier cbs = []" and "ipe_coherent h" and "i < num_interrupt (clic h)"
  shows "ipe_coherent (riscvAcknowledgeCLICInt cbs i h)"
  using coherent_writePending [OF assms] assms(2) retest_coherent [OF retest_refresh]
  by (simp add: riscvAcknowledgeCLICInt_def)

lemma coherent_config:
  "ipe_coherent (h\<lparr>clic := (clic h)\<lparr>nlbits := f\<rparr>\<rparr>) = ipe_coherent h"
  "ipe_coherent (h\<lparr>clic := (clic h)\<lparr>nmbits := n\<rparr>\<rparr>) = ipe_coherent h"
  by (simp_all add: ipe_coherent_def clic_wf_def riscvGetIntNum_def trig_fixed_def ipe_agrees_def clic_pending_def
      isCLICInterruptEdge_def isCLICInterruptActiveLow_def getCLICInterruptAttr_def getCLICInterruptField_def
      getCLICInterruptPending_def getCLICInterruptEnable_def Let_def)

definition all_coherent :: "clicCluster \<Rightarrow> bool" where
  "all_coherent root \<longleftrightarrow> (\<forall>h \<in> set root. ipe_coherent h)"

lemma all_coherent_set [simp]:
  "all_coherent (set_nlbits m n root) = all_coherent root" "all_coherent (set_nmbits n root) = all_coherent root"
  by (simp_all add: all_coherent_def set_nlbits_def set_nmbits_def coherent_config)

lemma all_coherent_W:
  "nlbitsW m n root = (b, root') \<Longrightarrow> all_coherent root' = all_coherent root"
  "nmbitsW n root = (b, root') \<Longrightarrow> all_coherent root' = all_coherent root"
  by (auto simp: nlbitsW_def nmbitsW_def Let_def split: if_splits)

lemma all_coherent_refresh:
  "cb_haltRestartNotifier cbs = [] \<Longrightarrow> all_coherent (refreshCCLICInterruptAll cbs root) = all_coherent root"
  by (simp add: all_coherent_def refreshCCLICInterruptAll_def retest_coherent [OF retest_testInterrupt])

lemma all_coherent_cfgW:
  assumes "cb_haltRestartNotifier cbs = []"
  shows "all_coherent (cliccfgW cbs v root) = all_coherent root" "all_coherent (mcliccfgW cbs v root) = all_coherent root"
    "all_coherent (scliccfgW cbs v root) = all_coherent root" "all_coherent (ucliccfgW cbs v root) = all_coherent root"
  by (auto simp: cliccfgW_def mcliccfgW_def scliccfgW_def ucliccfgW_def Let_def all_coherent_refresh [OF assms] all_coherent_W
      split: prod.splits)

lemma coherent_bus:
  assumes "cb_haltRestartNotifier cbs = []" and "ipe_coherent h" and "desc_hart desc = 0"
    and "desc_type desc = CIT_clicintip \<Longrightarrow> isCLICInterruptEdge h (desc_int desc)"
    and "writeCLICInt cbs desc v [h] = Some [h']"
  shows "ipe_coherent h'"
proof (cases "desc_type desc = CIT_clicconfig")
  case True
  have "all_coherent [h]" using assms(2) by (simp add: all_coherent_def)
  with True assms(5) have "all_coherent [h']"
    by (auto simp: writeCLICInt_def Let_def all_coherent_cfgW [OF assms(1)] split: if_splits
        dest!: arg_cong [where f = all_coherent])
  then show ?thesis by (simp add: all_coherent_def)
next
  case False
  then have w: "writeCLICInterrupt cbs desc v [h] = Some [h']" using assms(5) by (simp add: writeCLICInt_def Let_def)
  show ?thesis
  proof (cases "accessCLICInterrupt [h] desc")
    case True
    then have i: "desc_int desc < num_interrupt (clic h)"
      by (auto simp: accessCLICInterrupt_def Let_def split: if_splits)
    show ?thesis
      using w True assms(3,4) coherent_writePending [OF assms(1,2) i] coherent_writeEnable [OF assms(1,2) i]
        coherent_writeAttr [OF assms(1,2) i] coherent_writeCtl [OF assms(1,2) i]
      by (cases "desc_type desc") (auto simp: writeCLICInterrupt_def Let_def getCLICHart_def)
  next
    case False
    then show ?thesis using w assms(2) by (simp add: writeCLICInterrupt_def)
  qed
qed

text \<open>The state after construction.\<close>

definition clic_sizes :: "riscvHart \<Rightarrow> riscvHart \<Rightarrow> bool" where
  "clic_sizes h h' \<longleftrightarrow> ipe (clic h') = ipe (clic h) \<and> num_interrupt (clic h') = num_interrupt (clic h) \<and>
    length (intState (clic h')) = length (intState (clic h)) \<and> length (trigFixed (clic h')) = length (trigFixed (clic h)) \<and>
    ipWords h' = ipWords h \<and> configInfo h' = configInfo h \<and>
    (\<forall>k. getCLICInterruptField h' k CIT_clicintip = getCLICInterruptField h k CIT_clicintip \<and>
      getCLICInterruptField h' k CIT_clicintie = getCLICInterruptField h k CIT_clicintie)"

lemma fillCLICInt_effect: "clic_sizes h (fillCLICInt i h)"
proof -
  have "getCLICInterruptField (setTrigFixed i h) k t = getCLICInterruptField h k t" for k t
    by (simp add: setTrigFixed_def getCLICInterruptField_def Let_def)
  moreover have "ipe (clic (setTrigFixed i h)) = ipe (clic h)" "num_interrupt (clic (setTrigFixed i h)) = num_interrupt (clic h)"
    "length (intState (clic (setTrigFixed i h))) = length (intState (clic h))" "ipWords (setTrigFixed i h) = ipWords h"
    "length (trigFixed (clic (setTrigFixed i h))) = length (trigFixed (clic h))" "configInfo (setTrigFixed i h) = configInfo h"
    by (simp_all add: setTrigFixed_def Let_def)
  ultimately show ?thesis by (simp add: fillCLICInt_def Let_def clic_sizes_def field_set)
qed

lemma fillCLIC_effect: "clic_sizes h (fold fillCLICInt is h)"
proof (induction "is" arbitrary: h)
  case (Cons i "is")
  show ?case using Cons.IH [of "fillCLICInt i h"] fillCLICInt_effect [of h i] by (simp add: clic_sizes_def)
qed (simp add: clic_sizes_def)

lemma coherent_fill:
  assumes "num_interrupt (clic h) = riscvGetIntNum h" and "riscvGetIntNum h \<le> 64 * length (ipWords h)"
  shows "ipe_coherent (riscvFillCLIC h)"
proof -
  let ?base = "h\<lparr>netValue := (netValue h)\<lparr>nv_enableCLIC := True\<rparr>,
    clic := (clic h)\<lparr>intState := replicate (riscvGetIntNum h) (\<lambda>_. 0), ipe := replicate (length (ipWords h)) 0,
      trigFixed := replicate (length (ipWords h)) 0\<rparr>\<rparr>"
  let ?h = "riscvFillCLIC h"
  have h: "?h = fold fillCLICInt [0..<riscvGetIntNum h] ?base" by (simp add: riscvFillCLIC_def Let_def)
  have eff: "clic_sizes ?base ?h" unfolding h by (rule fillCLIC_effect)
  have wf: "clic_wf ?h" using eff assms by (simp add: clic_wf_def riscvGetIntNum_def clic_sizes_def)
  have zero: "getCLICInterruptField ?h k CIT_clicintip = 0" "getCLICInterruptField ?h k CIT_clicintie = 0"
    if "k < num_interrupt (clic ?h)" for k
    using eff that assms(1) by (auto simp: getCLICInterruptField_def clic_sizes_def)
  have "\<not> clic_pending ?h k" for k using eff by (auto simp: clic_pending_def clic_sizes_def)
  then show ?thesis using wf zero
    by (auto simp: ipe_coherent_def ipe_agrees_def trig_fixed_def getCLICInterruptEnable_def)
qed

section \<open>Runs of the controller of one hart\<close>

text \<open>Changes of an input, writes of a register byte and acknowledgements. The pending bit of a level
  sensitive interrupt, which reflects an input, is not written by software.\<close>

inductive clic_step :: "riscvExtCB \<Rightarrow> riscvHart \<Rightarrow> riscvHart \<Rightarrow> bool" for cbs where
  input: "riscvUpdateInterrupt cbs i v h = Some h' \<Longrightarrow> clic_step cbs h h'"
| bus: "desc_hart desc = 0 \<Longrightarrow> (desc_type desc = CIT_clicintip \<Longrightarrow> isCLICInterruptEdge h (desc_int desc)) \<Longrightarrow>
    writeCLICInt cbs desc b [h] = Some [h'] \<Longrightarrow> clic_step cbs h h'"
| ack: "i < num_interrupt (clic h) \<Longrightarrow> clic_step cbs h (riscvAcknowledgeCLICInt cbs i h)"

lemma internal_config: "CLICInternal h' = CLICInternal h" if "configInfo h' = configInfo h" for h h'
  using that by (simp add: CLICInternal_def CLICPresent_def)

lemma config_test [simp]:
  assumes "cb_haltRestartNotifier cbs = []"
  shows "configInfo (riscvTestInterrupt cbs h) = configInfo h"
  by (rule retest_fields(7) [OF retest_testInterrupt [OF assms]])

lemma config_pending:
  assumes "cb_haltRestartNotifier cbs = []"
  shows "configInfo (writeCLICInterruptPending cbs i v may h) = configInfo h"
  using assms by (simp add: writeCLICInterruptPending_def updateCLICPendingEnable_def Let_def setCLICInterruptPending_def)

definition configs :: "clicCluster \<Rightarrow> excConfig list" where
  "configs root = map configInfo root"

lemma configs_cfgW:
  assumes "cb_haltRestartNotifier cbs = []"
  shows "configs (cliccfgW cbs v root) = configs root" "configs (mcliccfgW cbs v root) = configs root"
    "configs (scliccfgW cbs v root) = configs root" "configs (ucliccfgW cbs v root) = configs root"
  by (auto simp: cliccfgW_def mcliccfgW_def scliccfgW_def ucliccfgW_def Let_def nlbitsW_def nmbitsW_def set_nlbits_def set_nmbits_def
      refreshCCLICInterruptAll_def configs_def config_test [OF assms] split: prod.splits if_splits)

lemma clic_step_config:
  assumes "cb_haltRestartNotifier cbs = []" and "clic_step cbs h h'"
  shows "configInfo h' = configInfo h"
  using assms(2)
proof cases
  case (input i v)
  then show ?thesis
    by (auto simp: riscvUpdateInterrupt_def Let_def riscvUpdateCLICInput_def config_pending [OF assms(1)] riscvUpdatePending_def
        WR_CSR64_def config_test [OF assms(1)] split: if_splits)
next
  case (bus desc b)
  show ?thesis
  proof (cases "desc_type desc = CIT_clicconfig")
    case True
    with bus(3) have "configs [h'] = configs [h]"
      by (auto simp: writeCLICInt_def Let_def configs_cfgW [OF assms(1)] split: if_splits dest!: arg_cong [where f = configs])
    then show ?thesis by (simp add: configs_def)
  next
    case False
    with bus show ?thesis
      by (cases "desc_type desc") (auto simp: writeCLICInt_def writeCLICInterrupt_def Let_def getCLICHart_def config_pending [OF assms(1)]
          writeCLICInterruptEnable_def updateCLICPendingEnable_def setCLICInterruptEnable_def writeCLICInterruptAttr_def
          writeCLICInterruptCtl_def updateCLICInterruptField_def config_test [OF assms(1)] split: if_splits)
  qed
next
  case (ack i)
  then show ?thesis
    by (simp add: riscvAcknowledgeCLICInt_def config_pending [OF assms(1)] retest_fields(7) [OF retest_refresh])
qed

lemma clic_step_coherent:
  assumes "cb_haltRestartNotifier cbs = []" and "CLICInternal h" and "ipe_coherent h" and "clic_step cbs h h'"
  shows "ipe_coherent h'"
  using assms(4)
proof cases
  case (input i v)
  then show ?thesis using coherent_input [OF assms(1,3,2)] by blast
next
  case (bus desc b)
  show ?thesis by (rule coherent_bus [OF assms(1,3) bus(1) bus(2) bus(3)])
next
  case (ack i)
  then show ?thesis using coherent_ack [OF assms(1,3)] by blast
qed

text \<open>C7: In every state of a hart with an internal CLIC that changes of inputs, writes of register
  bytes and acknowledgements reach from construction, where software does not write the pending
  field of level-triggered interrupts, the mask that the selection reads agrees with the control
  fields and inputs for every interrupt whose trigger type is fixed and is edge or active-high
  level.\<close>

theorem clic_mask_coherent:
  assumes "cb_haltRestartNotifier cbs = []" and "CLICInternal h" and "num_interrupt (clic h) = riscvGetIntNum h"
    and "riscvGetIntNum h \<le> 64 * length (ipWords h)" and "(clic_step cbs)\<^sup>*\<^sup>* (riscvFillCLIC h) h'"
    and "i < num_interrupt (clic h')" and "bit (trigFixed (clic h') ! (i div 64)) (i mod 64)"
    and "isCLICInterruptEdge h' i \<or> \<not> isCLICInterruptActiveLow h' i"
  shows "clic_pending h' i \<longleftrightarrow> getCLICInterruptPending h' i \<and> getCLICInterruptEnable h' i"
proof -
  have "configInfo (riscvFillCLIC h) = configInfo h"
    using fillCLIC_effect by (auto simp: riscvFillCLIC_def Let_def clic_sizes_def)
  with assms(2) have "CLICInternal (riscvFillCLIC h)" using internal_config by blast
  from assms(5) this coherent_fill [OF assms(3,4)] have "CLICInternal h' \<and> ipe_coherent h'"
  proof (induction rule: rtranclp_induct)
    case (step h1 h2)
    then have *: "CLICInternal h1" "ipe_coherent h1" by auto
    show ?case
      using clic_step_coherent [OF assms(1) * step(2)] internal_config [OF clic_step_config [OF assms(1) step(2)]] *(1) by simp
  qed simp
  moreover have "trigFixed (clic h') ! (i div 64) AND push_bit (i mod 64) 1 \<noteq> 0"
    unfolding word_nonzero_bit using assms(7) by (auto simp: bit_and_iff bit_exp_iff intro!: exI [of _ "i mod 64"])
  ultimately show ?thesis using assms(6,8) by (simp add: ipe_coherent_def trig_fixed_def ipe_agrees_def)
qed

definition hart_clic_run :: riscvHart where
  "hart_clic_run = the (riscvUpdateInterrupt no_callbacks 16 True (riscvFillCLIC hart_clic))"

theorem clic_mask_coherent_witness:
  "getCLICInterruptPending hart_clic_run 16 \<and>
    (clic_pending hart_clic_run 16 \<longleftrightarrow> getCLICInterruptPending hart_clic_run 16 \<and> getCLICInterruptEnable hart_clic_run 16)"
proof -
  have "riscvUpdateInterrupt no_callbacks 16 True (riscvFillCLIC hart_clic) \<noteq> None" by code_simp
  then have "riscvUpdateInterrupt no_callbacks 16 True (riscvFillCLIC hart_clic) = Some hart_clic_run"
    by (auto simp: hart_clic_run_def)
  then have run: "(clic_step no_callbacks)\<^sup>*\<^sup>* (riscvFillCLIC hart_clic) hart_clic_run"
    by (blast intro: clic_step.input)
  have cb: "cb_haltRestartNotifier no_callbacks = []" by (simp add: no_callbacks_def)
  have start: "CLICInternal hart_clic" "num_interrupt (clic hart_clic) = riscvGetIntNum hart_clic"
    "riscvGetIntNum hart_clic \<le> 64 * length (ipWords hart_clic)" by code_simp+
  have state: "16 < num_interrupt (clic hart_clic_run)" "bit (trigFixed (clic hart_clic_run) ! (16 div 64)) (16 mod 64)"
    "isCLICInterruptEdge hart_clic_run 16 \<or> \<not> isCLICInterruptActiveLow hart_clic_run 16"
    "getCLICInterruptPending hart_clic_run 16"
    unfolding hart_clic_run_def by code_simp+
  show ?thesis using clic_mask_coherent [OF cb start run state(1-3)] state(4) by blast
qed

text \<open>A write of the pending bit of a level-sensitive interrupt.\<close>

lemma writePending_level:
  assumes "cb_haltRestartNotifier cbs = []" and "clic_wf h" and "i < num_interrupt (clic h)" and "\<not> isCLICInterruptEdge h i"
    and "h' = writeCLICInterruptPending cbs i b False h"
  shows "clic_pending h' i \<longleftrightarrow> getCLICInterruptEnable h i \<and> bit b 0"
    and "getCLICInterruptPending h' i = getCLICInterruptPending h i" and "getCLICInterruptEnable h' i = getCLICInterruptEnable h i"
proof -
  note w = writePending_effect [OF assms(1,2,3,5)]
  have field: "getCLICInterruptField h' k t = getCLICInterruptField h k t" for k t using w(2) [of k t] assms(4) by simp
  show "clic_pending h' i \<longleftrightarrow> getCLICInterruptEnable h i \<and> bit b 0" using w(1) [of i] by simp
  show "getCLICInterruptEnable h' i = getCLICInterruptEnable h i" by (simp add: getCLICInterruptEnable_def field)
  show "getCLICInterruptPending h' i = getCLICInterruptPending h i"
    by (simp add: getCLICInterruptPending_def Let_def field w(4) trig_views(1) [OF field])
qed

text \<open>C8: A write of zero to the read-only pending field of a level-triggered interrupt whose input is
  active removes it from the mask of pending and enabled interrupts although the field still
  reads as pending, so that the interrupt is lost for the selection.\<close>

theorem clic_level_write_masks:
  assumes "cb_haltRestartNotifier cbs = []" and "clic_wf h" and "\<not> isCLICInterruptEdge h (desc_int desc)" and "\<not> mayPendLevel h"
    and "desc_hart desc = 0" and "desc_type desc = CIT_clicintip" and "accessCLICInterrupt [h] desc" and "\<not> bit b 0"
  shows "\<exists>h'. writeCLICInt cbs desc b [h] = Some [h'] \<and> \<not> clic_pending h' (desc_int desc) \<and>
    getCLICInterruptPending h' (desc_int desc) = getCLICInterruptPending h (desc_int desc) \<and>
    getCLICInterruptEnable h' (desc_int desc) = getCLICInterruptEnable h (desc_int desc)"
proof -
  have i: "desc_int desc < num_interrupt (clic h)"
    using assms(7) by (auto simp: accessCLICInterrupt_def Let_def split: if_splits)
  have "writeCLICInt cbs desc b [h] = Some [writeCLICInterruptPending cbs (desc_int desc) b False h]"
    using assms by (simp add: writeCLICInt_def writeCLICInterrupt_def Let_def getCLICHart_def)
  then show ?thesis using writePending_level [OF assms(1,2) i assms(3) refl, of b] assms(8) by blast
qed

definition desc_clic :: CLICIntDesc where
  "desc_clic = \<lparr>desc_hart = 0, desc_raw = 0, desc_int = 16, desc_mode = RISCV_MODE_M, desc_type = CIT_clicintip\<rparr>"

theorem clic_level_write_masks_witness:
  "\<exists>h'. writeCLICInt no_callbacks desc_clic 0 [hart_clic_run] = Some [h'] \<and> \<not> clic_pending h' 16 \<and> getCLICInterruptPending h' 16"
proof -
  have cb: "cb_haltRestartNotifier no_callbacks = []" by (simp add: no_callbacks_def)
  have pre: "clic_wf hart_clic_run" "\<not> isCLICInterruptEdge hart_clic_run (desc_int desc_clic)" "\<not> mayPendLevel hart_clic_run"
    "desc_hart desc_clic = 0" "desc_type desc_clic = CIT_clicintip" "accessCLICInterrupt [hart_clic_run] desc_clic" "\<not> bit (0 :: Uns8) 0"
    unfolding hart_clic_run_def by code_simp+
  have "getCLICInterruptPending hart_clic_run (desc_int desc_clic)" "desc_int desc_clic = 16" unfolding hart_clic_run_def by code_simp+
  then show ?thesis using clic_level_write_masks [OF cb pre] by auto
qed

end
