(* ===== verification/RV_CLIC_Pages.thy ===== *)
theory RV_CLIC_Pages
  imports RV_CLIC_Mask
begin

text \<open>
  The register pages of the core-local interrupt controller: an access through the page of a mode,
  decoded from its address, reaches neither the interrupts nor the configuration of a more
  privileged mode.
\<close>

section \<open>Pages of different modes\<close>

definition cluster_wf :: "clicCluster \<Rightarrow> bool" where
  "cluster_wf root \<longleftrightarrow> (\<forall>h \<in> set root. clic_wf h \<and> num_interrupt (clic h) = num_interrupt (clic (hd root)))"

lemma attr_mode_mk: "m \<le> 3 \<Longrightarrow> attr_mode (mk_attr s t m) = m"
proof (rule bit_word_eqI)
  fix n assume "m \<le> 3" "n < LENGTH(8)"
  then have le: "unat m \<le> 3" by (simp add: word_le_nat_alt)
  have small: "n < 2" if "bit m n"
  proof (rule ccontr)
    assume "\<not> n < 2"
    then have "(4 :: nat) \<le> 2 ^ n" using power_increasing [of 2 n "2 :: nat"] by simp
    then have "unat m div 2 ^ n = 0" using le by simp
    then have "\<not> bit (unat m) n" by (simp add: bit_iff_odd)
    then show False using that by (simp add: bit_unsigned_iff)
  qed
  have "\<not> bit (of_bool s :: Uns8) (6 + n)" by (simp add: bit_1_iff)
  moreover have "\<not> bit (push_bit 1 (take_bit 2 t)) (6 + n)" by (simp only: bit_push_bit_iff bit_take_bit_iff) simp
  moreover have "bit (push_bit 6 m) (6 + n) = bit m n" using small by (simp only: bit_push_bit_iff) auto
  ultimately show "bit (attr_mode (mk_attr s t m)) n = bit m n"
    by (simp only: attr_mode_def mk_attr_def bit_drop_bit_eq o_apply bit_or_iff) simp
qed

text \<open>An access through a page reaches only interrupts whose mode is at most that of the page, leaves the
  other interrupts of the hart and all other harts alone, and cannot raise the mode of an interrupt
  above that of the page.\<close>

lemma write_target:
  assumes "writeCLICInterrupt cbs desc b root = Some root'" and "root' \<noteq> root"
  shows "accessCLICInterrupt root desc" and "\<exists>h'. root' = root[nat (desc_hart desc) := h'] \<and> h' \<in> {
      writeCLICInterruptPending cbs (desc_int desc) b (mayPendLevel (getCLICHart root desc)) (getCLICHart root desc),
      writeCLICInterruptEnable cbs (desc_int desc) b (getCLICHart root desc),
      writeCLICInterruptAttr cbs (desc_int desc) b (desc_mode desc) (getCLICHart root desc),
      writeCLICInterruptCtl cbs (desc_int desc) b (getCLICHart root desc)}"
  using assms by (auto simp: writeCLICInterrupt_def Let_def split: if_splits CLICIntFieldType.splits)

lemma attr_mode_cases: "attr_mode a \<in> {0, 1, 2, 3}"
proof -
  have "unat (attr_mode a) = unat a div 64" by (simp add: attr_mode_def drop_bit_eq_div unat_div)
  moreover have "unat a < 256" using unsigned_less [of a] by simp
  ultimately have "unat (attr_mode a) \<le> 3" by simp
  then show ?thesis unfolding insert_iff word_unat_eq_iff by simp linarith
qed

lemma write_attr_effect:
  assumes "cb_haltRestartNotifier cbs = []" and "clic_wf h" and "j < num_interrupt (clic h)" and "page \<in> {RISCV_MODE_U, RISCV_MODE_S, RISCV_MODE_M}"
    and "h' = writeCLICInterruptAttr cbs j b page h" and "mode_le (getCLICInterruptMode h j) page"
  shows "clic_same h h'" and "i \<noteq> j \<Longrightarrow> getCLICInterruptField h' i t = getCLICInterruptField h i t"
    and "clic_pending h' i = clic_pending h i" and "mode_le (getCLICInterruptMode h' j) page"
proof -
  let ?p = "ucast (riscvMode_code page) :: Uns8" and ?bits = "CLICCFGMBITS (configInfo h)"
  define m where "m = (if attr_mode b > ?p \<or> ?bits = 0 \<or> attr_mode b = 2 \<or> ?bits < 2 \<and> attr_mode b = 1 \<or>
    attr_mode b = 0 \<and> \<not> userIntPresent h then ?p else attr_mode b)"
  obtain s t' where h': "h' = updateCLICInterruptField cbs j CIT_clicintattr (mk_attr s t' m) h"
    unfolding assms(5) writeCLICInterruptAttr_def Let_def m_def by blast
  note w = updateField_effect [OF assms(1-3) h']
  show "clic_same h h'" by (rule w(3))
  show "i \<noteq> j \<Longrightarrow> getCLICInterruptField h' i t = getCLICInterruptField h i t" using w(2) by simp
  show "clic_pending h' i = clic_pending h i" by (rule w(1))
  have p: "?p \<in> {0, 1, 3}" "ucast ?p = riscvMode_code page" using assms(4) by auto
  have m: "m \<in> {0, 1, 3}" "m \<le> ?p" using attr_mode_cases [of b] p(1) by (auto simp: m_def split: if_splits)
  then have "m \<le> 3" by auto
  then have mode: "getCLICInterruptMode h' j = (if nmbits (clic h) = 0 then RISCV_MODE_M
      else if ?bits = 1 then (if m AND 2 \<noteq> 0 then RISCV_MODE_M else RISCV_MODE_U) else modeOfCode (m OR of_bool (nmbits (clic h) = 1)))"
    using w(3) by (simp add: getCLICInterruptMode_def getCLICInterruptAttr_def w(2) attr_mode_mk clic_same_def)
  have "nmbits (clic h) = 0 \<Longrightarrow> page = RISCV_MODE_M"
    using assms(4,6) by (auto simp: getCLICInterruptMode_def word_le_nat_alt)
  moreover have "nmbits (clic h) = 1 \<Longrightarrow> ?bits \<noteq> 1 \<Longrightarrow> page \<noteq> RISCV_MODE_U"
    using assms(6) attr_mode_cases [of "getCLICInterruptAttr h j"] by (auto simp: getCLICInterruptMode_def modeOfCode_def word_le_nat_alt)
  ultimately show "mode_le (getCLICInterruptMode h' j) page"
    unfolding mode using assms(4) m by (auto simp: modeOfCode_def word_le_nat_alt)
qed

lemma mode_cong:
  assumes "clic_same h h'" "getCLICInterruptField h' i CIT_clicintattr = getCLICInterruptField h i CIT_clicintattr"
  shows "getCLICInterruptMode h' i = getCLICInterruptMode h i"
  using assms by (simp add: getCLICInterruptMode_def getCLICInterruptAttr_def clic_same_def Let_def)

text \<open>What an access through the page of a mode may do to a hart: interrupts of more privileged modes keep
  their fields, their pending state and their mode, other interrupts stay at or below the mode of the page,
  and below Machine mode the number of mode bits and the numbers of level bits of more privileged
  modes stay.\<close>

definition isolated :: "riscvMode \<Rightarrow> riscvHart \<Rightarrow> riscvHart \<Rightarrow> bool" where
  "isolated page h h' \<longleftrightarrow>
    (\<forall>i. if mode_le (getCLICInterruptMode h i) page then mode_le (getCLICInterruptMode h' i) page
      else getCLICInterruptMode h' i = getCLICInterruptMode h i \<and> clic_pending h' i = clic_pending h i \<and>
        (\<forall>t. getCLICInterruptField h' i t = getCLICInterruptField h i t)) \<and>
    (page \<noteq> RISCV_MODE_M \<longrightarrow> nmbits (clic h') = nmbits (clic h) \<and>
      (\<forall>n. \<not> mode_le n page \<longrightarrow> nlbits (clic h') n = nlbits (clic h) n))"

definition all_isolated :: "riscvMode \<Rightarrow> clicCluster \<Rightarrow> clicCluster \<Rightarrow> bool" where
  "all_isolated page root root' \<longleftrightarrow> list_all2 (isolated page) root root'"

lemma isolated_refl: "isolated page h h"
  by (simp add: isolated_def)

lemma isolated_trans: "isolated page h h' \<Longrightarrow> isolated page h' h'' \<Longrightarrow> isolated page h h''"
  unfolding isolated_def by (metis (full_types))

lemma all_isolated_refl: "all_isolated page root root"
  by (simp add: all_isolated_def list_all2_refl isolated_refl)

lemma all_isolated_trans: "all_isolated page root root' \<Longrightarrow> all_isolated page root' root'' \<Longrightarrow> all_isolated page root root''"
  unfolding all_isolated_def using list_all2_trans [OF isolated_trans] .

lemma all_isolated_nth: "all_isolated page root root' \<Longrightarrow> k < length root \<Longrightarrow> isolated page (root ! k) (root' ! k)"
  unfolding all_isolated_def by (rule list_all2_nthD)

lemma writeInterrupt_isolated:
  assumes "cb_haltRestartNotifier cbs = []" and "cluster_wf root" and "desc_mode desc \<in> {RISCV_MODE_U, RISCV_MODE_S, RISCV_MODE_M}"
    and "writeCLICInterrupt cbs desc b root = Some root'"
  shows "all_isolated (desc_mode desc) root root' \<and> cluster_wf root'"
proof (cases "root' = root \<or> \<not> nat (desc_hart desc) < length root")
  case True
  then have "root' = root" using write_target(2) [OF assms(4)] list_update_beyond [of root] by (cases "root' = root") auto
  then show ?thesis using assms(2) all_isolated_refl by simp
next
  case False
  let ?j = "nat (desc_hart desc)" and ?n = "desc_int desc" and ?m = "desc_mode desc"
  let ?h = "root ! ?j"
  from False have j: "?j < length root" "?h \<in> set root" by auto
  note target = write_target [OF assms(4)]
  from False have acc: "accessCLICInterrupt root desc" using target by auto
  have wf: "clic_wf ?h" "num_interrupt (clic ?h) = num_interrupt (clic (hd root))"
    using assms(2) j by (auto simp: cluster_wf_def)
  have n: "?n < num_interrupt (clic ?h)" and mode: "mode_le (getCLICInterruptMode ?h ?n) ?m"
    using acc wf(2) by (auto simp: accessCLICInterrupt_def Let_def getCLICHart_def split: if_splits)
  note wp = writePending_effect [OF assms(1) wf(1) n refl] and we = writeEnable_effect [OF assms(1) wf(1) n refl]
    and wa = write_attr_effect [OF assms(1) wf(1) n assms(3) refl mode] and wc = updateField_effect [OF assms(1) wf(1) n refl]
  obtain h' where h': "root' = root[?j := h']" "h' = writeCLICInterruptPending cbs ?n b (mayPendLevel ?h) ?h \<or>
      h' = writeCLICInterruptEnable cbs ?n b ?h \<or> h' = writeCLICInterruptAttr cbs ?n b ?m ?h \<or>
      h' = writeCLICInterruptCtl cbs ?n b ?h"
    using target(2) False by (auto simp: getCLICHart_def)
  have other: "i \<noteq> ?n \<Longrightarrow> getCLICInterruptField h' i t = getCLICInterruptField ?h i t" "i \<noteq> ?n \<Longrightarrow> clic_pending h' i = clic_pending ?h i"
    and same: "clic_same ?h h'" for i t
    using h'(2) by (auto simp: wp we wa wc writeCLICInterruptCtl_def)
  have attr: "h' \<noteq> writeCLICInterruptAttr cbs ?n b ?m ?h \<Longrightarrow>
      getCLICInterruptField h' ?n CIT_clicintattr = getCLICInterruptField ?h ?n CIT_clicintattr"
    using h'(2) by (auto simp: wp we wc writeCLICInterruptCtl_def)
  have after: "mode_le (getCLICInterruptMode h' ?n) ?m"
  proof (cases "h' = writeCLICInterruptAttr cbs ?n b ?m ?h")
    case True
    show ?thesis unfolding True by (rule wa(4))
  next
    case False
    show ?thesis using mode_cong [OF same attr [OF False]] mode by simp
  qed
  have "isolated ?m ?h h'"
  proof -
    have keep: "getCLICInterruptMode h' i = getCLICInterruptMode ?h i" if "i \<noteq> ?n" for i
      by (rule mode_cong [OF same other(1) [OF that]])
    have "nmbits (clic h') = nmbits (clic ?h)" "nlbits (clic h') = nlbits (clic ?h)" using same by (simp_all add: clic_same_def)
    moreover have "if mode_le (getCLICInterruptMode ?h i) ?m then mode_le (getCLICInterruptMode h' i) ?m
      else getCLICInterruptMode h' i = getCLICInterruptMode ?h i \<and> clic_pending h' i = clic_pending ?h i \<and>
        (\<forall>t. getCLICInterruptField h' i t = getCLICInterruptField ?h i t)" for i
      using after mode keep [of i] other [of i] by (cases "i = ?n") simp_all
    ultimately show ?thesis unfolding isolated_def by simp
  qed
  then have "all_isolated ?m root root'"
    unfolding all_isolated_def h'(1) using j(1) by (auto simp: list_all2_conv_all_nth nth_list_update isolated_refl)
  moreover have "clic_wf h'" "num_interrupt (clic h') = num_interrupt (clic ?h)"
    using clic_same_wf [OF same wf(1)] same by (simp_all add: clic_same_def)
  moreover from this have "num_interrupt (clic (hd root')) = num_interrupt (clic (hd root))"
    using wf(2) j(1) unfolding h'(1) by (cases root; cases ?j) simp_all
  moreover have "h \<in> set root' \<Longrightarrow> h = h' \<or> h \<in> set root" for h
    unfolding h'(1) using set_update_subset_insert [of root ?j h'] by blast
  ultimately show ?thesis using assms(2) wf(2) by (auto simp: cluster_wf_def)
qed

text \<open>The configuration bytes of a mode below Machine mode are its own numbers of level bits.\<close>

lemma isolated_level: "n \<noteq> RISCV_MODE_M \<Longrightarrow> mode_le n page \<Longrightarrow>
    isolated page h (h\<lparr>clic := (clic h)\<lparr>nlbits := (nlbits (clic h))(n := v)\<rparr>\<rparr>)"
  by (auto simp: isolated_def clic_views Let_def)

lemma isolated_test: "cb_haltRestartNotifier cbs = [] \<Longrightarrow> isolated page h (riscvTestInterrupt cbs h)"
  using retest_views [OF retest_testInterrupt] retest_fields [OF retest_testInterrupt] by (simp add: isolated_def)

lemma level_isolated:
  assumes "cb_haltRestartNotifier cbs = []" and "n \<noteq> RISCV_MODE_M" and "mode_le n page" and "nlbitsW n v root = (b, root')"
  shows "all_isolated page root (if b then refreshCCLICInterruptAll cbs root' else root')"
proof -
  have "all_isolated page root root'"
    using assms(4) all_isolated_refl isolated_level [OF assms(2,3)]
    by (auto simp: nlbitsW_def Let_def set_nlbits_def all_isolated_def list_all2_conv_all_nth split: if_splits)
  moreover have "all_isolated page root' (refreshCCLICInterruptAll cbs root')"
    by (simp add: refreshCCLICInterruptAll_def all_isolated_def list_all2_conv_all_nth isolated_test [OF assms(1)])
  ultimately show ?thesis using all_isolated_trans by auto
qed

lemma isolated_machine:
  "isolated RISCV_MODE_M h h'"
proof -
  have "mode_le (getCLICInterruptMode q i) RISCV_MODE_M" for q i
    using attr_mode_cases [of "getCLICInterruptAttr q i"] by (auto simp: getCLICInterruptMode_def modeOfCode_def Let_def)
  then show ?thesis by (simp add: isolated_def)
qed

text \<open>The callbacks that the simulator calls for an access to a region, and the mode of the page
  that an address belongs to.\<close>

fun clicDesc :: "clicRegion \<Rightarrow> clicCluster \<Rightarrow> Uns64 \<Rightarrow> CLICIntDesc" where
  "clicDesc CLICOld root address = fillCLICDescOld (getCLICOldOffset root address)"
| "clicDesc CLICM root address = getCLICDescM root address"
| "clicDesc CLICS root address = getCLICDescS root address"
| "clicDesc CLICU root address = getCLICDescU root address"

fun clicWrite :: "riscvExtCB \<Rightarrow> clicRegion \<Rightarrow> Uns64 \<Rightarrow> Uns8 list \<Rightarrow> clicCluster \<Rightarrow> clicCluster option" where
  "clicWrite cbs CLICOld address bytes root = writeCLICOld cbs address bytes root"
| "clicWrite cbs CLICM address bytes root = writeCLIC cbs getCLICDescM address bytes root"
| "clicWrite cbs CLICS address bytes root = writeCLIC cbs getCLICDescS address bytes root"
| "clicWrite cbs CLICU address bytes root = writeCLIC cbs getCLICDescU address bytes root"

fun clicRead :: "clicRegion \<Rightarrow> clicCluster \<Rightarrow> Uns64 \<Rightarrow> nat \<Rightarrow> Uns8 option list" where
  "clicRead CLICOld root address bytes = readCLICOld root address bytes"
| "clicRead CLICM root address bytes = map Some (readCLIC getCLICDescM root address bytes)"
| "clicRead CLICS root address bytes = map Some (readCLIC getCLICDescS root address bytes)"
| "clicRead CLICU root address bytes = map Some (readCLIC getCLICDescU root address bytes)"

fun clicPage :: "clicRegion \<Rightarrow> clicCluster \<Rightarrow> Uns64 \<Rightarrow> riscvMode" where
  "clicPage CLICOld root address =
    (let offset = unat (address - mclicbase (configInfo (hd root)))
     in if offset < 0x200000 then RISCV_MODE_M else if offset < 0x600000 then RISCV_MODE_S else RISCV_MODE_U)"
| "clicPage CLICM root address = RISCV_MODE_M"
| "clicPage CLICS root address = RISCV_MODE_S"
| "clicPage CLICU root address = RISCV_MODE_U"

lemma config_isolated:
  assumes "cb_haltRestartNotifier cbs = []" and "region \<noteq> CLICM" and "clicDesc region root address = desc"
    and "desc_type desc = CIT_clicconfig" and "desc_mode desc \<noteq> RISCV_MODE_M" and "writeCLICInt cbs desc b root = Some root'"
  shows "all_isolated (desc_mode desc) root root'"
proof -
  have page: "xcliccfgPerMode (hd root) \<and> desc_mode desc \<in> {RISCV_MODE_S, RISCV_MODE_U}"
    using assms(2-5) by (cases region) (auto simp: fillCLICDescOld_def getCLICDescS_def getCLICDescU_def CLICIntDescSU_def
      fillCLICDescInt_def fillCLICDescCtrl_def Let_def split: if_splits elim!: fieldTypeOf.elims)
  then have "\<not> mcliccfgAccess root desc" by (auto simp: mcliccfgAccess_def word_le_nat_alt)
  then consider "root' = root" | "scliccfgAccess root desc" "root' = scliccfgW cbs b root" | "root' = ucliccfgW cbs b root"
    using assms(4,6) page by (auto simp: writeCLICInt_def Let_def split: if_splits)
  then show ?thesis
  proof cases
    case 2
    then have "mode_le RISCV_MODE_S (desc_mode desc)" by (simp add: scliccfgAccess_def)
    then show ?thesis using level_isolated [OF assms(1), of RISCV_MODE_S] 2(2) by (auto simp: scliccfgW_def split: prod.splits)
  next
    case 3
    then show ?thesis using level_isolated [OF assms(1), of RISCV_MODE_U] by (auto simp: ucliccfgW_def split: prod.splits)
  qed (simp add: all_isolated_refl)
qed

lemma desc_page: "region \<noteq> CLICOld \<Longrightarrow> desc_mode (clicDesc region root address) = clicPage region root address"
  by (cases region) (simp_all add: getCLICDescM_def getCLICDescS_def getCLICDescU_def CLICIntDescSU_def
    fillCLICDescInt_def fillCLICDescCtrl_def Let_def)

text \<open>An address of the legacy region is below \<open>CLIC_OLD_SIZE\<close>.\<close>

lemma desc_page_old:
  assumes "unat (address - mclicbase (configInfo (hd root))) < CLIC_OLD_SIZE"
  shows "desc_mode (clicDesc CLICOld root address) = clicPage CLICOld root address"
proof -
  let ?o = "unat (address - mclicbase (configInfo (hd root)))"
  have "getCLICOldOffset root address = ?o"
    using assms by (simp add: getCLICOldOffset_def unsigned_ucast_eq unsigned_take_bit_eq take_bit_nat_eq_self)
  moreover have "?o div 0x200000 = 0 \<longleftrightarrow> ?o < 0x200000" "?o div 0x200000 \<in> {1, 2} \<longleftrightarrow> \<not> ?o < 0x200000 \<and> ?o < 0x600000"
    by auto
  ultimately show ?thesis by (auto simp: fillCLICDescOld_def getCLICOldPMode_def Let_def)
qed

lemma writeCLICOldByte_isolated:
  assumes "cb_haltRestartNotifier cbs = []" and "cluster_wf root"
    and "unat (address - mclicbase (configInfo (hd root))) < CLIC_OLD_SIZE" and "writeCLICOldByte cbs address b root = Some root'"
    and "clicPage CLICOld root address \<noteq> RISCV_MODE_M"
  shows "all_isolated (clicPage CLICOld root address) root root'"
proof -
  let ?d = "clicDesc CLICOld root address"
  have mode: "desc_mode ?d = clicPage CLICOld root address" by (rule desc_page_old [OF assms(3)])
  then have page: "desc_mode ?d \<in> {RISCV_MODE_U, RISCV_MODE_S, RISCV_MODE_M}" "desc_mode ?d \<noteq> RISCV_MODE_M"
    using assms(5) by (auto simp: Let_def split: if_splits)
  have config: "desc_type ?d \<noteq> CIT_clicconfig" using page(2) by (auto simp: fillCLICDescOld_def Let_def split: if_splits)
  show ?thesis
  proof (cases "nat (desc_hart ?d) < length root \<and> desc_type ?d \<noteq> CIT_LAST")
    case False
    then show ?thesis using assms(4) all_isolated_refl by (auto simp: writeCLICOldByte_def Let_def split: if_splits)
  next
    case True
    note one = writeInterrupt_isolated [OF assms(1)]
    show ?thesis
    proof (cases "desc_type ?d = CIT_clicintctl")
      case False
      then have "writeCLICInterrupt cbs ?d b root = Some root'"
        using assms(4) True config by (simp add: writeCLICOldByte_def writeCLICInt_def Let_def)
      then show ?thesis using one [OF assms(2) page(1)] mode by simp
    next
      case ctl: True
      define m where "m = maskCLICOldIntCfg root ?d b"
      have run: "Option.bind (writeCLICOldIntAttr cbs ?d m root) (writeCLICInt cbs ?d m) = Some root'"
        using assms(4) True ctl by (simp add: writeCLICOldByte_def m_def Let_def)
      then obtain root1 where r1: "writeCLICOldIntAttr cbs ?d m root = Some root1" "writeCLICInt cbs ?d m root1 = Some root'"
        by (auto simp: bind_eq_Some_conv)
      then obtain a where "writeCLICInterrupt cbs (?d\<lparr>desc_type := CIT_clicintattr\<rparr>) a root = Some root1"
        by (auto simp: writeCLICOldIntAttr_def writeCLICInt_def Let_def)
      from one [OF assms(2) _ this] have i1: "all_isolated (desc_mode ?d) root root1" "cluster_wf root1" using page(1) by simp_all
      moreover have "writeCLICInterrupt cbs ?d m root1 = Some root'" using r1(2) config by (simp add: writeCLICInt_def Let_def)
      from one [OF i1(2) page(1) this] have "all_isolated (desc_mode ?d) root1 root'" by simp
      ultimately show ?thesis using all_isolated_trans mode by metis
    qed
  qed
qed

lemma writeCLIC_isolated:
  assumes "cb_haltRestartNotifier cbs = []" and "cluster_wf root" and "region \<in> {CLICS, CLICU}"
    and "writeCLICInt cbs (clicDesc region root address) b root = Some root'"
  shows "all_isolated (clicPage region root address) root root'"
proof -
  have mode: "desc_mode (clicDesc region root address) = clicPage region root address" using desc_page assms(3) by auto
  have page: "clicPage region root address \<in> {RISCV_MODE_U, RISCV_MODE_S}" using assms(3) by auto
  show ?thesis
  proof (cases "desc_type (clicDesc region root address) = CIT_clicconfig")
    case True
    then show ?thesis using config_isolated [OF assms(1) _ refl True _ assms(4)] assms(3) mode page by auto
  next
    case False
    then show ?thesis using writeInterrupt_isolated [OF assms(1,2), of "clicDesc region root address" b root'] assms(4) mode page by (auto simp: writeCLICInt_def Let_def)
  qed
qed

text \<open>C9: A byte written through a page of the memory map, legacy or not, interrupt or configuration,
  neither changes the fields, the mode or the pending state of an interrupt of a more privileged
  mode than that of the page, on any hart, nor raises an interrupt above that mode, nor changes
  the number of mode bits or the level bits of a more privileged mode; the fields of the
  interrupts of more privileged modes read as zero.\<close>

theorem clic_page_isolation:
  assumes "cb_haltRestartNotifier cbs = []" and "cluster_wf root"
    and "region = CLICOld \<Longrightarrow> unat (address - mclicbase (configInfo (hd root))) < CLIC_OLD_SIZE"
    and "clicWrite cbs region address [b] root = Some root'" and "clicDesc region root address = desc"
  shows "(\<forall>k<length root. isolated (clicPage region root address) (root ! k) (root' ! k)) \<and>
    (nat (desc_hart desc) < length root \<and> desc_type desc \<noteq> CIT_clicconfig \<and>
      \<not> mode_le (getCLICInterruptMode (root ! nat (desc_hart desc)) (desc_int desc)) (clicPage region root address) \<longrightarrow>
      clicRead region root address 1 = [Some 0])"
proof
  show "\<forall>k<length root. isolated (clicPage region root address) (root ! k) (root' ! k)"
  proof (cases "clicPage region root address = RISCV_MODE_M")
    case False
    then have "all_isolated (clicPage region root address) root root'"
      using assms(3,4) writeCLICOldByte_isolated [OF assms(1,2), of address b root'] writeCLIC_isolated [OF assms(1,2), of region address b root']
      by (cases region) (simp_all add: bind_eq_Some_conv del: clicPage.simps(1))
    then show ?thesis using all_isolated_nth by blast
  qed (simp add: isolated_machine)
next
  have "desc_mode desc = clicPage region root address" using assms(3,5) desc_page desc_page_old by (cases "region = CLICOld") auto
  moreover have "readCLICInt root desc = 0"
    if "desc_type desc \<noteq> CIT_clicconfig" "\<not> mode_le (getCLICInterruptMode (root ! nat (desc_hart desc)) (desc_int desc)) (desc_mode desc)"
    using that by (auto simp: readCLICInt_def readCLICInterrupt_def accessCLICInterrupt_def getCLICHart_def Let_def)
  ultimately show "nat (desc_hart desc) < length root \<and> desc_type desc \<noteq> CIT_clicconfig \<and>
      \<not> mode_le (getCLICInterruptMode (root ! nat (desc_hart desc)) (desc_int desc)) (clicPage region root address) \<longrightarrow>
      clicRead region root address 1 = [Some 0]"
    using assms(5) by (cases region) (auto simp: readCLICOld_def readCLIC_def Let_def)
qed

definition cluster_pages :: clicCluster where
  "cluster_pages = [hart_clic\<lparr>ipWords := [0x10000], configInfo := (configInfo hart_clic)\<lparr>CLIC_version := RVCLC_20180831, CLICCFGMBITS := 1\<rparr>,
    clic := (clic hart_clic)\<lparr>nmbits := 1, intState := replicate 20 ((\<lambda>_. 0)(CIT_clicintattr := 0xC0))\<rparr>\<rparr>]"

text \<open>A write of the enable byte of the Machine mode interrupt 16 through the legacy user page.\<close>

theorem clic_page_isolation_witness:
  "isolated RISCV_MODE_U (cluster_pages ! 0) (the (clicWrite no_callbacks CLICOld 0x600410 [1] cluster_pages) ! 0) \<and>
   clicRead CLICOld cluster_pages 0x600410 1 = [Some 0]"
proof -
  have cb: "cb_haltRestartNotifier no_callbacks = []" by (simp add: no_callbacks_def)
  have wf: "cluster_wf cluster_pages" by code_simp
  have base: "mclicbase (configInfo (hd cluster_pages)) = 0" "length cluster_pages = 1"
    by (simp_all add: cluster_pages_def hart_clic_def hart_none_def)
  let ?d = "\<lparr>desc_hart = 0, desc_raw = 0x600410, desc_int = 16, desc_mode = RISCV_MODE_U, desc_type = CIT_clicintie\<rparr>"
  have desc: "clicDesc CLICOld cluster_pages 0x600410 = ?d"
    by (simp add: getCLICOldOffset_def base fillCLICDescOld_def getCLICOldHart_def getCLICOldIntId_def getCLICOldPMode_def
      getCLICOldFType_def)
  have mode: "\<not> mode_le (getCLICInterruptMode (cluster_pages ! 0) 16) RISCV_MODE_U" by code_simp
  then have "\<not> accessCLICInterrupt cluster_pages ?d" by (simp add: accessCLICInterrupt_def getCLICHart_def)
  then have run: "clicWrite no_callbacks CLICOld 0x600410 [1] cluster_pages = Some cluster_pages"
    using desc by (simp add: writeCLICOldByte_def writeCLICInt_def writeCLICInterrupt_def base)
  show ?thesis
    using clic_page_isolation [OF cb wf _ run desc] mode unfolding run by (simp add: base)
qed

end
