(* ===== verification/Spec2Isabelle.thy ===== *)
theory Spec2Isabelle
  imports RV_BExt_Perm RV_BExt_Field RV_BExt_Sets RV_KExt_AES_Round RV_KExt_SHA RV_KExt_SM4 RV_KExt_GCM RV_KExt_Sets RV_Mode
    RV_PMP_Registers RV_VM_Pages RV_TLB_Cache RV_TLB_Map RV_TLB_Fence
    RV_Int_AIA RV_CLIC_Pages
begin

text \<open>
  Verification of the riscvOVPsim RISC-V processor model, the C sources under
  \<^verbatim>\<open>src/riscv-ovpsim/source/\<close>. File names below are relative to that directory.

  \<^bold>\<open>The program.\<close> The model is loaded by an instruction set simulator. It decodes instructions
  (\<^verbatim>\<open>riscvDecode.c\<close>), translates them to native code (\<^verbatim>\<open>riscvMorph.c\<close>) with embedded calls of C
  functions for the operations that are not primitives of the simulator, implements the system
  registers (\<^verbatim>\<open>riscvCSR.c\<close>), the exceptions, interrupts and debug mode (\<^verbatim>\<open>riscvExceptions.c\<close>), the
  core-local interrupt controllers (\<^verbatim>\<open>riscvCLIC.c\<close>, \<^verbatim>\<open>riscvCLINT.c\<close>), the trigger module
  (\<^verbatim>\<open>riscvTrigger.c\<close>), the memory protection and address translation (\<^verbatim>\<open>riscvVM.c\<close>) and the operations
  of the extensions (\<^verbatim>\<open>riscvBExtension.c\<close>, \<^verbatim>\<open>riscvKExtension.c\<close>). A memory access that the installed
  mappings of the simulator do not permit calls back into \<^verbatim>\<open>riscvVM.c\<close>, which consults the TLB, walks
  the page tables, checks the PMP registers and installs mappings; writes of the registers and the
  fence instructions remove them again. Every change of an interrupt input or of a register that
  masks interrupts ends in \<^verbatim>\<open>riscvTestInterrupt\<close>, which selects the interrupt to take.

  \<^bold>\<open>Conventions.\<close> Machine integers are words of their width, so that arithmetic wraps as in C. A
  \<^verbatim>\<open>Bool\<close> that is computed by masking is whether the result is non-zero, as its users expect. A C function that changes the processor
  becomes a function from the state to the new state; the state is a record of the members of
  \<^verbatim>\<open>struct riscvS\<close> that the component uses. The value \<open>None\<close> stands for a failed assertion or
  \<^verbatim>\<open>VMI_ABORT\<close>, and for a table lookup that the program does not make (the one abort of
  \<^verbatim>\<open>refreshPendingAndEnabledCLIC\<close>, for an interrupt of none of three modes, presents no interrupt instead).
  A register that the code reads through the common view (\<^verbatim>\<open>RD_CSRC\<close>) has 32 bits there. Loops over an array are folds or
  structural recursion, loops that shift a word are recursive functions whose termination is proved
  with the word as measure. Messages, coverage points and the tracing of debug output change no
  state and are left out.

  \<^bold>\<open>External code.\<close> The simulator is not part of the repository except for its header files. What it
  keeps for the model (page tables in memory, memory domains with their protections, the range table
  of TLB entries, the instruction counters) is part of the states, and calls that only notify it are
  recorded in order in the field \<open>vmi\<close>. Callbacks of derived models are functions in the record
  \<open>riscvExtCB\<close> or in the state, and the theorems that need them absent or harmless say so. A read of
  memory during a page table walk is a function of the state; when it is translated itself, in the walk
  of a virtual machine's own tables under a second stage, the simulator calls the lookup of
  that stage, whose effects on the state are not part of the model of the outer walk: the theorems on
  the state after a lookup exclude that case.

  \<^bold>\<open>Shared theories.\<close> \<^verbatim>\<open>RV_Prelude\<close> (integer types, bit-level reasoning, the collection
  \<open>bit_rules\<close>), \<^verbatim>\<open>RV_Views\<close> (words as arrays of narrower words, the unions of the C code),
  \<^verbatim>\<open>RV_GF2\<close> (polynomial products over two elements, with a locale for the shift registers that compute
  them, interpreted for the AES and the GCM field), \<^verbatim>\<open>RV_Regions\<close> (a locale for tables of regions with
  priorities, interpreted for PMP), \<^verbatim>\<open>RV_Scan\<close> (scans that keep the best candidate, used by both
  interrupt controllers), \<^verbatim>\<open>RV_Variant\<close> (\<^verbatim>\<open>riscvVariant.h\<close>: architecture bits and versions),
  \<^verbatim>\<open>RV_Mode\<close> (\<^verbatim>\<open>riscvMode.h\<close>: execution modes, dictionary modes and their conversions).

  \<^bold>\<open>Bit manipulation\<close>, \<^verbatim>\<open>riscvBExtension.c\<close>. \<^verbatim>\<open>RV_BExt\<close> has one function per callback
  (\<^verbatim>\<open>doGREV32\<close>, \<^verbatim>\<open>doSHFL64\<close>, \<^verbatim>\<open>doBEXT\<close>, \<^verbatim>\<open>doCRC32\<close> and so on). \<^verbatim>\<open>RV_BExt_Perm\<close> characterises the
  permuting ones bit by bit and derives their laws, \<^verbatim>\<open>RV_BExt_Field\<close> does the rest. \<^verbatim>\<open>RV_BExt_Sets\<close> has
  the tables that give each operation its subset and callback for every version, and the legality
  check \<^verbatim>\<open>riscvValidateBExtSubset\<close>.

  \<^bold>\<open>Cryptography\<close>, \<^verbatim>\<open>riscvKExtension.c\<close>. \<^verbatim>\<open>RV_KExt_Base\<close> (results and rotations),
  \<^verbatim>\<open>RV_KExt_AES\<close>, \<^verbatim>\<open>RV_KExt_SHA\<close>, \<^verbatim>\<open>RV_KExt_SM3\<close>, \<^verbatim>\<open>RV_KExt_SM4\<close>, \<^verbatim>\<open>RV_KExt_GCM\<close> (the operations,
  scalar and vector), \<^verbatim>\<open>RV_KExt_Sbox\<close>, \<^verbatim>\<open>RV_KExt_Bytes\<close>, \<^verbatim>\<open>RV_KExt_AES_Round\<close> (the S-box is the
  field inverse, the rounds byte by byte), \<^verbatim>\<open>RV_KExt_Sets\<close> (tables, legality checks, entropy source).
  The lemmas relate the instructions to the standards (compression functions, key schedules, field
  products) and to each other.

  \<^bold>\<open>Physical memory protection\<close>, \<^verbatim>\<open>riscvVM.c\<close>. \<^verbatim>\<open>RV_PMP\<close> has the registers, their write
  functions, the lookup \<^verbatim>\<open>mapPMP\<close> and the invalidation. An access of the simulator has at most 61
  bytes here, for which the \<open>MAX_PMP_STRADDLE_NUM\<close> = 16 entries of the array in \<^verbatim>\<open>mapPMP\<close> suffice, since
  a region has at least four bytes. \<^verbatim>\<open>RV_PMP_Lookup\<close> and \<^verbatim>\<open>RV_PMP_Install\<close> prove the decision and the
  installed mappings against the first-match specification, \<^verbatim>\<open>RV_PMP_Coherent\<close>, \<^verbatim>\<open>RV_PMP_Steps\<close> and
  \<^verbatim>\<open>RV_PMP_Registers\<close> treat the registers as a state machine: mappings are never wider than the
  registers and locks hold between two resets, with the one case where this fails, and stored
  configurations are legal, over resets too if the configured reset values are.

  \<^bold>\<open>Address translation\<close>, \<^verbatim>\<open>riscvVM.c\<close>. \<^verbatim>\<open>RV_VM\<close> has page table entries, the walks of both stages,
  the permission check and the exception of a failed walk; a walk has at most six levels, and the
  array of recorded entry addresses has eight. \<^verbatim>\<open>RV_VM_Walk\<close> proves a walk equal to the algorithm of
  the privileged architecture (\<open>sv_walk\<close>), apart from two reserved encodings of entries that the code
  accepts and \<open>arch_walk\<close> refuses, and \<^verbatim>\<open>RV_VM_Pages\<close> that the entries made from it are sound.
  \<^verbatim>\<open>RV_TLB\<close> has the TLB structures, ASIDs, deletion and fences; \<^verbatim>\<open>RV_TLB_Mask\<close>, \<^verbatim>\<open>RV_TLB_Fence\<close>,
  \<^verbatim>\<open>RV_TLB_Cache\<close> and \<^verbatim>\<open>RV_TLB_Map\<close> prove the sharing of mappings between contexts, the fences, the
  replacement of ASIDs and the combination of two stages. The theorem of this theory joins the two
  walks with the mapping that is installed.

  \<^bold>\<open>Hart state and interrupts\<close>, \<^verbatim>\<open>riscvStructure.h\<close>, \<^verbatim>\<open>riscvCSR.h\<close>, \<^verbatim>\<open>riscvExceptions.c\<close>,
  \<^verbatim>\<open>riscvCLIC.c\<close>. \<^verbatim>\<open>RV_Hart\<close> has the state record, the access macros of the system registers and
  the configuration predicates; registers are a function from their numbers to 64-bit values, fields
  are given by position and width in both views. \<^verbatim>\<open>RV_CLIC\<close> has the control fields of the CLIC and
  its selection, \<^verbatim>\<open>RV_Int\<close> the interrupt selection with both controllers and the Advanced Interrupt
  Architecture, halting, wake-up and the update of \<open>mip\<close>. \<^verbatim>\<open>RV_Int_Select\<close> proves which interrupt
  is taken and when a waiting hart restarts, \<^verbatim>\<open>RV_Int_AIA\<close> the order of the priority words and the
  register \<open>mtopi\<close>.

  \<^bold>\<open>Core-local interrupt controller\<close>, \<^verbatim>\<open>riscvCLIC.c\<close>. \<^verbatim>\<open>RV_CLIC_Regs\<close> has the writes of the
  control fields, inputs, acknowledgement and the configuration registers; a cluster is the list of
  its harts, and what its root holds is repeated in every hart. \<^verbatim>\<open>RV_CLIC_Map\<close> has the legacy memory map,
  that of version 0.9, construction and reset. \<^verbatim>\<open>RV_CLIC_Select\<close> proves which interrupt is presented,
  \<^verbatim>\<open>RV_CLIC_Mask\<close> that the mask which the selection reads agrees with the control fields in all runs,
  with the case in which it does not, and \<^verbatim>\<open>RV_CLIC_Pages\<close> that the pages of a mode, of both memory
  maps, give no access to the interrupts and the configuration of a more privileged one.
  \<^bold>\<open>Not modelled.\<close> Instruction decoding and translation (\<^verbatim>\<open>riscvDecode.c\<close>, \<^verbatim>\<open>riscvMorph.c\<close>) emit
  code through the simulator's interface, whose meaning is not in the repository; the same holds
  for the vector and floating-point operations. The register tables and access functions of
  \<^verbatim>\<open>riscvCSR.c\<close> are modelled only where a component needs them. Configuration, parameters, ports,
  documentation, disassembly and the debug interface (\<^verbatim>\<open>riscvParameters.c\<close>, \<^verbatim>\<open>riscvMain.c\<close>,
  \<^verbatim>\<open>riscvBus.c\<close>, \<^verbatim>\<open>riscvDoc.c\<close>, \<^verbatim>\<open>riscvDisassemble.c\<close>, \<^verbatim>\<open>riscvDebug.c\<close>, \<^verbatim>\<open>riscvInfo.c\<close>,
  \<^verbatim>\<open>riscvSemiHost.c\<close>) construct tables and text. Saving and restoring use the simulator's interface. Of \<^verbatim>\<open>riscvVM.c\<close> the miss handlers that combine lookup,
  walk and protection with the creation of memory domains, and the MPU, which the build disables
  with \<open>ENABLE_SSMPU\<close> = 0, are left out.
\<close>

section \<open>Translation through two stages\<close>

lemma leaf_block:
  assumes "sv_walk rd (pte_legal r) vaMode n a (lowVA e) = Leaf p addr i" "n \<le> 6" "vaMode = VAM_Sv32 \<Longrightarrow> n \<le> 2"
  shows "\<exists>k. block_around (sv_entry r req vaMode p i e) (lowVA e) k"
proof -
  have "\<exists>k < 64. sv_size vaMode p i = push_bit k 1"
  proof (cases "pte_N p")
    case True
    then show ?thesis by (rule sv_size_napot [OF sv_walk_legal [OF assms(1)]])
  next
    case False
    have "i < n" by (rule sv_walk_level [OF assms(1)])
    then have "i * sv_width vaMode + 12 < 64" using assms(2,3) by (cases "vaMode = VAM_Sv32") (auto simp: sv_width_def)
    then show ?thesis using False by (intro exI [of _ "i * sv_width vaMode + 12"]) (simp add: sv_size_def)
  qed
  then obtain k where "k < 64" "sv_size vaMode p i - 1 = mask k" by (auto simp: mask_eq_exp_minus_1)
  then show ?thesis by (auto simp: block_around_def sv_entry_def)
qed

text \<open>C1: For a stage 1 walk and a stage 2 lookup, in a translation mode of 64-bit systems, of the
  guest physical address that it gives, the mapping made from the two entries contains the
  address, and every address in it is mapped to the composition of the translations of the two
  leaves, which may be contiguous groups if that of stage 2 is no larger than what one root page
  translates. Every address walks to the same leaf in each table whose leaf is not a group.\<close>

theorem two_stage_translation:
  assumes "activeTLB r1 = RISCV_TLB_VS1" "getVAlevels vaMode1 = Some n1" "getRootTableAddress r1 = Some root1"
    and "origPriv r1 \<in> access_privs" "req \<noteq> 0" "req AND 7 = req" "lowVA t1 = VA"
    and "doPageTableWalkVA r1 mode t1 req vaMode1 = Some (0, e1, r1')"
    and "activeTLB r2 = RISCV_TLB_VS2" "hgatp_MODE r2 = vaMode2" "vaMode2 \<in> {VAM_Sv39, VAM_Sv48, VAM_Sv57}"
    and "getVAlevels vaMode2 = Some n2" "getVABits vaMode2 = Some m2" "origPriv r2 \<in> access_privs"
    and "GPA = entryPA e1 + (VA - lowVA e1)" "lowVA t2 = GPA" "root2 = (hgatp_PPN r2 + drop_bit m2 GPA) * 4096"
    and "doPageTableLookup r2 mode t2 req = Some (0, e2, r2')"
    and "miLowVA mi = VA" "mapTLBBounds VA GPA e1 (Some e2) mode mi = (low, high, off, msk)" "low \<le> va" "va \<le> high"
  shows "\<exists>p1 a1 i1 p2 a2 i2. sv_walk (sv_read r1 mode vaMode1) (pte_legal r1) vaMode1 n1 root1 VA = Leaf p1 a1 i1 \<and>
    sv_walk (sv_read r2 mode vaMode2) (pte_legal r2) vaMode2 n2 root2 GPA = Leaf p2 a2 i2 \<and>
    ((pte_N p2 \<longrightarrow> 13 + ppn_lsb p2 \<le> m2) \<longrightarrow> low \<le> VA \<and> VA \<le> high \<and>
      va + off = sv_pa vaMode2 p2 i2 (sv_pa vaMode1 p1 i1 va) \<and>
      (\<not> pte_N p1 \<longrightarrow> sv_walk (sv_read r1 mode vaMode1) (pte_legal r1) vaMode1 n1 root1 va = Leaf p1 a1 i1) \<and>
      (\<not> pte_N p2 \<longrightarrow>
        sv_walk (sv_read r2 mode vaMode2) (pte_legal r2) vaMode2 n2 root2 (sv_pa vaMode1 p1 i1 va) = Leaf p2 a2 i2))"
proof -
  obtain p1 a1 i1 where l1: "sv_walk (sv_read r1 mode vaMode1) (pte_legal r1) vaMode1 n1 root1 (lowVA t1) = Leaf p1 a1 i1"
    "e1 = sv_entry r1 req vaMode1 p1 i1 t1"
    using doPageTableWalkVA_success [OF assms(2-6,8)] by blast
  note s1 = sv_entry_sound [OF l1(1) sv_levels [OF assms(2)] l1(2)]
  obtain k where block: "block_around e1 VA k" using leaf_block [OF l1(1) sv_levels [OF assms(2)]] unfolding l1(2) assms(7) by blast
  obtain p2 a2 i2 where l2: "sv_walk (sv_read r2 mode vaMode2) (pte_legal r2) vaMode2 n2 root2 GPA = Leaf p2 a2 i2"
    and s2: "(pte_N p2 \<longrightarrow> 13 + ppn_lsb p2 \<le> m2) \<longrightarrow> lowVA e2 \<le> GPA \<and> GPA \<le> highVA e2 \<and>
      (\<forall>gpa. lowVA e2 \<le> gpa \<and> gpa \<le> highVA e2 \<longrightarrow> entryPA e2 + (gpa - lowVA e2) = sv_pa vaMode2 p2 i2 gpa \<and>
        (\<not> pte_N p2 \<longrightarrow> sv_walk (sv_read r2 mode vaMode2) (pte_legal r2) vaMode2 n2 root2 gpa = Leaf p2 a2 i2))"
    using guest_lookup_entry [OF assms(9-14,5,6,18), of root2] unfolding assms(16,17) by blast
  have "low \<le> VA \<and> VA \<le> high \<and> va + off = sv_pa vaMode2 p2 i2 (sv_pa vaMode1 p1 i1 va) \<and>
      (\<not> pte_N p1 \<longrightarrow> sv_walk (sv_read r1 mode vaMode1) (pte_legal r1) vaMode1 n1 root1 va = Leaf p1 a1 i1) \<and>
      (\<not> pte_N p2 \<longrightarrow>
        sv_walk (sv_read r2 mode vaMode2) (pte_legal r2) vaMode2 n2 root2 (sv_pa vaMode1 p1 i1 va) = Leaf p2 a2 i2)"
    if N: "pte_N p2 \<longrightarrow> 13 + ppn_lsb p2 \<le> m2"
  proof -
    note m = mapTLBBounds_sound [OF block assms(19,15) _ _ assms(20-22) refl]
    have e2: "lowVA e2 \<le> GPA" "GPA \<le> highVA e2" using s2 N by blast+
    note m = m [OF e2]
    have "lowVA e1 \<le> va" "va \<le> highVA e1" using m assms(21,22) by (meson order.trans)+
    then have pa: "entryPA e1 + (va - lowVA e1) = sv_pa vaMode1 p1 i1 va"
      and "\<not> pte_N p1 \<Longrightarrow> sv_walk (sv_read r1 mode vaMode1) (pte_legal r1) vaMode1 n1 root1 va = Leaf p1 a1 i1"
      using s1(3,4) by blast+
    then show ?thesis using m s2 N by simp
  qed
  then show ?thesis using l1(1) l2 unfolding assms(7) by blast
qed

abbreviation vs1_example :: riscvVM where
  "vs1_example \<equiv> vm_example RISCV_TLB_VS1 0x8000000000080000 0x1000000f"

lemma two_stage_example:
  "case doPageTableWalkVA vs1_example RISCV_MODE_VS (entry_example 0x12345) VM_PRIV_R VAM_Sv39 of
     None \<Rightarrow> False
   | Some (x1, e1, r1') \<Rightarrow> x1 = 0 \<and> entryPA e1 + (0x12345 - lowVA e1) = 0x40012345 \<and>
       (case doPageTableLookup sv39x4_example RISCV_MODE_VS (entry_example 0x40012345) VM_PRIV_R of
          None \<Rightarrow> False
        | Some (x2, e2, r2') \<Rightarrow> x2 = 0 \<and>
            (case mapTLBBounds 0x12345 0x40012345 e1 (Some e2) RISCV_MODE_VS \<lparr>miLowVA = 0x12345, miHighVA = 0x12345, miPriv = VM_PRIV_R\<rparr> of
               (low, high, off, msk) \<Rightarrow> low \<le> 0x12345 \<and> 0x12345 \<le> high))"
  by code_simp

lemma vs1_example_root: "getRootTableAddress vs1_example = Some 0x80000000"
  by code_simp

theorem two_stage_translation_witness:
  "\<exists>p1 a1 i1 p2 a2 i2. sv_walk (sv_read vs1_example RISCV_MODE_VS VAM_Sv39) (pte_legal vs1_example) VAM_Sv39 3 0x80000000 0x12345 = Leaf p1 a1 i1 \<and>
    sv_walk (sv_read sv39x4_example RISCV_MODE_VS VAM_Sv39) (pte_legal sv39x4_example) VAM_Sv39 3
      ((hgatp_PPN sv39x4_example + drop_bit 39 0x40012345) * 4096) 0x40012345 = Leaf p2 a2 i2"
proof -
  let ?mi = "\<lparr>miLowVA = 0x12345, miHighVA = 0x12345, miPriv = VM_PRIV_R\<rparr>"
  obtain e1 r1' e2 r2' low high off msk where
    w1: "doPageTableWalkVA vs1_example RISCV_MODE_VS (entry_example 0x12345) VM_PRIV_R VAM_Sv39 = Some (0, e1, r1')"
    and gpa: "0x40012345 = entryPA e1 + (0x12345 - lowVA e1)"
    and w2: "doPageTableLookup sv39x4_example RISCV_MODE_VS (entry_example 0x40012345) VM_PRIV_R = Some (0, e2, r2')"
    and m: "mapTLBBounds 0x12345 0x40012345 e1 (Some e2) RISCV_MODE_VS ?mi = (low, high, off, msk)" "low \<le> 0x12345" "0x12345 \<le> high"
    using two_stage_example by (auto split: option.splits prod.splits)
  show ?thesis
    using two_stage_translation [OF _ example_modes(4) vs1_example_root _ _ _ example_state(4) w1 _ example_modes(2) _ example_modes(4,5) _ gpa
      example_state(4) refl w2 _ m] by auto
qed

end
